(* ===== verification/Sockets_Prelude.thy ===== *)
theory Sockets_Prelude
  imports "HOL-Library.Word" "HOL-Library.Monad_Syntax"
begin

text \<open>
  The prelude of the development: the names of the machine types the code uses, the
  collections of rewrite rules the component theories fill, and the generic facts
  on options, maps and finite counts that their proofs share.

  Every operation of the model has a result type \<open>'r option\<close>, usually
  \<open>('r \<times> 'w world) option\<close>. \<open>Some\<close> is a call that returns; \<open>None\<close> is a call whose
  C++ behaviour is undefined (it dereferences a null pointer or enters an object that
  has been destroyed). An error code is never \<open>None\<close>: error codes are values of
  \<open>socket_error_t\<close> inside \<open>Some\<close>.
\<close>

section \<open>Machine types\<close>

text \<open>
  The library runs on 32-bit mbed targets: \<open>uintptr_t\<close>, \<open>size_t\<close> and \<open>uint32_t\<close> are
  32-bit words, \<open>uint16_t\<close> a 16-bit word. A pointer is an option, \<open>None\<close> being the null
  pointer; a pointer argument the callee reads or fills carries the memory it points to.
\<close>

type_synonym u8 = "8 word"
type_synonym u16 = "16 word"
type_synonym u32 = "32 word"

type_synonym oid = u32
type_synonym void_ptr = "nat option"
type_synonym fp = "nat option"

text \<open>
  \<open>oid\<close> is the address of a C++ socket object (0 is no object's address), \<open>void_ptr\<close> the \<open>impl\<close> pointers of the
  network stack, and \<open>fp\<close> a \<open>mbed::util::FunctionPointer\<close>: the code only tests one
  against null, copies it and binds arguments to it.
\<close>

section \<open>Collections\<close>

named_theorems frame_simps "what an operation leaves unchanged"
named_theorems op_defs "definitions of the operations of the socket classes"
named_theorems world_defs "definitions of the primitive updates of the world"

section \<open>Options and maps\<close>

lemma bind_SomeE [elim!]:
  assumes "Option.bind m f = Some y"
  obtains x where "m = Some x" and "f x = Some y"
  using assms by (cases m) auto

lemma bind_pair_Some [simp]: "Option.bind (Some (a, b)) f = f (a, b)"
  by simp

lemma finite_dom_upd [intro]: "finite (dom m) \<Longrightarrow> finite (dom (m(a \<mapsto> v)))"
  by simp

lemma finite_dom_del [intro]: "finite (dom m) \<Longrightarrow> finite (dom (m(a := None)))"
  by simp

section \<open>Counting the entries of a finite map\<close>

text \<open>
  \<open>count_where P m\<close> is the number of keys of \<open>m\<close> whose value satisfies \<open>P\<close>. The
  lemmas say how it moves under the three map updates the model performs: adding
  a fresh key, removing a key, and replacing a value.
\<close>

definition count_where :: "('v \<Rightarrow> bool) \<Rightarrow> ('k \<rightharpoonup> 'v) \<Rightarrow> nat" where
  "count_where P m = card {k. \<exists>v. m k = Some v \<and> P v}"

lemma finite_count_set: "finite (dom m) \<Longrightarrow> finite {k. \<exists>v. m k = Some v \<and> P v}"
  by (rule finite_subset [of _ "dom m"]) auto

lemma count_where_empty [simp]: "count_where P Map.empty = 0"
  by (simp add: count_where_def)

lemma count_where_fresh:
  assumes "finite (dom m)" and "m a = None"
  shows "count_where P (m(a \<mapsto> v)) = (if P v then Suc (count_where P m) else count_where P m)"
proof -
  have "{k. \<exists>u. (m(a \<mapsto> v)) k = Some u \<and> P u} =
      (if P v then insert a {k. \<exists>u. m k = Some u \<and> P u} else {k. \<exists>u. m k = Some u \<and> P u})"
    using assms(2) by (auto split: if_splits)
  moreover have "a \<notin> {k. \<exists>u. m k = Some u \<and> P u}"
    using assms(2) by simp
  ultimately show ?thesis
    using finite_count_set [OF assms(1), of P] by (simp add: count_where_def)
qed

lemma count_where_delete:
  assumes "finite (dom m)" and "m a = Some v"
  shows "count_where P m = (if P v then Suc (count_where P (m(a := None))) else count_where P (m(a := None)))"
proof -
  have "m = (m(a := None))(a \<mapsto> v)"
    using assms(2) by (auto simp: fun_eq_iff)
  moreover have "finite (dom (m(a := None)))" and "(m(a := None)) a = None"
    using assms(1) by simp_all
  ultimately show ?thesis
    using count_where_fresh [of "m(a := None)" a P v] by simp
qed

lemma count_where_replace:
  assumes "finite (dom m)" and "m a = Some v" and "P v = P v'"
  shows "count_where P (m(a \<mapsto> v')) = count_where P m"
proof -
  have "{k. \<exists>u. (m(a \<mapsto> v')) k = Some u \<and> P u} = {k. \<exists>u. m k = Some u \<and> P u}"
    using assms(2,3) by (auto split: if_splits)
  then show ?thesis by (simp add: count_where_def)
qed

lemma count_where_pos:
  assumes "finite (dom m)" and "m a = Some v" and "P v"
  shows "0 < count_where P m"
  using count_where_delete [OF assms(1,2), of P] assms(3) by simp

section \<open>A word counter for a natural number\<close>

text \<open>
  The code counts live objects in an unsigned machine word: it increments and
  decrements modulo \<open>2 ^ 32\<close>, and the word is exact while the number counted fits.
\<close>

lemma word_of_nat_Suc: "(of_nat (Suc n) :: u32) = of_nat n + 1"
  by simp

lemma word_of_nat_pred: "(of_nat (Suc n) :: u32) - 1 = of_nat n"
  by simp

lemma u32_of_nat_eq_0:
  assumes "n < 2 ^ 32"
  shows "(of_nat n :: u32) = 0 \<longleftrightarrow> n = 0"
proof
  assume "(of_nat n :: u32) = 0"
  then have "unat (of_nat n :: u32) = 0" by simp
  with assms show "n = 0" by (simp add: unat_of_nat)
qed simp

end
