(* ===== verification/SAL_Interface.thy ===== *)
theory SAL_Interface
  imports Sockets_Prelude
begin

text \<open>
  The interface of the code that is not part of the repository and that the socket
  classes call: the socket abstraction layer (\<open>sal/socket_types.h\<close>,
  \<open>sal/socket_api.h\<close>), the \<open>minar\<close> scheduler and \<open>CThunk\<close>.

  The enumerations and structs below have the constructors and fields that the
  repository names, and a constructor for the values it does not name. The functions are
  parameters: they are the fields of the record \<open>env\<close> (and of the function table
  \<open>socket_api\<close>), an argument of every operation that calls them. Nothing is assumed
  about them here; the few facts a theorem needs are hypotheses that it names.
\<close>

section \<open>Enumerations\<close>

datatype socket_error_t =
    SOCKET_ERROR_NONE
  | SOCKET_ERROR_UNKNOWN
  | SOCKET_ERROR_UNIMPLEMENTED
  | SOCKET_ERROR_BAD_STACK
  | SOCKET_ERROR_BAD_FAMILY
  | SOCKET_ERROR_BAD_ADDRESS
  | SOCKET_ERROR_BAD_ARGUMENT
  | SOCKET_ERROR_NULL_PTR
  | SOCKET_ERROR_CLOSED
  | SOCKET_ERROR_NOT_BOUND
  | SOCKET_ERROR_NO_CONNECTION
  | SOCKET_ERROR_other nat

datatype socket_address_family_t = SOCKET_AF_INET4 | SOCKET_AF_INET6 | SOCKET_AF_other nat

datatype socket_proto_family_t = SOCKET_DGRAM | SOCKET_STREAM | SOCKET_PF_other nat

datatype socket_proto_level_t = SOCKET_PROTO_LEVEL_TCP | SOCKET_PROTO_LEVEL_other nat

datatype socket_option_t = SOCKET_OPT_NAGLE | SOCKET_OPT_other nat

type_synonym socket_stack_t = nat

section \<open>Structs\<close>

record socket_addr =
  ipv6be :: "u32 list"

text \<open>
  \<open>struct socket_event\<close> is a tag and a union \<open>i\<close>; every handler reads the member of
  the union that belongs to the tag, so the struct is a datatype: \<open>i.e\<close> for the
  error events, \<open>i.t.sentbytes\<close>, \<open>i.d.addr\<close> and \<open>i.d.domain\<close>, \<open>i.a.newimpl\<close>.
\<close>

datatype socket_event =
    SOCKET_EVENT_RX_ERROR socket_error_t
  | SOCKET_EVENT_TX_ERROR socket_error_t
  | SOCKET_EVENT_ERROR socket_error_t
  | SOCKET_EVENT_RX_DONE
  | SOCKET_EVENT_TX_DONE u16
  | SOCKET_EVENT_DNS socket_addr "string option"
  | SOCKET_EVENT_CONNECT
  | SOCKET_EVENT_DISCONNECT
  | SOCKET_EVENT_ACCEPT void_ptr
  | SOCKET_EVENT_NONE
  | SOCKET_EVENT_other nat

text \<open>
  \<open>struct socket\<close>. The \<open>handler\<close> is a C function pointer; the only ones this library
  installs are thunks made by \<open>CThunk\<close> (\<open>_irq.entry()\<close>), and a thunk is identified
  with the object it enters. The \<open>api\<close> pointer is an address; \<open>vtable\<close> below reads it.
\<close>

record socket =
  handler :: "oid option"
  impl :: void_ptr
  stack :: socket_stack_t
  api :: "nat option"
  family :: socket_proto_family_t
  event :: "socket_event option"

section \<open>The function table of a network stack\<close>

text \<open>
  A function of the table gets \<open>&_socket\<close>, so it may change the struct; it may change
  the state \<open>'w\<close> of the stack; and it may call event handlers before it returns (as the
  documentation of \<open>resolve\<close> says it does for a text address). Its effect is therefore
  its result, the struct, the handler calls it makes in order, and the new state.
  A function that takes a pointer to a const struct only reads.
\<close>

type_synonym raised = "(oid \<times> socket_event) list"
type_synonym ('w, 'r) eff = "'w \<Rightarrow> socket \<Rightarrow> 'r \<times> socket \<times> raised \<times> 'w"

record 'w socket_api =
  api_create :: "socket_address_family_t \<Rightarrow> socket_proto_family_t \<Rightarrow> oid \<Rightarrow> ('w, socket_error_t) eff"
  api_destroy :: "('w, socket_error_t) eff option"
  api_resolve :: "string option \<Rightarrow> ('w, socket_error_t) eff"
  api_str2addr :: "socket_addr \<Rightarrow> string option \<Rightarrow> ('w, socket_error_t \<times> socket_addr) eff"
  api_bind :: "socket_addr \<Rightarrow> u16 \<Rightarrow> ('w, socket_error_t) eff"
  api_connect :: "socket_addr \<Rightarrow> u16 \<Rightarrow> ('w, socket_error_t) eff"
  api_start_listen :: "u32 \<Rightarrow> ('w, socket_error_t) eff"
  api_stop_listen :: "('w, socket_error_t) eff"
  api_accept :: "oid \<Rightarrow> ('w, socket_error_t) eff"
  api_close :: "('w, socket_error_t) eff"
  api_recv :: "u8 list option \<Rightarrow> u32 option
                 \<Rightarrow> ('w, socket_error_t \<times> u8 list option \<times> u32 option) eff"
  api_recv_from :: "u8 list option \<Rightarrow> u32 option \<Rightarrow> socket_addr \<Rightarrow> u16 option
                 \<Rightarrow> ('w, socket_error_t \<times> u8 list option \<times> u32 option \<times> socket_addr \<times> u16 option) eff"
  api_send :: "u8 list option \<Rightarrow> u32 \<Rightarrow> ('w, socket_error_t) eff"
  api_send_to :: "u8 list option \<Rightarrow> u32 \<Rightarrow> socket_addr \<Rightarrow> u16 \<Rightarrow> ('w, socket_error_t) eff"
  api_set_option :: "socket_proto_level_t \<Rightarrow> socket_option_t \<Rightarrow> void_ptr \<Rightarrow> u32 \<Rightarrow> ('w, socket_error_t) eff"
  api_is_connected :: "'w \<Rightarrow> socket \<Rightarrow> bool"
  api_get_local_addr :: "socket_addr \<Rightarrow> 'w \<Rightarrow> socket \<Rightarrow> socket_error_t \<times> socket_addr"
  api_get_local_port :: "u16 option \<Rightarrow> 'w \<Rightarrow> socket \<Rightarrow> socket_error_t \<times> u16 option"
  api_get_remote_addr :: "socket_addr \<Rightarrow> 'w \<Rightarrow> socket \<Rightarrow> socket_error_t \<times> socket_addr"
  api_get_remote_port :: "u16 option \<Rightarrow> 'w \<Rightarrow> socket \<Rightarrow> socket_error_t \<times> u16 option"
  api_periodic_interval :: "'w \<Rightarrow> socket \<Rightarrow> u32"
  api_periodic_task :: "'w \<Rightarrow> socket \<Rightarrow> void_ptr"

section \<open>Callbacks and the scheduler\<close>

text \<open>
  \<open>minar::Scheduler::postCallback\<close> queues a bound function pointer. A bound pointer is a
  \<open>callback\<close>: which handler type, the function pointer (possibly null), the object bound
  as \<open>this\<close> and the other arguments. \<open>minar_call\<close> is a call to the scheduler; the state
  of the model records the calls made to it in order, which is all the code can
  see of it besides the handle that \<open>getHandle\<close> returns for a posted callback.
\<close>

datatype callback =
    CB_onDNS (cb_fp: fp) (cb_this: oid) socket_addr "string option"
  | CB_onError (cb_fp: fp) (cb_this: oid) socket_error_t
  | CB_onReadable (cb_fp: fp) (cb_this: oid)
  | CB_onSent (cb_fp: fp) (cb_this: oid) u16
  | CB_onConnect (cb_fp: fp) (cb_this: oid)
  | CB_onDisconnect (cb_fp: fp) (cb_this: oid)
  | CB_onIncoming (cb_fp: fp) (cb_this: oid) void_ptr

datatype minar_call =
    PostCallback callback
  | PostPeriodic void_ptr u32 u32 void_ptr
  | CancelCallback void_ptr

section \<open>The environment\<close>

text \<open>
  The address utilities of \<open>sal\<close>. \<open>inet_pton\<close> and \<open>inet_ntop\<close> return the value of
  their C result (for the pointer: whether it is not null) and the memory they filled.
\<close>

record addr_lib =
  socket_addr_copy :: "socket_addr \<Rightarrow> socket_addr \<Rightarrow> socket_addr"
  socket_addr_is_ipv4 :: "socket_addr \<Rightarrow> bool"
  inet_pton :: "socket_address_family_t \<Rightarrow> string option \<Rightarrow> socket_addr \<Rightarrow> int \<times> socket_addr"
  inet_ntop :: "socket_address_family_t \<Rightarrow> u32 list \<Rightarrow> string \<Rightarrow> u32 \<Rightarrow> bool \<times> string"

record 'w env =
  vtable :: "nat \<Rightarrow> 'w socket_api"
  socket_get_api :: "socket_stack_t \<Rightarrow> nat option"
  socket_accept :: "socket \<Rightarrow> oid \<Rightarrow> 'w \<Rightarrow> socket \<Rightarrow> socket_error_t \<times> socket \<times> socket \<times> raised \<times> 'w"
  getHandle :: "minar_call list \<Rightarrow> void_ptr"
  milliseconds :: "u32 \<Rightarrow> u32"
  addrs :: addr_lib

text \<open>
  \<open>socket_accept listener h w s\<close> is the \<open>sal\<close> function of that name; it returns the
  error, the listener's struct and the new socket's struct. \<open>getHandle\<close> is the handle
  of a periodic callback, given the calls made to the scheduler before it was posted.
\<close>

end
