(* ===== verification/Socket_Objects.thy ===== *)
theory Socket_Objects
  imports SAL_Interface
begin

text \<open>
  The state of the library: the socket objects that exist, the static members of
  \<open>TCPAsynch\<close>, the interrupt mask, the calls made to the scheduler and the state of the
  network stack; and the primitive updates of it that the operations are made of.
\<close>

section \<open>Objects\<close>

text \<open>
  The classes. \<open>Socket\<close> and \<open>TCPAsynch\<close> are never instantiated on their own, but an object
  is of that class while its base parts are constructed and destroyed, and the virtual
  functions are dispatched accordingly.
\<close>

datatype klass = K_Socket | K_TCPAsynch | K_UDPSocket | K_TCPStream | K_TCPListener

definition is_TCPAsynch :: "klass \<Rightarrow> bool" where
  "is_TCPAsynch k \<longleftrightarrow> k = K_TCPAsynch \<or> k = K_TCPStream \<or> k = K_TCPListener"

lemma is_TCPAsynch_simps [simp]:
  "is_TCPAsynch K_TCPAsynch" "is_TCPAsynch K_TCPStream" "is_TCPAsynch K_TCPListener"
  "\<not> is_TCPAsynch K_Socket" "\<not> is_TCPAsynch K_UDPSocket"
  by (simp_all add: is_TCPAsynch_def)

record TCPStream_members =
  onConnect :: fp
  onDisconnect :: fp

record TCPListener_members =
  onIncoming :: fp

text \<open>
  An object: its dynamic class, the members of \<open>Socket\<close>, and the members that
  \<open>TCPStream\<close> and \<open>TCPListener\<close> add. \<open>UDPSocket\<close> and \<open>TCPAsynch\<close> add none. An object that
  is not a \<open>TCPStream\<close> never reads the members of one, and the same for \<open>TCPListener\<close>.
  \<open>sock\<close> is the member \<open>_socket\<close> and \<open>event_ptr\<close> the member \<open>_event\<close>. The member \<open>_irq\<close> is a
  \<open>CThunk\<close> that enters this object: its \<open>entry()\<close> is the object's own address.
\<close>

record Socket =
  vptr :: klass
  onDNS :: fp
  onError :: fp
  onReadable :: fp
  onSent :: fp
  sock :: socket
  event_ptr :: "socket_event option"
  stream_part :: TCPStream_members
  listener_part :: TCPListener_members

section \<open>The world\<close>

record 'w world =
  objs :: "oid \<rightharpoonup> Socket"
  TCPSockets :: u32
  tick_handle :: void_ptr
  minar :: "minar_call list"
  irq_enabled :: bool
  network :: 'w

definition put_obj :: "oid \<Rightarrow> Socket \<Rightarrow> 'w world \<Rightarrow> 'w world" where
  [world_defs]: "put_obj a ob w = w\<lparr>objs := (objs w)(a \<mapsto> ob)\<rparr>"

definition del_obj :: "oid \<Rightarrow> 'w world \<Rightarrow> 'w world" where
  [world_defs]: "del_obj a w = w\<lparr>objs := (objs w)(a := None)\<rparr>"

definition minar_do :: "minar_call \<Rightarrow> 'w world \<Rightarrow> 'w world" where
  [world_defs]: "minar_do c w = w\<lparr>minar := minar w @ [c]\<rparr>"

definition postCallback :: "callback \<Rightarrow> 'w world \<Rightarrow> 'w world" where
  [world_defs]: "postCallback c w = minar_do (PostCallback c) w"

definition disable_irq :: "'w world \<Rightarrow> 'w world" where
  [world_defs]: "disable_irq w = w\<lparr>irq_enabled := False\<rparr>"

definition enable_irq :: "'w world \<Rightarrow> 'w world" where
  [world_defs]: "enable_irq w = w\<lparr>irq_enabled := True\<rparr>"

text \<open>Reading and updating the object an operation is called on.\<close>

definition with_obj :: "oid \<Rightarrow> (Socket \<Rightarrow> Socket) \<Rightarrow> 'w world \<Rightarrow> 'w world option" where
  "with_obj a f w = map_option (\<lambda>ob. put_obj a (f ob) w) (objs w a)"

lemma with_obj_Some [simp]: "objs w a = Some ob \<Longrightarrow> with_obj a f w = Some (put_obj a (f ob) w)"
  by (simp add: with_obj_def)

lemma with_obj_eq_Some:
  "with_obj a f w = Some w' \<longleftrightarrow> (\<exists>ob. objs w a = Some ob \<and> w' = put_obj a (f ob) w)"
  by (auto simp: with_obj_def)

lemma put_obj_simps [simp]:
  "objs (put_obj a ob w) = (objs w)(a \<mapsto> ob)"
  "TCPSockets (put_obj a ob w) = TCPSockets w"
  "tick_handle (put_obj a ob w) = tick_handle w"
  "minar (put_obj a ob w) = minar w"
  "irq_enabled (put_obj a ob w) = irq_enabled w"
  "network (put_obj a ob w) = network w"
  by (simp_all add: put_obj_def)

lemma put_obj_twice [simp]: "put_obj a ob' (put_obj a ob w) = put_obj a ob' w"
  by (simp add: put_obj_def)

lemma del_obj_simps [simp]:
  "objs (del_obj a w) = (objs w)(a := None)"
  "TCPSockets (del_obj a w) = TCPSockets w"
  "tick_handle (del_obj a w) = tick_handle w"
  "minar (del_obj a w) = minar w"
  "irq_enabled (del_obj a w) = irq_enabled w"
  "network (del_obj a w) = network w"
  by (simp_all add: del_obj_def)

lemma minar_do_simps [simp]:
  "objs (minar_do c w) = objs w"
  "TCPSockets (minar_do c w) = TCPSockets w"
  "tick_handle (minar_do c w) = tick_handle w"
  "minar (minar_do c w) = minar w @ [c]"
  "irq_enabled (minar_do c w) = irq_enabled w"
  "network (minar_do c w) = network w"
  by (simp_all add: minar_do_def)

lemma postCallback_simps [simp]:
  "objs (postCallback c w) = objs w"
  "TCPSockets (postCallback c w) = TCPSockets w"
  "tick_handle (postCallback c w) = tick_handle w"
  "minar (postCallback c w) = minar w @ [PostCallback c]"
  "irq_enabled (postCallback c w) = irq_enabled w"
  "network (postCallback c w) = network w"
  by (simp_all add: postCallback_def)

section \<open>The calls that are pending with the scheduler\<close>

text \<open>
  The handles of the periodic callbacks that have been posted and not cancelled, in
  posting order, computed from the calls made to the scheduler.
\<close>

fun run_periodic :: "void_ptr list \<Rightarrow> minar_call list \<Rightarrow> void_ptr list" where
  "run_periodic act [] = act"
| "run_periodic act (PostCallback c # cs) = run_periodic act cs"
| "run_periodic act (PostPeriodic f p t h # cs) = run_periodic (act @ [h]) cs"
| "run_periodic act (CancelCallback h # cs) = run_periodic (remove1 h act) cs"

definition periodic_pending :: "minar_call list \<Rightarrow> void_ptr list" where
  "periodic_pending cs = run_periodic [] cs"

lemma run_periodic_append [simp]:
  "run_periodic act (cs @ ds) = run_periodic (run_periodic act cs) ds"
  by (induction act cs rule: run_periodic.induct) simp_all

lemma run_periodic_posts [simp]: "run_periodic act (map PostCallback cs) = act"
  by (induction cs) simp_all

lemma periodic_pending_posts [simp]:
  "periodic_pending (cs @ map PostCallback ds) = periodic_pending cs"
  by (simp add: periodic_pending_def)

lemma periodic_pending_snoc [simp]:
  "periodic_pending [] = []"
  "periodic_pending (cs @ [PostCallback c]) = periodic_pending cs"
  "periodic_pending (cs @ [PostPeriodic f p t h]) = periodic_pending cs @ [h]"
  "periodic_pending (cs @ [CancelCallback h]) = remove1 h (periodic_pending cs)"
  by (simp_all add: periodic_pending_def)

end
