(* ===== verification/Socket_Events.thy ===== *)
theory Socket_Events
  imports Socket_Objects
begin

text \<open>
  Event delivery: the \<open>_eventHandler\<close> of \<open>Socket\<close>, \<open>TCPStream\<close> and \<open>TCPListener\<close>, the
  dispatch between them, the interrupt entry \<open>_nvEventHandler\<close>, and the calls of
  the network stack that may enter it. The handlers are here, before the classes,
  because a call into the network stack may raise events before it returns.
\<close>

section \<open>The event handlers of the classes\<close>

text \<open>
  \<open>Socket::_eventHandler\<close>: an event whose handler is set posts one callback, bound to
  this object; every other event does nothing.
\<close>

definition Socket_eventHandler :: "oid \<Rightarrow> Socket \<Rightarrow> socket_event \<Rightarrow> 'w world \<Rightarrow> 'w world" where
  "Socket_eventHandler this ob ev w =
    (case ev of
       SOCKET_EVENT_RX_ERROR e \<Rightarrow>
         if onError ob \<noteq> None then postCallback (CB_onError (onError ob) this e) w else w
     | SOCKET_EVENT_TX_ERROR e \<Rightarrow>
         if onError ob \<noteq> None then postCallback (CB_onError (onError ob) this e) w else w
     | SOCKET_EVENT_ERROR e \<Rightarrow>
         if onError ob \<noteq> None then postCallback (CB_onError (onError ob) this e) w else w
     | SOCKET_EVENT_RX_DONE \<Rightarrow>
         if onReadable ob \<noteq> None then postCallback (CB_onReadable (onReadable ob) this) w else w
     | SOCKET_EVENT_TX_DONE sentbytes \<Rightarrow>
         if onSent ob \<noteq> None then postCallback (CB_onSent (onSent ob) this sentbytes) w else w
     | SOCKET_EVENT_DNS addr domain \<Rightarrow>
         if onDNS ob \<noteq> None then postCallback (CB_onDNS (onDNS ob) this addr domain) w else w
     | SOCKET_EVENT_CONNECT \<Rightarrow> w
     | SOCKET_EVENT_DISCONNECT \<Rightarrow> w
     | SOCKET_EVENT_ACCEPT newimpl \<Rightarrow> w
     | SOCKET_EVENT_NONE \<Rightarrow> w
     | SOCKET_EVENT_other n \<Rightarrow> w)"

definition TCPStream_eventHandler :: "oid \<Rightarrow> Socket \<Rightarrow> socket_event \<Rightarrow> 'w world \<Rightarrow> 'w world" where
  "TCPStream_eventHandler this ob ev w =
    (case ev of
       SOCKET_EVENT_CONNECT \<Rightarrow>
         if onConnect (stream_part ob) \<noteq> None
         then postCallback (CB_onConnect (onConnect (stream_part ob)) this) w else w
     | SOCKET_EVENT_DISCONNECT \<Rightarrow>
         if onDisconnect (stream_part ob) \<noteq> None
         then postCallback (CB_onDisconnect (onDisconnect (stream_part ob)) this) w else w
     | _ \<Rightarrow> Socket_eventHandler this ob ev w)"

definition TCPListener_eventHandler :: "oid \<Rightarrow> Socket \<Rightarrow> socket_event \<Rightarrow> 'w world \<Rightarrow> 'w world" where
  "TCPListener_eventHandler this ob ev w =
    (let unimplemented =
       (if onError ob \<noteq> None
        then postCallback (CB_onError (onError ob) this SOCKET_ERROR_UNIMPLEMENTED) w else w)
     in case ev of
       SOCKET_EVENT_RX_ERROR e \<Rightarrow>
         if onError ob \<noteq> None then postCallback (CB_onError (onError ob) this e) w else w
     | SOCKET_EVENT_TX_ERROR e \<Rightarrow>
         if onError ob \<noteq> None then postCallback (CB_onError (onError ob) this e) w else w
     | SOCKET_EVENT_ERROR e \<Rightarrow>
         if onError ob \<noteq> None then postCallback (CB_onError (onError ob) this e) w else w
     | SOCKET_EVENT_RX_DONE \<Rightarrow> unimplemented
     | SOCKET_EVENT_TX_DONE sentbytes \<Rightarrow> unimplemented
     | SOCKET_EVENT_CONNECT \<Rightarrow> unimplemented
     | SOCKET_EVENT_DISCONNECT \<Rightarrow> unimplemented
     | SOCKET_EVENT_DNS addr domain \<Rightarrow>
         if onDNS ob \<noteq> None then postCallback (CB_onDNS (onDNS ob) this addr domain) w else w
     | SOCKET_EVENT_ACCEPT newimpl \<Rightarrow>
         if onIncoming (listener_part ob) \<noteq> None
         then postCallback (CB_onIncoming (onIncoming (listener_part ob)) this newimpl) w else w
     | SOCKET_EVENT_NONE \<Rightarrow> w
     | SOCKET_EVENT_other n \<Rightarrow> w)"

text \<open>The virtual call \<open>_eventHandler(ev)\<close>.\<close>

definition eventHandler :: "oid \<Rightarrow> Socket \<Rightarrow> socket_event \<Rightarrow> 'w world \<Rightarrow> 'w world" where
  "eventHandler this ob ev w =
    (case vptr ob of
       K_TCPStream \<Rightarrow> TCPStream_eventHandler this ob ev w
     | K_TCPListener \<Rightarrow> TCPListener_eventHandler this ob ev w
     | K_Socket \<Rightarrow> Socket_eventHandler this ob ev w
     | K_TCPAsynch \<Rightarrow> Socket_eventHandler this ob ev w
     | K_UDPSocket \<Rightarrow> Socket_eventHandler this ob ev w)"

section \<open>The interrupt entry and the calls of the stack\<close>

text \<open>
  \<open>Socket::_nvEventHandler\<close>: read the event pointer of the struct, keep it in \<open>_event\<close>
  while the handler runs, and reset it. A null event pointer is dereferenced by the
  handler's \<open>switch\<close>.
\<close>

definition nvEventHandler :: "oid \<Rightarrow> 'w world \<Rightarrow> 'w world option" where
  "nvEventHandler this w = do {
     ob \<leftarrow> objs w this;
     let ob1 = ob\<lparr>event_ptr := event (sock ob)\<rparr>;
     ev \<leftarrow> event_ptr ob1;
     let w1 = eventHandler this ob1 ev (put_obj this ob1 w);
     with_obj this (\<lambda>ob2. ob2\<lparr>event_ptr := None\<rparr>) w1 }"

text \<open>
  The stack raises an event on a thunk: it stores the event in the struct of the
  socket and calls the thunk, which enters the object.
\<close>

definition raise_event :: "oid \<Rightarrow> socket_event \<Rightarrow> 'w world \<Rightarrow> 'w world option" where
  "raise_event a ev w = do {
     w1 \<leftarrow> with_obj a (\<lambda>ob. ob\<lparr>sock := (sock ob)\<lparr>event := Some ev\<rparr>\<rparr>) w;
     nvEventHandler a w1 }"

primrec raise_events :: "raised \<Rightarrow> 'w world \<Rightarrow> 'w world option" where
  "raise_events [] w = Some w"
| "raise_events (r # rs) w = do { w1 \<leftarrow> raise_event (fst r) (snd r) w; raise_events rs w1 }"

text \<open>
  \<open>s.api->f(&s, ...)\<close> on a struct, and \<open>_socket.api->f(&_socket, ...)\<close> on the struct of
  the object \<open>this\<close>. A null \<open>api\<close> pointer is dereferenced.
\<close>

definition api_invoke ::
  "'w env \<Rightarrow> ('w socket_api \<Rightarrow> ('w, 'r) eff) \<Rightarrow> socket \<Rightarrow> 'w world
     \<Rightarrow> ('r \<times> socket \<times> raised \<times> 'w world) option" where
  "api_invoke env f s w = do {
     p \<leftarrow> api s;
     let (r, s', rs, x) = f (vtable env p) (network w) s;
     Some (r, s', rs, w\<lparr>network := x\<rparr>) }"

definition api_call ::
  "'w env \<Rightarrow> oid \<Rightarrow> ('w socket_api \<Rightarrow> ('w, 'r) eff) \<Rightarrow> 'w world \<Rightarrow> ('r \<times> 'w world) option" where
  "api_call env this f w = do {
     ob \<leftarrow> objs w this;
     (r, s', rs, w1) \<leftarrow> api_invoke env f (sock ob) w;
     w2 \<leftarrow> raise_events rs (put_obj this (ob\<lparr>sock := s'\<rparr>) w1);
     Some (r, w2) }"

section \<open>What an event handler may do\<close>

text \<open>
  A reference description of event handling, one table per class: the callback an event
  stands for. \<open>if_set\<close> drops a callback whose function pointer is null.
\<close>

definition if_set :: "callback \<Rightarrow> callback option" where
  "if_set c = (if cb_fp c = None then None else Some c)"

fun Socket_callback :: "oid \<Rightarrow> Socket \<Rightarrow> socket_event \<Rightarrow> callback option" where
  "Socket_callback a ob (SOCKET_EVENT_RX_ERROR e) = if_set (CB_onError (onError ob) a e)"
| "Socket_callback a ob (SOCKET_EVENT_TX_ERROR e) = if_set (CB_onError (onError ob) a e)"
| "Socket_callback a ob (SOCKET_EVENT_ERROR e) = if_set (CB_onError (onError ob) a e)"
| "Socket_callback a ob SOCKET_EVENT_RX_DONE = if_set (CB_onReadable (onReadable ob) a)"
| "Socket_callback a ob (SOCKET_EVENT_TX_DONE n) = if_set (CB_onSent (onSent ob) a n)"
| "Socket_callback a ob (SOCKET_EVENT_DNS addr domain) = if_set (CB_onDNS (onDNS ob) a addr domain)"
| "Socket_callback a ob _ = None"

fun TCPStream_callback :: "oid \<Rightarrow> Socket \<Rightarrow> socket_event \<Rightarrow> callback option" where
  "TCPStream_callback a ob SOCKET_EVENT_CONNECT = if_set (CB_onConnect (onConnect (stream_part ob)) a)"
| "TCPStream_callback a ob SOCKET_EVENT_DISCONNECT =
     if_set (CB_onDisconnect (onDisconnect (stream_part ob)) a)"
| "TCPStream_callback a ob ev = Socket_callback a ob ev"

fun TCPListener_callback :: "oid \<Rightarrow> Socket \<Rightarrow> socket_event \<Rightarrow> callback option" where
  "TCPListener_callback a ob (SOCKET_EVENT_ACCEPT p) =
     if_set (CB_onIncoming (onIncoming (listener_part ob)) a p)"
| "TCPListener_callback a ob SOCKET_EVENT_RX_DONE =
     if_set (CB_onError (onError ob) a SOCKET_ERROR_UNIMPLEMENTED)"
| "TCPListener_callback a ob (SOCKET_EVENT_TX_DONE n) =
     if_set (CB_onError (onError ob) a SOCKET_ERROR_UNIMPLEMENTED)"
| "TCPListener_callback a ob SOCKET_EVENT_CONNECT =
     if_set (CB_onError (onError ob) a SOCKET_ERROR_UNIMPLEMENTED)"
| "TCPListener_callback a ob SOCKET_EVENT_DISCONNECT =
     if_set (CB_onError (onError ob) a SOCKET_ERROR_UNIMPLEMENTED)"
| "TCPListener_callback a ob ev = Socket_callback a ob ev"

definition event_callback :: "oid \<Rightarrow> Socket \<Rightarrow> socket_event \<Rightarrow> callback option" where
  "event_callback a ob ev =
    (if vptr ob = K_TCPStream then TCPStream_callback a ob ev
     else if vptr ob = K_TCPListener then TCPListener_callback a ob ev
     else Socket_callback a ob ev)"

definition post_opt :: "callback option \<Rightarrow> 'w world \<Rightarrow> 'w world" where
  "post_opt co w = (case co of None \<Rightarrow> w | Some c \<Rightarrow> postCallback c w)"

lemma post_opt_simps [simp]:
  "objs (post_opt co w) = objs w"
  "TCPSockets (post_opt co w) = TCPSockets w"
  "tick_handle (post_opt co w) = tick_handle w"
  "minar (post_opt co w) = minar w @ map PostCallback (case co of None \<Rightarrow> [] | Some c \<Rightarrow> [c])"
  "irq_enabled (post_opt co w) = irq_enabled w"
  "network (post_opt co w) = network w"
  by (simp_all add: post_opt_def split: option.splits)

lemma post_opt_None [simp]: "post_opt None w = w"
  by (simp add: post_opt_def)

lemma post_opt_if_set:
  "post_opt (if_set c) w = (if cb_fp c \<noteq> None then postCallback c w else w)"
  by (simp add: post_opt_def if_set_def)

definition own_callback :: "oid \<Rightarrow> callback \<Rightarrow> bool" where
  "own_callback a c \<longleftrightarrow> cb_this c = a \<and> cb_fp c \<noteq> None"

lemma own_if_set: "if_set c = Some d \<Longrightarrow> cb_this c = a \<Longrightarrow> own_callback a d"
  by (auto simp: if_set_def own_callback_def split: if_splits)

text \<open>
  The contract of an event handler: it does what a table of callbacks says, so it
  posts at most one callback, and the callback has a function pointer that is
  set and is bound to the object itself; and it changes nothing else.
\<close>

locale event_handler =
  fixes eh :: "oid \<Rightarrow> Socket \<Rightarrow> socket_event \<Rightarrow> 'w world \<Rightarrow> 'w world"
    and cb :: "oid \<Rightarrow> Socket \<Rightarrow> socket_event \<Rightarrow> callback option"
  assumes eh_table: "eh a ob ev w = post_opt (cb a ob ev) w"
    and cb_own: "cb a ob ev = Some c \<Longrightarrow> own_callback a c"
begin

lemma eh_frame [frame_simps]:
  "objs (eh a ob ev w) = objs w"
  "TCPSockets (eh a ob ev w) = TCPSockets w"
  "tick_handle (eh a ob ev w) = tick_handle w"
  "irq_enabled (eh a ob ev w) = irq_enabled w"
  "network (eh a ob ev w) = network w"
  by (simp_all add: eh_table)

lemma eh_posts: "\<exists>cs. minar (eh a ob ev w) = minar w @ map PostCallback cs
    \<and> length cs \<le> 1 \<and> list_all (own_callback a) cs"
  by (rule exI [of _ "case cb a ob ev of None \<Rightarrow> [] | Some c \<Rightarrow> [c]"])
    (auto simp: eh_table split: option.splits dest: cb_own)

lemma eh_put_obj: "eh a ob ev (put_obj b ob' w) = put_obj b ob' (eh a ob ev w)"
  by (simp add: eh_table post_opt_def postCallback_def minar_do_def put_obj_def split: option.splits)

end

lemmas eh_table_simps = post_opt_if_set Let_def

interpretation socket_eh: event_handler Socket_eventHandler Socket_callback
proof
  fix a ob ev c and w :: "'w world"
  show "Socket_eventHandler a ob ev w = post_opt (Socket_callback a ob ev) w"
    by (cases ev) (simp_all add: Socket_eventHandler_def eh_table_simps)
  show "Socket_callback a ob ev = Some c \<Longrightarrow> own_callback a c"
    by (cases ev) (auto elim: own_if_set)
qed

interpretation stream_eh: event_handler TCPStream_eventHandler TCPStream_callback
proof
  fix a ob ev c and w :: "'w world"
  show "TCPStream_eventHandler a ob ev w = post_opt (TCPStream_callback a ob ev) w"
    by (cases ev) (simp_all add: TCPStream_eventHandler_def eh_table_simps socket_eh.eh_table)
  show "TCPStream_callback a ob ev = Some c \<Longrightarrow> own_callback a c"
    by (cases ev) (auto elim: own_if_set)
qed

interpretation listener_eh: event_handler TCPListener_eventHandler TCPListener_callback
proof
  fix a ob ev c and w :: "'w world"
  show "TCPListener_eventHandler a ob ev w = post_opt (TCPListener_callback a ob ev) w"
    by (cases ev) (simp_all add: TCPListener_eventHandler_def eh_table_simps)
  show "TCPListener_callback a ob ev = Some c \<Longrightarrow> own_callback a c"
    by (cases ev) (auto elim: own_if_set)
qed

interpretation virtual_eh: event_handler eventHandler event_callback
proof
  fix a ob ev c and w :: "'w world"
  show "eventHandler a ob ev w = post_opt (event_callback a ob ev) w"
    by (cases "vptr ob") (simp_all add: eventHandler_def event_callback_def
        socket_eh.eh_table stream_eh.eh_table listener_eh.eh_table)
  show "event_callback a ob ev = Some c \<Longrightarrow> own_callback a c"
    by (auto simp: event_callback_def split: if_splits
        dest: socket_eh.cb_own stream_eh.cb_own listener_eh.cb_own)
qed

section \<open>Delivering events\<close>

text \<open>The table does not look at the event fields of the object.\<close>

lemma callback_event_fields [simp]:
  "Socket_callback a (ob\<lparr>event_ptr := x\<rparr>) ev = Socket_callback a ob ev"
  "Socket_callback a (ob\<lparr>sock := s\<rparr>) ev = Socket_callback a ob ev"
  "TCPStream_callback a (ob\<lparr>event_ptr := x\<rparr>) ev = TCPStream_callback a ob ev"
  "TCPStream_callback a (ob\<lparr>sock := s\<rparr>) ev = TCPStream_callback a ob ev"
  "TCPListener_callback a (ob\<lparr>event_ptr := x\<rparr>) ev = TCPListener_callback a ob ev"
  "TCPListener_callback a (ob\<lparr>sock := s\<rparr>) ev = TCPListener_callback a ob ev"
  by (cases ev; simp)+

lemma event_callback_fields [simp]:
  "event_callback a (ob\<lparr>event_ptr := x\<rparr>) ev = event_callback a ob ev"
  "event_callback a (ob\<lparr>sock := s\<rparr>) ev = event_callback a ob ev"
  by (simp_all add: event_callback_def)

text \<open>An object after an event: only its event fields have changed.\<close>

definition seen_event :: "socket_event \<Rightarrow> Socket \<Rightarrow> Socket" where
  "seen_event ev ob = ob\<lparr>sock := (sock ob)\<lparr>event := Some ev\<rparr>, event_ptr := None\<rparr>"

lemma seen_event_simps [simp]:
  "vptr (seen_event ev ob) = vptr ob"
  "onDNS (seen_event ev ob) = onDNS ob"
  "onError (seen_event ev ob) = onError ob"
  "onReadable (seen_event ev ob) = onReadable ob"
  "onSent (seen_event ev ob) = onSent ob"
  "stream_part (seen_event ev ob) = stream_part ob"
  "listener_part (seen_event ev ob) = listener_part ob"
  "sock (seen_event ev ob) = (sock ob)\<lparr>event := Some ev\<rparr>"
  "event_ptr (seen_event ev ob) = None"
  by (simp_all add: seen_event_def)

lemma event_callback_seen [simp]: "event_callback a (seen_event ev ob) e = event_callback a ob e"
  by (simp add: seen_event_def)

lemma nvEventHandler_eq:
  assumes "objs w a = Some ob" and "event (sock ob) = Some ev"
  shows "nvEventHandler a w =
    Some (put_obj a (ob\<lparr>event_ptr := None\<rparr>) (post_opt (event_callback a ob ev) w))"
  using assms by (simp add: nvEventHandler_def virtual_eh.eh_put_obj virtual_eh.eh_table)

lemma raise_event_eq:
  "objs w a = Some ob \<Longrightarrow>
   raise_event a ev w = Some (put_obj a (seen_event ev ob) (post_opt (event_callback a ob ev) w))"
  by (simp add: raise_event_def nvEventHandler_eq seen_event_def
      post_opt_def postCallback_def minar_do_def put_obj_def split: option.splits)

lemma raise_event_dead: "objs w a = None \<Longrightarrow> raise_event a ev w = None"
  by (simp add: raise_event_def with_obj_def)

text \<open>
  \<open>quiet\<close> forgets the event fields. \<open>event_frame w w'\<close> says what any number of events
  delivered between \<open>w\<close> and \<open>w'\<close> can have done: they have posted callbacks that are
  set and bound to objects that exist, and touched event fields.
\<close>

definition quiet :: "Socket \<Rightarrow> Socket" where
  "quiet ob = ob\<lparr>sock := (sock ob)\<lparr>event := None\<rparr>, event_ptr := None\<rparr>"

lemma quiet_seen [simp]: "quiet (seen_event ev ob) = quiet ob"
  by (simp add: quiet_def seen_event_def)

definition event_frame :: "'w world \<Rightarrow> 'w world \<Rightarrow> bool" where
  "event_frame w w' \<longleftrightarrow>
     TCPSockets w' = TCPSockets w \<and> tick_handle w' = tick_handle w \<and>
     irq_enabled w' = irq_enabled w \<and> network w' = network w \<and>
     (\<forall>a. map_option quiet (objs w' a) = map_option quiet (objs w a)) \<and>
     (\<exists>cs. minar w' = minar w @ map PostCallback cs \<and>
        list_all (\<lambda>c. cb_fp c \<noteq> None \<and> cb_this c \<in> dom (objs w)) cs)"

lemma event_frame_refl [simp]: "event_frame w w"
  by (auto simp: event_frame_def intro: exI [of _ "[]"])

lemma event_frame_dom: "event_frame w w' \<Longrightarrow> dom (objs w') = dom (objs w)"
  unfolding event_frame_def dom_def by (metis (no_types, lifting) map_option_is_None)

lemma event_frame_trans:
  assumes "event_frame w1 w2" and "event_frame w2 w3"
  shows "event_frame w1 w3"
proof -
  from assms(1) obtain cs where cs: "minar w2 = minar w1 @ map PostCallback cs"
    "list_all (\<lambda>c. cb_fp c \<noteq> None \<and> cb_this c \<in> dom (objs w1)) cs"
    by (auto simp: event_frame_def)
  from assms(2) event_frame_dom [OF assms(1)] obtain ds where ds: "minar w3 = minar w2 @ map PostCallback ds"
    "list_all (\<lambda>c. cb_fp c \<noteq> None \<and> cb_this c \<in> dom (objs w1)) ds"
    by (auto simp: event_frame_def)
  from cs ds have "minar w3 = minar w1 @ map PostCallback (cs @ ds) \<and>
      list_all (\<lambda>c. cb_fp c \<noteq> None \<and> cb_this c \<in> dom (objs w1)) (cs @ ds)"
    by simp
  then show ?thesis
    using assms unfolding event_frame_def by (metis (no_types, lifting))
qed

lemma raise_event_frame:
  assumes "raise_event a ev w = Some w'"
  shows "event_frame w w'"
proof -
  from assms obtain ob where ob: "objs w a = Some ob"
    by (cases "objs w a") (auto simp: raise_event_dead)
  let ?cs = "case event_callback a ob ev of None \<Rightarrow> [] | Some c \<Rightarrow> [c]"
  have "list_all (\<lambda>c. cb_fp c \<noteq> None \<and> cb_this c \<in> dom (objs w)) ?cs"
    using ob by (auto simp: own_callback_def split: option.splits dest: virtual_eh.cb_own)
  then show ?thesis
    using assms ob by (auto simp: event_frame_def raise_event_eq intro!: exI [of _ ?cs])
qed

lemma raise_events_frame: "raise_events rs w = Some w' \<Longrightarrow> event_frame w w'"
proof (induction rs arbitrary: w)
  case Nil
  then show ?case by simp
next
  case (Cons r rs)
  then show ?case
    by (auto intro: event_frame_trans raise_event_frame)
qed

lemma raise_events_total:
  "fst ` set rs \<subseteq> dom (objs w) \<Longrightarrow> \<exists>w'. raise_events rs w = Some w'"
proof (induction rs arbitrary: w)
  case Nil
  then show ?case by simp
next
  case (Cons r rs)
  then obtain ob where "objs w (fst r) = Some ob" by auto
  then obtain w1 where w1: "raise_event (fst r) (snd r) w = Some w1"
    by (simp add: raise_event_eq)
  with Cons.prems have "fst ` set rs \<subseteq> dom (objs w1)"
    using event_frame_dom [OF raise_event_frame [OF w1]] by auto
  with Cons.IH w1 show ?case by auto
qed

lemma raise_events_append:
  "raise_events (rs @ qs) w = Option.bind (raise_events rs w) (raise_events qs)"
  by (induction rs arbitrary: w) simp_all

end
