(* ===== verification/Socket_Contract.thy ===== *)
theory Socket_Contract
  imports Socket_Events
begin

text \<open>
  The contract between an operation of a socket class and the rest of the library: what
  it may change (\<open>op_frame\<close>), what is always true of the state (\<open>wf_world\<close>), and the two
  locales that state the contract once for all operations, \<open>socket_op\<close> for an operation
  that keeps the frame and \<open>safe_op\<close> for one that moreover always returns. The theories of
  the classes interpret them on the operations.
\<close>

section \<open>What the library relies on\<close>

text \<open>
  \<open>keeps H f\<close>: a function of the stack leaves the identification of the struct it gets
  (stack, function table, protocol family) as it is; it leaves the handler, clears it or
  stores one of \<open>H\<close>; and it raises events only on the handler in the struct and on \<open>H\<close>.
\<close>

definition keeps :: "oid set \<Rightarrow> ('w, 'r) eff \<Rightarrow> bool" where
  "keeps H f \<longleftrightarrow> (\<forall>x s r s' rs x'. f x s = (r, s', rs, x') \<longrightarrow>
     stack s' = stack s \<and> api s' = api s \<and> family s' = family s \<and>
     handler s' \<in> {handler s, None} \<union> Some ` H \<and>
     Some ` fst ` set rs \<subseteq> {handler s} \<union> Some ` H)"

definition api_ok :: "'w socket_api \<Rightarrow> bool" where
  "api_ok t \<longleftrightarrow>
     (\<forall>af pf h. keeps {h} (api_create t af pf h)) \<and>
     (\<forall>f. api_destroy t = Some f \<longrightarrow> keeps {} f) \<and>
     (\<forall>n. keeps {} (api_resolve t n)) \<and>
     (\<forall>a n. keeps {} (api_str2addr t a n)) \<and>
     (\<forall>a p. keeps {} (api_bind t a p)) \<and>
     (\<forall>a p. keeps {} (api_connect t a p)) \<and>
     (\<forall>b. keeps {} (api_start_listen t b)) \<and>
     keeps {} (api_stop_listen t) \<and>
     (\<forall>h. keeps {h} (api_accept t h)) \<and>
     keeps {} (api_close t) \<and>
     (\<forall>b l. keeps {} (api_recv t b l)) \<and>
     (\<forall>b l a p. keeps {} (api_recv_from t b l a p)) \<and>
     (\<forall>b l. keeps {} (api_send t b l)) \<and>
     (\<forall>b l a p. keeps {} (api_send_to t b l a p)) \<and>
     (\<forall>lv op p n. keeps {} (api_set_option t lv op p n))"

definition accept_ok :: "'w env \<Rightarrow> bool" where
  "accept_ok env \<longleftrightarrow> (\<forall>ls h x s err ls' s' rs x'. socket_accept env ls h x s = (err, ls', s', rs, x') \<longrightarrow>
     stack ls' = stack ls \<and> api ls' = api ls \<and> family ls' = family ls \<and>
     handler ls' \<in> {handler ls, None} \<and>
     stack s' = stack s \<and> api s' = api s \<and> family s' = family s \<and>
     handler s' \<in> {handler s, None, Some h} \<and>
     (api ls = None \<longrightarrow> impl ls' = impl ls) \<and>
     Some ` fst ` set rs \<subseteq> {handler ls, handler s, Some h})"

definition sal_ok :: "'w env \<Rightarrow> bool" where
  "sal_ok env \<longleftrightarrow> (\<forall>p. api_ok (vtable env p)) \<and> accept_ok env"

lemma sal_ok_api [simp]: "sal_ok env \<Longrightarrow> api_ok (vtable env p)"
  by (simp add: sal_ok_def)

lemma sal_ok_accept: "sal_ok env \<Longrightarrow> accept_ok env"
  by (simp add: sal_ok_def)

lemma keepsD:
  assumes "keeps H f" and "f x s = (r, s', rs, x')"
  shows "stack s' = stack s" "api s' = api s" "family s' = family s"
    "handler s' \<in> {handler s, None} \<union> Some ` H"
    "Some ` fst ` set rs \<subseteq> {handler s} \<union> Some ` H"
  using assms(1) [unfolded keeps_def, rule_format, OF assms(2)] by simp_all

lemma keeps_any:
  assumes "keeps {} f"
  shows "keeps H f"
  unfolding keeps_def
proof (intro allI impI)
  fix x s r s' rs x'
  assume "f x s = (r, s', rs, x')"
  note * = keepsD [OF assms this]
  then show "stack s' = stack s \<and> api s' = api s \<and> family s' = family s \<and>
     handler s' \<in> {handler s, None} \<union> Some ` H \<and> Some ` fst ` set rs \<subseteq> {handler s} \<union> Some ` H"
    by auto
qed

text \<open>A function of the table that may be called on the struct of the object \<open>a\<close>.\<close>

definition callable :: "'w env \<Rightarrow> oid \<Rightarrow> ('w socket_api \<Rightarrow> ('w, 'r) eff) \<Rightarrow> bool" where
  "callable env a f \<longleftrightarrow> (\<forall>p. keeps {a} (f (vtable env p)))"

lemma callableD: "callable env a f \<Longrightarrow> keeps {a} (f (vtable env p))"
  by (simp add: callable_def)

lemma sal_ok_callable [intro, simp]:
  assumes "sal_ok env"
  shows "callable env a (\<lambda>t. api_create t af pf a)" "callable env a (\<lambda>t. api_resolve t n)"
    "callable env a (\<lambda>t. api_str2addr t sa n)" "callable env a (\<lambda>t. api_bind t sa p)"
    "callable env a (\<lambda>t. api_connect t sa p)" "callable env a (\<lambda>t. api_start_listen t b)"
    "callable env a api_stop_listen" "callable env a (\<lambda>t. api_accept t a)"
    "callable env a api_close" "callable env a (\<lambda>t. api_recv t buf l)"
    "callable env a (\<lambda>t. api_recv_from t buf l sa po)" "callable env a (\<lambda>t. api_send t buf ln)"
    "callable env a (\<lambda>t. api_send_to t buf ln sa p)"
    "callable env a (\<lambda>t. api_set_option t lv opt ptr m)"
  using assms by (simp_all add: callable_def sal_ok_def api_ok_def keeps_any)

section \<open>The frame of an operation\<close>

text \<open>
  What an operation called on the object \<open>a\<close> may do: change the handlers and the struct of
  \<open>a\<close>, but not its class or the identification of its struct; change the event fields of
  other objects; post callbacks that are set and bound to existing objects; and change the
  stack. The static members of \<open>TCPAsynch\<close> and the set of objects stay.
\<close>

definition op_obj :: "oid \<Rightarrow> Socket \<Rightarrow> Socket \<Rightarrow> bool" where
  "op_obj a ob ob' \<longleftrightarrow>
     vptr ob' = vptr ob \<and> stack (sock ob') = stack (sock ob) \<and> api (sock ob') = api (sock ob) \<and>
     family (sock ob') = family (sock ob) \<and>
     handler (sock ob') \<in> {handler (sock ob), None, Some a} \<and>
     (api (sock ob) = None \<longrightarrow> impl (sock ob') = impl (sock ob))"

definition live_posts :: "'w world \<Rightarrow> 'w world \<Rightarrow> bool" where
  "live_posts w w' \<longleftrightarrow> (\<exists>cs. minar w' = minar w @ map PostCallback cs \<and>
     list_all (\<lambda>c. cb_fp c \<noteq> None \<and> cb_this c \<in> dom (objs w)) cs)"

definition op_frame :: "oid \<Rightarrow> 'w world \<Rightarrow> 'w world \<Rightarrow> bool" where
  "op_frame a w w' \<longleftrightarrow>
     TCPSockets w' = TCPSockets w \<and> tick_handle w' = tick_handle w \<and>
     (irq_enabled w \<longrightarrow> irq_enabled w') \<and>
     (\<forall>b. b \<noteq> a \<longrightarrow> map_option quiet (objs w' b) = map_option quiet (objs w b)) \<and>
     rel_option (op_obj a) (objs w a) (objs w' a) \<and>
     live_posts w w'"

lemma op_obj_refl [simp]: "op_obj a ob ob"
  by (simp add: op_obj_def)

lemma op_obj_handlers [simp, intro]:
  "op_obj a ob (ob\<lparr>onDNS := f\<rparr>)" "op_obj a ob (ob\<lparr>onError := f\<rparr>)"
  "op_obj a ob (ob\<lparr>onReadable := f\<rparr>)" "op_obj a ob (ob\<lparr>onSent := f\<rparr>)"
  "op_obj a ob (ob\<lparr>stream_part := sp\<rparr>)" "op_obj a ob (ob\<lparr>listener_part := lp\<rparr>)"
  by (simp_all add: op_obj_def)

lemma op_obj_trans: "op_obj a ob1 ob2 \<Longrightarrow> op_obj a ob2 ob3 \<Longrightarrow> op_obj a ob1 ob3"
  by (auto simp: op_obj_def)

lemma quiet_eq_fields:
  assumes "quiet ob' = quiet ob"
  shows "vptr ob' = vptr ob" "handler (sock ob') = handler (sock ob)" "impl (sock ob') = impl (sock ob)"
    "stack (sock ob') = stack (sock ob)" "api (sock ob') = api (sock ob)"
    "family (sock ob') = family (sock ob)"
    "onDNS ob' = onDNS ob" "onError ob' = onError ob" "onReadable ob' = onReadable ob"
    "onSent ob' = onSent ob" "stream_part ob' = stream_part ob" "listener_part ob' = listener_part ob"
proof -
  have *: "sock ob'\<lparr>event := None\<rparr> = sock ob\<lparr>event := None\<rparr>"
    using arg_cong [OF assms, of sock] by (simp add: quiet_def)
  show "handler (sock ob') = handler (sock ob)" using arg_cong [OF *, of handler] by simp
  show "impl (sock ob') = impl (sock ob)" using arg_cong [OF *, of impl] by simp
  show "stack (sock ob') = stack (sock ob)" using arg_cong [OF *, of stack] by simp
  show "api (sock ob') = api (sock ob)" using arg_cong [OF *, of api] by simp
  show "family (sock ob') = family (sock ob)" using arg_cong [OF *, of family] by simp
  show "vptr ob' = vptr ob" using arg_cong [OF assms, of vptr] by (simp add: quiet_def)
  show "onDNS ob' = onDNS ob" using arg_cong [OF assms, of onDNS] by (simp add: quiet_def)
  show "onError ob' = onError ob" using arg_cong [OF assms, of onError] by (simp add: quiet_def)
  show "onReadable ob' = onReadable ob" using arg_cong [OF assms, of onReadable] by (simp add: quiet_def)
  show "onSent ob' = onSent ob" using arg_cong [OF assms, of onSent] by (simp add: quiet_def)
  show "stream_part ob' = stream_part ob" using arg_cong [OF assms, of stream_part] by (simp add: quiet_def)
  show "listener_part ob' = listener_part ob" using arg_cong [OF assms, of listener_part] by (simp add: quiet_def)
qed

lemma quiet_op_obj:
  assumes "quiet ob' = quiet ob"
  shows "op_obj a ob ob'"
  unfolding op_obj_def by (simp add: quiet_eq_fields [OF assms])

lemma live_posts_refl [simp]: "live_posts w w"
  by (auto simp: live_posts_def intro: exI [of _ "[]"])

lemma live_posts_trans:
  assumes "live_posts w1 w2" and "live_posts w2 w3" and "dom (objs w2) = dom (objs w1)"
  shows "live_posts w1 w3"
proof -
  from assms(1) obtain cs where cs: "minar w2 = minar w1 @ map PostCallback cs"
    "list_all (\<lambda>c. cb_fp c \<noteq> None \<and> cb_this c \<in> dom (objs w1)) cs"
    by (auto simp: live_posts_def)
  from assms(2,3) obtain ds where ds: "minar w3 = minar w2 @ map PostCallback ds"
    "list_all (\<lambda>c. cb_fp c \<noteq> None \<and> cb_this c \<in> dom (objs w1)) ds"
    by (auto simp: live_posts_def)
  from cs ds show ?thesis
    by (auto simp: live_posts_def intro!: exI [of _ "cs @ ds"])
qed

lemma live_posts_periodic:
  "live_posts w w' \<Longrightarrow> periodic_pending (minar w') = periodic_pending (minar w)"
  by (auto simp: live_posts_def)

lemma map_option_quiet_dom:
  "map_option quiet x = map_option quiet y \<Longrightarrow> (x = None) = (y = None)"
  by (cases x; cases y) simp_all

lemma map_option_quiet_vptr:
  "map_option quiet x = map_option quiet y \<Longrightarrow> map_option vptr x = map_option vptr y"
  by (cases x; cases y) (simp_all, erule quiet_eq_fields(1))

lemma op_frame_dom: "op_frame a w w' \<Longrightarrow> dom (objs w') = dom (objs w)"
proof -
  assume *: "op_frame a w w'"
  have "(objs w' b = None) = (objs w b = None)" for b
  proof (cases "b = a")
    case True
    with * show ?thesis by (auto simp: op_frame_def option_rel_Some1 elim: option.rel_cases)
  next
    case False
    with * show ?thesis by (auto simp: op_frame_def dest: map_option_quiet_dom)
  qed
  then show ?thesis by (auto simp: dom_def)
qed

lemma op_frame_refl [simp]: "op_frame a w w"
  by (simp add: op_frame_def option.rel_refl)

lemma op_frame_trans:
  assumes "op_frame a w1 w2" and "op_frame a w2 w3"
  shows "op_frame a w1 w3"
proof -
  have "rel_option (op_obj a) (objs w1 a) (objs w3 a)"
    using assms by (auto simp: op_frame_def elim!: option.rel_cases intro: op_obj_trans)
  moreover have "live_posts w1 w3"
    using assms op_frame_dom [OF assms(1)] live_posts_trans by (auto simp: op_frame_def)
  ultimately show ?thesis using assms by (simp add: op_frame_def)
qed

lemma event_frame_op_frame: "event_frame w w' \<Longrightarrow> op_frame a w w'"
proof -
  assume *: "event_frame w w'"
  then have "map_option quiet (objs w' a) = map_option quiet (objs w a)"
    by (simp add: event_frame_def)
  then have "rel_option (op_obj a) (objs w a) (objs w' a)"
    by (cases "objs w a"; cases "objs w' a") (simp_all add: quiet_op_obj)
  with * show ?thesis by (simp add: op_frame_def event_frame_def live_posts_def)
qed

lemma with_obj_frame:
  assumes "with_obj a f w = Some w'" and "\<And>ob. op_obj a ob (f ob)"
  shows "op_frame a w w'"
  using assms by (auto simp: with_obj_eq_Some op_frame_def live_posts_def intro: exI [of _ "[]"])

text \<open>Storing a handler in a member of the object.\<close>

lemma set_handler_frame:
  "with_obj a (\<lambda>ob. ob\<lparr>onDNS := f\<rparr>) w = Some w' \<Longrightarrow> op_frame a w w'"
  "with_obj a (\<lambda>ob. ob\<lparr>stream_part := sp ob\<rparr>) w = Some w' \<Longrightarrow> op_frame a w w'"
  "with_obj a (\<lambda>ob. ob\<lparr>listener_part := lp ob\<rparr>) w = Some w' \<Longrightarrow> op_frame a w w'"
  by (auto intro: with_obj_frame)

lemma api_invoke_eq_Some:
  "api_invoke env f s w = Some (r, s', rs, w') \<longleftrightarrow>
     (\<exists>p x. api s = Some p \<and> f (vtable env p) (network w) s = (r, s', rs, x) \<and> w' = w\<lparr>network := x\<rparr>)"
  by (auto simp: api_invoke_def split: prod.splits)

lemma api_call_frame:
  assumes "api_call env a f w = Some (r, w')" and "callable env a f"
  shows "op_frame a w w'"
proof -
  from assms(1) obtain ob s' rs p x where ob: "objs w a = Some ob" and p: "api (sock ob) = Some p"
    and f: "f (vtable env p) (network w) (sock ob) = (r, s', rs, x)"
    and rs: "raise_events rs (put_obj a (ob\<lparr>sock := s'\<rparr>) (w\<lparr>network := x\<rparr>)) = Some w'"
    by (auto simp: api_call_def api_invoke_eq_Some)
  have "op_obj a ob (ob\<lparr>sock := s'\<rparr>)"
    using keepsD [OF callableD [OF assms(2)] f] p by (auto simp: op_obj_def)
  then have "op_frame a w (put_obj a (ob\<lparr>sock := s'\<rparr>) (w\<lparr>network := x\<rparr>))"
    using ob by (simp add: op_frame_def live_posts_def)
  with event_frame_op_frame [OF raise_events_frame [OF rs]] show ?thesis
    by (blast intro: op_frame_trans)
qed

text \<open>The frame of a call, for each function of the table.\<close>

lemmas api_frames = sal_ok_callable [THEN api_call_frame [rotated], rotated]

lemma api_call_returns:
  assumes "objs w a = Some ob" and "api (sock ob) = Some p" and "handler (sock ob) \<in> {None, Some a}"
    and "callable env a f"
  shows "\<exists>r w'. api_call env a f w = Some (r, w')"
proof -
  obtain r s' rs x where f: "f (vtable env p) (network w) (sock ob) = (r, s', rs, x)"
    by (metis prod_cases4)
  have "fst ` set rs \<subseteq> {a}"
    using keepsD(5) [OF callableD [OF assms(4)] f] assms(3) by fastforce
  then have "fst ` set rs \<subseteq> dom (objs (put_obj a (ob\<lparr>sock := s'\<rparr>) (w\<lparr>network := x\<rparr>)))"
    by auto
  then obtain w' where "raise_events rs (put_obj a (ob\<lparr>sock := s'\<rparr>) (w\<lparr>network := x\<rparr>)) = Some w'"
    using raise_events_total by blast
  then show ?thesis
    using assms(1,2) f by (simp add: api_call_def api_invoke_def)
qed

section \<open>What is always true of the state\<close>

definition obj_ok :: "'w env \<Rightarrow> oid \<Rightarrow> Socket \<Rightarrow> bool" where
  "obj_ok env a ob \<longleftrightarrow>
     vptr ob \<in> {K_UDPSocket, K_TCPStream, K_TCPListener} \<and>
     api (sock ob) = socket_get_api env (stack (sock ob)) \<and>
     (impl (sock ob) \<noteq> None \<longrightarrow> api (sock ob) \<noteq> None) \<and>
     handler (sock ob) \<in> {None, Some a} \<and>
     family (sock ob) = (if vptr ob = K_UDPSocket then SOCKET_DGRAM else SOCKET_STREAM)"

definition live_TCP :: "'w world \<Rightarrow> nat" where
  "live_TCP w = count_where (\<lambda>ob. is_TCPAsynch (vptr ob)) (objs w)"

definition tick_ok :: "'w world \<Rightarrow> bool" where
  "tick_ok w \<longleftrightarrow>
     periodic_pending (minar w) = (if tick_handle w = None then [] else [tick_handle w]) \<and>
     (tick_handle w \<noteq> None \<longrightarrow> live_TCP w \<noteq> 0)"

definition wf_world :: "'w env \<Rightarrow> 'w world \<Rightarrow> bool" where
  "wf_world env w \<longleftrightarrow>
     objs w 0 = None \<and> (\<forall>a ob. objs w a = Some ob \<longrightarrow> obj_ok env a ob) \<and>
     TCPSockets w = of_nat (live_TCP w) \<and> tick_ok w \<and> irq_enabled w"

lemma wf_worldD:
  assumes "wf_world env w"
  shows "objs w 0 = None" "objs w a = Some ob \<Longrightarrow> obj_ok env a ob"
    "TCPSockets w = of_nat (live_TCP w)" "tick_ok w" "irq_enabled w"
  using assms by (simp_all add: wf_world_def)

lemma obj_ok_op_obj:
  assumes ok: "obj_ok env a ob" and op: "op_obj a ob ob'"
  shows "obj_ok env a ob'"
proof -
  from op have same: "vptr ob' = vptr ob" "stack (sock ob') = stack (sock ob)"
    "api (sock ob') = api (sock ob)" "family (sock ob') = family (sock ob)"
    by (simp_all add: op_obj_def)
  have "impl (sock ob') \<noteq> None \<longrightarrow> api (sock ob') \<noteq> None"
    using ok op unfolding obj_ok_def op_obj_def by metis
  moreover have "handler (sock ob') \<in> {None, Some a}"
    using ok op by (auto simp: obj_ok_def op_obj_def)
  ultimately show ?thesis
    using ok unfolding obj_ok_def same by blast
qed

lemma op_frame_obj:
  assumes "op_frame a w w'" and "objs w' b = Some ob'"
  shows "\<exists>ob. objs w b = Some ob \<and> op_obj b ob ob'"
proof (cases "b = a")
  case True
  with assms show ?thesis by (auto simp: op_frame_def elim: option.rel_cases)
next
  case False
  with assms(1) have "map_option quiet (objs w' b) = map_option quiet (objs w b)"
    unfolding op_frame_def by blast
  with assms(2) have "map_option quiet (objs w b) = Some (quiet ob')" by simp
  then show ?thesis by (metis map_option_eq_Some quiet_op_obj)
qed

lemma op_frame_live: "op_frame a w w' \<Longrightarrow> live_TCP w' = live_TCP w"
proof -
  assume *: "op_frame a w w'"
  have "(\<exists>ob. objs w' b = Some ob \<and> is_TCPAsynch (vptr ob)) \<longleftrightarrow>
        (\<exists>ob. objs w b = Some ob \<and> is_TCPAsynch (vptr ob))" for b
  proof (cases "objs w' b")
    case None
    then have "objs w b = None" using op_frame_dom [OF *] by auto
    with None show ?thesis by simp
  next
    case (Some ob')
    then show ?thesis using op_frame_obj [OF * Some] by (auto simp: op_obj_def)
  qed
  then show ?thesis by (simp add: live_TCP_def count_where_def)
qed

lemma op_frame_wf: "op_frame a w w' \<Longrightarrow> wf_world env w \<Longrightarrow> wf_world env w'"
proof -
  assume *: "op_frame a w w'" and wf: "wf_world env w"
  have "obj_ok env b ob'" if "objs w' b = Some ob'" for b ob'
    using op_frame_obj [OF * that] wf by (auto simp: wf_world_def intro: obj_ok_op_obj)
  moreover have "objs w' 0 = None"
    using op_frame_dom [OF *] wf_worldD(1) [OF wf] by (metis domIff)
  moreover have "TCPSockets w' = of_nat (live_TCP w')"
    using wf_worldD(3) [OF wf] op_frame_live [OF *] * by (simp add: op_frame_def)
  moreover have "periodic_pending (minar w') = periodic_pending (minar w)"
    using * by (simp add: op_frame_def live_posts_periodic)
  then have "tick_ok w'"
    using wf_worldD(4) [OF wf] op_frame_live [OF *] * unfolding tick_ok_def op_frame_def by simp
  moreover have "irq_enabled w'" using * wf_worldD(5) [OF wf] by (simp add: op_frame_def)
  ultimately show ?thesis by (simp add: wf_world_def)
qed

text \<open>
  The counter of the TCP sockets cannot wrap around: the objects have distinct non-null
  addresses, so there are fewer of them than values of a word of the size of a pointer.
\<close>

lemma live_TCP_bound:
  assumes "objs w 0 = None"
  shows "live_TCP w < 2 ^ 32"
proof -
  let ?A = "{k. \<exists>ob. objs w k = Some ob \<and> is_TCPAsynch (vptr ob)}"
  have "0 \<notin> ?A" using assms by simp
  then have "?A \<subset> (UNIV :: oid set)" by blast
  then have "card ?A < card (UNIV :: oid set)" by (intro psubset_card_mono) simp_all
  then show ?thesis by (simp add: live_TCP_def count_where_def card_word)
qed

lemma live_TCP_pos: "objs w a = Some ob \<Longrightarrow> is_TCPAsynch (vptr ob) \<Longrightarrow> live_TCP w \<noteq> 0"
  using count_where_pos [of "objs w" a ob "\<lambda>ob. is_TCPAsynch (vptr ob)"] by (simp add: live_TCP_def)

lemma TCPSockets_zero: "wf_world env w \<Longrightarrow> TCPSockets w = 0 \<longleftrightarrow> live_TCP w = 0"
  using u32_of_nat_eq_0 [OF live_TCP_bound] by (auto simp: wf_world_def)

lemma wf_api_call:
  assumes "wf_world env w" and "objs w a = Some ob" and "api (sock ob) \<noteq> None"
    and "callable env a f"
  shows "\<exists>r w'. api_call env a f w = Some (r, w')"
proof -
  from assms(3) obtain p where "api (sock ob) = Some p" by blast
  moreover have "handler (sock ob) \<in> {None, Some a}"
    using wf_worldD(2) [OF assms(1,2)] by (simp add: obj_ok_def)
  ultimately show ?thesis
    using assms(2,4) by (blast intro: api_call_returns)
qed

lemma wf_opened_api:
  "wf_world env w \<Longrightarrow> objs w a = Some ob \<Longrightarrow> impl (sock ob) \<noteq> None \<Longrightarrow> api (sock ob) \<noteq> None"
  using wf_worldD(2) by (fastforce simp: obj_ok_def)

section \<open>The contract\<close>

locale socket_op =
  fixes op :: "'w env \<Rightarrow> oid \<Rightarrow> 'w world \<Rightarrow> ('r \<times> 'w world) option"
  assumes frame: "sal_ok env \<Longrightarrow> op env a w = Some (r, w') \<Longrightarrow> op_frame a w w'"
begin

lemma preserves_wf:
  "sal_ok env \<Longrightarrow> wf_world env w \<Longrightarrow> op env a w = Some (r, w') \<Longrightarrow> wf_world env w'"
  by (rule op_frame_wf [OF frame])

lemma keeps_live: "sal_ok env \<Longrightarrow> op env a w = Some (r, w') \<Longrightarrow> live_TCP w' = live_TCP w"
  by (rule op_frame_live [OF frame])

lemma keeps_others:
  "sal_ok env \<Longrightarrow> op env a w = Some (r, w') \<Longrightarrow> b \<noteq> a \<Longrightarrow>
   map_option quiet (objs w' b) = map_option quiet (objs w b)"
  using frame by (simp add: op_frame_def)

end

locale safe_op = socket_op op for op :: "'w env \<Rightarrow> oid \<Rightarrow> 'w world \<Rightarrow> ('r \<times> 'w world) option" +
  assumes returns: "sal_ok env \<Longrightarrow> wf_world env w \<Longrightarrow> a \<in> dom (objs w) \<Longrightarrow> \<exists>r w'. op env a w = Some (r, w')"
begin

lemma safe:
  "sal_ok env \<Longrightarrow> wf_world env w \<Longrightarrow> a \<in> dom (objs w) \<Longrightarrow>
   \<exists>r w'. op env a w = Some (r, w') \<and> wf_world env w' \<and> dom (objs w') = dom (objs w)"
  using returns preserves_wf frame op_frame_dom by meson

end

end
