(* ===== verification/SocketAddr_Class.thy ===== *)
theory SocketAddr_Class
  imports SAL_Interface
begin

text \<open>
  The class \<open>SocketAddr\<close> (\<open>sockets/v0/SocketAddr.h\<close>, \<open>source/v0/SocketAddr.cpp\<close>): a
  container for one address, with copying, parsing and formatting. The conversions
  themselves are functions of \<open>sal\<close>, the record \<open>addr_lib\<close>.
\<close>

section \<open>The class\<close>

record SocketAddr =
  addr_member :: socket_addr

definition getAddr :: "SocketAddr \<Rightarrow> socket_addr" where
  "getAddr sa = addr_member sa"

definition setAddr_addr :: "addr_lib \<Rightarrow> SocketAddr \<Rightarrow> socket_addr \<Rightarrow> SocketAddr" where
  "setAddr_addr lib this addr = this\<lparr>addr_member := socket_addr_copy lib (addr_member this) addr\<rparr>"

definition setAddr_SocketAddr :: "addr_lib \<Rightarrow> SocketAddr \<Rightarrow> SocketAddr \<Rightarrow> SocketAddr" where
  "setAddr_SocketAddr lib this other = setAddr_addr lib this (getAddr other)"

definition setAddr_str ::
  "addr_lib \<Rightarrow> SocketAddr \<Rightarrow> socket_address_family_t \<Rightarrow> string option \<Rightarrow> socket_error_t \<times> SocketAddr" where
  "setAddr_str lib this af addr =
    (let (rc, a) = inet_pton lib af addr (addr_member this);
         err = (if rc = 1 then SOCKET_ERROR_NONE
                else if rc = 0 then SOCKET_ERROR_BAD_ADDRESS
                else if rc = -1 then SOCKET_ERROR_BAD_ARGUMENT
                else SOCKET_ERROR_UNKNOWN)
     in (err, this\<lparr>addr_member := a\<rparr>))"

definition getAddrSize :: "SocketAddr \<Rightarrow> nat" where
  "getAddrSize sa = 4 * length (ipv6be (addr_member sa))"

definition is_v4 :: "addr_lib \<Rightarrow> SocketAddr \<Rightarrow> bool" where
  "is_v4 lib this = socket_addr_is_ipv4 lib (addr_member this)"

text \<open>
  \<open>fmtIPv4\<close> and \<open>fmtIPv6\<close> return the C result and the buffer. The source address handed
  to \<open>inet_ntop\<close> is \<open>&_addr.ipv6be[3]\<close>, the last word, or the whole address.
\<close>

definition fmtIPv4 :: "addr_lib \<Rightarrow> SocketAddr \<Rightarrow> string option \<Rightarrow> u32 \<Rightarrow> int \<times> string option" where
  "fmtIPv4 lib this buf bufsize =
    (if \<not> is_v4 lib this then (-1, buf)
     else case buf of
       None \<Rightarrow> (-1, buf)
     | Some b \<Rightarrow>
         let (ptr, b') = inet_ntop lib SOCKET_AF_INET4 (drop 3 (ipv6be (addr_member this))) b bufsize
         in (if \<not> ptr then -1 else 0, Some b'))"

definition fmtIPv6 :: "addr_lib \<Rightarrow> SocketAddr \<Rightarrow> string option \<Rightarrow> u32 \<Rightarrow> int \<times> string option" where
  "fmtIPv6 lib this buf bufsize =
    (case buf of
       None \<Rightarrow> (-1, buf)
     | Some b \<Rightarrow>
         let (ptr, b') = inet_ntop lib SOCKET_AF_INET6 (ipv6be (addr_member this)) b bufsize
         in (if \<not> ptr then -1 else 0, Some b'))"

text \<open>The templates for arrays pass the array's length.\<close>

definition fmtIPv4_array :: "addr_lib \<Rightarrow> SocketAddr \<Rightarrow> string \<Rightarrow> int \<times> string option" where
  "fmtIPv4_array lib this buf = fmtIPv4 lib this (Some buf) (of_nat (length buf))"

definition fmtIPv6_array :: "addr_lib \<Rightarrow> SocketAddr \<Rightarrow> string \<Rightarrow> int \<times> string option" where
  "fmtIPv6_array lib this buf = fmtIPv6 lib this (Some buf) (of_nat (length buf))"

section \<open>What the class relies on\<close>

text \<open>The documented behaviour of \<open>socket_addr_copy\<close>: it copies.\<close>

definition copy_ok :: "addr_lib \<Rightarrow> bool" where
  "copy_ok lib \<longleftrightarrow> (\<forall>d s. socket_addr_copy lib d s = s)"

section \<open>Properties\<close>

lemma setAddr_str_success:
  "fst (setAddr_str lib sa af t) = SOCKET_ERROR_NONE \<longleftrightarrow> fst (inet_pton lib af t (addr_member sa)) = 1"
  by (simp add: setAddr_str_def split: prod.splits)

lemma fmtIPv4_success:
  "fst (fmtIPv4 lib sa buf n) = 0 \<longleftrightarrow>
     is_v4 lib sa \<and> (\<exists>b t. buf = Some b \<and>
       inet_ntop lib SOCKET_AF_INET4 (drop 3 (ipv6be (addr_member sa))) b n = (True, t))"
  by (auto simp: fmtIPv4_def split: option.splits prod.splits)

lemma fmtIPv6_success:
  "fst (fmtIPv6 lib sa buf n) = 0 \<longleftrightarrow>
     (\<exists>b t. buf = Some b \<and> inet_ntop lib SOCKET_AF_INET6 (ipv6be (addr_member sa)) b n = (True, t))"
  by (auto simp: fmtIPv6_def split: option.splits prod.splits)

end
