(* ===== verification/Socket_Class.thy ===== *)
theory Socket_Class
  imports Socket_Contract SocketAddr_Class
begin

text \<open>
  The class \<open>Socket\<close> (\<open>sockets/v0/Socket.h\<close>, \<open>source/v0/Socket.cpp\<close>): construction and
  destruction, the operations that forward to the network stack, the handler setters
  and the queries. \<open>this\<close> is the address of the object. Local variables that the code does
  not initialise are arguments of the definitions.
\<close>

section \<open>Construction and destruction\<close>

text \<open>
  \<open>mem\<close> is the memory of the object before construction: the constructor leaves
  \<open>_socket.family\<close>, \<open>_socket.event\<close> and the members of derived classes as they are.
\<close>

definition Socket_ctor :: "'w env \<Rightarrow> oid \<Rightarrow> socket_stack_t \<Rightarrow> Socket \<Rightarrow> Socket" where
  [op_defs]: "Socket_ctor env this stk mem = mem\<lparr>
     vptr := K_Socket,
     onDNS := None, onError := None, onReadable := None, onSent := None,
     event_ptr := None,
     sock := (sock mem)\<lparr>handler := Some this, impl := None, stack := stk,
                        api := socket_get_api env stk\<rparr>\<rparr>"

definition error_check :: "oid \<Rightarrow> socket_error_t \<Rightarrow> 'w world \<Rightarrow> (bool \<times> 'w world) option" where
  [op_defs]: "error_check this err w = do {
     ob \<leftarrow> objs w this;
     if err = SOCKET_ERROR_NONE then Some (False, w)
     else Some (True, postCallback (CB_onError (onError ob) this err) w) }"

text \<open>In the body of the destructor the object is a plain \<open>Socket\<close>.\<close>

definition Socket_dtor :: "'w env \<Rightarrow> oid \<Rightarrow> 'w world \<Rightarrow> 'w world option" where
  [op_defs]: "Socket_dtor env this w = do {
     ob \<leftarrow> objs w this;
     let w0 = put_obj this (ob\<lparr>vptr := K_Socket\<rparr>) w;
     case api (sock ob) of
       None \<Rightarrow> Some w0
     | Some p \<Rightarrow>
         (case api_destroy (vtable env p) of
            None \<Rightarrow> Some w0
          | Some destroy \<Rightarrow> do {
              (err, w1) \<leftarrow> api_call env this (\<lambda>_. destroy) w0;
              (_, w2) \<leftarrow> error_check this err w1;
              Some w2 }) }"

section \<open>Opening and binding\<close>

definition Socket_open ::
  "'w env \<Rightarrow> oid \<Rightarrow> socket_address_family_t \<Rightarrow> socket_proto_family_t \<Rightarrow> 'w world
     \<Rightarrow> (socket_error_t \<times> 'w world) option" where
  [op_defs]: "Socket_open env this af pf w = do {
     ob \<leftarrow> objs w this;
     if api (sock ob) = None then Some (SOCKET_ERROR_BAD_STACK, w)
     else api_call env this (\<lambda>t. api_create t af pf this) w }"

text \<open>
  The two-argument \<open>open\<close> is virtual, and \<open>TCPAsynch\<close> and \<open>UDPSocket\<close> override it; \<open>bind\<close>
  calls it, so the overriding versions and the dispatch are defined here.
\<close>

definition TCPAsynch_open_pf ::
  "oid \<Rightarrow> socket_address_family_t \<Rightarrow> socket_proto_family_t \<Rightarrow> 'w world
     \<Rightarrow> (socket_error_t \<times> 'w world) option" where
  [op_defs]: "TCPAsynch_open_pf this af pf w = Some (SOCKET_ERROR_UNIMPLEMENTED, w)"

definition UDPSocket_open_pf ::
  "oid \<Rightarrow> socket_address_family_t \<Rightarrow> socket_proto_family_t \<Rightarrow> 'w world
     \<Rightarrow> (socket_error_t \<times> 'w world) option" where
  [op_defs]: "UDPSocket_open_pf this af pf w = Some (SOCKET_ERROR_UNIMPLEMENTED, w)"

definition open_pf ::
  "'w env \<Rightarrow> oid \<Rightarrow> socket_address_family_t \<Rightarrow> socket_proto_family_t \<Rightarrow> 'w world
     \<Rightarrow> (socket_error_t \<times> 'w world) option" where
  [op_defs]: "open_pf env this af pf w = do {
     ob \<leftarrow> objs w this;
     case vptr ob of
       K_Socket \<Rightarrow> Socket_open env this af pf w
     | K_UDPSocket \<Rightarrow> UDPSocket_open_pf this af pf w
     | K_TCPAsynch \<Rightarrow> TCPAsynch_open_pf this af pf w
     | K_TCPStream \<Rightarrow> TCPAsynch_open_pf this af pf w
     | K_TCPListener \<Rightarrow> TCPAsynch_open_pf this af pf w }"

definition Socket_bind ::
  "'w env \<Rightarrow> oid \<Rightarrow> SocketAddr option \<Rightarrow> u16 \<Rightarrow> 'w world \<Rightarrow> (socket_error_t \<times> 'w world) option" where
  [op_defs]: "Socket_bind env this addr port w =
    (case addr of
       None \<Rightarrow> Some (SOCKET_ERROR_NULL_PTR, w)
     | Some sa \<Rightarrow> do {
         ob \<leftarrow> objs w this;
         if impl (sock ob) = None then do {
           (err, w1) \<leftarrow> open_pf env this SOCKET_AF_INET4 (family (sock ob)) w;
           if err \<noteq> SOCKET_ERROR_NONE then Some (err, w1)
           else api_call env this (\<lambda>t. api_bind t (getAddr sa) port) w1 }
         else api_call env this (\<lambda>t. api_bind t (getAddr sa) port) w })"

definition Socket_bind_str ::
  "'w env \<Rightarrow> SocketAddr \<Rightarrow> oid \<Rightarrow> string option \<Rightarrow> u16 \<Rightarrow> 'w world
     \<Rightarrow> (socket_error_t \<times> 'w world) option" where
  [op_defs]: "Socket_bind_str env tmp this addr port w = do {
     ob \<leftarrow> objs w this;
     if impl (sock ob) = None then Some (SOCKET_ERROR_NULL_PTR, w)
     else do {
       ((err, a), w1) \<leftarrow> api_call env this (\<lambda>t. api_str2addr t (getAddr tmp) addr) w;
       if err \<noteq> SOCKET_ERROR_NONE then Some (err, w1)
       else Socket_bind env this (Some (tmp\<lparr>addr_member := a\<rparr>)) port w1 } }"

section \<open>Setting the handlers\<close>

definition setOnError :: "oid \<Rightarrow> fp \<Rightarrow> 'w world \<Rightarrow> 'w world option" where
  [op_defs]: "setOnError this f w = do {
     w1 \<leftarrow> with_obj this (\<lambda>ob. ob\<lparr>onError := f\<rparr>) (disable_irq w);
     Some (enable_irq w1) }"

definition setOnReadable :: "oid \<Rightarrow> fp \<Rightarrow> 'w world \<Rightarrow> 'w world option" where
  [op_defs]: "setOnReadable this f w = do {
     w1 \<leftarrow> with_obj this (\<lambda>ob. ob\<lparr>onReadable := f\<rparr>) (disable_irq w);
     Some (enable_irq w1) }"

definition setOnSent :: "oid \<Rightarrow> fp \<Rightarrow> 'w world \<Rightarrow> 'w world option" where
  [op_defs]: "setOnSent this f w = do {
     w1 \<leftarrow> with_obj this (\<lambda>ob. ob\<lparr>onSent := f\<rparr>) (disable_irq w);
     Some (enable_irq w1) }"

section \<open>Operations that forward to the stack\<close>

definition Socket_resolve ::
  "'w env \<Rightarrow> oid \<Rightarrow> string option \<Rightarrow> fp \<Rightarrow> 'w world \<Rightarrow> (socket_error_t \<times> 'w world) option" where
  [op_defs]: "Socket_resolve env this address f w = do {
     ob \<leftarrow> objs w this;
     if impl (sock ob) = None then Some (SOCKET_ERROR_NULL_PTR, w)
     else if handler (sock ob) = None then Some (SOCKET_ERROR_CLOSED, w)
     else do {
       w1 \<leftarrow> with_obj this (\<lambda>ob. ob\<lparr>onDNS := f\<rparr>) w;
       api_call env this (\<lambda>t. api_resolve t address) w1 } }"

definition Socket_close :: "'w env \<Rightarrow> oid \<Rightarrow> 'w world \<Rightarrow> (socket_error_t \<times> 'w world) option" where
  [op_defs]: "Socket_close env this w = do {
     ob \<leftarrow> objs w this;
     if impl (sock ob) = None then Some (SOCKET_ERROR_NULL_PTR, w)
     else api_call env this api_close w }"

definition Socket_recv ::
  "'w env \<Rightarrow> oid \<Rightarrow> u8 list option \<Rightarrow> u32 option \<Rightarrow> 'w world
     \<Rightarrow> ((socket_error_t \<times> u8 list option \<times> u32 option) \<times> 'w world) option" where
  [op_defs]: "Socket_recv env this buf len w = do {
     ob \<leftarrow> objs w this;
     if impl (sock ob) = None then Some ((SOCKET_ERROR_NULL_PTR, buf, len), w)
     else api_call env this (\<lambda>t. api_recv t buf len) w }"

text \<open>\<open>addr0\<close> is the uninitialised local \<open>struct socket_addr addr\<close>.\<close>

definition Socket_recv_from ::
  "'w env \<Rightarrow> socket_addr \<Rightarrow> oid \<Rightarrow> u8 list option \<Rightarrow> u32 option \<Rightarrow> SocketAddr option \<Rightarrow> u16 option
     \<Rightarrow> 'w world
     \<Rightarrow> ((socket_error_t \<times> u8 list option \<times> u32 option \<times> SocketAddr option \<times> u16 option)
          \<times> 'w world) option" where
  [op_defs]: "Socket_recv_from env addr0 this buf len remote_addr remote_port w = do {
     ob \<leftarrow> objs w this;
     case remote_addr of
       None \<Rightarrow> Some ((SOCKET_ERROR_NULL_PTR, buf, len, remote_addr, remote_port), w)
     | Some ra \<Rightarrow>
         if impl (sock ob) = None
         then Some ((SOCKET_ERROR_NULL_PTR, buf, len, remote_addr, remote_port), w)
         else do {
           ((err, buf', len', addr, port'), w1) \<leftarrow>
             api_call env this (\<lambda>t. api_recv_from t buf len addr0 remote_port) w;
           Some ((err, buf', len', Some (setAddr_addr (addrs env) ra addr), port'), w1) } }"

definition Socket_send ::
  "'w env \<Rightarrow> oid \<Rightarrow> u8 list option \<Rightarrow> u32 \<Rightarrow> 'w world \<Rightarrow> (socket_error_t \<times> 'w world) option" where
  [op_defs]: "Socket_send env this buf len w = do {
     ob \<leftarrow> objs w this;
     if impl (sock ob) = None then Some (SOCKET_ERROR_NULL_PTR, w)
     else api_call env this (\<lambda>t. api_send t buf len) w }"

definition Socket_send_to ::
  "'w env \<Rightarrow> oid \<Rightarrow> u8 list option \<Rightarrow> u32 \<Rightarrow> SocketAddr option \<Rightarrow> u16 \<Rightarrow> 'w world
     \<Rightarrow> (socket_error_t \<times> 'w world) option" where
  [op_defs]: "Socket_send_to env this buf len remote_addr remote_port w = do {
     ob \<leftarrow> objs w this;
     case remote_addr of
       None \<Rightarrow> Some (SOCKET_ERROR_NULL_PTR, w)
     | Some ra \<Rightarrow>
         if impl (sock ob) = None then Some (SOCKET_ERROR_NULL_PTR, w)
         else api_call env this (\<lambda>t. api_send_to t buf len (getAddr ra) remote_port) w }"

section \<open>Queries\<close>

text \<open>
  The const member functions read the object and the stack; they return their result
  and the memory behind the pointer argument.
\<close>

definition isConnected :: "'w env \<Rightarrow> oid \<Rightarrow> 'w world \<Rightarrow> bool option" where
  [op_defs]: "isConnected env this w = do {
     ob \<leftarrow> objs w this;
     if impl (sock ob) = None then Some False
     else do {
       p \<leftarrow> api (sock ob);
       Some (api_is_connected (vtable env p) (network w) (sock ob)) } }"

definition getLocalAddr ::
  "'w env \<Rightarrow> oid \<Rightarrow> SocketAddr option \<Rightarrow> 'w world \<Rightarrow> (socket_error_t \<times> SocketAddr option) option" where
  [op_defs]: "getLocalAddr env this addr w = do {
     ob \<leftarrow> objs w this;
     case addr of
       None \<Rightarrow> Some (SOCKET_ERROR_NULL_PTR, addr)
     | Some sa \<Rightarrow>
         if impl (sock ob) = None then Some (SOCKET_ERROR_NULL_PTR, addr)
         else do {
           p \<leftarrow> api (sock ob);
           let (err, a) = api_get_local_addr (vtable env p) (getAddr sa) (network w) (sock ob);
           Some (err, Some (sa\<lparr>addr_member := a\<rparr>)) } }"

definition getLocalPort ::
  "'w env \<Rightarrow> oid \<Rightarrow> u16 option \<Rightarrow> 'w world \<Rightarrow> (socket_error_t \<times> u16 option) option" where
  [op_defs]: "getLocalPort env this port w = do {
     ob \<leftarrow> objs w this;
     if impl (sock ob) = None then Some (SOCKET_ERROR_NULL_PTR, port)
     else do {
       p \<leftarrow> api (sock ob);
       Some (api_get_local_port (vtable env p) port (network w) (sock ob)) } }"

definition getRemoteAddr ::
  "'w env \<Rightarrow> oid \<Rightarrow> SocketAddr option \<Rightarrow> 'w world \<Rightarrow> (socket_error_t \<times> SocketAddr option) option" where
  [op_defs]: "getRemoteAddr env this addr w = do {
     ob \<leftarrow> objs w this;
     case addr of
       None \<Rightarrow> Some (SOCKET_ERROR_NULL_PTR, addr)
     | Some sa \<Rightarrow>
         if impl (sock ob) = None then Some (SOCKET_ERROR_NULL_PTR, addr)
         else do {
           p \<leftarrow> api (sock ob);
           let (err, a) = api_get_remote_addr (vtable env p) (getAddr sa) (network w) (sock ob);
           Some (err, Some (sa\<lparr>addr_member := a\<rparr>)) } }"

definition getRemotePort ::
  "'w env \<Rightarrow> oid \<Rightarrow> u16 option \<Rightarrow> 'w world \<Rightarrow> (socket_error_t \<times> u16 option) option" where
  [op_defs]: "getRemotePort env this port w = do {
     ob \<leftarrow> objs w this;
     if impl (sock ob) = None then Some (SOCKET_ERROR_NULL_PTR, port)
     else do {
       p \<leftarrow> api (sock ob);
       Some (api_get_remote_port (vtable env p) port (network w) (sock ob)) } }"

section \<open>The operations keep the contract\<close>

text \<open>
  The two shapes of the operations: check that the socket is open (or that it has a stack),
  then call the stack. In a well-formed state both return.
\<close>

lemma if_open_frame:
  assumes "Option.bind (objs w a) (\<lambda>ob. if impl (sock ob) = None then Some (e, w) else api_call env a f w)
      = Some (r, w')"
    and "callable env a f"
  shows "op_frame a w w'"
  using assms by (auto split: if_splits intro: api_call_frame)

lemma if_open_returns:
  assumes "wf_world env w" and "a \<in> dom (objs w)" and "callable env a f"
  shows "\<exists>r w'. Option.bind (objs w a)
      (\<lambda>ob. if impl (sock ob) = None then Some (e, w) else api_call env a f w) = Some (r, w')"
proof -
  from assms(2) obtain ob where ob: "objs w a = Some ob" by blast
  show ?thesis
  proof (cases "impl (sock ob) = None")
    case False
    then have "api (sock ob) \<noteq> None" using wf_opened_api [OF assms(1) ob] by simp
    with wf_api_call [OF assms(1) ob _ assms(3)] ob False show ?thesis by simp
  qed (simp add: ob)
qed

lemma if_stack_returns:
  assumes "wf_world env w" and "a \<in> dom (objs w)" and "callable env a f"
  shows "\<exists>r w'. Option.bind (objs w a)
      (\<lambda>ob. if api (sock ob) = None then Some (e, w) else api_call env a f w) = Some (r, w')"
proof -
  from assms(2) obtain ob where ob: "objs w a = Some ob" by blast
  show ?thesis
    using wf_api_call [OF assms(1) ob _ assms(3)] ob by (cases "api (sock ob) = None") simp_all
qed

interpretation open_op: safe_op "\<lambda>env a. Socket_open env a af pf" for af pf
proof
  fix env :: "'w env" and a w r w'
  assume "sal_ok env"
  then show "Socket_open env a af pf w = Some (r, w') \<Longrightarrow> op_frame a w w'"
    by (auto simp: Socket_open_def split: if_splits intro: api_frames)
  show "wf_world env w \<Longrightarrow> a \<in> dom (objs w) \<Longrightarrow> \<exists>r w'. Socket_open env a af pf w = Some (r, w')"
    unfolding Socket_open_def using \<open>sal_ok env\<close> by (intro if_stack_returns) simp_all
qed

interpretation close_op: safe_op Socket_close
proof
  fix env :: "'w env" and a w r w'
  assume "sal_ok env"
  then show "Socket_close env a w = Some (r, w') \<Longrightarrow> op_frame a w w'"
    unfolding Socket_close_def by (elim if_open_frame) simp
  show "wf_world env w \<Longrightarrow> a \<in> dom (objs w) \<Longrightarrow> \<exists>r w'. Socket_close env a w = Some (r, w')"
    unfolding Socket_close_def using \<open>sal_ok env\<close> by (intro if_open_returns) simp_all
qed

interpretation recv_op: safe_op "\<lambda>env a. Socket_recv env a buf len" for buf len
proof
  fix env :: "'w env" and a w r w'
  assume "sal_ok env"
  then show "Socket_recv env a buf len w = Some (r, w') \<Longrightarrow> op_frame a w w'"
    unfolding Socket_recv_def by (elim if_open_frame) simp
  show "wf_world env w \<Longrightarrow> a \<in> dom (objs w) \<Longrightarrow> \<exists>r w'. Socket_recv env a buf len w = Some (r, w')"
    unfolding Socket_recv_def using \<open>sal_ok env\<close> by (intro if_open_returns) simp_all
qed

interpretation send_op: safe_op "\<lambda>env a. Socket_send env a buf len" for buf len
proof
  fix env :: "'w env" and a w r w'
  assume "sal_ok env"
  then show "Socket_send env a buf len w = Some (r, w') \<Longrightarrow> op_frame a w w'"
    unfolding Socket_send_def by (elim if_open_frame) simp
  show "wf_world env w \<Longrightarrow> a \<in> dom (objs w) \<Longrightarrow> \<exists>r w'. Socket_send env a buf len w = Some (r, w')"
    unfolding Socket_send_def using \<open>sal_ok env\<close> by (intro if_open_returns) simp_all
qed

interpretation send_to_op: safe_op "\<lambda>env a. Socket_send_to env a buf len ra rp" for buf len ra rp
proof
  fix env :: "'w env" and a w r w'
  assume ok: "sal_ok env"
  then show "Socket_send_to env a buf len ra rp w = Some (r, w') \<Longrightarrow> op_frame a w w'"
    by (cases ra) (auto simp: Socket_send_to_def split: if_splits intro: api_frames)
  show "wf_world env w \<Longrightarrow> a \<in> dom (objs w) \<Longrightarrow> \<exists>r w'. Socket_send_to env a buf len ra rp w = Some (r, w')"
  proof (cases ra)
    case (Some sa)
    assume "wf_world env w" "a \<in> dom (objs w)"
    then show ?thesis
      unfolding Socket_send_to_def Some option.case using ok by (intro if_open_returns) simp_all
  qed (auto simp: Socket_send_to_def)
qed

interpretation recv_from_op: safe_op "\<lambda>env a. Socket_recv_from env a0 a buf len ra rp" for a0 buf len ra rp
proof
  fix env :: "'w env" and a w r w'
  assume ok: "sal_ok env"
  then show "Socket_recv_from env a0 a buf len ra rp w = Some (r, w') \<Longrightarrow> op_frame a w w'"
    by (cases ra) (auto simp: Socket_recv_from_def split: if_splits intro: api_frames)
  assume wf: "wf_world env w" and "a \<in> dom (objs w)"
  then obtain ob where ob: "objs w a = Some ob" by blast
  show "\<exists>r w'. Socket_recv_from env a0 a buf len ra rp w = Some (r, w')"
  proof (cases "ra = None \<or> impl (sock ob) = None")
    case False
    then have "\<exists>r w'. api_call env a (\<lambda>t. api_recv_from t buf len a0 rp) w = Some (r, w')"
      using ok wf_opened_api [OF wf ob] by (intro wf_api_call [OF wf ob]) simp_all
    with False ob show ?thesis by (auto simp: Socket_recv_from_def)
  qed (auto simp: Socket_recv_from_def ob split: option.splits)
qed

lemma open_pf_wf:
  assumes "wf_world env w" and "objs w a = Some ob"
  shows "open_pf env a af pf w = Some (SOCKET_ERROR_UNIMPLEMENTED, w)"
  using wf_worldD(2) [OF assms] assms(2)
  by (auto simp: open_pf_def obj_ok_def UDPSocket_open_pf_def TCPAsynch_open_pf_def)

lemma open_pf_frame:
  "sal_ok env \<Longrightarrow> open_pf env a af pf w = Some (r, w') \<Longrightarrow> op_frame a w w'"
  by (auto simp: open_pf_def UDPSocket_open_pf_def TCPAsynch_open_pf_def split: klass.splits
      dest: open_op.frame)

interpretation bind_op: safe_op "\<lambda>env a. Socket_bind env a addr port" for addr port
proof
  fix env :: "'w env" and a w r w'
  assume ok: "sal_ok env"
  then show "Socket_bind env a addr port w = Some (r, w') \<Longrightarrow> op_frame a w w'"
    by (cases addr; auto simp: Socket_bind_def split: if_splits
        dest!: api_frames open_pf_frame [rotated]; blast intro: op_frame_trans)
  assume wf: "wf_world env w" and "a \<in> dom (objs w)"
  then obtain ob where ob: "objs w a = Some ob" by blast
  show "\<exists>r w'. Socket_bind env a addr port w = Some (r, w')"
  proof (cases addr)
    case (Some sa)
    have "impl (sock ob) \<noteq> None \<Longrightarrow> \<exists>r w'. api_call env a (\<lambda>t. api_bind t (getAddr sa) port) w = Some (r, w')"
      using ok wf_opened_api [OF wf ob] by (intro wf_api_call [OF wf ob]) simp_all
    then show ?thesis
      using Some ob open_pf_wf [OF wf ob] by (auto simp: Socket_bind_def)
  qed (simp add: Socket_bind_def)
qed

interpretation bind_str_op: safe_op "\<lambda>env a. Socket_bind_str env tmp a addr port" for tmp addr port
proof
  fix env :: "'w env" and a w r w'
  assume ok: "sal_ok env"
  then show "Socket_bind_str env tmp a addr port w = Some (r, w') \<Longrightarrow> op_frame a w w'"
    by (auto simp: Socket_bind_str_def split: if_splits
        dest!: api_frames bind_op.frame [rotated]; blast intro: op_frame_trans)
  assume wf: "wf_world env w" and dom: "a \<in> dom (objs w)"
  then obtain ob where ob: "objs w a = Some ob" by blast
  show "\<exists>r w'. Socket_bind_str env tmp a addr port w = Some (r, w')"
  proof (cases "impl (sock ob) = None")
    case False
    then obtain err b w1 where 1: "api_call env a (\<lambda>t. api_str2addr t (getAddr tmp) addr) w = Some ((err, b), w1)"
      using ok wf_opened_api [OF wf ob] wf_api_call [OF wf ob, of "\<lambda>t. api_str2addr t (getAddr tmp) addr"]
      by auto
    have fr: "op_frame a w w1" using api_call_frame [OF 1] ok by simp
    show ?thesis
      using bind_op.returns [OF ok op_frame_wf [OF fr wf]] op_frame_dom [OF fr] dom 1 ob False
      by (auto simp: Socket_bind_str_def)
  qed (simp add: Socket_bind_str_def ob)
qed

interpretation resolve_op: safe_op "\<lambda>env a. Socket_resolve env a name f" for name f
proof
  fix env :: "'w env" and a w r w'
  assume ok: "sal_ok env"
  then show "Socket_resolve env a name f w = Some (r, w') \<Longrightarrow> op_frame a w w'"
    by (auto simp: Socket_resolve_def simp del: with_obj_Some split: if_splits
        dest!: api_frames set_handler_frame; blast intro: op_frame_trans)
  assume wf: "wf_world env w" and "a \<in> dom (objs w)"
  then obtain ob where ob: "objs w a = Some ob" by blast
  let ?w = "put_obj a (ob\<lparr>onDNS := f\<rparr>) w"
  have "wf_world env ?w" using set_handler_frame(1) [of a f w ?w] ob wf by (auto intro: op_frame_wf)
  then have "impl (sock ob) \<noteq> None \<Longrightarrow> \<exists>r w'. api_call env a (\<lambda>t. api_resolve t name) ?w = Some (r, w')"
    using ok wf_opened_api [OF wf ob] by (intro wf_api_call [of _ _ _ "ob\<lparr>onDNS := f\<rparr>"]) simp_all
  then show "\<exists>r w'. Socket_resolve env a name f w = Some (r, w')"
    using ob by (auto simp: Socket_resolve_def)
qed

text \<open>The setters, as operations that return nothing.\<close>

abbreviation no_result :: "'w world option \<Rightarrow> (unit \<times> 'w world) option" where
  "no_result \<equiv> map_option (Pair ())"

lemma irq_simps [simp]:
  "objs (disable_irq w) = objs w" "objs (enable_irq w) = objs w"
  "irq_enabled (enable_irq w)" "minar (enable_irq w) = minar w" "minar (disable_irq w) = minar w"
  "TCPSockets (enable_irq w) = TCPSockets w" "TCPSockets (disable_irq w) = TCPSockets w"
  "tick_handle (enable_irq w) = tick_handle w" "tick_handle (disable_irq w) = tick_handle w"
  "network (enable_irq w) = network w" "network (disable_irq w) = network w"
  by (simp_all add: disable_irq_def enable_irq_def)

lemma setter_frame:
  assumes "no_result (do { w1 \<leftarrow> with_obj a g (disable_irq w); Some (enable_irq w1) }) = Some (r, w')"
    and "\<And>ob. op_obj a ob (g ob)"
  shows "op_frame a w w'"
  using assms by (auto simp: with_obj_eq_Some op_frame_def live_posts_def)

lemma setter_returns:
  "a \<in> dom (objs w) \<Longrightarrow>
   \<exists>r w'. no_result (do { w1 \<leftarrow> with_obj a g (disable_irq w); Some (enable_irq w1) }) = Some (r, w')"
  by auto

interpretation setOnError_op: safe_op "\<lambda>env a w. no_result (setOnError a f w)" for f
  by (unfold_locales; unfold setOnError_def) (erule setter_frame, simp, erule setter_returns)

interpretation setOnReadable_op: safe_op "\<lambda>env a w. no_result (setOnReadable a f w)" for f
  by (unfold_locales; unfold setOnReadable_def) (erule setter_frame, simp, erule setter_returns)

interpretation setOnSent_op: safe_op "\<lambda>env a w. no_result (setOnSent a f w)" for f
  by (unfold_locales; unfold setOnSent_def) (erule setter_frame, simp, erule setter_returns)

section \<open>Destruction\<close>

text \<open>
  What the destructor of the \<open>Socket\<close> part may do: anything to the dying object, event
  fields of the others, and post callbacks. No assumption on the stack is needed.
\<close>

definition dtor_frame :: "oid \<Rightarrow> 'w world \<Rightarrow> 'w world \<Rightarrow> bool" where
  "dtor_frame a w w' \<longleftrightarrow>
     TCPSockets w' = TCPSockets w \<and> tick_handle w' = tick_handle w \<and>
     periodic_pending (minar w') = periodic_pending (minar w) \<and>
     dom (objs w') = dom (objs w) \<and> (irq_enabled w \<longrightarrow> irq_enabled w') \<and>
     (\<forall>b. b \<noteq> a \<longrightarrow> map_option quiet (objs w' b) = map_option quiet (objs w b))"

lemma dtor_frame_refl [simp]: "dtor_frame a w w"
  by (simp add: dtor_frame_def)

lemma dtor_frame_trans: "dtor_frame a w1 w2 \<Longrightarrow> dtor_frame a w2 w3 \<Longrightarrow> dtor_frame a w1 w3"
  by (simp add: dtor_frame_def)

lemma op_frame_dtor:
  assumes "op_frame a w w'"
  shows "dtor_frame a w w'"
  using assms unfolding dtor_frame_def op_frame_dom [OF assms]
  by (simp add: op_frame_def live_posts_periodic)

lemma event_frame_dtor: "event_frame w w' \<Longrightarrow> dtor_frame a w w'"
  by (rule op_frame_dtor [OF event_frame_op_frame])

lemma put_obj_dtor: "objs w a \<noteq> None \<Longrightarrow> dtor_frame a w (put_obj a ob w)"
  by (auto simp: dtor_frame_def)

lemma api_call_dtor:
  assumes "api_call env a f w = Some (r, w')"
  shows "dtor_frame a w w'"
proof -
  from assms obtain ob s' rs x where ob: "objs w a = Some ob"
    and rs: "raise_events rs (put_obj a (ob\<lparr>sock := s'\<rparr>) (w\<lparr>network := x\<rparr>)) = Some w'"
    by (auto simp: api_call_def api_invoke_eq_Some)
  have "dtor_frame a w (put_obj a (ob\<lparr>sock := s'\<rparr>) (w\<lparr>network := x\<rparr>))"
    using ob by (auto simp: dtor_frame_def)
  with event_frame_dtor [OF raise_events_frame [OF rs]] show ?thesis
    by (rule dtor_frame_trans [rotated])
qed

lemma error_check_dtor: "error_check b err w = Some (r, w') \<Longrightarrow> dtor_frame a w w'"
  by (auto simp: error_check_def dtor_frame_def split: if_splits)

lemma Socket_dtor_frame:
  assumes "Socket_dtor env a w = Some w'"
  shows "dtor_frame a w w'"
proof -
  from assms obtain ob where ob: "objs w a = Some ob"
    by (auto simp: Socket_dtor_def)
  let ?w0 = "put_obj a (ob\<lparr>vptr := K_Socket\<rparr>) w"
  have w0: "dtor_frame a w ?w0" using ob by (simp add: put_obj_dtor)
  from assms ob consider "w' = ?w0" |
    f err w1 b where "api_call env a f ?w0 = Some (err, w1)" "error_check a err w1 = Some (b, w')"
    by (auto simp: Socket_dtor_def Let_def split: option.splits)
  then show ?thesis
    using w0 by cases (auto dest: api_call_dtor error_check_dtor intro: dtor_frame_trans)
qed

lemma error_check_returns: "a \<in> dom (objs w) \<Longrightarrow> \<exists>r w'. error_check a err w = Some (r, w')"
  by (auto simp: error_check_def)

lemma Socket_dtor_returns:
  assumes "sal_ok env" and "objs w a = Some ob" and "handler (sock ob) \<in> {None, Some a}"
  shows "\<exists>w'. Socket_dtor env a w = Some w'"
proof -
  let ?w0 = "put_obj a (ob\<lparr>vptr := K_Socket\<rparr>) w"
  have "\<exists>w'. do { (err, w1) \<leftarrow> api_call env a (\<lambda>_. f) ?w0;
                  (_, w2) \<leftarrow> error_check a err w1; Some w2 } = Some w'"
    if p: "api (sock ob) = Some p" and d: "api_destroy (vtable env p) = Some f" for p f
  proof -
    have "api_ok (vtable env p)" using assms(1) by simp
    with d have "keeps {} f" by (simp add: api_ok_def)
    then have "callable env a (\<lambda>_. f)" by (simp add: callable_def keeps_any)
    then obtain err w1 where 1: "api_call env a (\<lambda>_. f) ?w0 = Some (err, w1)"
      using api_call_returns [of ?w0 a "ob\<lparr>vptr := K_Socket\<rparr>" p env "\<lambda>_. f"] p assms(3) by auto
    then have "a \<in> dom (objs w1)"
      using api_call_dtor [OF 1] by (simp add: dtor_frame_def)
    then obtain r w2 where "error_check a err w1 = Some (r, w2)"
      using error_check_returns by blast
    with 1 show ?thesis by simp
  qed
  then show ?thesis
    using assms(2) by (auto simp: Socket_dtor_def Let_def split: option.splits)
qed

section \<open>The life cycle of an object\<close>

text \<open>The scheduler returns a handle for a callback it has queued.\<close>

definition minar_ok :: "'w env \<Rightarrow> bool" where
  "minar_ok env \<longleftrightarrow> (\<forall>cs. getHandle env cs \<noteq> None)"

text \<open>
  The contract of the constructor and the destructor of a class that can be instantiated:
  both keep the state well-formed, the one adds exactly the new object, the other removes
  exactly the dying one, and the periodic task lives as long as there are TCP sockets.
\<close>

locale socket_class =
  fixes ctor :: "'w env \<Rightarrow> oid \<Rightarrow> socket_stack_t \<Rightarrow> Socket \<Rightarrow> 'w world \<Rightarrow> 'w world option"
    and dtor :: "'w env \<Rightarrow> oid \<Rightarrow> 'w world \<Rightarrow> 'w world option"
    and K :: klass
  assumes ctor_law: "minar_ok env \<Longrightarrow> wf_world env w \<Longrightarrow> a \<noteq> 0 \<Longrightarrow> objs w a = None \<Longrightarrow>
      \<exists>w' ob. ctor env a stk mem w = Some w' \<and> wf_world env w' \<and> objs w' = (objs w)(a \<mapsto> ob) \<and>
        vptr ob = K \<and> (live_TCP w \<noteq> 0 \<longrightarrow> tick_handle w' = tick_handle w)"
    and dtor_law: "sal_ok env \<Longrightarrow> wf_world env w \<Longrightarrow> objs w a = Some ob \<Longrightarrow> vptr ob = K \<Longrightarrow>
      \<exists>w'. dtor env a w = Some w' \<and> wf_world env w' \<and>
        (\<forall>b. map_option quiet (objs w' b) = (if b = a then None else map_option quiet (objs w b))) \<and>
        tick_handle w' = (if live_TCP w' = 0 then None else tick_handle w)"
begin

lemma ctor_live:
  assumes "minar_ok env" "wf_world env w" "a \<noteq> 0" "objs w a = None" "ctor env a stk mem w = Some w'"
  shows "live_TCP w' = live_TCP w + (if is_TCPAsynch K then 1 else 0)"
proof -
  from ctor_law [OF assms(1-4), of stk mem] assms(5) obtain ob
    where "objs w' = (objs w)(a \<mapsto> ob)" "vptr ob = K" by auto
  then show ?thesis
    using count_where_fresh [of "objs w" a "\<lambda>ob. is_TCPAsynch (vptr ob)" ob] assms(4)
    by (simp add: live_TCP_def)
qed

end

text \<open>Two maps that agree up to event fields have the same number of TCP sockets.\<close>

lemma count_quiet:
  assumes "\<And>b. map_option quiet (m' b) = map_option quiet (m b)"
  shows "count_where (\<lambda>ob. is_TCPAsynch (vptr ob)) m' = count_where (\<lambda>ob. is_TCPAsynch (vptr ob)) m"
proof -
  have "(\<exists>ob. m' b = Some ob \<and> is_TCPAsynch (vptr ob)) = (\<exists>ob. m b = Some ob \<and> is_TCPAsynch (vptr ob))" for b
    using assms [of b] by (cases "m' b"; cases "m b") (auto dest: quiet_eq_fields(1))
  then show ?thesis by (simp add: count_where_def)
qed

lemma obj_ok_quiet:
  assumes "quiet ob' = quiet ob" and "obj_ok env a ob"
  shows "obj_ok env a ob'"
  using obj_ok_op_obj [OF assms(2) quiet_op_obj [OF assms(1)]] .

context socket_class
begin

lemma dtor_live:
  assumes "sal_ok env" "wf_world env w" "objs w a = Some ob" "vptr ob = K" "dtor env a w = Some w'"
  shows "live_TCP w = live_TCP w' + (if is_TCPAsynch K then 1 else 0)"
proof -
  from dtor_law [OF assms(1-4)] assms(5)
  have "map_option quiet (objs w' b) = map_option quiet (((objs w)(a := None)) b)" for b by auto
  then have "live_TCP w' = count_where (\<lambda>ob. is_TCPAsynch (vptr ob)) ((objs w)(a := None))"
    unfolding live_TCP_def by (rule count_quiet)
  then show ?thesis
    using count_where_delete [of "objs w" a ob "\<lambda>ob. is_TCPAsynch (vptr ob)"] assms(3,4)
    by (simp add: live_TCP_def)
qed

lemma ctor_dtor:
  assumes env: "sal_ok env" "minar_ok env" and wf: "wf_world env w" and a: "a \<noteq> 0" "objs w a = None"
  shows "\<exists>w1 w2. ctor env a stk mem w = Some w1 \<and> dtor env a w1 = Some w2 \<and> wf_world env w2 \<and>
    TCPSockets w2 = TCPSockets w \<and> tick_handle w2 = tick_handle w \<and>
    (\<forall>b. map_option quiet (objs w2 b) = map_option quiet (objs w b))"
proof -
  obtain w1 ob where 1: "ctor env a stk mem w = Some w1" "wf_world env w1" "objs w1 = (objs w)(a \<mapsto> ob)"
    "vptr ob = K" "live_TCP w \<noteq> 0 \<longrightarrow> tick_handle w1 = tick_handle w"
    using ctor_law [OF env(2) wf a] by blast
  then have ob: "objs w1 a = Some ob" by simp
  obtain w2 where 2: "dtor env a w1 = Some w2" "wf_world env w2"
    "\<forall>b. map_option quiet (objs w2 b) = (if b = a then None else map_option quiet (objs w1 b))"
    "tick_handle w2 = (if live_TCP w2 = 0 then None else tick_handle w1)"
    using dtor_law [OF env(1) 1(2) ob 1(4)] by blast
  have live: "live_TCP w2 = live_TCP w"
    using ctor_live [OF env(2) wf a 1(1)] dtor_live [OF env(1) 1(2) ob 1(4) 2(1)] by simp
  then have "TCPSockets w2 = TCPSockets w"
    using wf_worldD(3) [OF wf] wf_worldD(3) [OF 2(2)] by simp
  moreover have "tick_handle w2 = tick_handle w"
    using 1(5) 2(4) live wf_worldD(4) [OF wf] by (auto simp: tick_ok_def)
  moreover have "map_option quiet (objs w2 b) = map_option quiet (objs w b)" for b
    using 1(3) 2(3) a(2) by simp
  ultimately show ?thesis using 1(1) 2(1,2) by blast
qed

end

text \<open>What is left to show for a destructor, once the objects are known.\<close>

lemma wf_remove:
  assumes "wf_world env w"
    and "\<And>b. map_option quiet (objs w' b) = (if b = a then None else map_option quiet (objs w b))"
    and "TCPSockets w' = of_nat (live_TCP w')" and "tick_ok w'" and "irq_enabled w'"
  shows "wf_world env w'"
proof -
  have "obj_ok env b ob'" if "objs w' b = Some ob'" for b ob'
  proof -
    have "map_option quiet (objs w b) = Some (quiet ob')"
      using assms(2) [of b] that by (simp split: if_splits)
    then obtain ob where "objs w b = Some ob" "quiet ob' = quiet ob" by auto
    then show ?thesis using wf_worldD(2) [OF assms(1)] obj_ok_quiet by blast
  qed
  moreover have "objs w' 0 = None"
    using assms(2) [of 0] wf_worldD(1) [OF assms(1)] by (simp split: if_splits)
  ultimately show ?thesis using assms(3-5) by (simp add: wf_world_def)
qed

lemma live_remove:
  assumes "objs w a = Some ob"
    and "\<And>b. map_option quiet (objs w' b) = (if b = a then None else map_option quiet (objs w b))"
  shows "live_TCP w = live_TCP w' + (if is_TCPAsynch (vptr ob) then 1 else 0)"
proof -
  have "live_TCP w' = count_where (\<lambda>ob. is_TCPAsynch (vptr ob)) ((objs w)(a := None))"
    unfolding live_TCP_def using assms(2) by (intro count_quiet) simp
  then show ?thesis
    using count_where_delete [of "objs w" a ob "\<lambda>ob. is_TCPAsynch (vptr ob)"] assms(1)
    by (simp add: live_TCP_def)
qed

lemma del_obj_quiet:
  "dtor_frame a w w1 \<Longrightarrow>
   map_option quiet (objs (del_obj a w1) b) = (if b = a then None else map_option quiet (objs w b))"
  by (simp add: dtor_frame_def)

end
