(* ===== verification/UDPSocket_Class.thy ===== *)
theory UDPSocket_Class
  imports Socket_Class
begin

text \<open>
  The class \<open>UDPSocket\<close> (\<open>sockets/v0/UDPSocket.h\<close>, \<open>source/v0/UDPSocket.cpp\<close>). Its
  two-argument \<open>open\<close> is \<open>UDPSocket_open_pf\<close> of \<open>Socket_Class\<close>.
\<close>

definition UDPSocket_ctor :: "'w env \<Rightarrow> oid \<Rightarrow> socket_stack_t \<Rightarrow> Socket \<Rightarrow> 'w world \<Rightarrow> 'w world" where
  [op_defs]: "UDPSocket_ctor env this stk mem w =
    (let ob = Socket_ctor env this stk mem
     in put_obj this (ob\<lparr>vptr := K_UDPSocket, sock := (sock ob)\<lparr>family := SOCKET_DGRAM\<rparr>\<rparr>) w)"

text \<open>The destructor has an empty body: it runs the destructor of \<open>Socket\<close> and frees the object.\<close>

definition UDPSocket_dtor :: "'w env \<Rightarrow> oid \<Rightarrow> 'w world \<Rightarrow> 'w world option" where
  [op_defs]: "UDPSocket_dtor env this w = do {
     w1 \<leftarrow> Socket_dtor env this w;
     Some (del_obj this w1) }"

definition UDPSocket_open ::
  "'w env \<Rightarrow> oid \<Rightarrow> socket_address_family_t \<Rightarrow> 'w world \<Rightarrow> (socket_error_t \<times> 'w world) option" where
  [op_defs]: "UDPSocket_open env this af w = Socket_open env this af SOCKET_DGRAM w"

text \<open>
  \<open>connect\<close> takes the address of a member of \<open>*address\<close> without a null check, after the
  check of the stack.
\<close>

definition UDPSocket_connect ::
  "'w env \<Rightarrow> oid \<Rightarrow> SocketAddr option \<Rightarrow> u16 \<Rightarrow> 'w world \<Rightarrow> (socket_error_t \<times> 'w world) option" where
  [op_defs]: "UDPSocket_connect env this address port w = do {
     ob \<leftarrow> objs w this;
     if api (sock ob) = None then Some (SOCKET_ERROR_BAD_STACK, w)
     else do {
       sa \<leftarrow> address;
       api_call env this (\<lambda>t. api_connect t (getAddr sa) port) w } }"

section \<open>The contracts\<close>

interpretation udp_open_op: safe_op "\<lambda>env a. UDPSocket_open env a af" for af
  unfolding UDPSocket_open_def by unfold_locales

interpretation udp_connect_op: safe_op "\<lambda>env a. UDPSocket_connect env a (Some sa) port" for sa port
proof
  fix env :: "'w env" and a w r w'
  assume "sal_ok env"
  then show "UDPSocket_connect env a (Some sa) port w = Some (r, w') \<Longrightarrow> op_frame a w w'"
    by (auto simp: UDPSocket_connect_def split: if_splits dest: api_frames)
  show "wf_world env w \<Longrightarrow> a \<in> dom (objs w) \<Longrightarrow> \<exists>r w'. UDPSocket_connect env a (Some sa) port w = Some (r, w')"
    unfolding UDPSocket_connect_def Option.bind.simps using \<open>sal_ok env\<close> by (intro if_stack_returns) simp_all
qed

lemma UDPSocket_ctor_ok:
  "obj_ok env a ((Socket_ctor env a stk mem)\<lparr>vptr := K_UDPSocket,
     sock := (sock (Socket_ctor env a stk mem))\<lparr>family := SOCKET_DGRAM\<rparr>\<rparr>)"
  by (simp add: obj_ok_def Socket_ctor_def)

interpretation udp_class: socket_class "\<lambda>env a stk mem w. Some (UDPSocket_ctor env a stk mem w)" UDPSocket_dtor K_UDPSocket
proof
  fix env :: "'w env" and w a stk mem
  assume wf: "wf_world env w" and a: "a \<noteq> 0" "objs w a = None"
  let ?ob = "(Socket_ctor env a stk mem)\<lparr>vptr := K_UDPSocket,
     sock := (sock (Socket_ctor env a stk mem))\<lparr>family := SOCKET_DGRAM\<rparr>\<rparr>"
  let ?w = "put_obj a ?ob w"
  have live: "live_TCP ?w = live_TCP w"
    using count_where_fresh [of "objs w" a "\<lambda>ob. is_TCPAsynch (vptr ob)" ?ob] a by (simp add: live_TCP_def)
  have "wf_world env ?w"
    using wf a(1) live UDPSocket_ctor_ok by (auto simp: wf_world_def tick_ok_def)
  then show "\<exists>w' ob. Some (UDPSocket_ctor env a stk mem w) = Some w' \<and> wf_world env w' \<and>
      objs w' = (objs w)(a \<mapsto> ob) \<and> vptr ob = K_UDPSocket \<and> (live_TCP w \<noteq> 0 \<longrightarrow> tick_handle w' = tick_handle w)"
    by (auto simp: UDPSocket_ctor_def Let_def)
next
  fix env :: "'w env" and w a ob
  assume ok: "sal_ok env" and wf: "wf_world env w" and ob: "objs w a = Some ob" "vptr ob = K_UDPSocket"
  have "handler (sock ob) \<in> {None, Some a}"
    using wf_worldD(2) [OF wf ob(1)] by (simp add: obj_ok_def)
  then obtain w1 where w1: "Socket_dtor env a w = Some w1"
    using Socket_dtor_returns [OF ok ob(1)] by blast
  let ?w = "del_obj a w1"
  note fr = Socket_dtor_frame [OF w1]
  note q = del_obj_quiet [OF fr]
  have live: "live_TCP ?w = live_TCP w" using live_remove [OF ob(1) q] ob(2) by simp
  have tick: "tick_ok ?w" "TCPSockets ?w = of_nat (live_TCP ?w)"
    using wf_worldD(3,4) [OF wf] live fr by (simp_all add: tick_ok_def dtor_frame_def)
  moreover have "irq_enabled ?w" using wf_worldD(5) [OF wf] fr by (simp add: dtor_frame_def)
  ultimately have "wf_world env ?w" using wf_remove [OF wf q] by simp
  moreover have "tick_handle ?w = (if live_TCP ?w = 0 then None else tick_handle w)"
    using wf_worldD(4) [OF wf] live fr by (auto simp: tick_ok_def dtor_frame_def)
  ultimately show "\<exists>w'. UDPSocket_dtor env a w = Some w' \<and> wf_world env w' \<and>
      (\<forall>b. map_option quiet (objs w' b) = (if b = a then None else map_option quiet (objs w b))) \<and>
      tick_handle w' = (if live_TCP w' = 0 then None else tick_handle w)"
    using w1 q by (auto simp: UDPSocket_dtor_def)
qed

end
