(* ===== verification/TCPAsynch_Class.thy ===== *)
theory TCPAsynch_Class
  imports Socket_Class
begin

text \<open>
  The class \<open>TCPAsynch\<close> (\<open>sockets/v0/TCPAsynch.h\<close>, \<open>source/v0/TCPAsynch.cpp\<close>): the base
  of the TCP classes, which counts the TCP sockets and keeps the periodic task of the
  network stack scheduled while there are any. Its two-argument \<open>open\<close> is
  \<open>TCPAsynch_open_pf\<close> of \<open>Socket_Class\<close>.
\<close>

text \<open>
  The constructor: after the \<open>Socket\<close> part, the first TCP socket asks its stack for the
  interval and the task and posts the task with that period and half of it as tolerance.
\<close>

definition TCPAsynch_ctor :: "'w env \<Rightarrow> oid \<Rightarrow> socket_stack_t \<Rightarrow> Socket \<Rightarrow> 'w world \<Rightarrow> 'w world" where
  [op_defs]: "TCPAsynch_ctor env this stk mem w =
    (let ob0 = Socket_ctor env this stk mem;
         ob = ob0\<lparr>vptr := K_TCPAsynch, sock := (sock ob0)\<lparr>family := SOCKET_STREAM\<rparr>\<rparr>;
         w1 = put_obj this ob w;
         w2 = (if TCPSockets w1 = 0
               then (case api (sock ob) of
                       None \<Rightarrow> w1
                     | Some p \<Rightarrow>
                         let timeout = api_periodic_interval (vtable env p) (network w1) (sock ob);
                             f = api_periodic_task (vtable env p) (network w1) (sock ob);
                             h = getHandle env (minar w1)
                         in (minar_do (PostPeriodic f (milliseconds env timeout) (timeout div 2) h) w1)
                              \<lparr>tick_handle := h\<rparr>)
               else w1)
     in w2\<lparr>TCPSockets := TCPSockets w2 + 1\<rparr>)"

definition TCPAsynch_dtor :: "'w env \<Rightarrow> oid \<Rightarrow> 'w world \<Rightarrow> 'w world option" where
  [op_defs]: "TCPAsynch_dtor env this w = do {
     w0 \<leftarrow> with_obj this (\<lambda>ob. ob\<lparr>vptr := K_TCPAsynch\<rparr>) w;
     let w1 = w0\<lparr>TCPSockets := TCPSockets w0 - 1\<rparr>;
     let w2 = (if TCPSockets w1 = 0 \<and> tick_handle w1 \<noteq> None
               then (minar_do (CancelCallback (tick_handle w1)) w1)\<lparr>tick_handle := None\<rparr>
               else w1);
     Socket_dtor env this w2 }"

definition TCPAsynch_open ::
  "'w env \<Rightarrow> oid \<Rightarrow> socket_address_family_t \<Rightarrow> 'w world \<Rightarrow> (socket_error_t \<times> 'w world) option" where
  [op_defs]: "TCPAsynch_open env this af w = Socket_open env this af SOCKET_STREAM w"

section \<open>The contracts\<close>

interpretation tcp_open_op: safe_op "\<lambda>env a. TCPAsynch_open env a af" for af
  unfolding TCPAsynch_open_def by unfold_locales

text \<open>The object after construction of the \<open>TCPAsynch\<close> part.\<close>

definition TCPAsynch_obj :: "'w env \<Rightarrow> oid \<Rightarrow> socket_stack_t \<Rightarrow> Socket \<Rightarrow> Socket" where
  "TCPAsynch_obj env a stk mem = (Socket_ctor env a stk mem)\<lparr>vptr := K_TCPAsynch,
     sock := (sock (Socket_ctor env a stk mem))\<lparr>family := SOCKET_STREAM\<rparr>\<rparr>"

lemma TCPAsynch_obj_simps [simp]:
  "sock (TCPAsynch_obj env a stk mem) = (sock mem)\<lparr>handler := Some a, impl := None, stack := stk,
     api := socket_get_api env stk, family := SOCKET_STREAM\<rparr>"
  "vptr (TCPAsynch_obj env a stk mem) = K_TCPAsynch"
  "onError (TCPAsynch_obj env a stk mem) = None"
  by (simp_all add: TCPAsynch_obj_def Socket_ctor_def)

text \<open>What the constructor does to the rest of the state.\<close>

lemma TCPAsynch_ctor_world:
  fixes env :: "'w env" and a stk mem w
  defines "w' \<equiv> TCPAsynch_ctor env a stk mem w"
  shows "objs w' = (objs w)(a \<mapsto> TCPAsynch_obj env a stk mem)"
    and "TCPSockets w' = TCPSockets w + 1" and "irq_enabled w' = irq_enabled w"
    and "TCPSockets w \<noteq> 0 \<or> socket_get_api env stk = None \<Longrightarrow>
           tick_handle w' = tick_handle w \<and> minar w' = minar w"
    and "TCPSockets w = 0 \<Longrightarrow> socket_get_api env stk = Some p \<Longrightarrow>
           tick_handle w' = getHandle env (minar w) \<and>
           (let s = sock (TCPAsynch_obj env a stk mem);
                interval = api_periodic_interval (vtable env p) (network w) s
            in minar w' = minar w @ [PostPeriodic (api_periodic_task (vtable env p) (network w) s)
                 (milliseconds env interval) (interval div 2) (getHandle env (minar w))])"
  unfolding w'_def TCPAsynch_ctor_def TCPAsynch_obj_def
  by (auto simp: Let_def Socket_ctor_def split: option.splits)

text \<open>The constructors of the two derived classes: \<open>g\<close> is their part.\<close>

lemma TCP_ctor_law:
  assumes env: "minar_ok env" and wf: "wf_world env w" and a: "a \<noteq> 0" "objs w a = None"
    and g: "\<And>ob. vptr (g ob) = K" "\<And>ob. sock (g ob) = sock ob" and K: "K \<in> {K_TCPStream, K_TCPListener}"
  shows "\<exists>w' ob. with_obj a g (TCPAsynch_ctor env a stk mem w) = Some w' \<and> wf_world env w' \<and>
    objs w' = (objs w)(a \<mapsto> ob) \<and> vptr ob = K \<and> (live_TCP w \<noteq> 0 \<longrightarrow> tick_handle w' = tick_handle w)"
proof -
  let ?w1 = "TCPAsynch_ctor env a stk mem w" and ?ob = "g (TCPAsynch_obj env a stk mem)"
  let ?w = "put_obj a ?ob ?w1"
  note world = TCPAsynch_ctor_world [where env = env and a = a and stk = stk and mem = mem and w = w]
  have objs: "objs ?w = (objs w)(a \<mapsto> ?ob)" by (simp add: world(1))
  have ok: "obj_ok env a ?ob" using g K by (auto simp: obj_ok_def)
  have live: "live_TCP ?w = Suc (live_TCP w)"
    using count_where_fresh [of "objs w" a "\<lambda>ob. is_TCPAsynch (vptr ob)" ?ob] a objs g K
    by (auto simp: live_TCP_def)
  have tick: "tick_ok ?w"
  proof (cases "TCPSockets w = 0 \<and> socket_get_api env stk \<noteq> None")
    case True
    then obtain p where p: "TCPSockets w = 0" "socket_get_api env stk = Some p" by blast
    have "tick_handle w = None" "periodic_pending (minar w) = []"
      using TCPSockets_zero [OF wf] p(1) wf_worldD(4) [OF wf] by (auto simp: tick_ok_def)
    moreover have "getHandle env (minar w) \<noteq> None" using env by (simp add: minar_ok_def)
    ultimately show ?thesis
      using world(5) [OF p] live by (auto simp: tick_ok_def Let_def)
  next
    case False
    then show ?thesis
      using world(4) wf_worldD(4) [OF wf] live by (auto simp: tick_ok_def)
  qed
  have "wf_world env ?w"
    using wf a(1) ok tick live objs world(2,3) by (auto simp: wf_world_def)
  moreover have "live_TCP w \<noteq> 0 \<Longrightarrow> tick_handle ?w = tick_handle w"
    using world(4) TCPSockets_zero [OF wf] by auto
  ultimately show ?thesis using objs g(1) by (auto simp: world(1) with_obj_def)
qed

text \<open>The destructor of the \<open>TCPAsynch\<close> part followed by the end of the object.\<close>

lemma TCP_dtor_law:
  assumes ok: "sal_ok env" and wf: "wf_world env w"
    and ob: "objs w a = Some ob" "is_TCPAsynch (vptr ob)"
  shows "\<exists>w1. TCPAsynch_dtor env a w = Some w1 \<and> wf_world env (del_obj a w1) \<and>
    (\<forall>b. map_option quiet (objs (del_obj a w1) b) = (if b = a then None else map_option quiet (objs w b))) \<and>
    tick_handle w1 = (if live_TCP (del_obj a w1) = 0 then None else tick_handle w)"
proof -
  let ?w0 = "(put_obj a (ob\<lparr>vptr := K_TCPAsynch\<rparr>) w)\<lparr>TCPSockets := TCPSockets w - 1\<rparr>"
  let ?last = "TCPSockets w - 1 = 0 \<and> tick_handle w \<noteq> None"
  let ?w2 = "if ?last then (minar_do (CancelCallback (tick_handle w)) ?w0)\<lparr>tick_handle := None\<rparr> else ?w0"
  have dtor: "TCPAsynch_dtor env a w = Socket_dtor env a ?w2"
    using ob(1) by (auto simp: TCPAsynch_dtor_def Let_def)
  have "objs ?w2 a = Some (ob\<lparr>vptr := K_TCPAsynch\<rparr>)" by simp
  moreover have "handler (sock (ob\<lparr>vptr := K_TCPAsynch\<rparr>)) \<in> {None, Some a}"
    using wf_worldD(2) [OF wf ob(1)] by (simp add: obj_ok_def)
  ultimately obtain w1 where w1: "Socket_dtor env a ?w2 = Some w1"
    using Socket_dtor_returns [OF ok] by blast
  let ?w = "del_obj a w1"
  note fr = Socket_dtor_frame [OF w1]
  have q: "map_option quiet (objs ?w b) = (if b = a then None else map_option quiet (objs w b))" for b
    using del_obj_quiet [OF fr, of b] by (simp split: if_splits)
  have live: "live_TCP w = Suc (live_TCP ?w)" using live_remove [OF ob(1) q] ob(2) by simp
  have cnt: "TCPSockets ?w = of_nat (live_TCP ?w)"
    using wf_worldD(3) [OF wf] live fr by (auto simp: dtor_frame_def split: if_splits)
  have last: "TCPSockets w - 1 = 0 \<longleftrightarrow> live_TCP ?w = 0"
  proof -
    have "live_TCP ?w < 2 ^ 32" using live_TCP_bound [OF wf_worldD(1) [OF wf]] live by simp
    then show ?thesis using u32_of_nat_eq_0 wf_worldD(3) [OF wf] live by simp
  qed
  have tick: "tick_ok ?w" "tick_handle w1 = (if live_TCP ?w = 0 then None else tick_handle w)"
    using wf_worldD(4) [OF wf] fr last by (auto simp: tick_ok_def dtor_frame_def split: if_splits)
  moreover have "irq_enabled ?w" using wf_worldD(5) [OF wf] fr by (simp add: dtor_frame_def)
  ultimately show ?thesis
    using w1 dtor q wf_remove [OF wf q cnt tick(1)] by auto
qed

end
