(* ===== verification/TCPStream_Class.thy ===== *)
theory TCPStream_Class
  imports TCPAsynch_Class
begin

text \<open>
  The class \<open>TCPStream\<close> (\<open>sockets/v0/TCPStream.h\<close>, \<open>source/v0/TCPStream.cpp\<close>). Its event
  handler is \<open>TCPStream_eventHandler\<close> of \<open>Socket_Events\<close>.
\<close>

definition no_stream_handlers :: TCPStream_members where
  "no_stream_handlers = \<lparr>onConnect = None, onDisconnect = None\<rparr>"

definition TCPStream_ctor :: "'w env \<Rightarrow> oid \<Rightarrow> socket_stack_t \<Rightarrow> Socket \<Rightarrow> 'w world \<Rightarrow> 'w world option" where
  [op_defs]: "TCPStream_ctor env this stk mem w =
     with_obj this (\<lambda>ob. ob\<lparr>vptr := K_TCPStream, stream_part := no_stream_handlers\<rparr>)
       (TCPAsynch_ctor env this stk mem w)"

text \<open>The deprecated constructor for an accepted connection.\<close>

definition TCPStream_ctor_sock :: "'w env \<Rightarrow> oid \<Rightarrow> socket \<Rightarrow> Socket \<Rightarrow> 'w world \<Rightarrow> 'w world option" where
  [op_defs]: "TCPStream_ctor_sock env this s mem w = do {
     w1 \<leftarrow> TCPStream_ctor env this (stack s) mem w;
     w2 \<leftarrow> with_obj this (\<lambda>ob. ob\<lparr>sock := (sock ob)\<lparr>family := family s, impl := impl s\<rparr>\<rparr>) w1;
     (err, w3) \<leftarrow> api_call env this (\<lambda>t. api_accept t this) w2;
     (_, w4) \<leftarrow> error_check this err w3;
     Some w4 }"

text \<open>
  The constructor that \<open>TCPListener::accept\<close> uses. \<open>lis\<close> is the address of the listener:
  the stack gets a pointer to its struct, and to the struct of the new stream.
\<close>

definition TCPStream_ctor_accept ::
  "'w env \<Rightarrow> oid \<Rightarrow> oid \<Rightarrow> socket \<Rightarrow> Socket \<Rightarrow> 'w world \<Rightarrow> (socket_error_t \<times> 'w world) option" where
  [op_defs]: "TCPStream_ctor_accept env this lis s mem w = do {
     w1 \<leftarrow> TCPStream_ctor env this (stack s) mem w;
     w2 \<leftarrow> with_obj this (\<lambda>ob. ob\<lparr>sock := (sock ob)\<lparr>family := family s, impl := impl s\<rparr>\<rparr>) w1;
     ob \<leftarrow> objs w2 this;
     lob \<leftarrow> objs w2 lis;
     let (err, ls', s', rs, x) = socket_accept env (sock lob) this (network w2) (sock ob);
     w3 \<leftarrow> raise_events rs
       ((put_obj this (ob\<lparr>sock := s'\<rparr>) (put_obj lis (lob\<lparr>sock := ls'\<rparr>) w2))\<lparr>network := x\<rparr>);
     Some (err, w3) }"

definition TCPStream_dtor :: "'w env \<Rightarrow> oid \<Rightarrow> 'w world \<Rightarrow> 'w world option" where
  [op_defs]: "TCPStream_dtor env this w = do {
     w1 \<leftarrow> TCPAsynch_dtor env this w;
     Some (del_obj this w1) }"

definition TCPStream_connect ::
  "'w env \<Rightarrow> oid \<Rightarrow> SocketAddr \<Rightarrow> u16 \<Rightarrow> fp \<Rightarrow> 'w world \<Rightarrow> (socket_error_t \<times> 'w world) option" where
  [op_defs]: "TCPStream_connect env this address port f w = do {
     ob \<leftarrow> objs w this;
     if api (sock ob) = None then Some (SOCKET_ERROR_BAD_STACK, w)
     else do {
       w1 \<leftarrow> with_obj this (\<lambda>ob. ob\<lparr>stream_part := (stream_part ob)\<lparr>onConnect := f\<rparr>\<rparr>) w;
       api_call env this (\<lambda>t. api_connect t (getAddr address) port) w1 } }"

definition setOnDisconnect :: "oid \<Rightarrow> fp \<Rightarrow> 'w world \<Rightarrow> 'w world option" where
  [op_defs]: "setOnDisconnect this f w =
     with_obj this (\<lambda>ob. ob\<lparr>stream_part := (stream_part ob)\<lparr>onDisconnect := f\<rparr>\<rparr>) w"

definition setNagle :: "'w env \<Rightarrow> oid \<Rightarrow> bool \<Rightarrow> 'w world \<Rightarrow> 'w world option" where
  [op_defs]: "setNagle env this enable w = do {
     let enable_ptr = (if enable then Some 1 else None);
     (_, w1) \<leftarrow> api_call env this
        (\<lambda>t. api_set_option t SOCKET_PROTO_LEVEL_TCP SOCKET_OPT_NAGLE enable_ptr 0) w;
     Some w1 }"

section \<open>The contracts\<close>

interpretation connect_op: safe_op "\<lambda>env a. TCPStream_connect env a sa port f" for sa port f
proof
  fix env :: "'w env" and a w r w'
  assume ok: "sal_ok env"
  then show "TCPStream_connect env a sa port f w = Some (r, w') \<Longrightarrow> op_frame a w w'"
    by (auto simp: TCPStream_connect_def simp del: with_obj_Some split: if_splits
        dest!: api_frames set_handler_frame; blast intro: op_frame_trans)
  assume wf: "wf_world env w" and "a \<in> dom (objs w)"
  then obtain ob where ob: "objs w a = Some ob" by blast
  let ?ob = "ob\<lparr>stream_part := (stream_part ob)\<lparr>onConnect := f\<rparr>\<rparr>"
  have "wf_world env (put_obj a ?ob w)"
    using set_handler_frame(2) [of a "\<lambda>ob. (stream_part ob)\<lparr>onConnect := f\<rparr>" w] ob wf
    by (auto intro: op_frame_wf)
  then have "api (sock ob) \<noteq> None \<Longrightarrow>
      \<exists>r w'. api_call env a (\<lambda>t. api_connect t (getAddr sa) port) (put_obj a ?ob w) = Some (r, w')"
    using ok by (intro wf_api_call [of _ _ _ ?ob]) simp_all
  then show "\<exists>r w'. TCPStream_connect env a sa port f w = Some (r, w')"
    using ob by (auto simp: TCPStream_connect_def)
qed

interpretation setOnDisconnect_op: safe_op "\<lambda>env a w. no_result (setOnDisconnect a f w)" for f
proof
  fix env :: "'w env" and a r and w w' :: "'w world"
  show "no_result (setOnDisconnect a f w) = Some (r, w') \<Longrightarrow> op_frame a w w'"
    by (auto simp: setOnDisconnect_def simp del: with_obj_Some dest: set_handler_frame)
  show "a \<in> dom (objs w) \<Longrightarrow> \<exists>r w'. no_result (setOnDisconnect a f w) = Some (r, w')"
    by (auto simp: setOnDisconnect_def)
qed

interpretation setNagle_op: socket_op "\<lambda>env a w. no_result (setNagle env a b w)" for b
proof
  fix env :: "'w env" and a r w w'
  assume "sal_ok env"
  then show "no_result (setNagle env a b w) = Some (r, w') \<Longrightarrow> op_frame a w w'"
    by (auto simp: setNagle_def Let_def dest: api_frames)
qed

lemma setNagle_returns:
  assumes "sal_ok env" and "wf_world env w" and "objs w a = Some ob" and "api (sock ob) \<noteq> None"
  shows "\<exists>w'. setNagle env a b w = Some w'"
  using wf_api_call [OF assms(2-4), of "\<lambda>t. api_set_option t SOCKET_PROTO_LEVEL_TCP SOCKET_OPT_NAGLE
      (if b then Some 1 else None) 0"] assms(1)
  by (auto simp: setNagle_def Let_def)

interpretation stream_class: socket_class TCPStream_ctor TCPStream_dtor K_TCPStream
proof
  fix env :: "'w env" and w a stk mem
  assume "minar_ok env" "wf_world env w" "a \<noteq> 0" "objs w a = None"
  then show "\<exists>w' ob. TCPStream_ctor env a stk mem w = Some w' \<and> wf_world env w' \<and>
      objs w' = (objs w)(a \<mapsto> ob) \<and> vptr ob = K_TCPStream \<and> (live_TCP w \<noteq> 0 \<longrightarrow> tick_handle w' = tick_handle w)"
    unfolding TCPStream_ctor_def by (intro TCP_ctor_law) simp_all
next
  fix env :: "'w env" and w a ob
  assume "sal_ok env" "wf_world env w" "objs w a = Some ob" "vptr ob = K_TCPStream"
  then obtain w1 where "TCPAsynch_dtor env a w = Some w1" "wf_world env (del_obj a w1)"
    "\<forall>b. map_option quiet (objs (del_obj a w1) b) = (if b = a then None else map_option quiet (objs w b))"
    "tick_handle w1 = (if live_TCP (del_obj a w1) = 0 then None else tick_handle w)"
    using TCP_dtor_law [of env w a ob] by auto
  then show "\<exists>w'. TCPStream_dtor env a w = Some w' \<and> wf_world env w' \<and>
      (\<forall>b. map_option quiet (objs w' b) = (if b = a then None else map_option quiet (objs w b))) \<and>
      tick_handle w' = (if live_TCP w' = 0 then None else tick_handle w)"
    by (intro exI [of _ "del_obj a w1"]) (simp add: TCPStream_dtor_def)
qed

end
