(* ===== verification/TCPListener_Class.thy ===== *)
theory TCPListener_Class
  imports TCPStream_Class
begin

text \<open>
  The class \<open>TCPListener\<close> (\<open>sockets/v0/TCPListener.h\<close>, \<open>source/v0/TCPListener.cpp\<close>). Its
  event handler is \<open>TCPListener_eventHandler\<close> of \<open>Socket_Events\<close>.
\<close>

definition TCPListener_ctor :: "'w env \<Rightarrow> oid \<Rightarrow> socket_stack_t \<Rightarrow> Socket \<Rightarrow> 'w world \<Rightarrow> 'w world option" where
  [op_defs]: "TCPListener_ctor env this stk mem w =
     with_obj this (\<lambda>ob. ob\<lparr>vptr := K_TCPListener, listener_part := \<lparr>onIncoming = None\<rparr>\<rparr>)
       (TCPAsynch_ctor env this stk mem w)"

definition start_listening ::
  "'w env \<Rightarrow> oid \<Rightarrow> fp \<Rightarrow> u32 \<Rightarrow> 'w world \<Rightarrow> (socket_error_t \<times> 'w world) option" where
  [op_defs]: "start_listening env this f backlog w = do {
     ob \<leftarrow> objs w this;
     if api (sock ob) = None then Some (SOCKET_ERROR_BAD_STACK, w)
     else do {
       w1 \<leftarrow> with_obj this (\<lambda>ob. ob\<lparr>listener_part := (listener_part ob)\<lparr>onIncoming := f\<rparr>\<rparr>) w;
       api_call env this (\<lambda>t. api_start_listen t backlog) w1 } }"

definition stop_listening :: "'w env \<Rightarrow> oid \<Rightarrow> 'w world \<Rightarrow> (socket_error_t \<times> 'w world) option" where
  [op_defs]: "stop_listening env this w = do {
     ob \<leftarrow> objs w this;
     if api (sock ob) = None then Some (SOCKET_ERROR_BAD_STACK, w)
     else api_call env this api_stop_listen w }"

definition TCPListener_dtor :: "'w env \<Rightarrow> oid \<Rightarrow> 'w world \<Rightarrow> 'w world option" where
  [op_defs]: "TCPListener_dtor env this w = do {
     (_, w1) \<leftarrow> stop_listening env this w;
     w2 \<leftarrow> TCPAsynch_dtor env this w1;
     Some (del_obj this w2) }"

text \<open>
  \<open>accept\<close> returns the new stream or null. \<open>new\<close> is the address that the allocation
  returns and \<open>mem\<close> the memory there.
\<close>

definition TCPListener_accept ::
  "'w env \<Rightarrow> oid \<Rightarrow> Socket \<Rightarrow> oid \<Rightarrow> void_ptr \<Rightarrow> 'w world \<Rightarrow> (oid option \<times> 'w world) option" where
  [op_defs]: "TCPListener_accept env new mem this new_impl w = do {
     ob \<leftarrow> objs w this;
     let new_socket = (sock ob)\<lparr>impl := new_impl, stack := stack (sock ob), family := family (sock ob)\<rparr>;
     (err, w1) \<leftarrow> TCPStream_ctor_accept env new this new_socket mem w;
     if err \<noteq> SOCKET_ERROR_NONE then do {
       w2 \<leftarrow> TCPStream_dtor env new w1;
       Some (None, w2) }
     else Some (Some new, w1) }"

text \<open>\<open>reject\<close> closes a local struct; \<open>s0\<close> is that uninitialised local.\<close>

definition TCPListener_reject ::
  "'w env \<Rightarrow> socket \<Rightarrow> oid \<Rightarrow> void_ptr \<Rightarrow> 'w world \<Rightarrow> 'w world option" where
  [op_defs]: "TCPListener_reject env s0 this p w = do {
     ob \<leftarrow> objs w this;
     let s = s0\<lparr>impl := p, stack := stack (sock ob), api := api (sock ob), family := family (sock ob)\<rparr>;
     (_, _, rs, w1) \<leftarrow> api_invoke env api_close s w;
     raise_events rs w1 }"

section \<open>The contracts\<close>

interpretation start_op: safe_op "\<lambda>env a. start_listening env a f backlog" for f backlog
proof
  fix env :: "'w env" and a w r w'
  assume ok: "sal_ok env"
  then show "start_listening env a f backlog w = Some (r, w') \<Longrightarrow> op_frame a w w'"
    by (auto simp: start_listening_def simp del: with_obj_Some split: if_splits
        dest!: api_frames set_handler_frame; blast intro: op_frame_trans)
  assume wf: "wf_world env w" and "a \<in> dom (objs w)"
  then obtain ob where ob: "objs w a = Some ob" by blast
  let ?ob = "ob\<lparr>listener_part := (listener_part ob)\<lparr>onIncoming := f\<rparr>\<rparr>"
  have "wf_world env (put_obj a ?ob w)"
    using set_handler_frame(3) [of a "\<lambda>ob. (listener_part ob)\<lparr>onIncoming := f\<rparr>" w] ob wf
    by (auto intro: op_frame_wf)
  then have "api (sock ob) \<noteq> None \<Longrightarrow>
      \<exists>r w'. api_call env a (\<lambda>t. api_start_listen t backlog) (put_obj a ?ob w) = Some (r, w')"
    using ok by (intro wf_api_call [of _ _ _ ?ob]) simp_all
  then show "\<exists>r w'. start_listening env a f backlog w = Some (r, w')"
    using ob by (auto simp: start_listening_def)
qed

interpretation stop_op: safe_op stop_listening
proof
  fix env :: "'w env" and a w r w'
  assume "sal_ok env"
  then show "stop_listening env a w = Some (r, w') \<Longrightarrow> op_frame a w w'"
    by (auto simp: stop_listening_def split: if_splits dest: api_frames)
  show "wf_world env w \<Longrightarrow> a \<in> dom (objs w) \<Longrightarrow> \<exists>r w'. stop_listening env a w = Some (r, w')"
    unfolding stop_listening_def using \<open>sal_ok env\<close> by (intro if_stack_returns) simp_all
qed

interpretation listener_class: socket_class TCPListener_ctor TCPListener_dtor K_TCPListener
proof
  fix env :: "'w env" and w a stk mem
  assume "minar_ok env" "wf_world env w" "a \<noteq> 0" "objs w a = None"
  then show "\<exists>w' ob. TCPListener_ctor env a stk mem w = Some w' \<and> wf_world env w' \<and>
      objs w' = (objs w)(a \<mapsto> ob) \<and> vptr ob = K_TCPListener \<and> (live_TCP w \<noteq> 0 \<longrightarrow> tick_handle w' = tick_handle w)"
    unfolding TCPListener_ctor_def by (intro TCP_ctor_law) simp_all
next
  fix env :: "'w env" and w a ob
  assume ok: "sal_ok env" and wf: "wf_world env w" and ob: "objs w a = Some ob" "vptr ob = K_TCPListener"
  obtain r w1 where w1: "stop_listening env a w = Some (r, w1)"
    using stop_op.returns [OF ok wf] ob(1) by blast
  note fr = stop_op.frame [OF ok w1]
  obtain ob1 where ob1: "objs w1 a = Some ob1" "vptr ob1 = K_TCPListener"
    using fr ob by (auto simp: op_frame_def op_obj_def option_rel_Some1)
  obtain w2 where w2: "TCPAsynch_dtor env a w1 = Some w2" "wf_world env (del_obj a w2)"
    "\<forall>b. map_option quiet (objs (del_obj a w2) b) = (if b = a then None else map_option quiet (objs w1 b))"
    "tick_handle w2 = (if live_TCP (del_obj a w2) = 0 then None else tick_handle w1)"
    using TCP_dtor_law [OF ok op_frame_wf [OF fr wf] ob1(1)] ob1(2) by auto
  show "\<exists>w'. TCPListener_dtor env a w = Some w' \<and> wf_world env w' \<and>
      (\<forall>b. map_option quiet (objs w' b) = (if b = a then None else map_option quiet (objs w b))) \<and>
      tick_handle w' = (if live_TCP w' = 0 then None else tick_handle w)"
    using w1 w2 fr by (intro exI [of _ "del_obj a w2"]) (simp add: TCPListener_dtor_def op_frame_def)
qed

section \<open>Accepting a connection\<close>

text \<open>The stream after its construction, before the stack has accepted the connection.\<close>

definition accepted_obj :: "'w env \<Rightarrow> oid \<Rightarrow> socket \<Rightarrow> Socket \<Rightarrow> Socket" where
  "accepted_obj env new s mem =
    (let ob = (TCPAsynch_obj env new (stack s) mem)\<lparr>vptr := K_TCPStream, stream_part := no_stream_handlers\<rparr>
     in ob\<lparr>sock := (sock ob)\<lparr>family := family s, impl := impl s\<rparr>\<rparr>)"

lemma accepted_obj_simps [simp]:
  "vptr (accepted_obj env new s mem) = K_TCPStream"
  "stream_part (accepted_obj env new s mem) = no_stream_handlers"
  "onError (accepted_obj env new s mem) = None"
  "sock (accepted_obj env new s mem) = (sock mem)\<lparr>handler := Some new, impl := impl s, stack := stack s,
     api := socket_get_api env (stack s), family := family s\<rparr>"
  by (simp_all add: accepted_obj_def)

lemma TCPStream_ctor_accept_eq:
  assumes "objs w lis = Some lob" and "lis \<noteq> new"
    and "socket_accept env (sock lob) new (network w) (sock (accepted_obj env new s mem)) = (err, ls', s', rs, x)"
    and "network (TCPAsynch_ctor env new (stack s) mem w) = network w"
  shows "TCPStream_ctor_accept env new lis s mem w =
    map_option (Pair err) (raise_events rs
      ((put_obj new ((accepted_obj env new s mem)\<lparr>sock := s'\<rparr>)
         (put_obj lis (lob\<lparr>sock := ls'\<rparr>) (put_obj new (accepted_obj env new s mem)
            (TCPAsynch_ctor env new (stack s) mem w))))\<lparr>network := x\<rparr>))"
  using assms
  by (simp add: TCPStream_ctor_accept_def TCPStream_ctor_def accepted_obj_def TCPAsynch_ctor_world(1)
      map_option_case split: option.splits)

lemma TCPAsynch_ctor_network [simp]: "network (TCPAsynch_ctor env a stk mem w) = network w"
  by (simp add: TCPAsynch_ctor_def Let_def split: option.splits)

lemma put_sock_frame:
  assumes "objs w a = Some ob" and "stack s' = stack (sock ob)" and "api s' = api (sock ob)"
    and "family s' = family (sock ob)" and "handler s' \<in> {handler (sock ob), None, Some a}"
    and "api (sock ob) = None \<longrightarrow> impl s' = impl (sock ob)"
  shows "op_frame a w (put_obj a (ob\<lparr>sock := s'\<rparr>) w)"
  using assms by (auto simp: op_frame_def op_obj_def live_posts_def intro: exI [of _ "[]"])

lemma set_network_frame: "op_frame a w (w\<lparr>network := x\<rparr>)"
  by (simp add: op_frame_def live_posts_def option.rel_refl)

lemma accept_ctor_law:
  assumes ok: "sal_ok env" "minar_ok env" and wf: "wf_world env w"
    and lis: "objs w a = Some lob" "vptr lob = K_TCPListener" "api (sock lob) \<noteq> None"
    and new: "new \<noteq> 0" "objs w new = None"
    and s: "stack s = stack (sock lob)" "family s = family (sock lob)"
  shows "\<exists>err w' nob. TCPStream_ctor_accept env new a s mem w = Some (err, w') \<and> wf_world env w' \<and>
    objs w' new = Some nob \<and> vptr nob = K_TCPStream \<and>
    (\<forall>b. b \<noteq> a \<longrightarrow> b \<noteq> new \<longrightarrow> map_option quiet (objs w' b) = map_option quiet (objs w b)) \<and>
    map_option vptr (objs w' a) = Some K_TCPListener \<and> live_TCP w' = Suc (live_TCP w) \<and>
    tick_handle w' = tick_handle w"
proof -
  let ?nob = "accepted_obj env new s mem"
  obtain err ls' s' rs x where
    acc: "socket_accept env (sock lob) new (network w) (sock ?nob) = (err, ls', s', rs, x)"
    by (metis prod_cases5)
  have ne: "a \<noteq> new" using lis(1) new(2) by auto
  have lob: "obj_ok env a lob" by (rule wf_worldD(2) [OF wf lis(1)])
  obtain w0 ob0 where w0: "TCPStream_ctor env new (stack s) mem w = Some w0" "wf_world env w0"
      "objs w0 = (objs w)(new \<mapsto> ob0)" "vptr ob0 = K_TCPStream" "live_TCP w \<noteq> 0 \<longrightarrow> tick_handle w0 = tick_handle w"
    using stream_class.ctor_law [OF ok(2) wf new] by blast
  let ?w1 = "put_obj new ?nob (TCPAsynch_ctor env new (stack s) mem w)"
  let ?w2 = "put_obj a (lob\<lparr>sock := ls'\<rparr>) ?w1"
  let ?w3 = "put_obj new (?nob\<lparr>sock := s'\<rparr>) ?w2"
  let ?w4 = "?w3\<lparr>network := x\<rparr>"
  note ak = sal_ok_accept [OF ok(1), unfolded accept_ok_def, rule_format, OF acc]
  have w0_eq: "w0 = put_obj new ob0 (TCPAsynch_ctor env new (stack s) mem w)"
      "ob0 = (TCPAsynch_obj env new (stack s) mem)\<lparr>vptr := K_TCPStream, stream_part := no_stream_handlers\<rparr>"
    using w0(1,3) by (auto simp: TCPStream_ctor_def TCPAsynch_ctor_world(1) dest: fun_cong [of _ _ new])
  have "op_frame new w0 (put_obj new (ob0\<lparr>sock := (sock ob0)\<lparr>family := family s, impl := impl s\<rparr>\<rparr>) w0)"
    using w0(3) w0_eq(2) s lob lis by (intro put_sock_frame) (auto simp: obj_ok_def)
  then have f1: "op_frame new w0 ?w1"
    unfolding w0_eq(1) by (simp add: accepted_obj_def w0_eq(2))
  have f2: "op_frame a ?w1 ?w2"
    using ak ne lis(1) by (intro put_sock_frame) (auto simp: TCPAsynch_ctor_world(1))
  have f3: "op_frame new ?w2 ?w3"
    using ak ne s lob lis(3) by (intro put_sock_frame) (auto simp: obj_ok_def)
  have f4: "op_frame new ?w3 ?w4" by (rule set_network_frame)
  have "handler (sock lob) \<in> {None, Some a}" using lob by (simp add: obj_ok_def)
  then have "fst ` set rs \<subseteq> {a, new}" using ak by fastforce
  then have "fst ` set rs \<subseteq> dom (objs ?w4)" by auto
  then obtain w5 where w5: "raise_events rs ?w4 = Some w5" using raise_events_total by blast
  have f5: "op_frame new ?w4 w5" by (rule event_frame_op_frame [OF raise_events_frame [OF w5]])
  have f35: "op_frame new ?w2 w5"
    by (rule op_frame_trans [OF f3 op_frame_trans [OF f4 f5]])
  have "TCPStream_ctor_accept env new a s mem w = Some (err, w5)"
    using TCPStream_ctor_accept_eq [OF lis(1) ne acc] w5 by simp
  moreover have "wf_world env w5"
    by (rule op_frame_wf [OF f35 op_frame_wf [OF f2 op_frame_wf [OF f1 w0(2)]]])
  moreover obtain nob where "objs w5 new = Some nob" "vptr nob = K_TCPStream"
    using f5 by (auto simp: op_frame_def op_obj_def option_rel_Some1)
  moreover have "map_option quiet (objs w5 b) = map_option quiet (objs w b)" if "b \<noteq> a" "b \<noteq> new" for b
    using f35 that by (simp add: op_frame_def TCPAsynch_ctor_world(1))
  moreover have "map_option quiet (objs w5 a) = Some (quiet (lob\<lparr>sock := ls'\<rparr>))"
    using f35 ne by (simp add: op_frame_def)
  then have "map_option vptr (objs w5 a) = Some K_TCPListener"
    using lis(2) by (auto dest: quiet_eq_fields(1))
  moreover have "live_TCP w5 = Suc (live_TCP w)"
    using op_frame_live [OF f35] op_frame_live [OF f2] op_frame_live [OF f1]
      stream_class.ctor_live [OF ok(2) wf new w0(1)] by simp
  moreover have "tick_handle w5 = tick_handle w"
    using f35 f2 f1 w0(5) live_TCP_pos [OF lis(1)] lis(2) by (simp add: op_frame_def)
  ultimately show ?thesis by blast
qed

text \<open>\<open>accept\<close> never leaks: it returns the new stream, or null and no stream is left.\<close>

lemma accept_law:
  assumes ok: "sal_ok env" "minar_ok env" and wf: "wf_world env w"
    and lis: "objs w a = Some lob" "vptr lob = K_TCPListener" "api (sock lob) \<noteq> None"
    and new: "new \<noteq> 0" "objs w new = None"
  shows "\<exists>r w'. TCPListener_accept env new mem a p w = Some (r, w') \<and> wf_world env w' \<and>
    (\<forall>b. b \<noteq> a \<longrightarrow> b \<noteq> new \<longrightarrow> map_option quiet (objs w' b) = map_option quiet (objs w b)) \<and>
    map_option vptr (objs w' a) = Some K_TCPListener \<and> tick_handle w' = tick_handle w \<and>
    (if r = None then objs w' new = None \<and> live_TCP w' = live_TCP w
     else r = Some new \<and> live_TCP w' = Suc (live_TCP w) \<and>
       (\<exists>nob. objs w' new = Some nob \<and> vptr nob = K_TCPStream))"
proof -
  let ?s = "(sock lob)\<lparr>impl := p, stack := stack (sock lob), family := family (sock lob)\<rparr>"
  obtain err w1 nob where 1: "TCPStream_ctor_accept env new a ?s mem w = Some (err, w1)" "wf_world env w1"
      "objs w1 new = Some nob" "vptr nob = K_TCPStream"
      "\<forall>b. b \<noteq> a \<longrightarrow> b \<noteq> new \<longrightarrow> map_option quiet (objs w1 b) = map_option quiet (objs w b)"
      "map_option vptr (objs w1 a) = Some K_TCPListener" "live_TCP w1 = Suc (live_TCP w)"
      "tick_handle w1 = tick_handle w"
    using accept_ctor_law [OF ok wf lis new, of ?s mem] by auto
  show ?thesis
  proof (cases "err = SOCKET_ERROR_NONE")
    case True
    then show ?thesis
      using 1 lis(1) by (intro exI [of _ "Some new"] exI [of _ w1]) (simp add: TCPListener_accept_def Let_def)
  next
    case False
    obtain w2 where 2: "TCPStream_dtor env new w1 = Some w2" "wf_world env w2"
        "\<forall>b. map_option quiet (objs w2 b) = (if b = new then None else map_option quiet (objs w1 b))"
        "tick_handle w2 = (if live_TCP w2 = 0 then None else tick_handle w1)"
      using stream_class.dtor_law [OF ok(1) 1(2-4)] by blast
    have live: "live_TCP w2 = live_TCP w"
      using stream_class.dtor_live [OF ok(1) 1(2-4) 2(1)] 1(7) by simp
    then have "tick_handle w2 = tick_handle w" using 1(8) 2(4) live_TCP_pos [OF lis(1)] lis(2) by simp
    moreover have "a \<noteq> new" using lis(1) new(2) by auto
    then have "map_option quiet (objs w2 a) = map_option quiet (objs w1 a)" using 2(3) by simp
    then have "map_option vptr (objs w2 a) = Some K_TCPListener"
      using 1(6) map_option_quiet_vptr by metis
    moreover have "objs w2 new = None" using 2(3) by (metis map_option_is_None)
    ultimately show ?thesis
      using False 1 2 lis(1) live
      by (intro exI [of _ None] exI [of _ w2]) (simp add: TCPListener_accept_def Let_def)
  qed
qed

text \<open>\<open>reject\<close> closes a struct of its own; no object changes.\<close>

interpretation reject_op: socket_op "\<lambda>env a w. no_result (TCPListener_reject env s0 a p w)" for s0 p
proof
  fix env :: "'w env" and a r w w'
  assume "no_result (TCPListener_reject env s0 a p w) = Some (r, w')"
  then obtain rs x where "raise_events rs (w\<lparr>network := x\<rparr>) = Some w'"
    by (auto simp: TCPListener_reject_def Let_def api_invoke_eq_Some)
  then show "op_frame a w w'"
    by (intro op_frame_trans [OF set_network_frame event_frame_op_frame [OF raise_events_frame]])
qed

lemma reject_returns:
  assumes "sal_ok env" and "objs w a = Some ob" and "api (sock ob) \<noteq> None"
    and "handler s0 \<in> insert None (Some ` dom (objs w))"
  shows "\<exists>w'. TCPListener_reject env s0 a p w = Some w'"
proof -
  from assms(3) obtain q where q: "api (sock ob) = Some q" by blast
  let ?s = "s0\<lparr>impl := p, stack := stack (sock ob), api := api (sock ob), family := family (sock ob)\<rparr>"
  obtain r s' rs x where f: "api_close (vtable env q) (network w) ?s = (r, s', rs, x)"
    by (metis prod_cases4)
  have "keeps {} (api_close (vtable env q))"
    using sal_ok_api [OF assms(1), of q] by (simp add: api_ok_def)
  from keepsD(5) [OF this f] have "fst ` set rs \<subseteq> dom (objs (w\<lparr>network := x\<rparr>))"
    using assms(4) by fastforce
  then obtain w' where "raise_events rs (w\<lparr>network := x\<rparr>) = Some w'"
    using raise_events_total by blast
  then show ?thesis
    using assms(2) q f by (simp add: TCPListener_reject_def api_invoke_def Let_def)
qed

end
