(* ===== verification/Sockets_System.thy ===== *)
theory Sockets_System
  imports UDPSocket_Class TCPListener_Class
begin

text \<open>
  The library as a whole: what an application and a network stack can do to it, as a
  transition system over the state \<open>world\<close>. A step is the construction or destruction of
  an object, the acceptance of a connection, a call of a member function, or an event of
  the stack; \<open>enabled\<close> is the precondition under which C++ gives the call a meaning. Two things that C++ lets an
  application do are not steps: the deprecated constructor \<open>TCPStream(const struct socket *)\<close>, which takes over a struct made by
  somebody else (\<open>TCPStream_ctor_sock\<close>), and direct writes to the member \<open>_socket\<close> of an object, which is public.
\<close>

section \<open>Calls and actions\<close>

text \<open>
  The member functions that change state. The queries (\<open>isConnected\<close>, \<open>getLocalAddr\<close>, ...)
  are const and leave the state as it is, so they are not steps.
\<close>

datatype sock_call =
    C_resolve "string option" fp
  | C_open socket_address_family_t
  | C_bind "SocketAddr option" u16
  | C_bind_str SocketAddr "string option" u16
  | C_setOnError fp
  | C_setOnReadable fp
  | C_setOnSent fp
  | C_recv "u8 list option" "u32 option"
  | C_recv_from socket_addr "u8 list option" "u32 option" "SocketAddr option" "u16 option"
  | C_send "u8 list option" u32
  | C_send_to "u8 list option" u32 "SocketAddr option" u16
  | C_close
  | C_error_check socket_error_t
  | C_udp_connect "SocketAddr option" u16
  | C_tcp_connect SocketAddr u16 fp
  | C_setOnDisconnect fp
  | C_setNagle bool
  | C_start_listening fp u32
  | C_stop_listening
  | C_reject socket void_ptr

datatype 'w action =
    New klass oid socket_stack_t Socket
  | Delete oid
  | Accept oid oid Socket void_ptr
  | Call oid sock_call
  | Stack_event oid socket_event 'w

text \<open>The state after a call; its result is a matter of the operation itself.\<close>

abbreviation after_call :: "('r \<times> 'w world) option \<Rightarrow> 'w world option" where
  "after_call \<equiv> map_option snd"

fun exec_call :: "'w env \<Rightarrow> oid \<Rightarrow> sock_call \<Rightarrow> 'w world \<Rightarrow> 'w world option" where
  "exec_call env a (C_resolve name f) w = after_call (Socket_resolve env a name f w)"
| "exec_call env a (C_open af) w =
     (case objs w a of
        None \<Rightarrow> None
      | Some ob \<Rightarrow> after_call (if vptr ob = K_UDPSocket then UDPSocket_open env a af w
                              else TCPAsynch_open env a af w))"
| "exec_call env a (C_bind addr port) w = after_call (Socket_bind env a addr port w)"
| "exec_call env a (C_bind_str tmp addr port) w = after_call (Socket_bind_str env tmp a addr port w)"
| "exec_call env a (C_setOnError f) w = setOnError a f w"
| "exec_call env a (C_setOnReadable f) w = setOnReadable a f w"
| "exec_call env a (C_setOnSent f) w = setOnSent a f w"
| "exec_call env a (C_recv buf len) w = after_call (Socket_recv env a buf len w)"
| "exec_call env a (C_recv_from a0 buf len ra rp) w = after_call (Socket_recv_from env a0 a buf len ra rp w)"
| "exec_call env a (C_send buf len) w = after_call (Socket_send env a buf len w)"
| "exec_call env a (C_send_to buf len ra rp) w = after_call (Socket_send_to env a buf len ra rp w)"
| "exec_call env a C_close w = after_call (Socket_close env a w)"
| "exec_call env a (C_error_check err) w = after_call (error_check a err w)"
| "exec_call env a (C_udp_connect sa port) w = after_call (UDPSocket_connect env a sa port w)"
| "exec_call env a (C_tcp_connect sa port f) w = after_call (TCPStream_connect env a sa port f w)"
| "exec_call env a (C_setOnDisconnect f) w = setOnDisconnect a f w"
| "exec_call env a (C_setNagle b) w = setNagle env a b w"
| "exec_call env a (C_start_listening f backlog) w = after_call (start_listening env a f backlog w)"
| "exec_call env a C_stop_listening w = after_call (stop_listening env a w)"
| "exec_call env a (C_reject s0 p) w = TCPListener_reject env s0 a p w"

text \<open>
  The virtual destructor. \<open>Delete\<close> on an object that is none of the three classes does not
  occur.
\<close>

definition delete_obj :: "'w env \<Rightarrow> oid \<Rightarrow> 'w world \<Rightarrow> 'w world option" where
  "delete_obj env a w = do {
     ob \<leftarrow> objs w a;
     case vptr ob of
       K_UDPSocket \<Rightarrow> UDPSocket_dtor env a w
     | K_TCPStream \<Rightarrow> TCPStream_dtor env a w
     | K_TCPListener \<Rightarrow> TCPListener_dtor env a w
     | K_Socket \<Rightarrow> None
     | K_TCPAsynch \<Rightarrow> None }"

definition new_obj :: "'w env \<Rightarrow> klass \<Rightarrow> oid \<Rightarrow> socket_stack_t \<Rightarrow> Socket \<Rightarrow> 'w world \<Rightarrow> 'w world option" where
  "new_obj env k a stk mem w =
    (case k of
       K_UDPSocket \<Rightarrow> Some (UDPSocket_ctor env a stk mem w)
     | K_TCPStream \<Rightarrow> TCPStream_ctor env a stk mem w
     | K_TCPListener \<Rightarrow> TCPListener_ctor env a stk mem w
     | K_Socket \<Rightarrow> None
     | K_TCPAsynch \<Rightarrow> None)"

fun exec :: "'w env \<Rightarrow> 'w action \<Rightarrow> 'w world \<Rightarrow> 'w world option" where
  "exec env (New k a stk mem) w = new_obj env k a stk mem w"
| "exec env (Delete a) w = delete_obj env a w"
| "exec env (Accept a new mem p) w = after_call (TCPListener_accept env new mem a p w)"
| "exec env (Call a c) w = exec_call env a c w"
| "exec env (Stack_event a ev x) w = raise_event a ev (w\<lparr>network := x\<rparr>)"

section \<open>When a call has a meaning\<close>

text \<open>
  A member function may be called on a live object of its class. Four calls have
  a precondition that the code does not check: \<open>UDPSocket::connect\<close> dereferences the
  address, \<open>setNagle\<close>, \<open>reject\<close> and \<open>accept\<close> use the function table, and \<open>reject\<close> hands the
  stack a struct whose handler was never initialised.
\<close>

fun call_enabled :: "'w world \<Rightarrow> Socket \<Rightarrow> sock_call \<Rightarrow> bool" where
  "call_enabled w ob (C_udp_connect sa port) = (vptr ob = K_UDPSocket \<and> sa \<noteq> None)"
| "call_enabled w ob (C_tcp_connect sa port f) = (vptr ob = K_TCPStream)"
| "call_enabled w ob (C_setOnDisconnect f) = (vptr ob = K_TCPStream)"
| "call_enabled w ob (C_setNagle b) = (vptr ob = K_TCPStream \<and> api (sock ob) \<noteq> None)"
| "call_enabled w ob (C_start_listening f n) = (vptr ob = K_TCPListener)"
| "call_enabled w ob C_stop_listening = (vptr ob = K_TCPListener)"
| "call_enabled w ob (C_reject s0 p) = (vptr ob = K_TCPListener \<and> api (sock ob) \<noteq> None \<and>
     (case handler s0 of None \<Rightarrow> True | Some h \<Rightarrow> objs w h \<noteq> None))"
| "call_enabled w ob _ = True"

fun enabled :: "'w world \<Rightarrow> 'w action \<Rightarrow> bool" where
  "enabled w (New k a stk mem) =
     (k \<in> {K_UDPSocket, K_TCPStream, K_TCPListener} \<and> a \<noteq> 0 \<and> objs w a = None)"
| "enabled w (Delete a) = (objs w a \<noteq> None)"
| "enabled w (Accept a new mem p) =
     (new \<noteq> 0 \<and> objs w new = None \<and>
      (case objs w a of None \<Rightarrow> False | Some ob \<Rightarrow> vptr ob = K_TCPListener \<and> api (sock ob) \<noteq> None))"
| "enabled w (Call a c) = (case objs w a of None \<Rightarrow> False | Some ob \<Rightarrow> call_enabled w ob c)"
| "enabled w (Stack_event a ev x) = (objs w a \<noteq> None \<and> irq_enabled w)"

section \<open>The transition system\<close>

definition init_world :: "'w \<Rightarrow> 'w world" where
  "init_world x = \<lparr>objs = Map.empty, TCPSockets = 0, tick_handle = None, minar = [],
                   irq_enabled = True, network = x\<rparr>"

inductive sys_step :: "'w env \<Rightarrow> 'w world \<Rightarrow> 'w action \<Rightarrow> 'w world \<Rightarrow> bool" for env where
  sys_step_exec: "enabled w act \<Longrightarrow> exec env act w = Some w' \<Longrightarrow> sys_step env w act w'"

inductive_cases sys_step_elim [elim!]: "sys_step env w act w'"

inductive_simps sys_step_iff: "sys_step env w act w'"

fun run :: "'w env \<Rightarrow> 'w action list \<Rightarrow> 'w world \<Rightarrow> 'w world option" where
  "run env [] w = Some w"
| "run env (act # acts) w = (if enabled w act then do { w1 \<leftarrow> exec env act w; run env acts w1 } else None)"

inductive reachable :: "('s \<Rightarrow> bool) \<Rightarrow> ('s \<Rightarrow> 'a \<Rightarrow> 's \<Rightarrow> bool) \<Rightarrow> 's \<Rightarrow> bool" for I T where
  reach_init: "I s \<Longrightarrow> reachable I T s"
| reach_step: "reachable I T s \<Longrightarrow> T s a s' \<Longrightarrow> reachable I T s'"

text \<open>An inductive invariant of a transition system holds in every reachable state.\<close>

locale inductive_invariant =
  fixes I :: "'s \<Rightarrow> bool" and T :: "'s \<Rightarrow> 'a \<Rightarrow> 's \<Rightarrow> bool" and P :: "'s \<Rightarrow> bool"
  assumes holds_init: "I s \<Longrightarrow> P s"
    and holds_step: "P s \<Longrightarrow> T s a s' \<Longrightarrow> P s'"
begin

lemma holds: "reachable I T s \<Longrightarrow> P s"
  by (induction rule: reachable.induct) (auto intro: holds_init holds_step)

end

section \<open>Every enabled step returns and keeps the state well-formed\<close>

definition env_ok :: "'w env \<Rightarrow> bool" where
  "env_ok env \<longleftrightarrow> sal_ok env \<and> minar_ok env"

lemma wf_init [simp]: "wf_world env (init_world x)"
  by (simp add: wf_world_def init_world_def live_TCP_def tick_ok_def)

context safe_op
begin

lemma safe_after:
  "sal_ok env \<Longrightarrow> wf_world env w \<Longrightarrow> objs w a \<noteq> None \<Longrightarrow>
   \<exists>w'. after_call (op env a w) = Some w' \<and> wf_world env w'"
  using safe [of env w a] by (auto simp: domIff)

end

text \<open>For an operation without result, \<open>after_call\<close> of \<open>no_result\<close> is the operation.\<close>

lemma after_no_result [simp]: "after_call (no_result m) = m"
  by (cases m) simp_all

lemmas setter_safe = setOnError_op.safe_after setOnReadable_op.safe_after setOnSent_op.safe_after
  setOnDisconnect_op.safe_after

lemmas call_safe = resolve_op.safe_after udp_open_op.safe_after tcp_open_op.safe_after
  bind_op.safe_after bind_str_op.safe_after recv_op.safe_after recv_from_op.safe_after
  send_op.safe_after send_to_op.safe_after close_op.safe_after udp_connect_op.safe_after
  connect_op.safe_after start_op.safe_after stop_op.safe_after
  setter_safe [unfolded after_no_result]

lemma error_check_safe:
  assumes "wf_world env w" and "objs w a \<noteq> None"
  shows "\<exists>w'. after_call (error_check a err w) = Some w' \<and> wf_world env w'"
proof -
  from assms(2) obtain ob where "objs w a = Some ob" by blast
  moreover have "live_TCP (postCallback c w) = live_TCP w" for c by (simp add: live_TCP_def)
  ultimately show ?thesis
    using assms(1) by (auto simp: error_check_def wf_world_def tick_ok_def)
qed

lemma exec_call_safe:
  assumes ok: "sal_ok env" and wf: "wf_world env w" and ob: "objs w a = Some ob"
    and en: "call_enabled w ob c"
  shows "\<exists>w'. exec_call env a c w = Some w' \<and> wf_world env w'"
proof -
  note safe = call_safe [OF ok wf, of a] error_check_safe [OF wf, of a]
  show ?thesis
  proof (cases c)
    case (C_setNagle b)
    then obtain w' where "setNagle env a b w = Some w'"
      using setNagle_returns [OF ok wf ob] en by auto
    moreover from this have "wf_world env w'"
      by (intro setNagle_op.preserves_wf [OF ok wf, of a b "()"]) simp
    ultimately show ?thesis using C_setNagle by simp
  next
    case (C_reject s0 p)
    with en obtain w' where "TCPListener_reject env s0 a p w = Some w'"
      using reject_returns [OF ok ob, of s0 p] by (auto split: option.splits)
    moreover from this have "wf_world env w'"
      by (intro reject_op.preserves_wf [OF ok wf, of s0 a p "()"]) simp
    ultimately show ?thesis using C_reject by simp
  qed (use ob en in \<open>auto simp: safe simp del: map_option_eq_Some option.map_comp\<close>)
qed

lemma new_obj_safe:
  assumes "env_ok env" and "wf_world env w" and "enabled w (New k a stk mem)"
  shows "\<exists>w'. new_obj env k a stk mem w = Some w' \<and> wf_world env w'"
  using assms udp_class.ctor_law [of env w a stk mem] stream_class.ctor_law [of env w a stk mem]
    listener_class.ctor_law [of env w a stk mem]
  by (auto simp: env_ok_def new_obj_def)

lemma delete_obj_law:
  assumes ok: "sal_ok env" and wf: "wf_world env w" and ob: "objs w a = Some ob"
  shows "\<exists>w'. delete_obj env a w = Some w' \<and> wf_world env w' \<and>
    (\<forall>b. map_option quiet (objs w' b) = (if b = a then None else map_option quiet (objs w b))) \<and>
    tick_handle w' = (if live_TCP w' = 0 then None else tick_handle w)"
proof -
  consider "vptr ob = K_UDPSocket" | "vptr ob = K_TCPStream" | "vptr ob = K_TCPListener"
    using wf_worldD(2) [OF wf ob] by (auto simp: obj_ok_def)
  then show ?thesis
  proof cases
    case 1
    with udp_class.dtor_law [OF ok wf ob] ob show ?thesis by (simp add: delete_obj_def)
  next
    case 2
    with stream_class.dtor_law [OF ok wf ob] ob show ?thesis by (simp add: delete_obj_def)
  next
    case 3
    with listener_class.dtor_law [OF ok wf ob] ob show ?thesis by (simp add: delete_obj_def)
  qed
qed

lemma stack_event_safe:
  assumes "wf_world env w" and "objs w a \<noteq> None"
  shows "\<exists>w'. raise_event a ev (w\<lparr>network := x\<rparr>) = Some w' \<and> wf_world env w'"
proof -
  from assms(2) obtain w' where w': "raise_event a ev (w\<lparr>network := x\<rparr>) = Some w'"
    by (auto simp: raise_event_eq)
  moreover have "op_frame a w w'"
    by (rule op_frame_trans [OF set_network_frame event_frame_op_frame [OF raise_event_frame [OF w']]])
  ultimately show ?thesis using op_frame_wf assms(1) by blast
qed

lemma exec_safe:
  assumes ok: "env_ok env" and wf: "wf_world env w" and en: "enabled w act"
  shows "\<exists>w'. exec env act w = Some w' \<and> wf_world env w'"
proof (cases act)
  case (New k a stk mem)
  with new_obj_safe [OF ok wf] en show ?thesis by simp
next
  case (Delete a)
  with delete_obj_law [OF _ wf] ok en show ?thesis by (fastforce simp: env_ok_def)
next
  case (Accept a new mem p)
  with en obtain lob where "objs w a = Some lob" "vptr lob = K_TCPListener" "api (sock lob) \<noteq> None"
      "new \<noteq> 0" "objs w new = None"
    by (auto split: option.splits)
  with accept_law [OF _ _ wf, of a lob new mem p] ok Accept show ?thesis
    by (auto simp: env_ok_def)
next
  case (Call a c)
  with exec_call_safe [OF _ wf] ok en show ?thesis by (auto simp: env_ok_def split: option.splits)
next
  case (Stack_event a ev x)
  with stack_event_safe [OF wf] en show ?thesis by simp
qed

interpretation sys_wf: inductive_invariant "\<lambda>w. \<exists>x. w = init_world x" "sys_step env"
  "\<lambda>w. env_ok env \<longrightarrow> wf_world env w" for env :: "'w env"
proof
  fix s s' :: "'w world" and a
  show "\<exists>x. s = init_world x \<Longrightarrow> env_ok env \<longrightarrow> wf_world env s" by auto
  show "env_ok env \<longrightarrow> wf_world env s \<Longrightarrow> sys_step env s a s' \<Longrightarrow> env_ok env \<longrightarrow> wf_world env s'"
    using exec_safe [of env s a] by fastforce
qed

end
