(* ===== verification/Sample_Stack.thy ===== *)
theory Sample_Stack
  imports Sockets_System
begin

text \<open>
  A small concrete environment, on which the hypotheses about the network stack, the
  scheduler and the address utilities hold: the theorems that have such hypotheses are
  applied to it. The stack counts the calls it gets; it delivers DNS, connect and
  accept events before the call returns, gives every opened socket the implementation
  \<open>7\<close>, clears the handler of a socket it closes, and fails to accept the implementation
  \<open>13\<close> and to destroy anything.
\<close>

section \<open>The stack\<close>

definition quiet_fn :: "'r \<Rightarrow> (nat, 'r) eff" where
  "quiet_fn r x s = (r, s, [], Suc x)"

definition event_fn :: "socket_event \<Rightarrow> (nat, socket_error_t) eff" where
  "event_fn ev x s = (SOCKET_ERROR_NONE, s, case handler s of None \<Rightarrow> [] | Some h \<Rightarrow> [(h, ev)], Suc x)"

definition create_fn :: "socket_proto_family_t \<Rightarrow> oid \<Rightarrow> (nat, socket_error_t) eff" where
  "create_fn pf h x s = (SOCKET_ERROR_NONE, s\<lparr>impl := Some 7, handler := Some h\<rparr>, [], Suc x)"

definition close_fn :: "(nat, socket_error_t) eff" where
  "close_fn x s = (SOCKET_ERROR_NONE, s\<lparr>handler := None\<rparr>, [], x + 100)"

definition sample_addr :: socket_addr where
  "sample_addr = \<lparr>ipv6be = [0, 0, 0xFFFF, 0x7F000001]\<rparr>"

definition sample_api :: "nat socket_api" where
  "sample_api = \<lparr>
     api_create = (\<lambda>af. create_fn),
     api_destroy = Some (quiet_fn SOCKET_ERROR_UNKNOWN),
     api_resolve = (\<lambda>n. if n = None then quiet_fn SOCKET_ERROR_NULL_PTR
                          else event_fn (SOCKET_EVENT_DNS sample_addr n)),
     api_str2addr = (\<lambda>a n. quiet_fn
        (if n = None then (SOCKET_ERROR_NULL_PTR, a) else (SOCKET_ERROR_NONE, sample_addr))),
     api_bind = (\<lambda>a p. quiet_fn SOCKET_ERROR_NONE),
     api_connect = (\<lambda>a p. event_fn SOCKET_EVENT_CONNECT),
     api_start_listen = (\<lambda>n. event_fn (SOCKET_EVENT_ACCEPT (Some 9))),
     api_stop_listen = quiet_fn SOCKET_ERROR_NONE,
     api_accept = (\<lambda>h. quiet_fn SOCKET_ERROR_NONE),
     api_close = close_fn,
     api_recv = (\<lambda>b l. quiet_fn
        (if b = None \<or> l = None then (SOCKET_ERROR_NULL_PTR, b, l) else (SOCKET_ERROR_NONE, b, Some 0))),
     api_recv_from = (\<lambda>b l a p. quiet_fn
        (if b = None \<or> l = None \<or> p = None then (SOCKET_ERROR_NULL_PTR, b, l, a, p)
         else (SOCKET_ERROR_NONE, b, Some 0, sample_addr, Some 80))),
     api_send = (\<lambda>b l. quiet_fn (if b = None then SOCKET_ERROR_NULL_PTR else SOCKET_ERROR_NONE)),
     api_send_to = (\<lambda>b l a p. quiet_fn (if b = None then SOCKET_ERROR_NULL_PTR else SOCKET_ERROR_NONE)),
     api_set_option = (\<lambda>lv op p n. quiet_fn SOCKET_ERROR_NONE),
     api_is_connected = (\<lambda>x s. True),
     api_get_local_addr = (\<lambda>a x s. (SOCKET_ERROR_NONE, sample_addr)),
     api_get_local_port = (\<lambda>p x s. if p = None then (SOCKET_ERROR_NULL_PTR, p) else (SOCKET_ERROR_NONE, Some 80)),
     api_get_remote_addr = (\<lambda>a x s. (SOCKET_ERROR_NO_CONNECTION, a)),
     api_get_remote_port = (\<lambda>p x s. (if p = None then SOCKET_ERROR_NULL_PTR else SOCKET_ERROR_NO_CONNECTION, p)),
     api_periodic_interval = (\<lambda>x s. 250),
     api_periodic_task = (\<lambda>x s. Some 1)\<rparr>"

section \<open>The address utilities\<close>

text \<open>An address is printed in binary, a word as 32 digits from the lowest bit on.\<close>

definition bin_of_word :: "u32 \<Rightarrow> string" where
  "bin_of_word v = map (\<lambda>i. if bit v i then CHR ''1'' else CHR ''0'') [0..<32]"

definition word_of_bin :: "string \<Rightarrow> u32" where
  "word_of_bin t = horner_sum of_bool 2 (map (\<lambda>c. c = CHR ''1'') t)"

definition words_of_bin :: "string \<Rightarrow> u32 list" where
  "words_of_bin t = map (\<lambda>i. word_of_bin (take 32 (drop (32 * i) t))) [0..<length t div 32]"

definition sample_lib :: addr_lib where
  "sample_lib = \<lparr>
     socket_addr_copy = (\<lambda>d s. s),
     socket_addr_is_ipv4 = (\<lambda>a. length (ipv6be a) = 4 \<and> take 3 (ipv6be a) = [0, 0, 0xFFFF]),
     inet_pton = (\<lambda>af t a. case t of
         None \<Rightarrow> (-1, a)
       | Some t \<Rightarrow>
           if af = SOCKET_AF_INET4 \<and> length t = 32 then (1, \<lparr>ipv6be = [0, 0, 0xFFFF, word_of_bin t]\<rparr>)
           else if af = SOCKET_AF_INET6 \<and> length t = 128 then (1, \<lparr>ipv6be = words_of_bin t\<rparr>)
           else (0, a)),
     inet_ntop = (\<lambda>af ws b n.
         if length ws = (if af = SOCKET_AF_INET4 then 1 else 4) \<and> 32 * length ws < unat n
         then (True, concat (map bin_of_word ws) @ [CHR 0x00]) else (False, b))\<rparr>"

definition sample_env :: "nat env" where
  "sample_env = \<lparr>
     vtable = (\<lambda>p. sample_api),
     socket_get_api = (\<lambda>stk. if stk = 1 then Some 5 else None),
     socket_accept = (\<lambda>ls h x s.
        (if impl s = Some 13 then SOCKET_ERROR_UNKNOWN else SOCKET_ERROR_NONE, ls, s, [], Suc x)),
     getHandle = (\<lambda>cs. Some (length cs)),
     milliseconds = (\<lambda>n. n * 2),
     addrs = sample_lib\<rparr>"

definition sample_mem :: Socket where
  "sample_mem = \<lparr>vptr = K_Socket, onDNS = None, onError = None, onReadable = None, onSent = None,
     sock = \<lparr>handler = None, impl = None, stack = 0, api = None, family = SOCKET_PF_other 0, event = None\<rparr>,
     event_ptr = None, stream_part = \<lparr>onConnect = None, onDisconnect = None\<rparr>,
     listener_part = \<lparr>onIncoming = None\<rparr>\<rparr>"

lemmas sample_defs = sample_env_def sample_api_def sample_mem_def init_world_def
  quiet_fn_def event_fn_def create_fn_def close_fn_def

section \<open>The hypotheses hold\<close>

lemma keeps_quiet_fn [simp]: "keeps H (quiet_fn r)"
  by (simp add: keeps_def quiet_fn_def)

lemma keeps_event_fn [simp]: "keeps H (event_fn ev)"
  by (auto simp: keeps_def event_fn_def split: option.splits)

lemma keeps_create_fn [simp]: "h \<in> H \<Longrightarrow> keeps H (create_fn pf h)"
  by (auto simp: keeps_def create_fn_def)

lemma keeps_close_fn [simp]: "keeps H close_fn"
  by (auto simp: keeps_def close_fn_def)

lemma sample_api_ok: "api_ok sample_api"
  by (simp add: api_ok_def sample_api_def)

lemma sample_accept_ok: "accept_ok sample_env"
  by (auto simp: accept_ok_def sample_env_def split: if_splits)

lemma sample_sal_ok [simp]: "sal_ok sample_env"
  using sample_accept_ok by (simp add: sal_ok_def sample_api_ok) (simp add: sample_env_def sample_api_ok)

lemma sample_minar_ok [simp]: "minar_ok sample_env"
  by (simp add: minar_ok_def sample_env_def)

lemma sample_env_ok [simp]: "env_ok sample_env"
  by (simp add: env_ok_def)

lemma sample_copy [simp]: "copy_ok sample_lib"
  by (simp add: copy_ok_def sample_lib_def)

end
