(* ===== verification/Address_Properties.thy ===== *)
theory Address_Properties
  imports Sample_Stack
begin

text \<open>
  The correctness of \<open>SocketAddr\<close>: what the three \<open>setAddr\<close> store and return, and what the
  formatters do to the buffer on every path. That parsing inverts formatting is a matter of \<open>inet_pton\<close> and
  \<open>inet_ntop\<close> alone, to which the class only forwards.
\<close>

section \<open>Properties\<close>

text \<open>
  \<open>setAddr(af, text)\<close> returns an error exactly when \<open>inet_pton\<close> does not return 1, and
  the four error codes tell the four kinds of results of \<open>inet_pton\<close> apart; the stored address
  is what \<open>inet_pton\<close> left there, whatever it returned.
\<close>

theorem setAddr_str_codes:
  "fst (setAddr_str lib sa af t) =
     (let rc = fst (inet_pton lib af t (addr_member sa))
      in if rc \<in> {-1, 0, 1}
         then [SOCKET_ERROR_BAD_ARGUMENT, SOCKET_ERROR_BAD_ADDRESS, SOCKET_ERROR_NONE] ! nat (rc + 1)
         else SOCKET_ERROR_UNKNOWN) \<and>
   snd (setAddr_str lib sa af t) = sa\<lparr>addr_member := snd (inet_pton lib af t (addr_member sa))\<rparr>"
  by (auto simp: setAddr_str_def split: prod.splits)

text \<open>
  When formatting fails without reaching \<open>inet_ntop\<close> the buffer is untouched: \<open>fmtIPv4\<close> on an
  address that is not IPv4, and both formatters on a null buffer. In every other case the
  result is 0 exactly when \<open>inet_ntop\<close> returned a pointer, and the text is what it
  printed for the last word of the address, or for the four words.
\<close>

theorem fmt_paths:
  "(is_v4 lib sa = False \<longrightarrow> fmtIPv4 lib sa buf n = (-1, buf)) \<and>
   fmtIPv4 lib sa None n = (-1, None) \<and> fmtIPv6 lib sa None n = (-1, None) \<and>
   (is_v4 lib sa \<longrightarrow> fmtIPv4 lib sa (Some b) n =
      (case inet_ntop lib SOCKET_AF_INET4 (drop 3 (ipv6be (addr_member sa))) b n of
         (True, b') \<Rightarrow> (0, Some b') | (False, b') \<Rightarrow> (-1, Some b'))) \<and>
   fmtIPv6 lib sa (Some b) n =
      (case inet_ntop lib SOCKET_AF_INET6 (ipv6be (addr_member sa)) b n of
         (True, b') \<Rightarrow> (0, Some b') | (False, b') \<Rightarrow> (-1, Some b'))"
  by (auto simp: fmtIPv4_def fmtIPv6_def split: prod.splits bool.splits)

text \<open>The same on an IPv4 address and on an address that is not, with a buffer that is too small.\<close>

theorem fmt_paths_witness:
  "fmtIPv4 sample_lib \<lparr>addr_member = \<lparr>ipv6be = [1, 2, 3, 4]\<rparr>\<rparr> (Some ''ab'') 33 = (-1, Some ''ab'') \<and>
   fmtIPv4 sample_lib \<lparr>addr_member = sample_addr\<rparr> (Some ''ab'') 8 = (-1, Some ''ab'')"
  using fmt_paths [of sample_lib "\<lparr>addr_member = \<lparr>ipv6be = [1, 2, 3, 4]\<rparr>\<rparr>" "Some ''ab''" 33 "''ab''"]
    fmt_paths [of sample_lib "\<lparr>addr_member = sample_addr\<rparr>" "Some ''ab''" 8 "''ab''"]
  by (simp add: is_v4_def sample_lib_def sample_addr_def)

text \<open>
  The two copying \<open>setAddr\<close> store the given address and forget the old one: the last of
  a sequence of them wins, and the copy is indistinguishable from the original, so it has
  the same IPv4 test and formats to the same text.
\<close>

theorem setAddr_copies:
  assumes "copy_ok lib"
  shows "getAddr (setAddr_addr lib sa a) = a \<and>
    setAddr_SocketAddr lib (setAddr_addr lib sa a) sa' = sa' \<and>
    is_v4 lib (setAddr_SocketAddr lib sa sa') = is_v4 lib sa' \<and>
    fmtIPv4_array lib (setAddr_SocketAddr lib sa sa') buf = fmtIPv4_array lib sa' buf \<and>
    fmtIPv6_array lib (setAddr_SocketAddr lib sa sa') buf = fmtIPv6_array lib sa' buf"
proof -
  have "setAddr_SocketAddr lib sa sa' = sa'" for sa
    using assms by (cases sa; cases sa')
      (simp add: copy_ok_def setAddr_addr_def setAddr_SocketAddr_def getAddr_def)
  then show ?thesis using assms by (simp add: copy_ok_def setAddr_addr_def getAddr_def)
qed

text \<open>The same on two concrete addresses.\<close>

theorem setAddr_copies_witness:
  "is_v4 sample_lib (setAddr_SocketAddr sample_lib \<lparr>addr_member = \<lparr>ipv6be = [1, 2, 3, 4]\<rparr>\<rparr>
      \<lparr>addr_member = sample_addr\<rparr>)"
  using setAddr_copies [OF sample_copy, of "\<lparr>addr_member = \<lparr>ipv6be = [1, 2, 3, 4]\<rparr>\<rparr>" _
      "\<lparr>addr_member = sample_addr\<rparr>"]
  by (simp add: is_v4_def sample_lib_def sample_addr_def)

end
