(* ===== verification/Registry_Spec.thy ===== *)
theory Registry_Spec
  imports Sockets_System
begin

text \<open>
  The abstract specification of the library's book-keeping: a registry of the sockets that
  exist, with their classes, and whether the periodic task of the stack is scheduled. The
  detailed model of \<open>Sockets_System\<close> is shown to simulate it, step by step.
\<close>

section \<open>The specification\<close>

record registry =
  live :: "oid \<rightharpoonup> klass"
  ticking :: bool

definition has_TCP :: "(oid \<rightharpoonup> klass) \<Rightarrow> bool" where
  "has_TCP m \<longleftrightarrow> (\<exists>a k. m a = Some k \<and> is_TCPAsynch k)"

text \<open>
  A new socket is registered; the task starts with the first TCP socket, if its stack exists.
  A deleted socket is removed, and the task stops with the last TCP socket. A connection
  is accepted, which registers a stream, or refused. Nothing else changes the registry.
\<close>

inductive registry_step :: "'w env \<Rightarrow> registry \<Rightarrow> 'w action \<Rightarrow> registry \<Rightarrow> bool" for env where
  reg_new: "live s a = None \<Longrightarrow> k \<in> {K_UDPSocket, K_TCPStream, K_TCPListener} \<Longrightarrow>
    registry_step env s (New k a stk mem)
      \<lparr>live = (live s)(a \<mapsto> k),
       ticking = (ticking s \<or> is_TCPAsynch k \<and> \<not> has_TCP (live s) \<and> socket_get_api env stk \<noteq> None)\<rparr>"
| reg_delete: "live s a \<noteq> None \<Longrightarrow>
    registry_step env s (Delete a)
      \<lparr>live = (live s)(a := None), ticking = (ticking s \<and> has_TCP ((live s)(a := None)))\<rparr>"
| reg_accept: "live s a = Some K_TCPListener \<Longrightarrow> live s new = None \<Longrightarrow>
    registry_step env s (Accept a new mem p) (s\<lparr>live := (live s)(new \<mapsto> K_TCPStream)\<rparr>)"
| reg_refuse: "live s a = Some K_TCPListener \<Longrightarrow> registry_step env s (Accept a new mem p) s"
| reg_call: "live s a \<noteq> None \<Longrightarrow> registry_step env s (Call a c) s"
| reg_event: "live s a \<noteq> None \<Longrightarrow> registry_step env s (Stack_event a ev x) s"

definition abs_world :: "'w world \<Rightarrow> registry" where
  "abs_world w = \<lparr>live = (\<lambda>a. map_option vptr (objs w a)), ticking = (tick_handle w \<noteq> None)\<rparr>"

lemma abs_world_simps [simp]:
  "live (abs_world w) = (\<lambda>a. map_option vptr (objs w a))"
  "ticking (abs_world w) = (tick_handle w \<noteq> None)"
  by (simp_all add: abs_world_def)

section \<open>What a call changes\<close>

text \<open>
  Every member function changes at most the object it is called on, the event fields of others, the
  scheduler and the stack. This is the frame of destructors, which \<open>error_check\<close> keeps too.
\<close>

context socket_op
begin

lemma after_frame: "sal_ok env \<Longrightarrow> after_call (op env a w) = Some w' \<Longrightarrow> op_frame a w w'"
  using frame by fastforce

end

lemmas setter_after_frame = setOnError_op.after_frame setOnReadable_op.after_frame
  setOnSent_op.after_frame setOnDisconnect_op.after_frame setNagle_op.after_frame reject_op.after_frame

lemmas call_after_frame = resolve_op.after_frame udp_open_op.after_frame tcp_open_op.after_frame
  bind_op.after_frame bind_str_op.after_frame recv_op.after_frame recv_from_op.after_frame
  send_op.after_frame send_to_op.after_frame close_op.after_frame connect_op.after_frame
  start_op.after_frame stop_op.after_frame setter_after_frame [unfolded after_no_result]

lemma udp_connect_frame:
  assumes "sal_ok env" and "after_call (UDPSocket_connect env a sa port w) = Some w'"
  shows "op_frame a w w'"
proof (cases sa)
  case None
  with assms(2) show ?thesis by (auto simp: UDPSocket_connect_def split: if_splits)
next
  case (Some s)
  with assms udp_connect_op.after_frame show ?thesis by blast
qed

lemma exec_call_op_frame:
  assumes ok: "sal_ok env" and ex: "exec_call env a c w = Some w'" and c: "\<forall>err. c \<noteq> C_error_check err"
  shows "op_frame a w w'"
proof (cases c)
  case (C_open af)
  with ex show ?thesis
    by (auto split: option.splits if_splits dest: udp_open_op.frame [OF ok] tcp_open_op.frame [OF ok])
qed (use ok ex c in \<open>auto intro: call_after_frame udp_connect_frame simp del: map_option_eq_Some\<close>)

lemma exec_call_frame:
  assumes "sal_ok env" and "exec_call env a c w = Some w'"
  shows "dtor_frame a w w' \<and> map_option vptr (objs w' a) = map_option vptr (objs w a)"
proof (cases "\<exists>err. c = C_error_check err")
  case True
  with assms(2) obtain err r where e: "error_check a err w = Some (r, w')" by auto
  then have "objs w' = objs w" by (auto simp: error_check_def split: if_splits)
  with error_check_dtor [OF e] show ?thesis by simp
next
  case False
  then have fr: "op_frame a w w'" using exec_call_op_frame [OF assms] by blast
  then have "map_option vptr (objs w' a) = map_option vptr (objs w a)"
    by (auto simp: op_frame_def op_obj_def elim: option.rel_cases)
  with op_frame_dtor [OF fr] show ?thesis by simp
qed

section \<open>The simulation\<close>

lemma live_TCP_has: "live_TCP w = 0 \<longleftrightarrow> \<not> has_TCP (\<lambda>a. map_option vptr (objs w a))"
proof -
  let ?A = "{k. \<exists>ob. objs w k = Some ob \<and> is_TCPAsynch (vptr ob)}"
  have "live_TCP w = 0 \<longleftrightarrow> ?A = {}"
    by (simp add: live_TCP_def count_where_def)
  also have "\<dots> \<longleftrightarrow> \<not> has_TCP (\<lambda>a. map_option vptr (objs w a))"
    by (auto simp: has_TCP_def)
  finally show ?thesis .
qed

text \<open>Worlds whose objects agree up to event fields, and the same handle, have one registry.\<close>

lemma abs_world_eqI:
  assumes "\<And>b. map_option vptr (objs w' b) = m b" and "(tick_handle w' \<noteq> None) = t"
  shows "abs_world w' = \<lparr>live = m, ticking = t\<rparr>"
  using assms by (auto simp: abs_world_def)

lemma frame_abs:
  assumes "dtor_frame a w w'" and "map_option vptr (objs w' a) = map_option vptr (objs w a)"
  shows "abs_world w' = abs_world w"
proof -
  have "map_option vptr (objs w' b) = map_option vptr (objs w b)" for b
  proof (cases "b = a")
    case False
    with assms(1) have "map_option quiet (objs w' b) = map_option quiet (objs w b)"
      by (simp add: dtor_frame_def)
    then show ?thesis by (rule map_option_quiet_vptr)
  qed (simp add: assms(2))
  with assms(1) show ?thesis by (simp add: abs_world_def dtor_frame_def)
qed

lemma new_abs:
  assumes ok: "env_ok env" and wf: "wf_world env w" and en: "enabled w (New k a stk mem)"
    and new: "new_obj env k a stk mem w = Some w'"
  shows "abs_world w' = \<lparr>live = (live (abs_world w))(a \<mapsto> k),
    ticking = (ticking (abs_world w) \<or> is_TCPAsynch k \<and> \<not> has_TCP (live (abs_world w)) \<and>
               socket_get_api env stk \<noteq> None)\<rparr>"
proof (rule abs_world_eqI)
  have m: "minar_ok env" and a: "a \<noteq> 0" "objs w a = None" using ok en by (simp_all add: env_ok_def)
  consider "k = K_UDPSocket" | "k = K_TCPStream" | "k = K_TCPListener" using en by auto
  then have "\<exists>ob. objs w' = (objs w)(a \<mapsto> ob) \<and> vptr ob = k"
  proof cases
    case 1
    with new udp_class.ctor_law [OF m wf a, of stk mem] show ?thesis by (auto simp: new_obj_def)
  next
    case 2
    with new stream_class.ctor_law [OF m wf a, of stk mem] show ?thesis by (auto simp: new_obj_def)
  next
    case 3
    with new listener_class.ctor_law [OF m wf a, of stk mem] show ?thesis by (auto simp: new_obj_def)
  qed
  then show "map_option vptr (objs w' b) = ((live (abs_world w))(a \<mapsto> k)) b" for b by auto
  have tcp: "(tick_handle w' \<noteq> None) = (tick_handle w \<noteq> None \<or> live_TCP w = 0 \<and> socket_get_api env stk \<noteq> None)"
    if "tick_handle w' = tick_handle (TCPAsynch_ctor env a stk mem w)"
    using that TCPAsynch_ctor_world(4,5) [where env = env and a = a and stk = stk and mem = mem and w = w]
      TCPSockets_zero [OF wf] m
    by (cases "TCPSockets w = 0"; cases "socket_get_api env stk") (auto simp: minar_ok_def)
  show "(tick_handle w' \<noteq> None) = (ticking (abs_world w) \<or> is_TCPAsynch k \<and> \<not> has_TCP (live (abs_world w)) \<and>
               socket_get_api env stk \<noteq> None)"
    using new en tcp live_TCP_has [of w]
    by (auto simp: new_obj_def TCPStream_ctor_def TCPListener_ctor_def UDPSocket_ctor_def with_obj_eq_Some Let_def)
qed

lemma delete_abs:
  assumes ok: "env_ok env" and wf: "wf_world env w" and del: "delete_obj env a w = Some w'"
  shows "objs w a \<noteq> None \<and> abs_world w' = \<lparr>live = (live (abs_world w))(a := None),
    ticking = (ticking (abs_world w) \<and> has_TCP ((live (abs_world w))(a := None)))\<rparr>"
proof -
  from del obtain ob where ob: "objs w a = Some ob" by (auto simp: delete_obj_def)
  from delete_obj_law [OF _ wf ob] ok del
  have q: "map_option quiet (objs w' b) = (if b = a then None else map_option quiet (objs w b))"
    and t: "tick_handle w' = (if live_TCP w' = 0 then None else tick_handle w)" for b
    by (simp_all add: env_ok_def)
  have v: "map_option vptr (objs w' b) = ((live (abs_world w))(a := None)) b" for b
    using q [of b] map_option_quiet_vptr [of "objs w' b" "objs w b"] by (cases "b = a") simp_all
  then have "live (abs_world w') = (live (abs_world w))(a := None)" by auto
  then show ?thesis
    using ob t live_TCP_has [of w'] v by (auto intro: abs_world_eqI)
qed

lemma accept_abs:
  assumes ok: "env_ok env" and wf: "wf_world env w" and en: "enabled w (Accept a new mem p)"
    and acc: "TCPListener_accept env new mem a p w = Some (r, w')"
  shows "live (abs_world w) a = Some K_TCPListener \<and> live (abs_world w) new = None \<and>
    abs_world w' = (if r = None then abs_world w
                    else (abs_world w)\<lparr>live := (live (abs_world w))(new \<mapsto> K_TCPStream)\<rparr>)"
proof -
  from en obtain lob where lob: "objs w a = Some lob" "vptr lob = K_TCPListener" "api (sock lob) \<noteq> None"
      and new: "new \<noteq> 0" "objs w new = None"
    by (auto split: option.splits)
  from ok have k: "sal_ok env" "minar_ok env" by (simp_all add: env_ok_def)
  note law = accept_law [OF k wf lob new, of mem p] acc
  have others: "map_option vptr (objs w' b) = map_option vptr (objs w b)" if "b \<noteq> new" for b
    using law that lob map_option_quiet_vptr [of "objs w' b" "objs w b"] by (cases "b = a") auto
  have "map_option vptr (objs w' new) = (if r = None then None else Some K_TCPStream)"
    using law by (auto split: if_splits)
  then have "live (abs_world w') = (if r = None then live (abs_world w)
                else (live (abs_world w))(new \<mapsto> K_TCPStream))"
    using others new(2) by (intro ext) (simp add: fun_upd_def)
  moreover have "ticking (abs_world w') = ticking (abs_world w)" using law by auto
  ultimately show ?thesis using lob new by (cases "abs_world w'") auto
qed

lemma registry_simulation:
  assumes ok: "env_ok env" and wf: "wf_world env w" and st: "sys_step env w act w'"
  shows "registry_step env (abs_world w) act (abs_world w')"
proof -
  from st have en: "enabled w act" and ex: "exec env act w = Some w'" by auto
  show ?thesis
  proof (cases act)
    case (New k a stk mem)
    with new_abs [OF ok wf, of k a stk mem w'] en ex
    have abs: "abs_world w' = \<lparr>live = (live (abs_world w))(a \<mapsto> k),
        ticking = (ticking (abs_world w) \<or> is_TCPAsynch k \<and> \<not> has_TCP (live (abs_world w)) \<and>
                   socket_get_api env stk \<noteq> None)\<rparr>" by simp
    show ?thesis
      using en New unfolding New abs by (intro reg_new) simp_all
  next
    case (Delete a)
    with delete_abs [OF ok wf] ex reg_delete [of "abs_world w" a env] show ?thesis by simp
  next
    case (Accept a new mem p)
    with ex obtain r where "TCPListener_accept env new mem a p w = Some (r, w')" by auto
    from accept_abs [OF ok wf _ this] en Accept show ?thesis
      using reg_accept [of "abs_world w" a new env mem p] reg_refuse [of "abs_world w" a env new mem p]
      by (cases r) auto
  next
    case (Call a c)
    with ex have "exec_call env a c w = Some w'" by simp
    from exec_call_frame [OF _ this] ok have "abs_world w' = abs_world w"
      by (intro frame_abs [of a]) (simp_all add: env_ok_def)
    with en Call show ?thesis by (auto split: option.splits intro: reg_call)
  next
    case (Stack_event a ev x)
    with ex have "raise_event a ev (w\<lparr>network := x\<rparr>) = Some w'" by simp
    from event_frame_op_frame [OF raise_event_frame [OF this], of a] have fr: "op_frame a w w'"
      by (rule op_frame_trans [OF set_network_frame])
    then have "map_option vptr (objs w' a) = map_option vptr (objs w a)"
      by (auto simp: op_frame_def op_obj_def elim: option.rel_cases)
    with frame_abs [OF op_frame_dtor [OF fr]] en Stack_event show ?thesis
      by (auto intro: reg_event)
  qed
qed

end
