(* ===== verification/Socket_Properties.thy ===== *)
theory Socket_Properties
  imports Sample_Stack
begin

text \<open>
  The correctness of the class \<open>Socket\<close> and of event delivery: which callback an event posts,
  what the setters change, what every call does on a socket that is not opened or has no
  stack, and the order in which handlers are stored and the stack is called.
\<close>

section \<open>Shared facts\<close>

text \<open>A call of the stack that raises no events, and one that raises an event on the object.\<close>

lemma api_call_quiet:
  assumes "objs w a = Some ob" and "api (sock ob) = Some p"
    and "f (vtable env p) (network w) (sock ob) = (r, s', [], x)"
  shows "api_call env a f w = Some (r, put_obj a (ob\<lparr>sock := s'\<rparr>) (w\<lparr>network := x\<rparr>))"
  using assms by (simp add: api_call_def api_invoke_def)

lemma api_call_event:
  assumes "objs w a = Some ob" and "api (sock ob) = Some p"
    and "f (vtable env p) (network w) (sock ob) = (r, s', [(a, ev)], x)"
  shows "\<exists>w'. api_call env a f w = Some (r, w') \<and>
    minar w' = minar w @ map PostCallback (case event_callback a ob ev of None \<Rightarrow> [] | Some c \<Rightarrow> [c])"
  using assms by (simp add: api_call_def api_invoke_def raise_event_eq)

text \<open>Two objects for the applications of the properties: an open stream and a listener.\<close>

definition sample_sock :: "void_ptr \<Rightarrow> socket" where
  "sample_sock i = \<lparr>handler = Some 4, impl = i, stack = 1, api = Some 5, family = SOCKET_STREAM, event = None\<rparr>"

definition sample_world :: "klass \<Rightarrow> void_ptr \<Rightarrow> nat world" where
  "sample_world k i = (init_world 0)\<lparr>objs := [4 \<mapsto> sample_mem\<lparr>vptr := k, sock := sample_sock i\<rparr>]\<rparr>"

lemmas sample_world_defs = sample_world_def sample_sock_def sample_mem_def init_world_def

text \<open>Members of different names are updated independently.\<close>

lemma handler_updates:
  "ob\<lparr>onReadable := g, onError := f\<rparr> = ob\<lparr>onError := f, onReadable := g\<rparr>"
  "ob\<lparr>onSent := g, onError := f\<rparr> = ob\<lparr>onError := f, onSent := g\<rparr>"
  "ob\<lparr>onSent := g, onReadable := f\<rparr> = ob\<lparr>onReadable := f, onSent := g\<rparr>"
  by (cases ob, simp)+

section \<open>Events\<close>

text \<open>
  C9. Delivering an event to a live object through its interrupt entry always returns. It
  posts nothing, or exactly one callback, which is set and bound to that object;
  it resets \<open>_event\<close>, and it changes no handler, no other object, no counter
  and no state of the stack.
\<close>

theorem event_delivery:
  assumes "objs w a = Some ob"
  shows "\<exists>w'. raise_event a ev w = Some w' \<and>
    (minar w' = minar w \<or>
     (\<exists>c. minar w' = minar w @ [PostCallback c] \<and> cb_this c = a \<and> cb_fp c \<noteq> None)) \<and>
    objs w' = (objs w)(a \<mapsto> ob\<lparr>sock := (sock ob)\<lparr>event := Some ev\<rparr>, event_ptr := None\<rparr>) \<and>
    TCPSockets w' = TCPSockets w \<and> tick_handle w' = tick_handle w \<and>
    irq_enabled w' = irq_enabled w \<and> network w' = network w"
  using assms by (auto simp: raise_event_eq seen_event_def own_callback_def split: option.splits
      dest: virtual_eh.cb_own)

text \<open>C9 on an open stream with no handlers set.\<close>

theorem event_delivery_witness:
  "\<exists>w'. raise_event 4 SOCKET_EVENT_RX_DONE (sample_world K_TCPStream (Some 7)) = Some w' \<and>
     irq_enabled w'"
  using event_delivery [of "sample_world K_TCPStream (Some 7)" 4 "sample_mem\<lparr>vptr := K_TCPStream,
      sock := sample_sock (Some 7)\<rparr>" SOCKET_EVENT_RX_DONE]
  by (auto simp: sample_world_def init_world_def)

text \<open>
  A listener reports the events of a connected socket as errors: if an error handler
  is set, readable, sent, connect and disconnect events post it with
  \<open>SOCKET_ERROR_UNIMPLEMENTED\<close>, and if none is set they post nothing; an incoming connection
  posts the handler given to \<open>start_listening\<close> with the new implementation.
\<close>

theorem listener_events:
  assumes "objs w a = Some ob" and "vptr ob = K_TCPListener"
  shows "(\<forall>ev \<in> {SOCKET_EVENT_RX_DONE, SOCKET_EVENT_TX_DONE n, SOCKET_EVENT_CONNECT, SOCKET_EVENT_DISCONNECT}.
      map_option minar (raise_event a ev w) = Some (minar w @
        (case onError ob of None \<Rightarrow> []
         | Some f \<Rightarrow> [PostCallback (CB_onError (Some f) a SOCKET_ERROR_UNIMPLEMENTED)]))) \<and>
    map_option minar (raise_event a (SOCKET_EVENT_ACCEPT p) w) = Some (minar w @
        (case onIncoming (listener_part ob) of None \<Rightarrow> []
         | Some f \<Rightarrow> [PostCallback (CB_onIncoming (Some f) a p)]))"
  using assms by (auto simp: raise_event_eq event_callback_def if_set_def split: option.splits)

text \<open>The same on a listener with no handlers.\<close>

theorem listener_events_witness:
  "map_option minar (raise_event 4 SOCKET_EVENT_CONNECT (sample_world K_TCPListener None)) = Some [] \<and>
   map_option minar (raise_event 4 (SOCKET_EVENT_ACCEPT (Some 3)) (sample_world K_TCPListener None)) = Some []"
  using listener_events [of "sample_world K_TCPListener None" 4
      "sample_mem\<lparr>vptr := K_TCPListener, sock := sample_sock None\<rparr>" 0 "Some 3"]
  by (simp add: sample_world_def init_world_def) (simp add: sample_mem_def)

text \<open>
  C30. Which handler is called after a setter, for every class. On a stream or a UDP socket, after \<open>setOnReadable\<close> or \<open>setOnSent\<close> the
  event that belongs to it posts the new handler with the arguments of the event and not the old one, and setting the null
  handler silences the event. On a listener the two setters have no effect on events: readable and sent events post
  its error handler with \<open>SOCKET_ERROR_UNIMPLEMENTED\<close>, or nothing if none is set. After \<open>setOnError\<close>, on all three classes, the three
  error events post the new error handler with the error of the event, and nothing if it is null.
\<close>

theorem handler_called:
  assumes "objs w a = Some ob" and "vptr ob \<in> {K_UDPSocket, K_TCPStream, K_TCPListener}"
  shows "(setOnReadable a f w \<bind> raise_event a SOCKET_EVENT_RX_DONE) \<bind> Some \<circ> minar
       = Some (minar w @ (if vptr ob = K_TCPListener
           then (if onError ob = None then [] else [PostCallback (CB_onError (onError ob) a SOCKET_ERROR_UNIMPLEMENTED)])
           else (if f = None then [] else [PostCallback (CB_onReadable f a)]))) \<and>
    (setOnSent a f w \<bind> raise_event a (SOCKET_EVENT_TX_DONE n)) \<bind> Some \<circ> minar
       = Some (minar w @ (if vptr ob = K_TCPListener
           then (if onError ob = None then [] else [PostCallback (CB_onError (onError ob) a SOCKET_ERROR_UNIMPLEMENTED)])
           else (if f = None then [] else [PostCallback (CB_onSent f a n)]))) \<and>
    (\<forall>ev \<in> {SOCKET_EVENT_ERROR e, SOCKET_EVENT_RX_ERROR e, SOCKET_EVENT_TX_ERROR e}.
       (setOnError a f w \<bind> raise_event a ev) \<bind> Some \<circ> minar
       = Some (minar w @ (if f = None then [] else [PostCallback (CB_onError f a e)])))"
  using assms by (cases "vptr ob")
    (auto simp: op_defs raise_event_eq event_callback_def if_set_def)

text \<open>C30 on an open stream.\<close>

theorem handler_called_witness:
  "(setOnSent 4 (Some 6) (sample_world K_TCPStream (Some 7)) \<bind> raise_event 4 (SOCKET_EVENT_TX_DONE 512))
     \<bind> Some \<circ> minar = Some [PostCallback (CB_onSent (Some 6) 4 512)]"
  using handler_called [of "sample_world K_TCPStream (Some 7)" 4 "sample_mem\<lparr>vptr := K_TCPStream,
      sock := sample_sock (Some 7)\<rparr>" "Some 6" 512]
  by (simp add: sample_world_def init_world_def)

text \<open>
  The three setters are assignments to three independent members: on a live object they
  return with interrupts enabled, the last assignment to a handler wins, and
  assignments to different handlers commute.
\<close>

theorem setters_independent:
  assumes "a \<in> dom (objs w)"
  shows "(setOnError a f w \<bind> setOnError a g) = setOnError a g w \<and>
    (setOnReadable a f w \<bind> setOnReadable a g) = setOnReadable a g w \<and>
    (setOnSent a f w \<bind> setOnSent a g) = setOnSent a g w \<and>
    (setOnError a f w \<bind> setOnReadable a g) = (setOnReadable a g w \<bind> setOnError a f) \<and>
    (setOnError a f w \<bind> setOnSent a g) = (setOnSent a g w \<bind> setOnError a f) \<and>
    (setOnReadable a f w \<bind> setOnSent a g) = (setOnSent a g w \<bind> setOnReadable a f) \<and>
    map_option irq_enabled (setOnError a f w) = Some True \<and>
    map_option irq_enabled (setOnReadable a f w) = Some True \<and>
    map_option irq_enabled (setOnSent a f w) = Some True"
  using assms by (auto simp: op_defs world_defs handler_updates)

text \<open>The same on an open stream.\<close>

theorem setters_independent_witness:
  "(setOnError 4 (Some 1) (sample_world K_TCPStream (Some 7)) \<bind> setOnSent 4 None)
     = (setOnSent 4 None (sample_world K_TCPStream (Some 7)) \<bind> setOnError 4 (Some 1))"
  using setters_independent [of 4 "sample_world K_TCPStream (Some 7)" "Some 1" None]
  by (simp add: sample_world_def)

section \<open>Sockets that are not open\<close>

text \<open>
  No call on a socket that has not been opened reaches the stack: \<open>resolve\<close>, \<open>close\<close>,
  \<open>recv\<close>, \<open>recv_from\<close>, \<open>send\<close>, \<open>send_to\<close>, \<open>bind\<close> with a text address and the four address
  queries return \<open>SOCKET_ERROR_NULL_PTR\<close>, \<open>isConnected\<close> returns false, and neither
  the state nor the caller's buffers change.
\<close>

theorem unopened_calls:
  assumes "objs w a = Some ob" and "impl (sock ob) = None"
  shows "Socket_resolve env a name f w = Some (SOCKET_ERROR_NULL_PTR, w) \<and>
    Socket_close env a w = Some (SOCKET_ERROR_NULL_PTR, w) \<and>
    Socket_recv env a buf len w = Some ((SOCKET_ERROR_NULL_PTR, buf, len), w) \<and>
    Socket_recv_from env a0 a buf len ra rp w = Some ((SOCKET_ERROR_NULL_PTR, buf, len, ra, rp), w) \<and>
    Socket_send env a buf n w = Some (SOCKET_ERROR_NULL_PTR, w) \<and>
    Socket_send_to env a buf n ra port w = Some (SOCKET_ERROR_NULL_PTR, w) \<and>
    Socket_bind_str env tmp a name port w = Some (SOCKET_ERROR_NULL_PTR, w) \<and>
    isConnected env a w = Some False \<and>
    getLocalAddr env a ra w = Some (SOCKET_ERROR_NULL_PTR, ra) \<and>
    getLocalPort env a rp w = Some (SOCKET_ERROR_NULL_PTR, rp) \<and>
    getRemoteAddr env a ra w = Some (SOCKET_ERROR_NULL_PTR, ra) \<and>
    getRemotePort env a rp w = Some (SOCKET_ERROR_NULL_PTR, rp)"
  using assms by (simp add: op_defs split: option.splits)

text \<open>The same on a stream that has just been constructed.\<close>

theorem unopened_calls_witness:
  "Socket_send sample_env 4 (Some [1, 2]) 2 (sample_world K_TCPStream None)
     = Some (SOCKET_ERROR_NULL_PTR, sample_world K_TCPStream None) \<and>
   isConnected sample_env 4 (sample_world K_TCPStream None) = Some False"
  using unopened_calls [of "sample_world K_TCPStream None" 4
      "sample_mem\<lparr>vptr := K_TCPStream, sock := sample_sock None\<rparr>"]
  by (simp add: sample_world_def sample_sock_def)

text \<open>
  A socket whose stack is unknown cannot be used: every form of \<open>open\<close>, both
  \<open>connect\<close>, \<open>start_listening\<close> and \<open>stop_listening\<close> return \<open>SOCKET_ERROR_BAD_STACK\<close>
  and change nothing; in particular no handler is stored.
\<close>

theorem no_stack_calls:
  assumes "objs w a = Some ob" and "api (sock ob) = None"
  shows "Socket_open env a af pf w = Some (SOCKET_ERROR_BAD_STACK, w) \<and>
    UDPSocket_open env a af w = Some (SOCKET_ERROR_BAD_STACK, w) \<and>
    TCPAsynch_open env a af w = Some (SOCKET_ERROR_BAD_STACK, w) \<and>
    UDPSocket_connect env a addr port w = Some (SOCKET_ERROR_BAD_STACK, w) \<and>
    TCPStream_connect env a sa port f w = Some (SOCKET_ERROR_BAD_STACK, w) \<and>
    start_listening env a f backlog w = Some (SOCKET_ERROR_BAD_STACK, w) \<and>
    stop_listening env a w = Some (SOCKET_ERROR_BAD_STACK, w)"
  using assms by (simp add: op_defs)

text \<open>The same on an object without a function table.\<close>

theorem no_stack_calls_witness:
  "stop_listening sample_env 4 ((sample_world K_TCPListener None)\<lparr>objs := [4 \<mapsto> sample_mem]\<rparr>)
     = Some (SOCKET_ERROR_BAD_STACK, (sample_world K_TCPListener None)\<lparr>objs := [4 \<mapsto> sample_mem]\<rparr>)"
  using no_stack_calls [of "(sample_world K_TCPListener None)\<lparr>objs := [4 \<mapsto> sample_mem]\<rparr>" 4 sample_mem]
  by (simp add: sample_mem_def)

section \<open>Binding\<close>

text \<open>
  C31. \<open>bind\<close> with a \<open>SocketAddr\<close> never opens the socket. The code calls the virtual \<open>open\<close>,
  which both \<open>UDPSocket\<close> and \<open>TCPAsynch\<close> override with a function that only fails: in
  every reachable state, on every object that has not been opened, \<open>bind\<close> returns
  \<open>SOCKET_ERROR_UNIMPLEMENTED\<close> and changes nothing.
\<close>

theorem bind_unopened:
  assumes "env_ok env" and "reachable (\<lambda>w. \<exists>x. w = init_world x) (sys_step env) w"
    and "objs w a = Some ob" and "impl (sock ob) = None"
  shows "Socket_bind env a (Some sa) port w = Some (SOCKET_ERROR_UNIMPLEMENTED, w)"
proof -
  have "wf_world env w" using sys_wf.holds [OF assms(2)] assms(1) by simp
  from open_pf_wf [OF this assms(3)] show ?thesis using assms(3,4) by (simp add: Socket_bind_def)
qed

text \<open>C31 on a UDP socket that has just been constructed on a valid stack.\<close>

theorem bind_unopened_witness:
  "Socket_bind sample_env 4 (Some \<lparr>addr_member = sample_addr\<rparr>) 80
     (UDPSocket_ctor sample_env 4 1 sample_mem (init_world 0))
     = Some (SOCKET_ERROR_UNIMPLEMENTED, UDPSocket_ctor sample_env 4 1 sample_mem (init_world 0))"
proof -
  let ?w = "UDPSocket_ctor sample_env 4 1 sample_mem (init_world 0)"
  have "sys_step sample_env (init_world 0) (New K_UDPSocket 4 1 sample_mem) ?w"
    by (rule sys_step_exec) (simp_all add: new_obj_def init_world_def)
  then have "reachable (\<lambda>w. \<exists>x. w = init_world x) (sys_step sample_env) ?w"
    by (rule reach_step [rotated]) (auto intro: reach_init)
  then show ?thesis
    by (rule bind_unopened [OF sample_env_ok])
      (simp add: UDPSocket_ctor_def Let_def, simp add: Socket_ctor_def)
qed

text \<open>
  C35. \<open>bind\<close> with a text address, on an open socket and a stack that raises no events: the text is
  parsed by the stack; if that fails its error is returned and \<open>bind\<close> of the stack is
  not called; otherwise the stack binds exactly the parsed address and the given port, in the
  state and with the struct that parsing left, and its result is returned.
\<close>

theorem bind_str_paths:
  assumes "objs w a = Some ob" and "api (sock ob) = Some p" and "impl (sock ob) \<noteq> None"
    and "api_str2addr (vtable env p) (getAddr tmp) text (network w) (sock ob) = ((err, sa), s1, [], x1)"
    and "err = SOCKET_ERROR_NONE \<longrightarrow> impl s1 \<noteq> None \<and> api s1 = Some p \<and>
           api_bind (vtable env p) sa port x1 s1 = (err2, s2, [], x2)"
  shows "Socket_bind_str env tmp a text port w =
    (if err = SOCKET_ERROR_NONE
     then Some (err2, put_obj a (ob\<lparr>sock := s2\<rparr>) (w\<lparr>network := x2\<rparr>))
     else Some (err, put_obj a (ob\<lparr>sock := s1\<rparr>) (w\<lparr>network := x1\<rparr>)))"
proof -
  let ?w1 = "put_obj a (ob\<lparr>sock := s1\<rparr>) (w\<lparr>network := x1\<rparr>)"
  have 1: "api_call env a (\<lambda>t. api_str2addr t (getAddr tmp) text) w = Some ((err, sa), ?w1)"
    using assms(1,2,4) by (rule api_call_quiet)
  have "api_call env a (\<lambda>t. api_bind t sa port) ?w1 = Some (err2, put_obj a (ob\<lparr>sock := s2\<rparr>) (w\<lparr>network := x2\<rparr>))"
    if "err = SOCKET_ERROR_NONE"
    using api_call_quiet [of ?w1 a "ob\<lparr>sock := s1\<rparr>" p "\<lambda>t. api_bind t sa port"] assms(5) that
    by (simp add: put_obj_def)
  with 1 assms(1,3,5) show ?thesis
    by (auto simp: Socket_bind_str_def Socket_bind_def getAddr_def)
qed

text \<open>C35 on an open stream, with a text that is parsed.\<close>

theorem bind_str_paths_witness:
  "Socket_bind_str sample_env \<lparr>addr_member = \<lparr>ipv6be = []\<rparr>\<rparr> 4 (Some ''::1'') 80 (sample_world K_TCPStream (Some 7))
     = Some (SOCKET_ERROR_NONE, (sample_world K_TCPStream (Some 7))\<lparr>network := 2\<rparr>)"
  using bind_str_paths [of "sample_world K_TCPStream (Some 7)" 4
      "sample_mem\<lparr>vptr := K_TCPStream, sock := sample_sock (Some 7)\<rparr>" 5 sample_env
      "\<lparr>addr_member = \<lparr>ipv6be = []\<rparr>\<rparr>" "Some ''::1''" SOCKET_ERROR_NONE sample_addr "sample_sock (Some 7)" 1 80
      SOCKET_ERROR_NONE "sample_sock (Some 7)" 2]
  by (simp add: sample_world_def sample_sock_def put_obj_def sample_defs)

section \<open>Order of effects\<close>

text \<open>
  C36. A handler is stored before the stack is called, so an event that the stack
  delivers before the call returns already reaches the new handler: a DNS answer during \<open>resolve\<close>
  posts the \<open>onDNS\<close> of that call, whatever handler an earlier call had left.
\<close>

theorem resolve_sync:
  assumes "objs w a = Some ob" and "api (sock ob) = Some p" and "impl (sock ob) \<noteq> None"
    and "handler (sock ob) \<noteq> None" and "vptr ob \<in> {K_UDPSocket, K_TCPStream, K_TCPListener}"
    and "api_resolve (vtable env p) name (network w) (sock ob) = (err, s', [(a, SOCKET_EVENT_DNS addr domain)], x)"
  shows "\<exists>w'. Socket_resolve env a name (Some f) w = Some (err, w') \<and>
    minar w' = minar w @ [PostCallback (CB_onDNS (Some f) a addr domain)]"
proof -
  let ?ob = "ob\<lparr>onDNS := Some f\<rparr>" and ?w = "put_obj a (ob\<lparr>onDNS := Some f\<rparr>) w"
  obtain w' where "api_call env a (\<lambda>t. api_resolve t name) ?w = Some (err, w')"
    "minar w' = minar ?w @ map PostCallback
      (case event_callback a ?ob (SOCKET_EVENT_DNS addr domain) of None \<Rightarrow> [] | Some c \<Rightarrow> [c])"
    using api_call_event [of ?w a ?ob p "\<lambda>t. api_resolve t name" env] assms(2,6) by auto
  moreover have "event_callback a ?ob (SOCKET_EVENT_DNS addr domain) = Some (CB_onDNS (Some f) a addr domain)"
    using assms(5) by (auto simp: event_callback_def if_set_def)
  ultimately show ?thesis using assms(1,3,4) by (simp add: Socket_resolve_def)
qed

text \<open>C36 on an open stream and a stack that answers at once.\<close>

theorem resolve_sync_witness:
  "\<exists>w'. Socket_resolve sample_env 4 (Some ''mbed.org'') (Some 6) (sample_world K_TCPStream (Some 7))
      = Some (SOCKET_ERROR_NONE, w') \<and>
     minar w' = [PostCallback (CB_onDNS (Some 6) 4 sample_addr (Some ''mbed.org''))]"
  using resolve_sync [of "sample_world K_TCPStream (Some 7)" 4
      "sample_mem\<lparr>vptr := K_TCPStream, sock := sample_sock (Some 7)\<rparr>" 5 sample_env "Some ''mbed.org''"
      SOCKET_ERROR_NONE "sample_sock (Some 7)" sample_addr "Some ''mbed.org''" 1 6]
  by (simp add: sample_world_def sample_sock_def sample_defs)

text \<open>
  Once a stack has cleared the handler of a closed socket, \<open>resolve\<close> on it returns
  \<open>SOCKET_ERROR_CLOSED\<close> and stores no handler, while its implementation is still there.
\<close>

theorem resolve_after_close:
  assumes "objs w a = Some ob" and "api (sock ob) = Some p" and "impl (sock ob) \<noteq> None"
    and "api_close (vtable env p) (network w) (sock ob) = (err, s', [], x)"
    and "handler s' = None" and "impl s' \<noteq> None"
  shows "(Socket_close env a w \<bind> (\<lambda>(e, w1). Socket_resolve env a name f w1 \<bind> (\<lambda>(e2, w2). Some (e, e2, w1, w2))))
    = (let w1 = put_obj a (ob\<lparr>sock := s'\<rparr>) (w\<lparr>network := x\<rparr>) in Some (err, SOCKET_ERROR_CLOSED, w1, w1))"
  using api_call_quiet [of w a ob p api_close env, OF assms(1,2,4)] assms(1,3,5,6)
  by (auto simp: Socket_close_def Socket_resolve_def Let_def)

text \<open>The same on an open stream.\<close>

theorem resolve_after_close_witness:
  "(Socket_close sample_env 4 (sample_world K_TCPStream (Some 7)) \<bind>
      (\<lambda>(e, w1). Socket_resolve sample_env 4 None (Some 6) w1 \<bind> (\<lambda>(e2, w2). Some (e, e2))))
    = Some (SOCKET_ERROR_NONE, SOCKET_ERROR_CLOSED)"
proof -
  let ?s = "sample_sock (Some 7)"
  have "(Socket_close sample_env 4 (sample_world K_TCPStream (Some 7)) \<bind>
      (\<lambda>(e, w1). Socket_resolve sample_env 4 None (Some 6) w1 \<bind> (\<lambda>(e2, w2). Some (e, e2, w1, w2))))
    = (let w1 = put_obj 4 (sample_mem\<lparr>vptr := K_TCPStream, sock := ?s\<lparr>handler := None\<rparr>\<rparr>)
                  ((sample_world K_TCPStream (Some 7))\<lparr>network := 100\<rparr>)
       in Some (SOCKET_ERROR_NONE, SOCKET_ERROR_CLOSED, w1, w1))"
    using resolve_after_close [of "sample_world K_TCPStream (Some 7)" 4
      "sample_mem\<lparr>vptr := K_TCPStream, sock := ?s\<rparr>" 5 sample_env SOCKET_ERROR_NONE "?s\<lparr>handler := None\<rparr>" 100 None "Some 6"]
    by (simp add: sample_world_def sample_sock_def sample_defs)
  then show ?thesis by (auto simp: Let_def)
qed

section \<open>Error reporting\<close>

text \<open>
  \<open>error_check\<close> tells errors from success, and on an error it posts the error callback of
  the object with that error. It does not test whether the callback is set, so with no error
  handler it posts a null function pointer, unlike the event handlers.
\<close>

theorem error_check_posts:
  assumes "objs w a = Some ob"
  shows "error_check a SOCKET_ERROR_NONE w = Some (False, w) \<and>
    (err \<noteq> SOCKET_ERROR_NONE \<longrightarrow>
       error_check a err w = Some (True, w\<lparr>minar := minar w @ [PostCallback (CB_onError (onError ob) a err)]\<rparr>)) \<and>
    (onError ob = None \<longrightarrow>
       (\<exists>w1 w2. error_check a SOCKET_ERROR_UNKNOWN w = Some (True, w1) \<and>
          raise_event a (SOCKET_EVENT_ERROR SOCKET_ERROR_UNKNOWN) w = Some w2 \<and>
          length (minar w1) = Suc (length (minar w2))))"
  using assms by (auto simp: error_check_def world_defs raise_event_eq event_callback_def if_set_def)

text \<open>The same on a stream with no error handler.\<close>

theorem error_check_posts_witness:
  "error_check 4 SOCKET_ERROR_CLOSED (sample_world K_TCPStream (Some 7)) =
     Some (True, (sample_world K_TCPStream (Some 7))\<lparr>minar :=
       [PostCallback (CB_onError None 4 SOCKET_ERROR_CLOSED)]\<rparr>)"
  using error_check_posts [of "sample_world K_TCPStream (Some 7)" 4
      "sample_mem\<lparr>vptr := K_TCPStream, sock := sample_sock (Some 7)\<rparr>" SOCKET_ERROR_CLOSED]
  by (simp add: sample_world_def sample_mem_def init_world_def)

text \<open>
  \<open>recv_from\<close> on an open socket passes the caller's buffer and port to the stack, and
  always overwrites the caller's address with the struct the stack got: after an error of
  the stack too, when the struct may still be the uninitialised local variable \<open>a0\<close>.
\<close>

theorem recv_from_address:
  assumes "copy_ok (addrs env)" and "objs w a = Some ob" and "api (sock ob) = Some p" and "impl (sock ob) \<noteq> None"
    and "api_recv_from (vtable env p) buf len a0 port (network w) (sock ob)
           = ((err, buf', len', addr, port'), s', [], x)"
  shows "Socket_recv_from env a0 a buf len (Some ra) port w =
    Some ((err, buf', len', Some \<lparr>addr_member = addr\<rparr>, port'),
          put_obj a (ob\<lparr>sock := s'\<rparr>) (w\<lparr>network := x\<rparr>))"
  using api_call_quiet [OF assms(2,3), of "\<lambda>t. api_recv_from t buf len a0 port" env] assms
  by (cases ra) (auto simp: Socket_recv_from_def setAddr_addr_def copy_ok_def)

text \<open>The same with a null port, which the stack refuses: the caller's address becomes the uninitialised one.\<close>

theorem recv_from_address_witness:
  "map_option fst (Socket_recv_from sample_env \<lparr>ipv6be = [42]\<rparr> 4 (Some [0]) (Some 1)
      (Some \<lparr>addr_member = sample_addr\<rparr>) None (sample_world K_UDPSocket (Some 7)))
   = Some (SOCKET_ERROR_NULL_PTR, Some [0], Some 1, Some \<lparr>addr_member = \<lparr>ipv6be = [42]\<rparr>\<rparr>, None)"
proof -
  have "copy_ok (addrs sample_env)" by (simp add: sample_env_def)
  then show ?thesis
    using recv_from_address [of sample_env "sample_world K_UDPSocket (Some 7)" 4
        "sample_mem\<lparr>vptr := K_UDPSocket, sock := sample_sock (Some 7)\<rparr>" 5 "Some [0]" "Some 1" "\<lparr>ipv6be = [42]\<rparr>"
        None SOCKET_ERROR_NULL_PTR "Some [0]" "Some 1" "\<lparr>ipv6be = [42]\<rparr>" None "sample_sock (Some 7)" 1
        "\<lparr>addr_member = sample_addr\<rparr>"]
    by (simp add: sample_world_def sample_sock_def sample_defs)
qed

text \<open>
  C40. When the stack fails to destroy a socket, the destructor reports it with a callback bound to
  the object it is destroying: after \<open>delete\<close> of a UDP socket the object is gone, and the last call
  to the scheduler is the error callback whose \<open>this\<close> is the address of the destroyed object.
\<close>

theorem dtor_error_dangling:
  assumes "objs w a = Some ob" and "api (sock ob) = Some p" and "api_destroy (vtable env p) = Some f"
    and "f (network w) (sock ob) = (err, s', [], x)" and "err \<noteq> SOCKET_ERROR_NONE"
  shows "\<exists>w'. UDPSocket_dtor env a w = Some w' \<and> objs w' = (objs w)(a := None) \<and>
    minar w' = minar w @ [PostCallback (CB_onError (onError ob) a err)]"
  using assms by (simp add: UDPSocket_dtor_def Socket_dtor_def error_check_def api_call_def api_invoke_def)

text \<open>C40 on a stack that cannot destroy sockets.\<close>

theorem dtor_error_dangling_witness:
  "\<exists>w'. UDPSocket_dtor sample_env 4 (sample_world K_UDPSocket (Some 7)) = Some w' \<and> objs w' 4 = None \<and>
     minar w' = [PostCallback (CB_onError None 4 SOCKET_ERROR_UNKNOWN)]"
  using dtor_error_dangling [of "sample_world K_UDPSocket (Some 7)" 4
      "sample_mem\<lparr>vptr := K_UDPSocket, sock := sample_sock (Some 7)\<rparr>" 5 sample_env
      "quiet_fn SOCKET_ERROR_UNKNOWN" SOCKET_ERROR_UNKNOWN "sample_sock (Some 7)" 1]
  by (auto simp: sample_world_def sample_sock_def sample_defs)

end
