(* ===== verification/TCP_Properties.thy ===== *)
theory TCP_Properties
  imports Registry_Spec Socket_Properties
begin

text \<open>
  The correctness of the TCP classes: the periodic task of the stack, the life cycle of
  the objects, connecting, listening, accepting and rejecting.
\<close>

section \<open>Shared facts\<close>

abbreviation sys_reachable :: "'w env \<Rightarrow> 'w world \<Rightarrow> bool" where
  "sys_reachable env \<equiv> reachable (\<lambda>w. \<exists>x. w = init_world x) (sys_step env)"

lemma reachable_wf: "env_ok env \<Longrightarrow> sys_reachable env w \<Longrightarrow> wf_world env w"
  using sys_wf.holds by blast

lemma run_reachable: "run env acts w = Some w' \<Longrightarrow> sys_reachable env w \<Longrightarrow> sys_reachable env w'"
proof (induction acts arbitrary: w)
  case (Cons act acts)
  then obtain w1 where "enabled w act" "exec env act w = Some w1" "run env acts w1 = Some w'"
    by (auto split: if_splits)
  with Cons.IH Cons.prems(2) show ?case by (blast intro: reach_step sys_step_exec)
qed simp

lemma run_init_reachable: "run env acts (init_world x) = Some w \<Longrightarrow> sys_reachable env w"
  by (rule run_reachable) (auto intro: reach_init)

text \<open>Two states for the applications of the properties: one stream, and one listener, at the address 4.\<close>

definition one_stream :: "socket_stack_t \<Rightarrow> nat world" where
  "one_stream stk = put_obj 4 ((TCPAsynch_obj sample_env 4 stk sample_mem)
      \<lparr>vptr := K_TCPStream, stream_part := no_stream_handlers\<rparr>)
    (TCPAsynch_ctor sample_env 4 stk sample_mem (init_world 0))"

definition one_listener :: "nat world" where
  "one_listener = put_obj 4 ((TCPAsynch_obj sample_env 4 1 sample_mem)
      \<lparr>vptr := K_TCPListener, listener_part := \<lparr>onIncoming = None\<rparr>\<rparr>)
    (TCPAsynch_ctor sample_env 4 1 sample_mem (init_world 0))"

lemma one_stream_reachable [simp]: "sys_reachable sample_env (one_stream stk)"
  by (rule run_init_reachable [of _ "[New K_TCPStream 4 stk sample_mem]" 0])
    (simp add: one_stream_def new_obj_def TCPStream_ctor_def TCPAsynch_ctor_world(1), simp add: init_world_def)

lemma one_listener_reachable [simp]: "sys_reachable sample_env one_listener"
  by (rule run_init_reachable [of _ "[New K_TCPListener 4 1 sample_mem]" 0])
    (simp add: one_listener_def new_obj_def TCPListener_ctor_def TCPAsynch_ctor_world(1), simp add: init_world_def)

lemma one_stream_obj: "objs (one_stream stk) = [4 \<mapsto> (TCPAsynch_obj sample_env 4 stk sample_mem)
    \<lparr>vptr := K_TCPStream, stream_part := no_stream_handlers\<rparr>]"
  by (simp add: one_stream_def TCPAsynch_ctor_world(1)) (simp add: init_world_def)

lemma one_stream_at: "objs (one_stream stk) 4 = Some ((TCPAsynch_obj sample_env 4 stk sample_mem)
    \<lparr>vptr := K_TCPStream, stream_part := no_stream_handlers\<rparr>)"
  by (simp add: one_stream_obj)

lemma one_listener_obj: "objs one_listener = [4 \<mapsto> (TCPAsynch_obj sample_env 4 1 sample_mem)
    \<lparr>vptr := K_TCPListener, listener_part := \<lparr>onIncoming = None\<rparr>\<rparr>]"
  by (simp add: one_listener_def TCPAsynch_ctor_world(1)) (simp add: init_world_def)

lemma one_stream_live: "live_TCP (one_stream stk) \<noteq> 0"
  by (rule live_TCP_pos [of _ 4]) (simp add: one_stream_obj, simp)

lemma one_stream_tick: "tick_handle (one_stream 0) = None" "tick_handle (one_stream 1) = Some 0"
  by (simp_all add: one_stream_def TCPAsynch_ctor_def Socket_ctor_def sample_env_def Let_def init_world_def)

section \<open>The periodic task\<close>

text \<open>
  C34. The first TCP socket on a valid stack starts the periodic task: the constructor of a stream or
  a listener asks the stack for its interval and its task, posts that task once with the
  period \<open>milliseconds(interval)\<close> and the tolerance \<open>interval / 2\<close>, keeps the handle, and
  sets the counter of TCP sockets to one.
\<close>

theorem first_TCP_ticks:
  assumes "TCPSockets w = 0" and "socket_get_api env stk = Some p"
    and "interval = api_periodic_interval (vtable env p) (network w) (sock (TCPAsynch_obj env a stk mem))"
    and "task = api_periodic_task (vtable env p) (network w) (sock (TCPAsynch_obj env a stk mem))"
    and "k \<in> {K_TCPStream, K_TCPListener}"
  shows "\<exists>w'. new_obj env k a stk mem w = Some w' \<and> TCPSockets w' = 1 \<and>
    tick_handle w' = getHandle env (minar w) \<and>
    minar w' = minar w @ [PostPeriodic task (milliseconds env interval) (interval div 2) (getHandle env (minar w))]"
  using TCPAsynch_ctor_world(1,2) [where env = env and a = a and stk = stk and mem = mem and w = w]
    TCPAsynch_ctor_world(5) [OF assms(1,2), of a mem] assms(1,5)
  unfolding assms(3,4) by (auto simp: new_obj_def TCPStream_ctor_def TCPListener_ctor_def Let_def)

text \<open>C34 on the initial state and a stack with an interval of 250.\<close>

theorem first_TCP_ticks_witness:
  "\<exists>w'. new_obj sample_env K_TCPStream 4 1 sample_mem (init_world 0) = Some w' \<and> TCPSockets w' = 1 \<and>
     minar w' = [PostPeriodic (Some 1) 500 125 (Some 0)]"
proof -
  have "TCPSockets (init_world (0 :: nat)) = 0" "minar (init_world (0 :: nat)) = []"
    by (simp_all add: init_world_def)
  moreover have "socket_get_api sample_env 1 = Some 5" "getHandle sample_env [] = Some 0"
      "milliseconds sample_env 250 = 500"
      "api_periodic_interval (vtable sample_env 5) x s = 250" "api_periodic_task (vtable sample_env 5) x s = Some 1" for x s
    by (simp_all add: sample_env_def sample_api_def)
  ultimately show ?thesis
    using first_TCP_ticks [of "init_world 0" sample_env 1 5 250 4 sample_mem "Some 1" K_TCPStream]
    by (auto simp del: One_nat_def)
qed

text \<open>While there are TCP sockets and no task is scheduled, no step schedules one.\<close>

lemma step_no_tick:
  assumes "env_ok env" and "sys_reachable env w" and "live_TCP w \<noteq> 0" and "tick_handle w = None" and "sys_step env w act w'"
  shows "tick_handle w' = None"
proof -
  have "registry_step env (abs_world w) act (abs_world w')"
    by (rule registry_simulation [OF assms(1) reachable_wf [OF assms(1,2)] assms(5)])
  moreover have "has_TCP (live (abs_world w))" using assms(3) live_TCP_has [of w] by simp
  ultimately have "\<not> ticking (abs_world w')"
    using assms(4) by (cases rule: registry_step.cases) auto
  then show ?thesis by simp
qed

lemma run_no_tick:
  "run env acts w = Some w' \<Longrightarrow> env_ok env \<Longrightarrow> sys_reachable env w \<Longrightarrow> tick_handle w = None \<Longrightarrow>
   (\<And>n v. run env (take n acts) w = Some v \<Longrightarrow> live_TCP v \<noteq> 0) \<Longrightarrow> tick_handle w' = None"
proof (induction acts arbitrary: w)
  case (Cons act acts)
  from Cons.prems(1) obtain w1 where w1: "enabled w act" "exec env act w = Some w1" "run env acts w1 = Some w'"
    by (auto simp: bind_eq_Some_conv split: if_splits)
  then have st: "sys_step env w act w1" by (intro sys_step_exec)
  have "live_TCP w \<noteq> 0" using Cons.prems(5) [of 0 w] by simp
  from step_no_tick [OF Cons.prems(2,3) this Cons.prems(4) st] have t1: "tick_handle w1 = None" .
  have r1: "sys_reachable env w1" by (rule reach_step [OF Cons.prems(3) st])
  show ?case
    by (rule Cons.IH [OF w1(3) Cons.prems(2) r1 t1], rule Cons.prems(5) [of "Suc n" for n]) (simp add: w1(1,2))
qed simp

text \<open>
  C39. A first TCP socket without a stack suppresses the periodic task of the others for as long as TCP sockets exist without a break. From a
  reachable state with TCP sockets and no task scheduled, let anything happen (construction on valid stacks,
  acceptance, calls, events, deletion) as long as some TCP socket is alive in every state passed: no task is
  scheduled or pending at the end. It ends when the last TCP socket is deleted: in a reachable state without TCP sockets the next
  stream or listener on a valid stack schedules the task.
\<close>

theorem missing_tick:
  assumes "env_ok env" and "sys_reachable env w" and "tick_handle w = None" and "run env acts w = Some w'"
    and "\<And>n v. run env (take n acts) w = Some v \<Longrightarrow> live_TCP v \<noteq> 0"
  shows "tick_handle w' = None \<and> periodic_pending (minar w') = [] \<and>
    (\<forall>v k a stk mem. sys_reachable env v \<and> live_TCP v = 0 \<and> enabled v (New k a stk mem) \<and> is_TCPAsynch k \<and>
       socket_get_api env stk \<noteq> None \<longrightarrow> (\<exists>v'. new_obj env k a stk mem v = Some v' \<and> tick_handle v' \<noteq> None))"
proof (intro conjI allI impI)
  show t: "tick_handle w' = None" by (rule run_no_tick [OF assms(4,1-3,5)])
  show "periodic_pending (minar w') = []"
    using wf_worldD(4) [OF reachable_wf [OF assms(1) run_reachable [OF assms(4,2)]]] t by (simp add: tick_ok_def)
next
  fix v k a stk mem
  assume v: "sys_reachable env v \<and> live_TCP v = 0 \<and> enabled v (New k a stk mem) \<and> is_TCPAsynch k \<and>
    socket_get_api env stk \<noteq> None"
  then have wf: "wf_world env v" and en: "enabled v (New k a stk mem)" using reachable_wf [OF assms(1)] by blast+
  obtain v' where v': "new_obj env k a stk mem v = Some v'" using new_obj_safe [OF assms(1) wf en] by blast
  have "ticking (abs_world v')" using new_abs [OF assms(1) wf en v'] v live_TCP_has [of v] by simp
  with v' show "\<exists>v'. new_obj env k a stk mem v = Some v' \<and> tick_handle v' \<noteq> None" by simp
qed

text \<open>C39 with a stream on an unknown stack and then a stream on a valid one.\<close>

theorem missing_tick_witness:
  "\<exists>w'. run sample_env [New K_TCPStream 8 1 sample_mem] (one_stream 0) = Some w' \<and> periodic_pending (minar w') = []"
proof -
  have en: "enabled (one_stream 0) (New K_TCPStream 8 1 sample_mem)" by (simp add: one_stream_obj)
  obtain w' where w': "new_obj sample_env K_TCPStream 8 1 sample_mem (one_stream 0) = Some w'"
    using new_obj_safe [OF sample_env_ok reachable_wf [OF sample_env_ok one_stream_reachable] en] by blast
  have r: "run sample_env [New K_TCPStream 8 1 sample_mem] (one_stream 0) = Some w'" using en w' by simp
  have "objs w' 8 \<noteq> None \<and> vptr (the (objs w' 8)) = K_TCPStream"
    using fun_cong [OF arg_cong [OF new_abs [OF sample_env_ok reachable_wf [OF sample_env_ok one_stream_reachable] en w'], of live], of 8]
    by auto
  then obtain ob where "objs w' 8 = Some ob" "is_TCPAsynch (vptr ob)" by auto
  then have "live_TCP w' \<noteq> 0" by (rule live_TCP_pos)
  then have live: "live_TCP v \<noteq> 0" if "run sample_env (take n [New K_TCPStream 8 1 sample_mem]) (one_stream 0) = Some v" for n v
    using that r one_stream_live [of 0] by (cases n) auto
  have "tick_handle w' = None \<and> periodic_pending (minar w') = [] \<and>
    (\<forall>v k a stk mem. sys_reachable sample_env v \<and> live_TCP v = 0 \<and> enabled v (New k a stk mem) \<and> is_TCPAsynch k \<and>
       socket_get_api sample_env stk \<noteq> None \<longrightarrow> (\<exists>v'. new_obj sample_env k a stk mem v = Some v' \<and> tick_handle v' \<noteq> None))"
    by (rule missing_tick [OF sample_env_ok one_stream_reachable one_stream_tick(1) r]) (rule live)
  with r show ?thesis by blast
qed

section \<open>The life cycle of an object\<close>

text \<open>
  C21. Deleting a socket in any reachable state returns and removes exactly that object: every
  other object keeps its class, its struct and its handlers. The periodic task is cancelled
  exactly when the deleted object was the last TCP socket.
\<close>

theorem delete_exact:
  assumes "env_ok env" and "sys_reachable env w" and "objs w a = Some ob"
  shows "\<exists>w'. delete_obj env a w = Some w' \<and> objs w' a = None \<and>
    (\<forall>b. b \<noteq> a \<longrightarrow> map_option quiet (objs w' b) = map_option quiet (objs w b)) \<and>
    live_TCP w = live_TCP w' + (if is_TCPAsynch (vptr ob) then 1 else 0) \<and>
    periodic_pending (minar w') = (if live_TCP w' = 0 then [] else periodic_pending (minar w))"
proof -
  have wf: "wf_world env w" by (rule reachable_wf [OF assms(1,2)])
  obtain w' where w': "delete_obj env a w = Some w'" "wf_world env w'"
      "\<forall>b. map_option quiet (objs w' b) = (if b = a then None else map_option quiet (objs w b))"
      "tick_handle w' = (if live_TCP w' = 0 then None else tick_handle w)"
    using delete_obj_law [OF _ wf assms(3)] assms(1) by (auto simp: env_ok_def)
  have "objs w' a = None" using spec [OF w'(3), of a] by simp
  moreover have "periodic_pending (minar w') = (if live_TCP w' = 0 then [] else periodic_pending (minar w))"
    using wf_worldD(4) [OF wf] wf_worldD(4) [OF w'(2)] w'(4)
    by (cases "live_TCP w' = 0") (simp_all add: tick_ok_def)
  moreover have "live_TCP w = live_TCP w' + (if is_TCPAsynch (vptr ob) then 1 else 0)"
    using w'(3) by (intro live_remove [OF assms(3)]) simp
  ultimately show ?thesis using w'(1,3) by (intro exI [of _ w']) simp
qed

text \<open>C21 on the only stream of a state.\<close>

theorem delete_exact_witness:
  "\<exists>w'. delete_obj sample_env 4 (one_stream 1) = Some w' \<and> objs w' 4 = None"
  using delete_exact [OF sample_env_ok one_stream_reachable, of 1 4] one_stream_obj by auto

text \<open>
  C20. Constructing a socket and deleting it restores the library: in any reachable state, for each
  of the three classes, the counter of TCP sockets, the periodic task and all
  objects are as before, up to the event fields of the objects.
\<close>

theorem new_delete:
  assumes "env_ok env" and "sys_reachable env w" and "enabled w (New k a stk mem)"
  shows "\<exists>w1 w2. new_obj env k a stk mem w = Some w1 \<and> delete_obj env a w1 = Some w2 \<and>
    TCPSockets w2 = TCPSockets w \<and> tick_handle w2 = tick_handle w \<and>
    periodic_pending (minar w2) = periodic_pending (minar w) \<and>
    (\<forall>b. map_option quiet (objs w2 b) = map_option quiet (objs w b))"
proof -
  have wf: "wf_world env w" by (rule reachable_wf [OF assms(1,2)])
  from assms have ok: "sal_ok env" "minar_ok env" and a: "a \<noteq> 0" "objs w a = None"
    by (simp_all add: env_ok_def)
  have pend: "periodic_pending (minar w2) = periodic_pending (minar w)"
    if "wf_world env w2" "tick_handle w2 = tick_handle w" for w2
    using wf_worldD(4) [OF wf] wf_worldD(4) [OF that(1)] that(2) by (simp add: tick_ok_def)
  have del: "delete_obj env a w1 = (if k = K_UDPSocket then UDPSocket_dtor env a w1
      else if k = K_TCPStream then TCPStream_dtor env a w1 else TCPListener_dtor env a w1)"
    if "new_obj env k a stk mem w = Some w1" for w1
    using fun_cong [OF arg_cong [OF new_abs [OF assms(1) wf assms(3) that], of live], of a] assms(3)
    by (auto simp: delete_obj_def)
  note rt = udp_class.ctor_dtor [OF ok wf a, of stk mem] stream_class.ctor_dtor [OF ok wf a, of stk mem]
    listener_class.ctor_dtor [OF ok wf a, of stk mem]
  consider "k = K_UDPSocket" | "k = K_TCPStream" | "k = K_TCPListener" using assms(3) by auto
  then show ?thesis
  proof cases
    case 1
    with rt(1) del pend show ?thesis by (auto simp: new_obj_def)
  next
    case 2
    from rt(2) obtain w1 w2 where "TCPStream_ctor env a stk mem w = Some w1" "TCPStream_dtor env a w1 = Some w2"
      "wf_world env w2" "TCPSockets w2 = TCPSockets w" "tick_handle w2 = tick_handle w"
      "\<forall>b. map_option quiet (objs w2 b) = map_option quiet (objs w b)" by blast
    with 2 del pend show ?thesis by (auto simp: new_obj_def)
  next
    case 3
    from rt(3) obtain w1 w2 where "TCPListener_ctor env a stk mem w = Some w1" "TCPListener_dtor env a w1 = Some w2"
      "wf_world env w2" "TCPSockets w2 = TCPSockets w" "tick_handle w2 = tick_handle w"
      "\<forall>b. map_option quiet (objs w2 b) = map_option quiet (objs w b)" by blast
    with 3 del pend show ?thesis by (auto simp: new_obj_def)
  qed
qed

text \<open>C20 with a listener, beside an existing stream.\<close>

theorem new_delete_witness:
  "\<exists>w1 w2. new_obj sample_env K_TCPListener 8 1 sample_mem (one_stream 1) = Some w1 \<and>
     delete_obj sample_env 8 w1 = Some w2 \<and> tick_handle w2 = Some 0"
  using new_delete [OF sample_env_ok one_stream_reachable, of 1 K_TCPListener 8 1 sample_mem]
  by (auto simp: one_stream_obj one_stream_tick simp del: One_nat_def)

section \<open>Connecting and listening\<close>

text \<open>
  As in \<open>resolve\<close>, the handler is stored before the stack is called: a connection that the
  stack establishes during \<open>connect\<close> posts the \<open>onConnect\<close> of that call, and a connection
  that arrives during \<open>start_listening\<close> posts the handler of that call with the new implementation.
\<close>

theorem connect_listen_sync:
  assumes "objs w a = Some ob" and "api (sock ob) = Some p"
  shows "(vptr ob = K_TCPStream \<longrightarrow>
      api_connect (vtable env p) (getAddr sa) port (network w) (sock ob) = (err, s', [(a, SOCKET_EVENT_CONNECT)], x) \<longrightarrow>
      (\<exists>w'. TCPStream_connect env a sa port (Some f) w = Some (err, w') \<and>
        minar w' = minar w @ [PostCallback (CB_onConnect (Some f) a)])) \<and>
    (vptr ob = K_TCPListener \<longrightarrow>
      api_start_listen (vtable env p) backlog (network w) (sock ob) = (err, s', [(a, SOCKET_EVENT_ACCEPT i)], x) \<longrightarrow>
      (\<exists>w'. start_listening env a (Some f) backlog w = Some (err, w') \<and>
        minar w' = minar w @ [PostCallback (CB_onIncoming (Some f) a i)]))"
proof (intro conjI impI)
  let ?sob = "ob\<lparr>stream_part := (stream_part ob)\<lparr>onConnect := Some f\<rparr>\<rparr>"
  assume "vptr ob = K_TCPStream"
    "api_connect (vtable env p) (getAddr sa) port (network w) (sock ob) = (err, s', [(a, SOCKET_EVENT_CONNECT)], x)"
  then show "\<exists>w'. TCPStream_connect env a sa port (Some f) w = Some (err, w') \<and>
      minar w' = minar w @ [PostCallback (CB_onConnect (Some f) a)]"
    using api_call_event [of "put_obj a ?sob w" a ?sob p "\<lambda>t. api_connect t (getAddr sa) port" env] assms
    by (simp add: TCPStream_connect_def event_callback_def if_set_def)
next
  let ?lob = "ob\<lparr>listener_part := (listener_part ob)\<lparr>onIncoming := Some f\<rparr>\<rparr>"
  assume "vptr ob = K_TCPListener"
    "api_start_listen (vtable env p) backlog (network w) (sock ob) = (err, s', [(a, SOCKET_EVENT_ACCEPT i)], x)"
  then show "\<exists>w'. start_listening env a (Some f) backlog w = Some (err, w') \<and>
      minar w' = minar w @ [PostCallback (CB_onIncoming (Some f) a i)]"
    using api_call_event [of "put_obj a ?lob w" a ?lob p "\<lambda>t. api_start_listen t backlog" env] assms
    by (simp add: start_listening_def event_callback_def if_set_def)
qed

text \<open>The same on a stream and on a listener, with a stack that answers at once.\<close>

theorem connect_listen_sync_witness:
  "(\<exists>w'. TCPStream_connect sample_env 4 \<lparr>addr_member = sample_addr\<rparr> 80 (Some 6) (sample_world K_TCPStream (Some 7))
      = Some (SOCKET_ERROR_NONE, w') \<and> minar w' = [PostCallback (CB_onConnect (Some 6) 4)]) \<and>
   (\<exists>w'. start_listening sample_env 4 (Some 6) 3 (sample_world K_TCPListener (Some 7))
      = Some (SOCKET_ERROR_NONE, w') \<and> minar w' = [PostCallback (CB_onIncoming (Some 6) 4 (Some 9))])"
  using connect_listen_sync [of "sample_world K_TCPStream (Some 7)" 4
      "sample_mem\<lparr>vptr := K_TCPStream, sock := sample_sock (Some 7)\<rparr>" 5 sample_env
      "\<lparr>addr_member = sample_addr\<rparr>" 80 SOCKET_ERROR_NONE "sample_sock (Some 7)" 1 6]
    connect_listen_sync [of "sample_world K_TCPListener (Some 7)" 4
      "sample_mem\<lparr>vptr := K_TCPListener, sock := sample_sock (Some 7)\<rparr>" 5 sample_env
      "\<lparr>addr_member = sample_addr\<rparr>" 80 SOCKET_ERROR_NONE "sample_sock (Some 7)" 1 6 3 "Some 9"]
  by (simp add: sample_world_def sample_sock_def sample_defs)

section \<open>Accepting and rejecting\<close>

text \<open>
  C5. \<open>accept\<close> never leaks and never loses a connection: in every reachable state, on every listener
  with a stack, it returns either the new stream, which is then a live \<open>TCPStream\<close> and
  the number of TCP sockets has grown by one, or null, and then no object is left at the
  address that was allocated and the number is unchanged. All other objects are untouched,
  and so is the periodic task.
\<close>

theorem accept_no_leak:
  assumes "env_ok env" and "sys_reachable env w" and "enabled w (Accept a new mem i)"
  shows "\<exists>r w'. TCPListener_accept env new mem a i w = Some (r, w') \<and>
    (\<forall>b. b \<noteq> a \<longrightarrow> b \<noteq> new \<longrightarrow> map_option quiet (objs w' b) = map_option quiet (objs w b)) \<and>
    map_option vptr (objs w' a) = Some K_TCPListener \<and>
    tick_handle w' = tick_handle w \<and>
    (r = None \<longrightarrow> objs w' new = None \<and> TCPSockets w' = TCPSockets w) \<and>
    (r \<noteq> None \<longrightarrow> r = Some new \<and> map_option vptr (objs w' new) = Some K_TCPStream \<and>
                   TCPSockets w' = TCPSockets w + 1)"
proof -
  have wf: "wf_world env w" by (rule reachable_wf [OF assms(1,2)])
  from assms(3) obtain lob where "objs w a = Some lob" "vptr lob = K_TCPListener" "api (sock lob) \<noteq> None"
      "new \<noteq> 0" "objs w new = None"
    by (auto split: option.splits)
  with accept_law [OF _ _ wf, of a lob new mem i] assms(1) obtain r w' where
    r: "TCPListener_accept env new mem a i w = Some (r, w')" "wf_world env w'"
      "\<forall>b. b \<noteq> a \<longrightarrow> b \<noteq> new \<longrightarrow> map_option quiet (objs w' b) = map_option quiet (objs w b)"
      "map_option vptr (objs w' a) = Some K_TCPListener" "tick_handle w' = tick_handle w"
      "if r = None then objs w' new = None \<and> live_TCP w' = live_TCP w
       else r = Some new \<and> live_TCP w' = Suc (live_TCP w) \<and>
         (\<exists>nob. objs w' new = Some nob \<and> vptr nob = K_TCPStream)"
    by (auto simp: env_ok_def)
  have cnt: "TCPSockets w' = of_nat (live_TCP w')" "TCPSockets w = of_nat (live_TCP w)"
    using wf_worldD(3) [OF wf] wf_worldD(3) [OF r(2)] by simp_all
  have "r = None \<longrightarrow> objs w' new = None \<and> TCPSockets w' = TCPSockets w"
    and "r \<noteq> None \<longrightarrow> r = Some new \<and> map_option vptr (objs w' new) = Some K_TCPStream \<and>
           TCPSockets w' = TCPSockets w + 1"
    using r(6) cnt by (auto split: if_splits)
  with r(1,3-5) show ?thesis by blast
qed

text \<open>C5 on a listener that has just been constructed.\<close>

theorem accept_no_leak_witness:
  "\<exists>r w'. TCPListener_accept sample_env 8 sample_mem 4 (Some 9) one_listener = Some (r, w') \<and>
     map_option vptr (objs w' 4) = Some K_TCPListener"
  using accept_no_leak [OF sample_env_ok one_listener_reachable, of 4 8 sample_mem "Some 9"]
  by (auto simp: one_listener_obj sample_env_def)

text \<open>
  C33. What \<open>accept\<close> tells the stack, when this raises no event: \<open>socket_accept\<close> gets the struct of the listener and the struct of the new stream,
  which has the new implementation, the stack, function table and protocol family of the listener, and the
  new stream as its handler. The result of \<open>socket_accept\<close> alone decides: the new stream is returned exactly
  if it is \<open>SOCKET_ERROR_NONE\<close>.
\<close>

theorem accept_struct:
  assumes "objs w a = Some lob" and "a \<noteq> new"
    and "socket_get_api env (stack (sock lob)) = api (sock lob)"
    and "socket_accept env (sock lob) new (network w)
           ((sock mem)\<lparr>handler := Some new, impl := i, stack := stack (sock lob), api := api (sock lob),
                       family := family (sock lob)\<rparr>)
         = (err, ls', s', [], x)"
  shows "\<exists>w1. TCPListener_accept env new mem a i w =
      (if err = SOCKET_ERROR_NONE then Some (Some new, w1)
       else map_option (Pair None) (TCPStream_dtor env new w1)) \<and>
    map_option sock (objs w1 new) = Some s' \<and> map_option sock (objs w1 a) = Some ls' \<and> network w1 = x"
proof -
  let ?s = "(sock lob)\<lparr>impl := i, stack := stack (sock lob), family := family (sock lob)\<rparr>"
  let ?w1 = "(put_obj new ((accepted_obj env new ?s mem)\<lparr>sock := s'\<rparr>)
      (put_obj a (lob\<lparr>sock := ls'\<rparr>) (put_obj new (accepted_obj env new ?s mem)
        (TCPAsynch_ctor env new (stack (sock lob)) mem w))))\<lparr>network := x\<rparr>"
  have "TCPStream_ctor_accept env new a ?s mem w = Some (err, ?w1)"
    using TCPStream_ctor_accept_eq [OF assms(1,2), of env ?s mem err ls' s' "[]" x] assms(3,4) by simp
  with assms(1,2) show ?thesis
    by (intro exI [of _ ?w1]) (simp add: TCPListener_accept_def Let_def map_option_case bind_eq_None_conv
        split: option.splits)
qed

text \<open>C33 on a listener and an implementation that the stack refuses.\<close>

theorem accept_struct_witness:
  "\<exists>w1. TCPListener_accept sample_env 8 sample_mem 4 (Some 13) (sample_world K_TCPListener (Some 7))
      = map_option (Pair None) (TCPStream_dtor sample_env 8 w1) \<and>
    map_option (impl \<circ> sock) (objs w1 8) = Some (Some 13)"
  using accept_struct [where w = "sample_world K_TCPListener (Some 7)" and a = 4 and new = 8
      and lob = "sample_mem\<lparr>vptr := K_TCPListener, sock := sample_sock (Some 7)\<rparr>"
      and env = sample_env and mem = sample_mem and i = "Some 13" and err = SOCKET_ERROR_UNKNOWN
      and ls' = "sample_sock (Some 7)" and s' = "(sample_sock (Some 13))\<lparr>handler := Some 8\<rparr>" and x = 1]
  by (auto simp: sample_world_def sample_sock_def sample_defs)

text \<open>
  \<open>reject\<close> closes exactly the given implementation, on the stack of the listener, through a struct of its
  own: it discards the result, and every object, the listener included, is unchanged.
\<close>

theorem reject_closes:
  assumes "objs w a = Some ob" and "api (sock ob) = Some p"
    and "api_close (vtable env p) (network w)
           (s0\<lparr>impl := i, stack := stack (sock ob), api := Some p, family := family (sock ob)\<rparr>)
         = (err, s', [], x)"
  shows "TCPListener_reject env s0 a i w = Some (w\<lparr>network := x\<rparr>)"
  using assms by (simp add: TCPListener_reject_def api_invoke_def Let_def)

text \<open>The same on an open listener.\<close>

theorem reject_closes_witness:
  "TCPListener_reject sample_env (sample_sock None) 4 (Some 9) (sample_world K_TCPListener (Some 7))
     = Some ((sample_world K_TCPListener (Some 7))\<lparr>network := 100\<rparr>)"
  using reject_closes [where w = "sample_world K_TCPListener (Some 7)" and a = 4
      and ob = "sample_mem\<lparr>vptr := K_TCPListener, sock := sample_sock (Some 7)\<rparr>" and p = 5
      and env = sample_env and ?s0.0 = "sample_sock None" and i = "Some 9" and err = SOCKET_ERROR_NONE
      and s' = "(sample_sock (Some 9))\<lparr>handler := None\<rparr>" and x = 100]
  by (simp add: sample_world_def sample_sock_def sample_defs)

text \<open>
  A listener is torn down in order: its destructor makes the stack stop listening, and only then, in the
  state and with the struct that this left, destroys the socket; the object is gone at the end. A stack that
  cannot stop listening does not keep the listener alive: the result is discarded.
\<close>

theorem listener_teardown:
  assumes "objs w a = Some ob" and "api (sock ob) = Some p"
    and "api_stop_listen (vtable env p) (network w) (sock ob) = (err1, s1, [], x1)"
    and "api s1 = Some p" and "api_destroy (vtable env p) = Some f"
    and "f x1 s1 = (err2, s2, [], x2)"
  shows "\<exists>w'. TCPListener_dtor env a w = Some w' \<and> objs w' = (objs w)(a := None) \<and> network w' = x2 \<and>
    TCPSockets w' = TCPSockets w - 1"
proof -
  let ?w1 = "put_obj a (ob\<lparr>sock := s1\<rparr>) (w\<lparr>network := x1\<rparr>)"
  have "stop_listening env a w = Some (err1, ?w1)"
    using api_call_quiet [OF assms(1,2), of api_stop_listen env] assms by (simp add: stop_listening_def)
  with assms(4-6) show ?thesis
    by (auto simp: TCPListener_dtor_def TCPAsynch_dtor_def Socket_dtor_def api_call_def api_invoke_def
        error_check_def Let_def)
qed

text \<open>The same on an open listener: the stack got two calls.\<close>

theorem listener_teardown_witness:
  "\<exists>w'. TCPListener_dtor sample_env 4 (sample_world K_TCPListener (Some 7)) = Some w' \<and>
     objs w' 4 = None \<and> network w' = 2"
  using listener_teardown [of "sample_world K_TCPListener (Some 7)" 4
      "sample_mem\<lparr>vptr := K_TCPListener, sock := sample_sock (Some 7)\<rparr>" 5 sample_env SOCKET_ERROR_NONE
      "sample_sock (Some 7)" 1 "quiet_fn SOCKET_ERROR_UNKNOWN" SOCKET_ERROR_UNKNOWN "sample_sock (Some 7)" 2]
  by (auto simp: sample_world_def sample_sock_def sample_defs)

end
