(* ===== verification/Documented_API.thy ===== *)
theory Documented_API
  imports TCP_Properties
begin

text \<open>
  The results that the comments of \<open>sockets/v0/Socket.h\<close> and \<open>SocketAddr.h\<close> promise, as predicates on the object before the call, the
  arguments and the result, and the exact conditions under which the operations deliver them. Some of the documented checks are
  made by the library; the others are left to the stack, whose answer is returned as it is; and some are contradicted by
  the code. The theorems tell the three apart, for every reachable state and without an assumption on the stack's answers.
\<close>

section \<open>The promises\<close>

definition opened :: "Socket \<Rightarrow> bool" where
  "opened ob \<longleftrightarrow> impl (sock ob) \<noteq> None"

definition doc_resolve :: "string option \<Rightarrow> socket_error_t \<Rightarrow> bool" where
  "doc_resolve address err \<longleftrightarrow> (address = None \<longrightarrow> err = SOCKET_ERROR_NULL_PTR)"

text \<open>\<open>valid\<close>: the address and protocol families are valid ones.\<close>

definition doc_open :: "Socket \<Rightarrow> bool \<Rightarrow> socket_error_t \<Rightarrow> bool" where
  "doc_open ob valid err \<longleftrightarrow>
     (api (sock ob) = None \<longrightarrow> err = SOCKET_ERROR_BAD_STACK) \<and>
     (api (sock ob) \<noteq> None \<and> \<not> valid \<longrightarrow> err = SOCKET_ERROR_BAD_FAMILY)"

definition doc_bind_str :: "Socket \<Rightarrow> string option \<Rightarrow> socket_error_t \<Rightarrow> bool" where
  "doc_bind_str ob address err \<longleftrightarrow> (\<not> opened ob \<or> address = None \<longrightarrow> err = SOCKET_ERROR_NULL_PTR)"

text \<open>The \<open>bind\<close> for a \<open>SocketAddr\<close> is documented to be the same, except for the type of the address.\<close>

definition doc_bind :: "Socket \<Rightarrow> SocketAddr option \<Rightarrow> socket_error_t \<Rightarrow> bool" where
  "doc_bind ob address err \<longleftrightarrow> (\<not> opened ob \<or> address = None \<longrightarrow> err = SOCKET_ERROR_NULL_PTR)"

definition doc_recv ::
  "Socket \<Rightarrow> u8 list option \<Rightarrow> u32 option \<Rightarrow> socket_error_t \<times> u8 list option \<times> u32 option \<Rightarrow> bool" where
  "doc_recv ob buf len r \<longleftrightarrow>
     (\<not> opened ob \<or> buf = None \<or> len = None \<longrightarrow> fst r = SOCKET_ERROR_NULL_PTR) \<and>
     (fst r \<noteq> SOCKET_ERROR_NONE \<longrightarrow> snd (snd r) = len)"

definition doc_recv_from ::
  "Socket \<Rightarrow> u8 list option \<Rightarrow> u32 option \<Rightarrow> 'p option \<Rightarrow> u16 option
     \<Rightarrow> socket_error_t \<times> u8 list option \<times> u32 option \<times> 'a \<times> u16 option \<Rightarrow> bool" where
  "doc_recv_from ob buf len remote_addr remote_port r \<longleftrightarrow>
     (\<not> opened ob \<or> buf = None \<or> len = None \<or> remote_addr = None \<or> remote_port = None
        \<longrightarrow> fst r = SOCKET_ERROR_NULL_PTR) \<and>
     (fst r \<noteq> SOCKET_ERROR_NONE \<longrightarrow> fst (snd (snd r)) = len)"

definition doc_send :: "Socket \<Rightarrow> u8 list option \<Rightarrow> socket_error_t \<Rightarrow> bool" where
  "doc_send ob buf err \<longleftrightarrow> (\<not> opened ob \<or> buf = None \<longrightarrow> err = SOCKET_ERROR_NULL_PTR)"

definition doc_send_to :: "Socket \<Rightarrow> u8 list option \<Rightarrow> SocketAddr option \<Rightarrow> socket_error_t \<Rightarrow> bool" where
  "doc_send_to ob buf remote_addr err \<longleftrightarrow>
     (\<not> opened ob \<or> buf = None \<or> remote_addr = None \<longrightarrow> err = SOCKET_ERROR_NULL_PTR)"

definition doc_close :: "Socket \<Rightarrow> socket_error_t \<Rightarrow> bool" where
  "doc_close ob err \<longleftrightarrow> (\<not> opened ob \<longrightarrow> err = SOCKET_ERROR_NULL_PTR)"

text \<open>\<open>bound\<close> and \<open>connected\<close>: the socket has been bound, or connected, which only the stack knows.\<close>

definition doc_getLocalAddr :: "Socket \<Rightarrow> bool \<Rightarrow> SocketAddr option \<Rightarrow> socket_error_t \<Rightarrow> bool" where
  "doc_getLocalAddr ob bound addr err \<longleftrightarrow>
     (\<not> opened ob \<or> addr = None \<longrightarrow> err = SOCKET_ERROR_NULL_PTR) \<and>
     (opened ob \<and> addr \<noteq> None \<and> \<not> bound \<longrightarrow> err = SOCKET_ERROR_NOT_BOUND)"

definition doc_getLocalPort :: "Socket \<Rightarrow> bool \<Rightarrow> u16 option \<Rightarrow> socket_error_t \<Rightarrow> bool" where
  "doc_getLocalPort ob bound port err \<longleftrightarrow>
     (\<not> opened ob \<or> port = None \<longrightarrow> err = SOCKET_ERROR_NULL_PTR) \<and>
     (opened ob \<and> port \<noteq> None \<and> \<not> bound \<longrightarrow> err = SOCKET_ERROR_NOT_BOUND)"

definition doc_getRemoteAddr :: "Socket \<Rightarrow> bool \<Rightarrow> SocketAddr option \<Rightarrow> socket_error_t \<Rightarrow> bool" where
  "doc_getRemoteAddr ob connected addr err \<longleftrightarrow>
     (\<not> opened ob \<or> addr = None \<longrightarrow> err = SOCKET_ERROR_NULL_PTR) \<and>
     (opened ob \<and> addr \<noteq> None \<and> \<not> connected \<longrightarrow> err = SOCKET_ERROR_NO_CONNECTION)"

definition doc_getRemotePort :: "Socket \<Rightarrow> bool \<Rightarrow> u16 option \<Rightarrow> socket_error_t \<Rightarrow> bool" where
  "doc_getRemotePort ob connected port err \<longleftrightarrow>
     (\<not> opened ob \<or> port = None \<longrightarrow> err = SOCKET_ERROR_NULL_PTR) \<and>
     (opened ob \<and> port \<noteq> None \<and> \<not> connected \<longrightarrow> err = SOCKET_ERROR_NO_CONNECTION)"

definition doc_isConnected :: "bool \<Rightarrow> bool \<Rightarrow> bool" where
  "doc_isConnected connected b \<longleftrightarrow> b = connected"

definition doc_error_check :: "socket_error_t \<Rightarrow> bool \<Rightarrow> bool" where
  "doc_error_check err r \<longleftrightarrow> r = (err \<noteq> SOCKET_ERROR_NONE)"

text \<open>\<open>accepted\<close>: the text is an address of the family.\<close>

definition doc_setAddr_str :: "bool \<Rightarrow> socket_error_t \<Rightarrow> bool" where
  "doc_setAddr_str accepted err \<longleftrightarrow>
     err \<in> {SOCKET_ERROR_NONE, SOCKET_ERROR_BAD_ADDRESS, SOCKET_ERROR_BAD_ARGUMENT, SOCKET_ERROR_UNKNOWN} \<and>
     (err = SOCKET_ERROR_NONE \<longleftrightarrow> accepted)"

text \<open>The formatters return 0 or -1, and 0 for every buffer of the size that the comments ask for.\<close>

definition doc_fmtIPv4 :: "bool \<Rightarrow> string option \<Rightarrow> u32 \<Rightarrow> int \<Rightarrow> bool" where
  "doc_fmtIPv4 v4 buf bufsize r \<longleftrightarrow> r \<in> {0, -1} \<and> (v4 \<and> buf \<noteq> None \<and> 16 \<le> bufsize \<longrightarrow> r = 0)"

definition doc_fmtIPv6 :: "bool \<Rightarrow> string option \<Rightarrow> u32 \<Rightarrow> int \<Rightarrow> bool" where
  "doc_fmtIPv6 v4 buf bufsize r \<longleftrightarrow>
     r \<in> {0, -1} \<and> (buf \<noteq> None \<and> (46 \<le> bufsize \<or> v4 \<and> 23 \<le> bufsize) \<longrightarrow> r = 0)"

lemmas doc_defs = doc_resolve_def doc_open_def doc_bind_str_def doc_bind_def doc_recv_def doc_recv_from_def
  doc_send_def doc_send_to_def doc_close_def doc_getLocalAddr_def doc_getLocalPort_def
  doc_getRemoteAddr_def doc_getRemotePort_def doc_isConnected_def opened_def

section \<open>What the stack answers\<close>

text \<open>The answer of a function of the stack when it is called now on the struct of the object.\<close>

definition stack_answer :: "'w env \<Rightarrow> 'w world \<Rightarrow> Socket \<Rightarrow> ('w socket_api \<Rightarrow> ('w, 'r) eff) \<Rightarrow> 'r" where
  "stack_answer env w ob f = fst (f (vtable env (the (api (sock ob)))) (network w) (sock ob))"

lemma api_call_answer:
  assumes "objs w a = Some ob" and "api_call env a f w = Some (r, w')"
  shows "r = stack_answer env w ob f"
  using assms by (auto simp: api_call_def api_invoke_eq_Some stack_answer_def)

lemma stack_answer_stored [simp]: "stack_answer env (put_obj a x w) (ob\<lparr>onDNS := f\<rparr>) g = stack_answer env w ob g"
  by (simp add: stack_answer_def)

lemma returns_with:
  "\<exists>r w'. m = Some (r, w') \<Longrightarrow> (\<And>r w'. m = Some (r, w') \<Longrightarrow> Q r) \<Longrightarrow> \<exists>r w'. m = Some (r, w') \<and> Q r"
  by blast

text \<open>The result of every operation in terms of the checks of the library and the answer of the stack.\<close>

lemma transfer_results:
  assumes ob: "objs w a = Some ob"
  shows "Socket_recv env a buf len w = Some (r, w') \<Longrightarrow>
      r = (if opened ob then stack_answer env w ob (\<lambda>t. api_recv t buf len) else (SOCKET_ERROR_NULL_PTR, buf, len))"
    "Socket_recv_from env a0 a buf len ra rp w = Some (q, w') \<Longrightarrow>
      (if opened ob \<and> ra \<noteq> None
       then fst q = fst (stack_answer env w ob (\<lambda>t. api_recv_from t buf len a0 rp)) \<and>
         fst (snd (snd q)) = fst (snd (snd (stack_answer env w ob (\<lambda>t. api_recv_from t buf len a0 rp))))
       else q = (SOCKET_ERROR_NULL_PTR, buf, len, ra, rp))"
    "Socket_send env a buf n w = Some (e, w') \<Longrightarrow>
      e = (if opened ob then stack_answer env w ob (\<lambda>t. api_send t buf n) else SOCKET_ERROR_NULL_PTR)"
    "Socket_send_to env a buf n ra port w = Some (e, w') \<Longrightarrow>
      e = (case ra of Some sa \<Rightarrow> if opened ob then stack_answer env w ob (\<lambda>t. api_send_to t buf n (getAddr sa) port)
                                else SOCKET_ERROR_NULL_PTR
           | None \<Rightarrow> SOCKET_ERROR_NULL_PTR)"
    "Socket_close env a w = Some (e, w') \<Longrightarrow>
      e = (if opened ob then stack_answer env w ob api_close else SOCKET_ERROR_NULL_PTR)"
  using ob
  by (auto simp: Socket_recv_def Socket_recv_from_def Socket_send_def Socket_send_to_def Socket_close_def opened_def
      split: option.splits if_splits dest: api_call_answer [OF ob])
     (auto dest!: api_call_answer [OF ob, THEN sym])


lemma query_results:
  assumes "objs w a = Some ob" and "opened ob" and "api (sock ob) = Some p"
  shows "map_option fst (getLocalAddr env a addr w) = Some (case addr of None \<Rightarrow> SOCKET_ERROR_NULL_PTR
      | Some sa \<Rightarrow> fst (api_get_local_addr (vtable env p) (getAddr sa) (network w) (sock ob)))"
    "getLocalPort env a port w = Some (api_get_local_port (vtable env p) port (network w) (sock ob))"
    "map_option fst (getRemoteAddr env a addr w) = Some (case addr of None \<Rightarrow> SOCKET_ERROR_NULL_PTR
      | Some sa \<Rightarrow> fst (api_get_remote_addr (vtable env p) (getAddr sa) (network w) (sock ob)))"
    "getRemotePort env a port w = Some (api_get_remote_port (vtable env p) port (network w) (sock ob))"
    "isConnected env a w = Some (api_is_connected (vtable env p) (network w) (sock ob))"
  using assms
  by (auto simp: getLocalAddr_def getLocalPort_def getRemoteAddr_def getRemotePort_def isConnected_def opened_def
      case_prod_beta split: option.split)

section \<open>Properties\<close>

text \<open>
  C22. Which documented results of the data transfer functions the library itself delivers, in every reachable state and on every object.
  \<open>recv\<close>, \<open>recv_from\<close>, \<open>send\<close>, \<open>send_to\<close> and \<open>close\<close> always return. The library checks two things: that the socket is open, and that
  the remote address is not null; if one fails, the documented \<open>SOCKET_ERROR_NULL_PTR\<close> is returned and the promise is kept. It checks
  nothing else: a null buffer, length or port is passed on, so that beyond these checks the promises (\<open>SOCKET_ERROR_NULL_PTR\<close> for
  the other null pointers, the length unchanged on failure) are kept exactly when the answer of the stack keeps them.
\<close>

theorem documented_transfer:
  assumes "env_ok env" and "sys_reachable env w" and "objs w a = Some ob"
  shows "(\<exists>r w'. Socket_recv env a buf len w = Some (r, w') \<and>
      (doc_recv ob buf len r \<longleftrightarrow> \<not> opened ob \<or> doc_recv ob buf len (stack_answer env w ob (\<lambda>t. api_recv t buf len)))) \<and>
    (\<exists>r w'. Socket_recv_from env a0 a buf len ra rp w = Some (r, w') \<and>
      (doc_recv_from ob buf len ra rp r \<longleftrightarrow> \<not> opened ob \<or> ra = None \<or>
         doc_recv_from ob buf len ra rp (stack_answer env w ob (\<lambda>t. api_recv_from t buf len a0 rp)))) \<and>
    (\<exists>r w'. Socket_send env a buf n w = Some (r, w') \<and>
      (doc_send ob buf r \<longleftrightarrow> \<not> opened ob \<or> doc_send ob buf (stack_answer env w ob (\<lambda>t. api_send t buf n)))) \<and>
    (\<exists>r w'. Socket_send_to env a buf n ra port w = Some (r, w') \<and>
      (doc_send_to ob buf ra r \<longleftrightarrow> \<not> opened ob \<or> ra = None \<or>
         doc_send_to ob buf ra (stack_answer env w ob (\<lambda>t. api_send_to t buf n (getAddr (the ra)) port)))) \<and>
    (\<exists>r w'. Socket_close env a w = Some (r, w') \<and> doc_close ob r)"
proof (intro conjI)
  have wf: "wf_world env w" by (rule reachable_wf [OF assms(1,2)])
  have ok: "sal_ok env" and a: "a \<in> dom (objs w)" using assms(1,3) by (auto simp: env_ok_def)
  note results = transfer_results [OF assms(3)]
  show "\<exists>r w'. Socket_recv env a buf len w = Some (r, w') \<and>
      (doc_recv ob buf len r \<longleftrightarrow> \<not> opened ob \<or> doc_recv ob buf len (stack_answer env w ob (\<lambda>t. api_recv t buf len)))"
    by (rule returns_with [OF recv_op.returns [OF ok wf a]], drule results(1)) (simp add: doc_recv_def)
  show "\<exists>r w'. Socket_recv_from env a0 a buf len ra rp w = Some (r, w') \<and>
      (doc_recv_from ob buf len ra rp r \<longleftrightarrow> \<not> opened ob \<or> ra = None \<or>
         doc_recv_from ob buf len ra rp (stack_answer env w ob (\<lambda>t. api_recv_from t buf len a0 rp)))"
    by (rule returns_with [OF recv_from_op.returns [OF ok wf a]], drule results(2))
       (auto simp: doc_recv_from_def split: if_splits)
  show "\<exists>r w'. Socket_send env a buf n w = Some (r, w') \<and>
      (doc_send ob buf r \<longleftrightarrow> \<not> opened ob \<or> doc_send ob buf (stack_answer env w ob (\<lambda>t. api_send t buf n)))"
    by (rule returns_with [OF send_op.returns [OF ok wf a]], drule results(3)) (simp add: doc_send_def)
  show "\<exists>r w'. Socket_send_to env a buf n ra port w = Some (r, w') \<and>
      (doc_send_to ob buf ra r \<longleftrightarrow> \<not> opened ob \<or> ra = None \<or>
         doc_send_to ob buf ra (stack_answer env w ob (\<lambda>t. api_send_to t buf n (getAddr (the ra)) port)))"
    by (rule returns_with [OF send_to_op.returns [OF ok wf a]], drule results(4))
       (simp add: doc_send_to_def split: option.splits)
  show "\<exists>r w'. Socket_close env a w = Some (r, w') \<and> doc_close ob r"
    by (rule returns_with [OF close_op.returns [OF ok wf a]], drule results(5)) (simp add: doc_close_def)
qed

text \<open>C22 on a stream that has just been constructed: the socket is not open, so the promise is kept.\<close>

theorem documented_transfer_witness:
  "\<exists>r w'. Socket_recv sample_env 4 None (Some 3) (one_stream 1) = Some (r, w') \<and>
     fst r = SOCKET_ERROR_NULL_PTR \<and> snd (snd r) = Some 3"
proof -
  have "\<not> opened ((TCPAsynch_obj sample_env 4 1 sample_mem)\<lparr>vptr := K_TCPStream, stream_part := no_stream_handlers\<rparr>)"
    by (simp add: opened_def TCPAsynch_obj_def Socket_ctor_def)
  with conjunct1 [OF documented_transfer [OF sample_env_ok one_stream_reachable one_stream_at,
      where buf = None and len = "Some 3"], of 1]
  show ?thesis by (auto simp: doc_recv_def)
qed

text \<open>
  The comment on \<open>recv\<close> is not kept by the code alone: on a stack that answers a null buffer with success, the call on an
  open socket does too.
\<close>

lemma recv_null_unchecked:
  assumes "objs w a = Some ob" and "opened ob" and "fst (stack_answer env w ob (\<lambda>t. api_recv t None len)) = SOCKET_ERROR_NONE"
    and "Socket_recv env a None len w = Some (r, w')"
  shows "\<not> doc_recv ob None len r"
  using transfer_results(1) [OF assms(1,4)] assms(2,3) by (simp add: doc_recv_def)



text \<open>
  C25. Which documented results of the queries hold, in every reachable state. The four address queries always return. They report an unopened
  socket as \<open>SOCKET_ERROR_NULL_PTR\<close>, and the two for addresses report a null pointer themselves; a null port is passed
  to the stack. \<open>SOCKET_ERROR_NOT_BOUND\<close> and \<open>SOCKET_ERROR_NO_CONNECTION\<close> are not checked by the library: on an open socket the promises
  are kept exactly when the stack's answer keeps them. \<open>isConnected\<close> returns false on a socket that is not open, without asking the
  stack, and is right on an open one exactly when the stack is.
\<close>

theorem documented_queries:
  assumes "env_ok env" and "sys_reachable env w" and "objs w a = Some ob"
  shows "\<exists>p. (opened ob \<longrightarrow> api (sock ob) = Some p) \<and>
    (\<exists>err sa. getLocalAddr env a addr w = Some (err, sa) \<and>
      (doc_getLocalAddr ob bound addr err \<longleftrightarrow> \<not> opened ob \<or> addr = None \<or>
         doc_getLocalAddr ob bound addr (fst (api_get_local_addr (vtable env p) (getAddr (the addr)) (network w) (sock ob))))) \<and>
    (\<exists>err q. getLocalPort env a port w = Some (err, q) \<and>
      (doc_getLocalPort ob bound port err \<longleftrightarrow> \<not> opened ob \<or>
         doc_getLocalPort ob bound port (fst (api_get_local_port (vtable env p) port (network w) (sock ob))))) \<and>
    (\<exists>err sa. getRemoteAddr env a addr w = Some (err, sa) \<and>
      (doc_getRemoteAddr ob connected addr err \<longleftrightarrow> \<not> opened ob \<or> addr = None \<or>
         doc_getRemoteAddr ob connected addr (fst (api_get_remote_addr (vtable env p) (getAddr (the addr)) (network w) (sock ob))))) \<and>
    (\<exists>err q. getRemotePort env a port w = Some (err, q) \<and>
      (doc_getRemotePort ob connected port err \<longleftrightarrow> \<not> opened ob \<or>
         doc_getRemotePort ob connected port (fst (api_get_remote_port (vtable env p) port (network w) (sock ob))))) \<and>
    (\<exists>b. isConnected env a w = Some b \<and> (\<not> opened ob \<longrightarrow> \<not> b) \<and>
      (opened ob \<longrightarrow> (doc_isConnected connected b \<longleftrightarrow>
         doc_isConnected connected (api_is_connected (vtable env p) (network w) (sock ob)))))"
proof (cases "opened ob")
  case True
  then obtain p where p: "api (sock ob) = Some p"
    using wf_opened_api [OF reachable_wf [OF assms(1,2)] assms(3)] by (auto simp: opened_def)
  note results = query_results(1,3) [OF assms(3) True p, of env addr] query_results(2,4) [OF assms(3) True p, of env port]
    query_results(5) [OF assms(3) True p, of env]
  show ?thesis
  proof (intro exI [of _ p] conjI impI)
    show "api (sock ob) = Some p" by (rule p)
    show "\<exists>err sa. getLocalAddr env a addr w = Some (err, sa) \<and>
      (doc_getLocalAddr ob bound addr err \<longleftrightarrow> \<not> opened ob \<or> addr = None \<or>
         doc_getLocalAddr ob bound addr (fst (api_get_local_addr (vtable env p) (getAddr (the addr)) (network w) (sock ob))))"
      using results(1) True by (cases addr) (auto simp: doc_getLocalAddr_def)
    show "\<exists>err q. getLocalPort env a port w = Some (err, q) \<and>
      (doc_getLocalPort ob bound port err \<longleftrightarrow> \<not> opened ob \<or>
         doc_getLocalPort ob bound port (fst (api_get_local_port (vtable env p) port (network w) (sock ob))))"
      using results(3) True by (metis prod.collapse)
    show "\<exists>err sa. getRemoteAddr env a addr w = Some (err, sa) \<and>
      (doc_getRemoteAddr ob connected addr err \<longleftrightarrow> \<not> opened ob \<or> addr = None \<or>
         doc_getRemoteAddr ob connected addr (fst (api_get_remote_addr (vtable env p) (getAddr (the addr)) (network w) (sock ob))))"
      using results(2) True by (cases addr) (auto simp: doc_getRemoteAddr_def)
    show "\<exists>err q. getRemotePort env a port w = Some (err, q) \<and>
      (doc_getRemotePort ob connected port err \<longleftrightarrow> \<not> opened ob \<or>
         doc_getRemotePort ob connected port (fst (api_get_remote_port (vtable env p) port (network w) (sock ob))))"
      using results(4) True by (metis prod.collapse)
    show "\<exists>b. isConnected env a w = Some b \<and> (\<not> opened ob \<longrightarrow> \<not> b) \<and>
      (opened ob \<longrightarrow> (doc_isConnected connected b \<longleftrightarrow>
         doc_isConnected connected (api_is_connected (vtable env p) (network w) (sock ob))))"
      using results(5) True by simp
  qed
next
  case False
  with assms(3) show ?thesis
    by (auto simp: getLocalAddr_def getLocalPort_def getRemoteAddr_def getRemotePort_def isConnected_def
        doc_defs split: option.splits)
qed

text \<open>C25 on a stream that has just been constructed.\<close>

theorem documented_queries_witness:
  "\<exists>err p. getLocalPort sample_env 4 None (one_stream 1) = Some (err, p) \<and> err = SOCKET_ERROR_NULL_PTR"
proof -
  have "\<not> opened ((TCPAsynch_obj sample_env 4 1 sample_mem)\<lparr>vptr := K_TCPStream, stream_part := no_stream_handlers\<rparr>)"
    by (simp add: opened_def TCPAsynch_obj_def Socket_ctor_def)
  with documented_queries [OF sample_env_ok one_stream_reachable one_stream_at, where port = None and stk1 = 1]
  show ?thesis by (auto simp: doc_getLocalPort_def)
qed

text \<open>
  \<open>UDPSocket::connect\<close> does not check its address, although the comment promises
  \<open>SOCKET_ERROR_NULL_PTR\<close>: a null address is reported as \<open>SOCKET_ERROR_BAD_STACK\<close> when the stack is unknown
  and dereferenced otherwise, while every other address is passed to the stack's \<open>connect\<close>.
\<close>

theorem udp_connect_null:
  assumes "objs w a = Some ob"
  shows "UDPSocket_connect env a None port w =
      (if api (sock ob) = None then Some (SOCKET_ERROR_BAD_STACK, w) else None) \<and>
    (api (sock ob) \<noteq> None \<longrightarrow>
       UDPSocket_connect env a (Some sa) port w = api_call env a (\<lambda>t. api_connect t (getAddr sa) port) w)"
  using assms by (simp add: UDPSocket_connect_def)

text \<open>The same on a UDP socket on a valid stack.\<close>

theorem udp_connect_null_witness:
  "UDPSocket_connect sample_env 4 None 80 (sample_world K_UDPSocket (Some 7)) = None"
  using udp_connect_null [of "sample_world K_UDPSocket (Some 7)" 4
      "sample_mem\<lparr>vptr := K_UDPSocket, sock := sample_sock (Some 7)\<rparr>" sample_env 80]
  by (simp add: sample_world_def sample_sock_def)

section \<open>Addresses\<close>

text \<open>
  \<open>inet_ntop\<close> prints an IPv4 address into 16 characters, an IPv4-mapped one into 23, and any IPv6 address into 46.
\<close>

definition ntop_sizes :: "addr_lib \<Rightarrow> bool" where
  "ntop_sizes lib \<longleftrightarrow> (\<forall>a b n.
     (socket_addr_is_ipv4 lib a \<and> 16 \<le> n \<longrightarrow> fst (inet_ntop lib SOCKET_AF_INET4 (drop 3 (ipv6be a)) b n)) \<and>
     (46 \<le> n \<or> socket_addr_is_ipv4 lib a \<and> 23 \<le> n \<longrightarrow> fst (inet_ntop lib SOCKET_AF_INET6 (ipv6be a) b n)))"

lemma documented_setAddr:
  "doc_setAddr_str (fst (inet_pton lib af t (addr_member sa)) = 1) (fst (setAddr_str lib sa af t))"
  by (simp add: doc_setAddr_str_def setAddr_str_def split: prod.splits)

lemma documented_formats:
  assumes "ntop_sizes lib"
  shows "doc_fmtIPv4 (is_v4 lib sa) buf n (fst (fmtIPv4 lib sa buf n))"
    "doc_fmtIPv6 (is_v4 lib sa) buf n (fst (fmtIPv6 lib sa buf n))"
proof -
  have "(is_v4 lib sa \<and> 16 \<le> n \<longrightarrow> fst (inet_ntop lib SOCKET_AF_INET4 (drop 3 (ipv6be (addr_member sa))) b n)) \<and>
    (46 \<le> n \<or> is_v4 lib sa \<and> 23 \<le> n \<longrightarrow> fst (inet_ntop lib SOCKET_AF_INET6 (ipv6be (addr_member sa)) b n))" for b
    using assms unfolding ntop_sizes_def is_v4_def by blast
  then show "doc_fmtIPv4 (is_v4 lib sa) buf n (fst (fmtIPv4 lib sa buf n))"
    "doc_fmtIPv6 (is_v4 lib sa) buf n (fst (fmtIPv6 lib sa buf n))"
    by (auto simp: doc_fmtIPv4_def doc_fmtIPv6_def fmtIPv4_def fmtIPv6_def Let_def case_prod_beta
        split: option.splits)
qed

text \<open>
  A buffer whose size is a compile-time constant, as the templates for arrays take it: every array of the documented size can
  be formatted into.
\<close>

lemma array_formats:
  assumes "ntop_sizes lib" and "length b < 2 ^ 32"
  shows "is_v4 lib sa \<Longrightarrow> 16 \<le> length b \<Longrightarrow> fst (fmtIPv4_array lib sa b) = 0"
    "46 \<le> length b \<or> is_v4 lib sa \<and> 23 \<le> length b \<Longrightarrow> fst (fmtIPv6_array lib sa b) = 0"
proof -
  have len: "(numeral k :: u32) \<le> of_nat (length b) \<longleftrightarrow> unat (numeral k :: u32) \<le> length b" for k
    using assms(2) by (simp add: word_le_nat_alt unat_of_nat del: unsigned_numeral)
  show "is_v4 lib sa \<Longrightarrow> 16 \<le> length b \<Longrightarrow> fst (fmtIPv4_array lib sa b) = 0"
    using documented_formats(1) [OF assms(1), of sa "Some b" "of_nat (length b)"]
    by (auto simp: fmtIPv4_array_def doc_fmtIPv4_def len)
  show "46 \<le> length b \<or> is_v4 lib sa \<and> 23 \<le> length b \<Longrightarrow> fst (fmtIPv6_array lib sa b) = 0"
    using documented_formats(2) [OF assms(1), of sa "Some b" "of_nat (length b)"]
    by (auto simp: fmtIPv6_array_def doc_fmtIPv6_def len)
qed

lemma error_check_doc: "error_check a err w = Some (r, w') \<Longrightarrow> doc_error_check err r"
  by (auto simp: error_check_def doc_error_check_def split: if_splits)

end
