(* ===== verification/Documented_Classes.thy ===== *)
theory Documented_Classes
  imports Documented_API
begin

text \<open>
  The promises in the comments of the derived classes (\<open>TCPAsynch.h\<close>, \<open>TCPStream.h\<close>, \<open>TCPListener.h\<close>, \<open>UDPSocket.h\<close>): what a constructor
  leaves unallocated, what a successful \<open>open\<close> has made, which handler is called for a connection, a disconnection and an
  incoming connection, and what an accepted stream has copied from its listener.
\<close>

section \<open>The promises\<close>

text \<open>An event on the object \<open>a\<close> posts exactly these callbacks.\<close>

definition posts :: "oid \<Rightarrow> socket_event \<Rightarrow> 'w world \<Rightarrow> callback list \<Rightarrow> bool" where
  "posts a ev w cbs \<longleftrightarrow> (\<exists>w'. raise_event a ev w = Some w' \<and> minar w' = minar w @ map PostCallback cbs)"

text \<open>\<open>Does not allocate an underlying Socket instance.\<close>\<close>

definition doc_TCPStream_ctor :: "oid \<Rightarrow> 'w world \<Rightarrow> bool" where
  "doc_TCPStream_ctor a w \<longleftrightarrow> (\<exists>ob. objs w a = Some ob \<and> \<not> opened ob)"

definition doc_UDPSocket_ctor :: "oid \<Rightarrow> 'w world \<Rightarrow> bool" where
  "doc_UDPSocket_ctor a w \<longleftrightarrow> (\<exists>ob. objs w a = Some ob \<and> \<not> opened ob)"

text \<open>\<open>Instantiates and initializes the underlying socket\<close>, for \<open>TCPAsynch\<close> with the error code for an unknown stack.\<close>

definition doc_TCPAsynch_open :: "oid \<Rightarrow> Socket \<Rightarrow> socket_error_t \<Rightarrow> 'w world \<Rightarrow> bool" where
  "doc_TCPAsynch_open a ob err w \<longleftrightarrow>
     (api (sock ob) = None \<longrightarrow> err = SOCKET_ERROR_BAD_STACK) \<and>
     (err = SOCKET_ERROR_NONE \<longrightarrow> (\<exists>ob'. objs w a = Some ob' \<and> opened ob'))"

definition doc_UDPSocket_open :: "oid \<Rightarrow> socket_error_t \<Rightarrow> 'w world \<Rightarrow> bool" where
  "doc_UDPSocket_open a err w \<longleftrightarrow> (err = SOCKET_ERROR_NONE \<longrightarrow> (\<exists>ob'. objs w a = Some ob' \<and> opened ob'))"

text \<open>\<open>onConnect is called when the connection is acknowledged.\<close>\<close>

definition doc_connect :: "oid \<Rightarrow> nat \<Rightarrow> socket_error_t \<Rightarrow> 'w world \<Rightarrow> bool" where
  "doc_connect a f err w \<longleftrightarrow> (err = SOCKET_ERROR_NONE \<longrightarrow> posts a SOCKET_EVENT_CONNECT w [CB_onConnect (Some f) a])"

definition doc_setOnDisconnect :: "oid \<Rightarrow> nat \<Rightarrow> 'w world \<Rightarrow> bool" where
  "doc_setOnDisconnect a f w \<longleftrightarrow> posts a SOCKET_EVENT_DISCONNECT w [CB_onDisconnect (Some f) a]"

text \<open>\<open>The supplied listenHandler will be called whenever an incoming connection arrives.\<close>\<close>

definition doc_start_listening :: "oid \<Rightarrow> nat \<Rightarrow> socket_error_t \<Rightarrow> 'w world \<Rightarrow> bool" where
  "doc_start_listening a f err w \<longleftrightarrow>
     (err = SOCKET_ERROR_NONE \<longrightarrow> (\<forall>i. posts a (SOCKET_EVENT_ACCEPT i) w [CB_onIncoming (Some f) a i]))"

text \<open>
  \<open>TCPStream will copy the stack, API, protocol family, and impl pointer from sock.\<close> The first three are those of the listener's
  struct, the pointer is the \<open>new_impl\<close> given to \<open>accept\<close>. The stack's \<open>accept\<close> gets the struct then and could replace the pointer;
  \<open>kept\<close> says that it does not.
\<close>

definition doc_accepted :: "bool \<Rightarrow> socket \<Rightarrow> void_ptr \<Rightarrow> socket \<Rightarrow> bool" where
  "doc_accepted kept s i s' \<longleftrightarrow>
     stack s' = stack s \<and> api s' = api s \<and> family s' = family s \<and> (kept \<longrightarrow> impl s' = i)"

definition keeps_impl :: "'w env \<Rightarrow> bool" where
  "keeps_impl env \<longleftrightarrow> (\<forall>ls h x s err ls' s' rs x'. socket_accept env ls h x s = (err, ls', s', rs, x') \<longrightarrow> impl s' = impl s)"

lemma sample_keeps_impl: "keeps_impl sample_env"
  by (simp add: keeps_impl_def sample_env_def)

section \<open>The operations keep them\<close>

text \<open>The documented behaviour of the stack's \<open>create\<close>: when it succeeds it has made an implementation.\<close>

definition create_ok :: "'w env \<Rightarrow> bool" where
  "create_ok env \<longleftrightarrow> (\<forall>p af pf h x s s' rs x'.
     api_create (vtable env p) af pf h x s = (SOCKET_ERROR_NONE, s', rs, x') \<longrightarrow> impl s' \<noteq> None)"

lemma sample_create_ok: "create_ok sample_env"
  by (auto simp: create_ok_def sample_env_def sample_api_def create_fn_def)

text \<open>The object after a call of the stack: what the stack left in the struct, and the other members as they were.\<close>

lemma api_call_object:
  assumes "api_call env a f w = Some (r, w')" and "objs w a = Some ob"
  obtains p s' rs x ob' where "f (vtable env p) (network w) (sock ob) = (r, s', rs, x)" "objs w' a = Some ob'"
    "quiet ob' = quiet (ob\<lparr>sock := s'\<rparr>)"
proof -
  from assms obtain p s' rs x where f: "f (vtable env p) (network w) (sock ob) = (r, s', rs, x)"
    and rs: "raise_events rs (put_obj a (ob\<lparr>sock := s'\<rparr>) (w\<lparr>network := x\<rparr>)) = Some w'"
    by (auto simp: api_call_def api_invoke_eq_Some)
  from raise_events_frame [OF rs] have "map_option quiet (objs w' a) = Some (quiet (ob\<lparr>sock := s'\<rparr>))"
    by (simp add: event_frame_def)
  with that [OF f] show thesis by auto
qed

lemma open_opened:
  assumes "create_ok env" and "objs w a = Some ob" and "Socket_open env a af pf w = Some (SOCKET_ERROR_NONE, w')"
  shows "\<exists>ob'. objs w' a = Some ob' \<and> opened ob'"
proof -
  from assms(2,3) have "api_call env a (\<lambda>t. api_create t af pf a) w = Some (SOCKET_ERROR_NONE, w')"
    by (auto simp: Socket_open_def split: if_splits)
  then obtain p s' rs x ob' where "api_create (vtable env p) af pf a (network w) (sock ob) = (SOCKET_ERROR_NONE, s', rs, x)"
    "objs w' a = Some ob'" "quiet ob' = quiet (ob\<lparr>sock := s'\<rparr>)" using assms(2) by (rule api_call_object)
  then have "impl s' \<noteq> None" and "impl (sock ob') = impl s'"
    using assms(1) [unfolded create_ok_def, rule_format] quiet_eq_fields(3) by fastforce+
  with \<open>objs w' a = Some ob'\<close> show ?thesis by (simp add: opened_def)
qed

lemma posts_stream:
  assumes "objs w a = Some ob" and "vptr ob = K_TCPStream"
  shows "onConnect (stream_part ob) = Some f \<Longrightarrow> posts a SOCKET_EVENT_CONNECT w [CB_onConnect (Some f) a]"
    "onDisconnect (stream_part ob) = Some f \<Longrightarrow> posts a SOCKET_EVENT_DISCONNECT w [CB_onDisconnect (Some f) a]"
  using assms by (auto simp: posts_def raise_event_eq event_callback_def if_set_def)

lemma posts_listener:
  assumes "objs w a = Some ob" and "vptr ob = K_TCPListener" and "onIncoming (listener_part ob) = Some f"
  shows "posts a (SOCKET_EVENT_ACCEPT i) w [CB_onIncoming (Some f) a i]"
  using assms by (auto simp: posts_def raise_event_eq event_callback_def if_set_def)

lemma connect_doc:
  assumes "objs w a = Some ob" and "vptr ob = K_TCPStream" and "TCPStream_connect env a sa port (Some f) w = Some (err, w')"
  shows "doc_connect a f err w'"
proof (cases "api (sock ob) = None")
  case True
  with assms show ?thesis by (simp add: TCPStream_connect_def doc_connect_def)
next
  case False
  let ?ob = "ob\<lparr>stream_part := (stream_part ob)\<lparr>onConnect := Some f\<rparr>\<rparr>"
  from False assms(1,3) have "api_call env a (\<lambda>t. api_connect t (getAddr sa) port) (put_obj a ?ob w) = Some (err, w')"
    by (auto simp: TCPStream_connect_def with_obj_def)
  then obtain s' ob' where "objs w' a = Some ob'" "quiet ob' = quiet (?ob\<lparr>sock := s'\<rparr>)"
    by (rule api_call_object [where ob = ?ob]) simp_all
  with posts_stream(1) [of w' a ob' f] quiet_eq_fields(1,11) [of ob' "?ob\<lparr>sock := s'\<rparr>"] assms(2)
  show ?thesis by (simp add: doc_connect_def)
qed

lemma start_listening_doc:
  assumes "objs w a = Some ob" and "vptr ob = K_TCPListener" and "start_listening env a (Some f) backlog w = Some (err, w')"
  shows "doc_start_listening a f err w'"
proof (cases "api (sock ob) = None")
  case True
  with assms show ?thesis by (simp add: start_listening_def doc_start_listening_def)
next
  case False
  let ?ob = "ob\<lparr>listener_part := (listener_part ob)\<lparr>onIncoming := Some f\<rparr>\<rparr>"
  from False assms(1,3) have "api_call env a (\<lambda>t. api_start_listen t backlog) (put_obj a ?ob w) = Some (err, w')"
    by (auto simp: start_listening_def with_obj_def)
  then obtain s' ob' where "objs w' a = Some ob'" "quiet ob' = quiet (?ob\<lparr>sock := s'\<rparr>)"
    by (rule api_call_object [where ob = ?ob]) simp_all
  with posts_listener [of w' a ob' f] quiet_eq_fields(1,12) [of ob' "?ob\<lparr>sock := s'\<rparr>"] assms(2)
  show ?thesis by (simp add: doc_start_listening_def)
qed

text \<open>The struct of an accepted stream.\<close>

lemma new_stream_object:
  assumes "TCPStream_ctor env a stk mem w = Some w'"
  shows "\<exists>ob. objs w' a = Some ob \<and> stack (sock ob) = stk \<and> api (sock ob) = socket_get_api env stk \<and> \<not> opened ob"
  using assms by (auto simp: op_defs Let_def opened_def split: option.splits if_splits)

lemma accepted_doc:
  assumes "accept_ok env" and "wf_world env w" and "objs w a = Some lob" and "objs w new = None"
    and "TCPListener_accept env new mem a i w = Some (Some b, w')"
  shows "\<exists>nob. objs w' new = Some nob \<and> doc_accepted (keeps_impl env) (sock lob) i (sock nob)"
proof -
  let ?s = "(sock lob)\<lparr>impl := i, stack := stack (sock lob), family := family (sock lob)\<rparr>"
  from assms(3,5) have "TCPStream_ctor_accept env new a ?s mem w = Some (SOCKET_ERROR_NONE, w')"
    by (auto simp: TCPListener_accept_def Let_def bind_eq_Some_conv split: if_splits)
  then obtain w1 where w1: "TCPStream_ctor env new (stack (sock lob)) mem w = Some w1" and
    rest: "TCPStream_ctor_accept env new a ?s mem w = Some (SOCKET_ERROR_NONE, w')"
    by (auto simp: TCPStream_ctor_accept_def bind_eq_Some_conv)
  from new_stream_object [OF w1] obtain ob where ob: "objs w1 new = Some ob" "stack (sock ob) = stack (sock lob)"
    "api (sock ob) = socket_get_api env (stack (sock lob))" by blast
  let ?ob = "ob\<lparr>sock := (sock ob)\<lparr>family := family (sock lob), impl := i\<rparr>\<rparr>"
  let ?w = "put_obj new ?ob w1"
  from rest w1 ob(1) obtain lob1 where lob1: "objs ?w a = Some lob1"
    by (auto simp: TCPStream_ctor_accept_def with_obj_def bind_eq_Some_conv)
  obtain err ls' s' rs x where acc: "socket_accept env (sock lob1) new (network w1) (sock ?ob) = (err, ls', s', rs, x)"
    by (metis prod_cases5)
  from rest w1 ob(1) lob1 acc have
    rs: "raise_events rs ((put_obj new (?ob\<lparr>sock := s'\<rparr>) (put_obj a (lob1\<lparr>sock := ls'\<rparr>) ?w))\<lparr>network := x\<rparr>) = Some w'"
    by (auto simp: TCPStream_ctor_accept_def with_obj_def bind_eq_Some_conv split: if_splits)
  from raise_events_frame [OF rs] obtain nob where nob: "objs w' new = Some nob" "quiet nob = quiet (?ob\<lparr>sock := s'\<rparr>)"
    by (auto simp: event_frame_def dest!: spec [of _ new])
  have "stack s' = stack (sock lob)" "api s' = socket_get_api env (stack (sock lob))" "family s' = family (sock lob)"
    using assms(1) [unfolded accept_ok_def, rule_format, OF acc] ob(2,3) by simp_all
  moreover have "api (sock lob) = socket_get_api env (stack (sock lob))"
    using wf_worldD(2) [OF assms(2,3)] by (simp add: obj_ok_def)
  moreover have "impl s' = i" if "keeps_impl env" using that [unfolded keeps_impl_def, rule_format, OF acc] by simp
  ultimately have "doc_accepted (keeps_impl env) (sock lob) i (sock nob)"
    using quiet_eq_fields(3-6) [OF nob(2)] by (simp add: doc_accepted_def)
  with nob(1) show ?thesis by blast
qed

lemma accept_doc:
  assumes "sal_ok env" and "minar_ok env" and "wf_world env w" and "objs w a = Some ob" and "vptr ob = K_TCPListener"
    and "api (sock ob) \<noteq> None" and "new \<noteq> 0" and "objs w new = None"
  shows "\<exists>r w'. TCPListener_accept env new mem a i w = Some (r, w') \<and>
    (r \<noteq> None \<longrightarrow> (\<exists>nob. objs w' new = Some nob \<and> doc_accepted (keeps_impl env) (sock ob) i (sock nob)))"
proof -
  from accept_law [OF assms, of mem i] obtain r w' where r: "TCPListener_accept env new mem a i w = Some (r, w')"
    by (elim exE conjE)
  with accepted_doc [OF sal_ok_accept [OF assms(1)] assms(3,4,8), of mem i] show ?thesis by auto
qed

section \<open>Properties\<close>

text \<open>
  C24. The promises of the derived classes' comments, in every reachable state. A new \<open>TCPStream\<close> or \<open>UDPSocket\<close> has no underlying
  socket; \<open>open\<close> reports an unknown stack, and when it succeeds the socket is open; after a successful \<open>connect\<close> the handler of
  that call, and no other, is called for the connection; the last handler set is called for a disconnection; after a
  successful \<open>start_listening\<close> the handler of that call is called for every incoming connection, with its
  implementation; and a stream returned by \<open>accept\<close> has the stack, the function table and the protocol family of its listener, and
  the implementation that was given to \<open>accept\<close>, if the stack does not replace it.
\<close>

theorem documented_classes:
  assumes "env_ok env" and "sys_reachable env w" and "create_ok env"
  shows "(new \<noteq> 0 \<and> objs w new = None \<longrightarrow>
      (\<exists>w'. TCPStream_ctor env new stk mem w = Some w' \<and> doc_TCPStream_ctor new w') \<and>
      doc_UDPSocket_ctor new (UDPSocket_ctor env new stk mem w)) \<and>
    (\<forall>a ob. objs w a = Some ob \<longrightarrow>
      (\<exists>err w'. TCPAsynch_open env a af w = Some (err, w') \<and> doc_TCPAsynch_open a ob err w') \<and>
      (\<exists>err w'. UDPSocket_open env a af w = Some (err, w') \<and> doc_UDPSocket_open a err w') \<and>
      (vptr ob = K_TCPStream \<longrightarrow>
         (\<exists>err w'. TCPStream_connect env a sa port (Some f) w = Some (err, w') \<and> doc_connect a f err w') \<and>
         (\<exists>w'. setOnDisconnect a (Some f) w = Some w' \<and> doc_setOnDisconnect a f w')) \<and>
      (vptr ob = K_TCPListener \<longrightarrow>
         (\<exists>err w'. start_listening env a (Some f) backlog w = Some (err, w') \<and> doc_start_listening a f err w') \<and>
         (api (sock ob) \<noteq> None \<and> new \<noteq> 0 \<and> objs w new = None \<longrightarrow>
            (\<exists>r w'. TCPListener_accept env new mem a i w = Some (r, w') \<and>
               (r \<noteq> None \<longrightarrow> (\<exists>nob. objs w' new = Some nob \<and> doc_accepted (keeps_impl env) (sock ob) i (sock nob)))))))"
proof (intro conjI impI allI)
  have wf: "wf_world env w" by (rule reachable_wf [OF assms(1,2)])
  have ok: "sal_ok env" "minar_ok env" using assms(1) by (simp_all add: env_ok_def)
  {
    assume "new \<noteq> 0 \<and> objs w new = None"
    with stream_class.ctor_law [OF ok(2) wf, of new stk mem] obtain w' where "TCPStream_ctor env new stk mem w = Some w'" by auto
    with new_stream_object [OF this] show "\<exists>w'. TCPStream_ctor env new stk mem w = Some w' \<and> doc_TCPStream_ctor new w'"
      by (auto simp: doc_TCPStream_ctor_def)
    show "doc_UDPSocket_ctor new (UDPSocket_ctor env new stk mem w)" by (simp add: doc_UDPSocket_ctor_def op_defs opened_def)
  next
    fix a ob
    assume ob: "objs w a = Some ob"
    then have a: "a \<in> dom (objs w)" by blast
    show "\<exists>err w'. TCPAsynch_open env a af w = Some (err, w') \<and> doc_TCPAsynch_open a ob err w'"
      using tcp_open_op.returns [OF ok(1) wf a, of af] open_opened [OF assms(3) ob, of af SOCKET_STREAM] ob
      by (fastforce simp: doc_TCPAsynch_open_def TCPAsynch_open_def Socket_open_def)
    show "\<exists>err w'. UDPSocket_open env a af w = Some (err, w') \<and> doc_UDPSocket_open a err w'"
      using udp_open_op.returns [OF ok(1) wf a, of af] open_opened [OF assms(3) ob, of af SOCKET_DGRAM]
      by (fastforce simp: doc_UDPSocket_open_def UDPSocket_open_def)
    {
      assume k: "vptr ob = K_TCPStream"
      show "\<exists>err w'. TCPStream_connect env a sa port (Some f) w = Some (err, w') \<and> doc_connect a f err w'"
        using connect_op.returns [OF ok(1) wf a] connect_doc [OF ob k] by blast
      show "\<exists>w'. setOnDisconnect a (Some f) w = Some w' \<and> doc_setOnDisconnect a f w'"
        using ob k by (simp add: setOnDisconnect_def with_obj_def doc_setOnDisconnect_def posts_stream(2))
    next
      assume k: "vptr ob = K_TCPListener"
      show "\<exists>err w'. start_listening env a (Some f) backlog w = Some (err, w') \<and> doc_start_listening a f err w'"
        using start_op.returns [OF ok(1) wf a] start_listening_doc [OF ob k] by blast
      assume new: "api (sock ob) \<noteq> None \<and> new \<noteq> 0 \<and> objs w new = None"
      then show "\<exists>r w'. TCPListener_accept env new mem a i w = Some (r, w') \<and>
               (r \<noteq> None \<longrightarrow> (\<exists>nob. objs w' new = Some nob \<and> doc_accepted (keeps_impl env) (sock ob) i (sock nob)))"
        using accept_doc [OF ok wf ob k] by simp
    }
  }
qed

text \<open>C24 applied to a stream that has just been constructed, when it connects.\<close>

theorem documented_classes_witness:
  "\<exists>err w'. TCPStream_connect sample_env 4 \<lparr>addr_member = sample_addr\<rparr> 80 (Some 6) (one_stream 1) = Some (err, w') \<and>
     doc_connect 4 6 err w'"
  using conjunct2 [OF documented_classes [OF sample_env_ok one_stream_reachable sample_create_ok], rule_format, OF one_stream_at]
  by simp

end
