(* ===== verification/Header_Files.thy ===== *)
theory Header_Files
  imports Main
begin

text \<open>
  The header files: \<open>sockets/v0/*.h\<close>, which declare the classes, \<open>sockets/*.h\<close>, which make
  them available as the current version, and the deprecated \<open>mbed-net-sockets/**\<close>. The model
  is a small preprocessor: include guards, the lookup of quoted includes, and the order in which
  the compiler sees the class declarations.
\<close>

section \<open>Files\<close>

text \<open>Names of files and directories, of include guards and of classes.\<close>

datatype name =
    dotdot | sockets | v0 | mbed_net_sockets
  | Socket_h | SocketAddr_h | TCPAsynch_h | TCPStream_h | TCPListener_h | UDPSocket_h
  | stddef_h | stdint_h | sal | socket_types_h | socket_api_h | minar_dir | minar_h
  | core_util | FunctionPointer_h | mbed_drivers | mbed_h | CThunk_h
  | source_dir | test_dir | echo_tcp_client | echo_udp_client | cmsis_h | string_h | stdio_h | algorithm_std
  | sal_stack_lwip | lwipv4_init_h | sal_iface_eth | EthernetInterface_h | greentea_client | test_env_h
  | utest | utest_h | unity | unity_h

datatype cls = Socket_c | SocketAddr_c | TCPAsynch_c | TCPStream_c | TCPListener_c | UDPSocket_c

text \<open>The macro \<open>__X__\<close> of an include guard is \<open>X\<close>.\<close>

datatype guard_macro =
    SOCKETS_V0_SOCKET_H | SOCKETS_V0_SOCKETADDR_H | MBED_NET_SOCKETS_V0_TCP_ASYNCH
  | SOCKETS_V0_TCPSTREAM_H | SOCKETS_V0_TCPLISTENER_H | SOCKETS_V0_UDPSOCKET_H
  | SOCKETS_SOCKET_H | SOCKETS_SOCKETADDR_H | MBED_NET_SOCKETS_TCP_ASYNCH__H
  | SOCKETS_TCPSTREAM_H | SOCKETS_TCPLISTENER_H | SOCKETS_UDPSOCKET_H
  | MBED_NET_SOCKETS_SOCKET_H | MBED_NET_SOCKETS_SOCKETADDR_H | MBED_NET_SOCKETS_TCPASYNCH_H
  | MBED_NET_SOCKETS_TCPSTREAM_H | MBED_NET_SOCKETS_TCPLISTENER_H | MBED_NET_SOCKETS_UDPSOCKET_H
  | MBED_NET_SOCKETS_V0_SOCKET_H | MBED_NET_SOCKETS_V0_SOCKETADDR_H | MBED_NET_SOCKETS_V0_TCPASYNCH_H
  | MBED_NET_SOCKETS_V0_TCPSTREAM_H | MBED_NET_SOCKETS_V0_TCPLISTENER_H | MBED_NET_SOCKETS_V0_UDPSOCKET_H

type_synonym path = "name list"

text \<open>
  What a header contains between its guards: an include, a class with its base classes, the
  directive \<open>using namespace mbed::Sockets::v0\<close>, or a \<open>#warning\<close> that names
  the header to use instead.
\<close>

datatype item = Include path | Class cls "cls list" | Using_v0 | Warning path

record header =
  guard :: guard_macro
  body :: "item list"

definition v0_Socket_h :: header where
  "v0_Socket_h = \<lparr>guard = SOCKETS_V0_SOCKET_H, body = [
     Include [stddef_h], Include [stdint_h], Include [mbed_drivers, mbed_h],
     Include [core_util, FunctionPointer_h], Include [mbed_drivers, CThunk_h],
     Include [sal, socket_types_h], Include [SocketAddr_h], Class Socket_c []]\<rparr>"

definition v0_SocketAddr_h :: header where
  "v0_SocketAddr_h = \<lparr>guard = SOCKETS_V0_SOCKETADDR_H, body = [
     Include [sal, socket_types_h], Class SocketAddr_c []]\<rparr>"

definition v0_TCPAsynch_h :: header where
  "v0_TCPAsynch_h = \<lparr>guard = MBED_NET_SOCKETS_V0_TCP_ASYNCH, body = [
     Include [Socket_h], Include [sal, socket_api_h], Include [minar_dir, minar_h],
     Class TCPAsynch_c [Socket_c]]\<rparr>"

definition v0_TCPStream_h :: header where
  "v0_TCPStream_h = \<lparr>guard = SOCKETS_V0_TCPSTREAM_H, body = [
     Include [stddef_h], Include [stdint_h], Include [TCPAsynch_h], Class TCPStream_c [TCPAsynch_c]]\<rparr>"

definition v0_TCPListener_h :: header where
  "v0_TCPListener_h = \<lparr>guard = SOCKETS_V0_TCPLISTENER_H, body = [
     Include [stddef_h], Include [stdint_h], Include [core_util, FunctionPointer_h],
     Include [TCPAsynch_h], Include [TCPStream_h], Class TCPListener_c [TCPAsynch_c]]\<rparr>"

definition v0_UDPSocket_h :: header where
  "v0_UDPSocket_h = \<lparr>guard = SOCKETS_V0_UDPSOCKET_H, body = [
     Include [stddef_h], Include [stdint_h], Include [Socket_h], Class UDPSocket_c [Socket_c]]\<rparr>"

definition sockets_Socket_h :: header where
  "sockets_Socket_h = \<lparr>guard = SOCKETS_SOCKET_H, body = [Include [v0, Socket_h], Using_v0]\<rparr>"

definition sockets_SocketAddr_h :: header where
  "sockets_SocketAddr_h = \<lparr>guard = SOCKETS_SOCKETADDR_H, body = [Include [v0, SocketAddr_h], Using_v0]\<rparr>"

definition sockets_TCPAsynch_h :: header where
  "sockets_TCPAsynch_h = \<lparr>guard = MBED_NET_SOCKETS_TCP_ASYNCH__H, body = [Include [v0, TCPAsynch_h], Using_v0]\<rparr>"

definition sockets_TCPStream_h :: header where
  "sockets_TCPStream_h = \<lparr>guard = SOCKETS_TCPSTREAM_H, body = [Include [v0, TCPStream_h], Using_v0]\<rparr>"

definition sockets_TCPListener_h :: header where
  "sockets_TCPListener_h = \<lparr>guard = SOCKETS_TCPLISTENER_H, body = [Include [v0, TCPListener_h], Using_v0]\<rparr>"

definition sockets_UDPSocket_h :: header where
  "sockets_UDPSocket_h = \<lparr>guard = SOCKETS_UDPSOCKET_H, body = [Include [v0, UDPSocket_h], Using_v0]\<rparr>"

definition mbed_net_Socket_h :: header where
  "mbed_net_Socket_h = \<lparr>guard = MBED_NET_SOCKETS_SOCKET_H, body = [
     Warning [sockets, Socket_h], Include [dotdot, sockets, Socket_h]]\<rparr>"

definition mbed_net_SocketAddr_h :: header where
  "mbed_net_SocketAddr_h = \<lparr>guard = MBED_NET_SOCKETS_SOCKETADDR_H, body = [
     Warning [sockets, SocketAddr_h], Include [dotdot, sockets, SocketAddr_h]]\<rparr>"

definition mbed_net_TCPAsynch_h :: header where
  "mbed_net_TCPAsynch_h = \<lparr>guard = MBED_NET_SOCKETS_TCPASYNCH_H, body = [
     Warning [sockets, TCPAsynch_h], Include [dotdot, sockets, TCPAsynch_h]]\<rparr>"

definition mbed_net_TCPStream_h :: header where
  "mbed_net_TCPStream_h = \<lparr>guard = MBED_NET_SOCKETS_TCPSTREAM_H, body = [
     Warning [sockets, TCPStream_h], Include [dotdot, sockets, TCPStream_h]]\<rparr>"

definition mbed_net_TCPListener_h :: header where
  "mbed_net_TCPListener_h = \<lparr>guard = MBED_NET_SOCKETS_TCPLISTENER_H, body = [
     Warning [sockets, TCPListener_h], Include [dotdot, sockets, TCPListener_h]]\<rparr>"

definition mbed_net_UDPSocket_h :: header where
  "mbed_net_UDPSocket_h = \<lparr>guard = MBED_NET_SOCKETS_UDPSOCKET_H, body = [
     Warning [sockets, UDPSocket_h], Include [dotdot, sockets, UDPSocket_h]]\<rparr>"

definition mbed_net_v0_Socket_h :: header where
  "mbed_net_v0_Socket_h = \<lparr>guard = MBED_NET_SOCKETS_V0_SOCKET_H, body = [
     Warning [sockets, v0, Socket_h], Include [dotdot, sockets, v0, Socket_h]]\<rparr>"

definition mbed_net_v0_SocketAddr_h :: header where
  "mbed_net_v0_SocketAddr_h = \<lparr>guard = MBED_NET_SOCKETS_V0_SOCKETADDR_H, body = [
     Warning [sockets, v0, SocketAddr_h], Include [dotdot, sockets, v0, SocketAddr_h]]\<rparr>"

definition mbed_net_v0_TCPAsynch_h :: header where
  "mbed_net_v0_TCPAsynch_h = \<lparr>guard = MBED_NET_SOCKETS_V0_TCPASYNCH_H, body = [
     Warning [sockets, v0, TCPAsynch_h], Include [dotdot, sockets, v0, TCPAsynch_h]]\<rparr>"

definition mbed_net_v0_TCPStream_h :: header where
  "mbed_net_v0_TCPStream_h = \<lparr>guard = MBED_NET_SOCKETS_V0_TCPSTREAM_H, body = [
     Warning [sockets, v0, TCPStream_h], Include [dotdot, sockets, v0, TCPStream_h]]\<rparr>"

definition mbed_net_v0_TCPListener_h :: header where
  "mbed_net_v0_TCPListener_h = \<lparr>guard = MBED_NET_SOCKETS_V0_TCPLISTENER_H, body = [
     Warning [sockets, v0, TCPListener_h], Include [dotdot, sockets, v0, TCPListener_h]]\<rparr>"

definition mbed_net_v0_UDPSocket_h :: header where
  "mbed_net_v0_UDPSocket_h = \<lparr>guard = MBED_NET_SOCKETS_V0_UDPSOCKET_H, body = [
     Warning [sockets, v0, UDPSocket_h], Include [dotdot, sockets, v0, UDPSocket_h]]\<rparr>"

text \<open>The header files of the repository, by path from its root.\<close>

definition repo :: "(path \<times> header) list" where
  "repo = [
     ([sockets, v0, Socket_h], v0_Socket_h), ([sockets, v0, SocketAddr_h], v0_SocketAddr_h),
     ([sockets, v0, TCPAsynch_h], v0_TCPAsynch_h), ([sockets, v0, TCPStream_h], v0_TCPStream_h),
     ([sockets, v0, TCPListener_h], v0_TCPListener_h), ([sockets, v0, UDPSocket_h], v0_UDPSocket_h),
     ([sockets, Socket_h], sockets_Socket_h), ([sockets, SocketAddr_h], sockets_SocketAddr_h),
     ([sockets, TCPAsynch_h], sockets_TCPAsynch_h), ([sockets, TCPStream_h], sockets_TCPStream_h),
     ([sockets, TCPListener_h], sockets_TCPListener_h), ([sockets, UDPSocket_h], sockets_UDPSocket_h),
     ([mbed_net_sockets, Socket_h], mbed_net_Socket_h), ([mbed_net_sockets, SocketAddr_h], mbed_net_SocketAddr_h),
     ([mbed_net_sockets, TCPAsynch_h], mbed_net_TCPAsynch_h), ([mbed_net_sockets, TCPStream_h], mbed_net_TCPStream_h),
     ([mbed_net_sockets, TCPListener_h], mbed_net_TCPListener_h), ([mbed_net_sockets, UDPSocket_h], mbed_net_UDPSocket_h),
     ([mbed_net_sockets, v0, Socket_h], mbed_net_v0_Socket_h), ([mbed_net_sockets, v0, SocketAddr_h], mbed_net_v0_SocketAddr_h),
     ([mbed_net_sockets, v0, TCPAsynch_h], mbed_net_v0_TCPAsynch_h), ([mbed_net_sockets, v0, TCPStream_h], mbed_net_v0_TCPStream_h),
     ([mbed_net_sockets, v0, TCPListener_h], mbed_net_v0_TCPListener_h), ([mbed_net_sockets, v0, UDPSocket_h], mbed_net_v0_UDPSocket_h)]"

lemmas header_defs = v0_Socket_h_def v0_SocketAddr_h_def v0_TCPAsynch_h_def v0_TCPStream_h_def
  v0_TCPListener_h_def v0_UDPSocket_h_def sockets_Socket_h_def sockets_SocketAddr_h_def sockets_TCPAsynch_h_def
  sockets_TCPStream_h_def sockets_TCPListener_h_def sockets_UDPSocket_h_def mbed_net_Socket_h_def
  mbed_net_SocketAddr_h_def mbed_net_TCPAsynch_h_def mbed_net_TCPStream_h_def mbed_net_TCPListener_h_def
  mbed_net_UDPSocket_h_def mbed_net_v0_Socket_h_def mbed_net_v0_SocketAddr_h_def mbed_net_v0_TCPAsynch_h_def
  mbed_net_v0_TCPStream_h_def mbed_net_v0_TCPListener_h_def mbed_net_v0_UDPSocket_h_def

section \<open>The preprocessor\<close>

text \<open>
  A quoted include is looked up relative to the directory of the including file, then relative
  to the root of the module, which is on the include path. A path that leaves the module, and one
  that is found in neither place, can only be provided from outside; \<open>ext\<close> says which ones are.
\<close>

fun walk :: "path \<Rightarrow> path \<Rightarrow> path option" where
  "walk d [] = Some d"
| "walk d (x # xs) =
    (if x = dotdot then (if d = [] then None else walk (butlast d) xs) else walk (d @ [x]) xs)"

definition lookup :: "path \<Rightarrow> path \<Rightarrow> (path \<times> header) option" where
  "lookup d p =
    (case walk d p of
       None \<Rightarrow> None
     | Some q \<Rightarrow> (case map_of repo q of None \<Rightarrow> None | Some h \<Rightarrow> Some (q, h)))"

definition find_header :: "path \<Rightarrow> path \<Rightarrow> (path \<times> header) option" where
  "find_header d p = (case lookup d p of Some r \<Rightarrow> Some r | None \<Rightarrow> lookup [] p)"

text \<open>
  The state of a translation unit: the guards defined, the classes declared in order, and
  the warnings given. A file that is missing, a class declared twice, a base class that is not
  declared yet and a \<open>using\<close> of a namespace that does not exist yet are errors, \<open>None\<close>.
\<close>

record tu =
  defined :: "guard_macro list"
  classes :: "cls list"
  warnings :: "path list"

function preprocess :: "(path \<Rightarrow> bool) \<Rightarrow> tu \<Rightarrow> (path \<times> item) list \<Rightarrow> tu option" where
  "preprocess ext t [] = Some t"
| "preprocess ext t ((d, Class c bs) # xs) =
    (if c \<in> set (classes t) \<or> \<not> set bs \<subseteq> set (classes t) then None
     else preprocess ext (t\<lparr>classes := classes t @ [c]\<rparr>) xs)"
| "preprocess ext t ((d, Using_v0) # xs) =
    (if classes t = [] then None else preprocess ext t xs)"
| "preprocess ext t ((d, Warning p) # xs) =
    preprocess ext (t\<lparr>warnings := warnings t @ [p]\<rparr>) xs"
| "preprocess ext t ((d, Include p) # xs) =
    (case find_header d p of
       None \<Rightarrow> if ext p then preprocess ext t xs else None
     | Some (q, h) \<Rightarrow>
         if guard h \<in> set (defined t) then preprocess ext t xs
         else preprocess ext (t\<lparr>defined := guard h # defined t\<rparr>)
                (map (Pair (butlast q)) (body h) @ xs))"
  by pat_completeness auto

definition repo_guards :: "guard_macro set" where
  "repo_guards = guard ` snd ` set repo"

lemma find_header_repo: "find_header d p = Some (q, h) \<Longrightarrow> (q, h) \<in> set repo"
  by (auto simp: find_header_def lookup_def split: option.splits dest: map_of_SomeD)

lemma new_guard_less:
  assumes "find_header d p = Some (q, h)" and "guard h \<notin> set D"
  shows "card (repo_guards - insert (guard h) (set D)) < card (repo_guards - set D)"
proof (rule psubset_card_mono)
  have "guard h \<in> repo_guards"
    using find_header_repo [OF assms(1)] by (force simp: repo_guards_def)
  with assms(2) show "repo_guards - insert (guard h) (set D) \<subset> repo_guards - set D" by blast
qed (simp add: repo_guards_def)

text \<open>It terminates: every file that is entered defines a guard that was not defined.\<close>

termination preprocess
  by (relation "measures [\<lambda>(ext, t, xs). card (repo_guards - set (defined t)), \<lambda>(ext, t, xs). length xs]")
    (auto simp: new_guard_less)

section \<open>The invariant of a translation unit\<close>

fun v0_guard :: "cls \<Rightarrow> guard_macro" where
  "v0_guard Socket_c = SOCKETS_V0_SOCKET_H"
| "v0_guard SocketAddr_c = SOCKETS_V0_SOCKETADDR_H"
| "v0_guard TCPAsynch_c = MBED_NET_SOCKETS_V0_TCP_ASYNCH"
| "v0_guard TCPStream_c = SOCKETS_V0_TCPSTREAM_H"
| "v0_guard TCPListener_c = SOCKETS_V0_TCPLISTENER_H"
| "v0_guard UDPSocket_c = SOCKETS_V0_UDPSOCKET_H"

fun file_of :: "cls \<Rightarrow> name" where
  "file_of Socket_c = Socket_h"
| "file_of SocketAddr_c = SocketAddr_h"
| "file_of TCPAsynch_c = TCPAsynch_h"
| "file_of TCPStream_c = TCPStream_h"
| "file_of TCPListener_c = TCPListener_h"
| "file_of UDPSocket_c = UDPSocket_h"

fun rank :: "cls \<Rightarrow> nat" where
  "rank SocketAddr_c = 0"
| "rank Socket_c = 1"
| "rank TCPAsynch_c = 2"
| "rank UDPSocket_c = 2"
| "rank TCPStream_c = 3"
| "rank TCPListener_c = 4"

lemma v0_guard_inj [simp]: "v0_guard c = v0_guard c' \<longleftrightarrow> c = c'"
  by (cases c; cases c') simp_all

text \<open>The header a class is declared in: what it includes and the bases of the class.\<close>

definition v0_parts :: "cls \<Rightarrow> path list \<times> cls list" where
  "v0_parts c = (case c of
     Socket_c \<Rightarrow> ([[stddef_h], [stdint_h], [mbed_drivers, mbed_h], [core_util, FunctionPointer_h],
                  [mbed_drivers, CThunk_h], [sal, socket_types_h], [SocketAddr_h]], [])
   | SocketAddr_c \<Rightarrow> ([[sal, socket_types_h]], [])
   | TCPAsynch_c \<Rightarrow> ([[Socket_h], [sal, socket_api_h], [minar_dir, minar_h]], [Socket_c])
   | TCPStream_c \<Rightarrow> ([[stddef_h], [stdint_h], [TCPAsynch_h]], [TCPAsynch_c])
   | TCPListener_c \<Rightarrow> ([[stddef_h], [stdint_h], [core_util, FunctionPointer_h], [TCPAsynch_h], [TCPStream_h]], [TCPAsynch_c])
   | UDPSocket_c \<Rightarrow> ([[stddef_h], [stdint_h], [Socket_h]], [Socket_c]))"

text \<open>Every class comes after its base classes.\<close>

definition bases_first :: "cls list \<Rightarrow> bool" where
  "bases_first cs \<longleftrightarrow> (\<forall>i < length cs. set (snd (v0_parts (cs ! i))) \<subseteq> set (take i cs))"

lemma bases_first_Nil [simp]: "bases_first []"
  by (simp add: bases_first_def)

lemma bases_first_snoc:
  "bases_first cs \<Longrightarrow> set (snd (v0_parts c)) \<subseteq> set cs \<Longrightarrow> bases_first (cs @ [c])"
  by (auto simp: bases_first_def nth_append less_Suc_eq)

text \<open>
  \<open>S\<close> are the classes whose header has been entered and not left yet: their guard is defined
  and their class is not declared. For all others the guard is defined exactly if the class is declared.
\<close>

definition tu_inv :: "cls set \<Rightarrow> tu \<Rightarrow> bool" where
  "tu_inv S t \<longleftrightarrow> distinct (classes t) \<and> bases_first (classes t) \<and> S \<inter> set (classes t) = {} \<and>
     (\<forall>c. v0_guard c \<in> set (defined t) \<longleftrightarrow> c \<in> set (classes t) \<union> S)"

text \<open>What the headers need from outside: the files of other modules and of the compiler.\<close>

definition ext_files :: "path set" where
  "ext_files = {[stddef_h], [stdint_h], [mbed_drivers, mbed_h], [core_util, FunctionPointer_h],
     [mbed_drivers, CThunk_h], [sal, socket_types_h], [sal, socket_api_h], [minar_dir, minar_h]}"

definition ext_ok :: "(path \<Rightarrow> bool) \<Rightarrow> bool" where
  "ext_ok ext \<longleftrightarrow> (\<forall>p \<in> ext_files. ext p)"

definition v0_header :: "cls \<Rightarrow> header" where
  "v0_header c = \<lparr>guard = v0_guard c,
     body = map Include (fst (v0_parts c)) @ [Class c (snd (v0_parts c))]\<rparr>"

lemma v0_header_file: "map_of repo [sockets, v0, file_of c] = Some (v0_header c)"
  by (cases c) (simp_all add: repo_def header_defs v0_header_def v0_parts_def)

text \<open>An include of a v0 header is external, or declares a class of smaller rank.\<close>

lemma file_of_eq [simp]:
  "Socket_h = file_of c \<longleftrightarrow> c = Socket_c" "SocketAddr_h = file_of c \<longleftrightarrow> c = SocketAddr_c"
  "TCPAsynch_h = file_of c \<longleftrightarrow> c = TCPAsynch_c" "TCPStream_h = file_of c \<longleftrightarrow> c = TCPStream_c"
  "TCPListener_h = file_of c \<longleftrightarrow> c = TCPListener_c" "UDPSocket_h = file_of c \<longleftrightarrow> c = UDPSocket_c"
  by (cases c; simp)+

lemma v0_includes:
  "p \<in> set (fst (v0_parts c)) \<Longrightarrow> p \<in> ext_files \<or> (\<exists>c'. p = [file_of c'] \<and> rank c' < rank c)"
  by (cases c) (auto simp: v0_parts_def ext_files_def)

lemma find_ext: "p \<in> ext_files \<Longrightarrow> find_header [sockets, v0] p = None"
  by (auto simp: ext_files_def find_header_def lookup_def repo_def)

lemma find_own: "find_header [sockets, v0] [file_of c] = Some ([sockets, v0, file_of c], v0_header c)"
  using v0_header_file [of c] by (cases c) (simp_all add: find_header_def lookup_def)

lemma v0_bases: "b \<in> set (snd (v0_parts c)) \<Longrightarrow> [file_of b] \<in> set (fst (v0_parts c))"
  by (cases c) (auto simp: v0_parts_def)

text \<open>What an include adds: only classes of v0, their guards, and no warning.\<close>

definition grows :: "cls set \<Rightarrow> tu \<Rightarrow> tu \<Rightarrow> bool" where
  "grows S t t' \<longleftrightarrow> tu_inv S t' \<and> set (classes t) \<subseteq> set (classes t') \<and> warnings t' = warnings t \<and>
     (\<forall>g. g \<notin> range v0_guard \<longrightarrow> g \<in> set (defined t') \<longleftrightarrow> g \<in> set (defined t))"

lemma grows_refl: "tu_inv S t \<Longrightarrow> grows S t t"
  by (simp add: grows_def)

lemma grows_trans: "grows S t1 t2 \<Longrightarrow> grows S t2 t3 \<Longrightarrow> grows S t1 t3"
  by (auto simp: grows_def)

text \<open>
  A list of includes as they occur in a v0 header, given what one include of a class of smaller
  rank does.
\<close>

lemma preprocess_includes:
  assumes ext: "ext_ok ext"
    and one: "\<And>c' t xs. rank c' < n \<Longrightarrow> tu_inv S t \<Longrightarrow>
      \<exists>t'. preprocess ext t (([sockets, v0], Include [file_of c']) # xs) = preprocess ext t' xs \<and>
        grows S t t' \<and> c' \<in> set (classes t')"
    and "tu_inv S t" and "\<And>p. p \<in> set ps \<Longrightarrow> p \<in> ext_files \<or> (\<exists>c'. p = [file_of c'] \<and> rank c' < n)"
  shows "\<exists>t'. preprocess ext t (map (\<lambda>p. ([sockets, v0], Include p)) ps @ ys) = preprocess ext t' ys \<and>
    grows S t t' \<and> (\<forall>c'. [file_of c'] \<in> set ps \<longrightarrow> c' \<in> set (classes t'))"
  using assms(3,4)
proof (induction ps arbitrary: t)
  case Nil
  then show ?case by (auto intro: grows_refl)
next
  case (Cons p ps)
  let ?xs = "map (\<lambda>p. ([sockets, v0], Include p)) ps @ ys"
  have "\<exists>t1. preprocess ext t (([sockets, v0], Include p) # ?xs) = preprocess ext t1 ?xs \<and> grows S t t1 \<and>
      (\<forall>c'. p = [file_of c'] \<longrightarrow> c' \<in> set (classes t1))"
  proof (cases "p \<in> ext_files")
    case True
    then have "p \<noteq> [file_of c']" for c' by (cases c') (auto simp: ext_files_def)
    with True ext Cons.prems(1) show ?thesis by (auto simp: find_ext ext_ok_def intro!: grows_refl)
  next
    case False
    with Cons.prems(2) [of p] obtain c' where "p = [file_of c']" "rank c' < n" by auto
    moreover have "p = [file_of c''] \<Longrightarrow> c'' = c'" for c''
      using \<open>p = [file_of c']\<close> by (cases c'; cases c'') simp_all
    ultimately show ?thesis using one [OF _ Cons.prems(1), of c' ?xs] by metis
  qed
  then obtain t1 where t1: "preprocess ext t (([sockets, v0], Include p) # ?xs) = preprocess ext t1 ?xs"
      "grows S t t1" "\<forall>c'. p = [file_of c'] \<longrightarrow> c' \<in> set (classes t1)" by blast
  from Cons.IH [of t1] Cons.prems(2) t1(2) obtain t2 where
    t2: "preprocess ext t1 ?xs = preprocess ext t2 ys" "grows S t1 t2"
      "\<forall>c'. [file_of c'] \<in> set ps \<longrightarrow> c' \<in> set (classes t2)"
    by (auto simp: grows_def)
  have "\<forall>c'. [file_of c'] \<in> set (p # ps) \<longrightarrow> c' \<in> set (classes t2)"
    using t1(3) t2(2,3) by (auto simp: grows_def)
  with t1(1) t2(1) grows_trans [OF t1(2) t2(2)] show ?case by auto
qed

lemma preprocess_v0:
  assumes ext: "ext_ok ext"
    and "find_header d p = Some ([sockets, v0, file_of c], v0_header c)"
    and "tu_inv S t" and "\<And>c'. c' \<in> S \<Longrightarrow> rank c < rank c'"
  shows "\<exists>t'. preprocess ext t ((d, Include p) # xs) = preprocess ext t' xs \<and> grows S t t' \<and> c \<in> set (classes t')"
  using assms(2-)
proof (induction "rank c" arbitrary: c d p S t xs rule: less_induct)
  case less
  have cS: "c \<notin> S" using less.prems(3) by blast
  show ?case
  proof (cases "v0_guard c \<in> set (defined t)")
    case True
    then have "c \<in> set (classes t)" using less.prems(2) cS by (simp add: tu_inv_def)
    with True less.prems(1,2) show ?thesis by (auto simp: v0_header_def intro!: exI [of _ t] grows_refl)
  next
    case False
    let ?t = "t\<lparr>defined := v0_guard c # defined t\<rparr>" and ?ps = "fst (v0_parts c)" and ?bs = "snd (v0_parts c)"
    let ?ys = "([sockets, v0], Class c ?bs) # xs"
    have inv: "tu_inv (insert c S) ?t" using less.prems(2) False by (auto simp: tu_inv_def)
    have one: "\<exists>t'. preprocess ext t (([sockets, v0], Include [file_of c']) # xs) = preprocess ext t' xs \<and>
        grows (insert c S) t t' \<and> c' \<in> set (classes t')" if "rank c' < rank c" "tu_inv (insert c S) t" for c' t xs
    proof (rule less.hyps [OF that(1) find_own that(2)])
      show "rank c' < rank e" if "e \<in> insert c S" for e
        using that \<open>rank c' < rank c\<close> less.prems(3) [of e] by auto
    qed
    obtain t1 where t1: "preprocess ext ?t (map (\<lambda>p. ([sockets, v0], Include p)) ?ps @ ?ys) = preprocess ext t1 ?ys"
        "grows (insert c S) ?t t1" "\<forall>c'. [file_of c'] \<in> set ?ps \<longrightarrow> c' \<in> set (classes t1)"
      using preprocess_includes [where n = "rank c" and S = "insert c S" and t = ?t and ps = ?ps and ys = ?ys,
          OF ext one inv v0_includes] by blast
    let ?t2 = "t1\<lparr>classes := classes t1 @ [c]\<rparr>"
    have "set ?bs \<subseteq> set (classes t1)" using t1(3) v0_bases by blast
    moreover have "c \<notin> set (classes t1)" using t1(2) by (simp add: grows_def tu_inv_def)
    ultimately have "preprocess ext t1 ?ys = preprocess ext ?t2 xs" by simp
    moreover have "preprocess ext t ((d, Include p) # xs)
        = preprocess ext ?t (map (\<lambda>p. ([sockets, v0], Include p)) ?ps @ ?ys)"
      using less.prems(1) False by (simp add: v0_header_def comp_def)
    moreover have "grows S t ?t2"
      using t1(2) cS bases_first_snoc [OF _ \<open>set ?bs \<subseteq> set (classes t1)\<close>] by (auto simp: grows_def tu_inv_def)
    ultimately show ?thesis using t1(1) by (auto intro!: exI [of _ ?t2])
  qed
qed

section \<open>The public headers\<close>

fun current_guard :: "cls \<Rightarrow> guard_macro" where
  "current_guard Socket_c = SOCKETS_SOCKET_H"
| "current_guard SocketAddr_c = SOCKETS_SOCKETADDR_H"
| "current_guard TCPAsynch_c = MBED_NET_SOCKETS_TCP_ASYNCH__H"
| "current_guard TCPStream_c = SOCKETS_TCPSTREAM_H"
| "current_guard TCPListener_c = SOCKETS_TCPLISTENER_H"
| "current_guard UDPSocket_c = SOCKETS_UDPSOCKET_H"

fun deprecated_guard :: "cls \<Rightarrow> guard_macro" where
  "deprecated_guard Socket_c = MBED_NET_SOCKETS_SOCKET_H"
| "deprecated_guard SocketAddr_c = MBED_NET_SOCKETS_SOCKETADDR_H"
| "deprecated_guard TCPAsynch_c = MBED_NET_SOCKETS_TCPASYNCH_H"
| "deprecated_guard TCPStream_c = MBED_NET_SOCKETS_TCPSTREAM_H"
| "deprecated_guard TCPListener_c = MBED_NET_SOCKETS_TCPLISTENER_H"
| "deprecated_guard UDPSocket_c = MBED_NET_SOCKETS_UDPSOCKET_H"

lemma guards_differ [simp]:
  "current_guard c \<noteq> v0_guard c'" "deprecated_guard c \<noteq> v0_guard c'" "deprecated_guard c \<noteq> current_guard c'"
  "v0_guard c' \<noteq> current_guard c" "v0_guard c' \<noteq> deprecated_guard c" "current_guard c' \<noteq> deprecated_guard c"
  "current_guard c = current_guard c' \<longleftrightarrow> c = c'" "deprecated_guard c = deprecated_guard c' \<longleftrightarrow> c = c'"
  by (cases c; cases c'; simp)+

lemma guards_not_v0 [simp]: "current_guard c \<notin> range v0_guard" "deprecated_guard c \<notin> range v0_guard"
  by (auto dest: sym)

definition current_header :: "cls \<Rightarrow> header" where
  "current_header c = \<lparr>guard = current_guard c, body = [Include [v0, file_of c], Using_v0]\<rparr>"

definition deprecated_header :: "cls \<Rightarrow> header" where
  "deprecated_header c = \<lparr>guard = deprecated_guard c,
     body = [Warning [sockets, file_of c], Include [dotdot, sockets, file_of c]]\<rparr>"

lemma find_public:
  "find_header [] [sockets, v0, file_of c] = Some ([sockets, v0, file_of c], v0_header c)"
  "find_header [sockets] [v0, file_of c] = Some ([sockets, v0, file_of c], v0_header c)"
  "find_header [] [sockets, file_of c] = Some ([sockets, file_of c], current_header c)"
  "find_header [mbed_net_sockets] [dotdot, sockets, file_of c] = Some ([sockets, file_of c], current_header c)"
  "find_header [] [mbed_net_sockets, file_of c] = Some ([mbed_net_sockets, file_of c], deprecated_header c)"
proof -
  have "map_of repo [sockets, file_of c] = Some (current_header c)"
    and "map_of repo [mbed_net_sockets, file_of c] = Some (deprecated_header c)"
    by (cases c; simp add: repo_def header_defs current_header_def deprecated_header_def)+
  moreover have "file_of c \<noteq> dotdot" by (cases c) simp_all
  ultimately show
    "find_header [] [sockets, v0, file_of c] = Some ([sockets, v0, file_of c], v0_header c)"
    "find_header [sockets] [v0, file_of c] = Some ([sockets, v0, file_of c], v0_header c)"
    "find_header [] [sockets, file_of c] = Some ([sockets, file_of c], current_header c)"
    "find_header [mbed_net_sockets] [dotdot, sockets, file_of c] = Some ([sockets, file_of c], current_header c)"
    "find_header [] [mbed_net_sockets, file_of c] = Some ([mbed_net_sockets, file_of c], deprecated_header c)"
    by (simp_all add: find_header_def lookup_def v0_header_file)
qed

text \<open>
  Between two includes of an application the guard of a public header implies that its class is
  declared.
\<close>

definition current_inv :: "tu \<Rightarrow> bool" where
  "current_inv t \<longleftrightarrow> tu_inv {} t \<and> (\<forall>c. current_guard c \<in> set (defined t) \<longrightarrow> c \<in> set (classes t))"

definition public_inv :: "tu \<Rightarrow> bool" where
  "public_inv t \<longleftrightarrow> current_inv t \<and> (\<forall>c. deprecated_guard c \<in> set (defined t) \<longrightarrow> c \<in> set (classes t))"

lemma preprocess_current:
  assumes "ext_ok ext" and "current_inv t" and "find_header d p = Some ([sockets, file_of c], current_header c)"
  shows "\<exists>t'. preprocess ext t ((d, Include p) # xs) = preprocess ext t' xs \<and> current_inv t' \<and>
    c \<in> set (classes t') \<and> set (classes t) \<subseteq> set (classes t') \<and> warnings t' = warnings t \<and>
    (\<forall>c'. deprecated_guard c' \<in> set (defined t') \<longleftrightarrow> deprecated_guard c' \<in> set (defined t))"
proof (cases "current_guard c \<in> set (defined t)")
  case True
  with assms(2,3) show ?thesis
    by (intro exI [of _ t]) (simp add: current_header_def current_inv_def)
next
  case False
  let ?t = "t\<lparr>defined := current_guard c # defined t\<rparr>"
  have "tu_inv {} ?t" using assms(2) by (simp add: current_inv_def tu_inv_def)
  then obtain t1 where t1: "preprocess ext ?t (([sockets], Include [v0, file_of c]) # ([sockets], Using_v0) # xs)
      = preprocess ext t1 (([sockets], Using_v0) # xs)" "grows {} ?t t1" "c \<in> set (classes t1)"
    using preprocess_v0 [OF assms(1) find_public(2), of "{}" ?t] by blast
  have g: "g \<in> set (defined t1) \<longleftrightarrow> g = current_guard c \<or> g \<in> set (defined t)" if "g \<notin> range v0_guard" for g
    using t1(2) that by (simp add: grows_def)
  have "preprocess ext t ((d, Include p) # xs) = preprocess ext t1 xs"
    using assms(3) False t1(1,3) by (auto simp: current_header_def)
  moreover have "current_inv t1"
    using t1(2,3) assms(2) g by (auto simp: current_inv_def grows_def)
  ultimately show ?thesis
    using t1(2,3) g by (intro exI [of _ t1]) (simp add: grows_def)
qed

datatype style = V0 | Current | Deprecated

fun public_path :: "style \<Rightarrow> cls \<Rightarrow> path" where
  "public_path V0 c = [sockets, v0, file_of c]"
| "public_path Current c = [sockets, file_of c]"
| "public_path Deprecated c = [mbed_net_sockets, file_of c]"

lemma preprocess_public:
  assumes "ext_ok ext" and "public_inv t"
  shows "\<exists>t'. preprocess ext t (([], Include (public_path st c)) # xs) = preprocess ext t' xs \<and> public_inv t' \<and>
    c \<in> set (classes t') \<and> set (classes t) \<subseteq> set (classes t')"
proof (cases st)
  case V0
  obtain t1 where t1: "preprocess ext t (([], Include [sockets, v0, file_of c]) # xs) = preprocess ext t1 xs"
      "grows {} t t1" "c \<in> set (classes t1)"
    using preprocess_v0 [OF assms(1) find_public(1), of "{}" t] assms(2)
    unfolding public_inv_def current_inv_def by blast
  then have "public_inv t1" using assms(2) by (auto simp: public_inv_def current_inv_def grows_def)
  with t1 V0 show ?thesis by (intro exI [of _ t1]) (simp add: grows_def)
next
  case Current
  from preprocess_current [OF assms(1) _ find_public(3), of t c xs] assms(2) obtain t1 where
    t1: "preprocess ext t (([], Include [sockets, file_of c]) # xs) = preprocess ext t1 xs"
      "current_inv t1" "c \<in> set (classes t1)" "set (classes t) \<subseteq> set (classes t1)"
      "\<forall>c'. deprecated_guard c' \<in> set (defined t1) \<longleftrightarrow> deprecated_guard c' \<in> set (defined t)"
    unfolding public_inv_def by blast
  then have "public_inv t1" using assms(2) by (auto simp: public_inv_def)
  with t1(1,3,4) show ?thesis unfolding Current public_path.simps by blast
next
  case Deprecated
  show ?thesis
  proof (cases "deprecated_guard c \<in> set (defined t)")
    case True
    with Deprecated assms(2) show ?thesis
      by (intro exI [of _ t]) (simp add: find_public deprecated_header_def public_inv_def)
  next
    case False
    let ?t = "t\<lparr>defined := deprecated_guard c # defined t, warnings := warnings t @ [[sockets, file_of c]]\<rparr>"
    have "current_inv ?t" using assms(2) by (simp add: public_inv_def current_inv_def tu_inv_def)
    from preprocess_current [OF assms(1) this find_public(4), of c xs] obtain t1 where
      t1: "preprocess ext ?t (([mbed_net_sockets], Include [dotdot, sockets, file_of c]) # xs) = preprocess ext t1 xs"
        "current_inv t1" "c \<in> set (classes t1)" "set (classes t) \<subseteq> set (classes t1)"
        "\<forall>c'. deprecated_guard c' \<in> set (defined t1) \<longleftrightarrow> deprecated_guard c' \<in> set (defined ?t)"
      by auto
    have "preprocess ext t (([], Include (public_path st c)) # xs) = preprocess ext t1 xs"
      using Deprecated False t1(1) by (simp add: find_public(5) deprecated_header_def)
    moreover have "public_inv t1" using t1(2-5) assms(2) by (auto simp: public_inv_def)
    ultimately show ?thesis using t1(3,4) by blast
  qed
qed

lemma preprocess_all:
  assumes "ext_ok ext" and "public_inv t"
  shows "\<exists>t'. preprocess ext t (map (\<lambda>(st, c). ([], Include (public_path st c))) qs) = Some t' \<and>
    public_inv t' \<and> snd ` set qs \<subseteq> set (classes t') \<and> set (classes t) \<subseteq> set (classes t')"
  using assms(2)
proof (induction qs arbitrary: t)
  case Nil
  then show ?case by simp
next
  case (Cons q qs)
  obtain st c where q: "q = (st, c)" by (cases q)
  from preprocess_public [OF assms(1) Cons.prems, of st c] obtain t1 where
    t1: "preprocess ext t (([], Include (public_path st c)) # map (\<lambda>(st, c). ([], Include (public_path st c))) qs)
        = preprocess ext t1 (map (\<lambda>(st, c). ([], Include (public_path st c))) qs)"
      "public_inv t1" "c \<in> set (classes t1)" "set (classes t) \<subseteq> set (classes t1)" by blast
  from Cons.IH [OF t1(2)] obtain t2 where
    t2: "preprocess ext t1 (map (\<lambda>(st, c). ([], Include (public_path st c))) qs) = Some t2"
      "public_inv t2" "snd ` set qs \<subseteq> set (classes t2)" "set (classes t1) \<subseteq> set (classes t2)" by blast
  show ?case
    using t1 t2 unfolding q list.map prod.case by (intro exI [of _ t2]) auto
qed

definition empty_tu :: tu where
  "empty_tu = \<lparr>defined = [], classes = [], warnings = []\<rparr>"

lemma public_inv_empty [simp]: "public_inv empty_tu"
  by (simp add: public_inv_def current_inv_def tu_inv_def empty_tu_def)

definition sample_ext :: "path \<Rightarrow> bool" where
  "sample_ext p \<longleftrightarrow> p \<in> ext_files"

lemma sample_ext_ok [simp]: "ext_ok sample_ext"
  by (simp add: ext_ok_def sample_ext_def)

text \<open>The lookups of the single files, to evaluate an include.\<close>

lemmas find_file = find_own find_public(2-5)

lemmas find_simps = find_file [where c = Socket_c, simplified] find_file [where c = SocketAddr_c, simplified]
  find_file [where c = TCPAsynch_c, simplified] find_file [where c = TCPStream_c, simplified]
  find_file [where c = TCPListener_c, simplified] find_file [where c = UDPSocket_c, simplified]

lemma find_ext_simps:
  assumes "ext_ok ext"
  shows "find_header [sockets, v0] [stddef_h] = None \<and> ext [stddef_h]"
    "find_header [sockets, v0] [stdint_h] = None \<and> ext [stdint_h]"
    "find_header [sockets, v0] [mbed_drivers, mbed_h] = None \<and> ext [mbed_drivers, mbed_h]"
    "find_header [sockets, v0] [core_util, FunctionPointer_h] = None \<and> ext [core_util, FunctionPointer_h]"
    "find_header [sockets, v0] [mbed_drivers, CThunk_h] = None \<and> ext [mbed_drivers, CThunk_h]"
    "find_header [sockets, v0] [sal, socket_types_h] = None \<and> ext [sal, socket_types_h]"
    "find_header [sockets, v0] [sal, socket_api_h] = None \<and> ext [sal, socket_api_h]"
    "find_header [sockets, v0] [minar_dir, minar_h] = None \<and> ext [minar_dir, minar_h]"
  using assms by (simp_all add: find_ext ext_files_def ext_ok_def)

section \<open>Properties\<close>

text \<open>
  C27. The headers can be included in any order and any number of times: for every sequence of includes of v0, current
  and deprecated headers the preprocessor terminates without an error, every class is declared at most once
  and after its base classes, and the classes of all the included headers are declared.
\<close>

theorem headers_compile:
  assumes "ext_ok ext"
  shows "\<exists>t. preprocess ext empty_tu (map (\<lambda>(st, c). ([], Include (public_path st c))) qs) = Some t \<and>
    distinct (classes t) \<and> bases_first (classes t) \<and> snd ` set qs \<subseteq> set (classes t)"
  using preprocess_all [OF assms public_inv_empty, of qs]
  by (auto simp: public_inv_def current_inv_def tu_inv_def)

text \<open>C27 on a listener, a deprecated stream and a UDP header, in that order.\<close>

theorem headers_compile_witness:
  "\<exists>t. preprocess sample_ext empty_tu (map (\<lambda>(st, c). ([], Include (public_path st c)))
        [(Current, TCPListener_c), (Deprecated, TCPStream_c), (V0, UDPSocket_c)]) = Some t \<and> distinct (classes t)"
  using headers_compile [OF sample_ext_ok, of "[(Current, TCPListener_c), (Deprecated, TCPStream_c), (V0, UDPSocket_c)]"]
  by blast

text \<open>
  A deprecated header is its replacement with a warning: a translation unit that includes
  \<open>mbed-net-sockets/X.h\<close> sees the same declarations in the same order as one that includes \<open>sockets/X.h\<close>, and one
  warning that names that header.
\<close>

theorem deprecated_same:
  assumes "ext_ok ext"
  shows "map_option (\<lambda>t. (classes t, warnings t)) (preprocess ext empty_tu [([], Include (public_path Deprecated c))])
    = map_option (\<lambda>t. (classes t, [public_path Current c]))
        (preprocess ext empty_tu [([], Include (public_path Current c))])"
  by (cases c) (simp_all add: empty_tu_def find_simps find_ext_simps [OF assms] v0_header_def v0_parts_def
      current_header_def deprecated_header_def)

text \<open>The same on the header of the listener.\<close>

theorem deprecated_same_witness:
  "map_option (\<lambda>t. (classes t, warnings t)) (preprocess sample_ext empty_tu [([], Include (public_path Deprecated TCPListener_c))])
    = map_option (\<lambda>t. (classes t, [[sockets, TCPListener_h]]))
        (preprocess sample_ext empty_tu [([], Include (public_path Current TCPListener_c))])"
  using deprecated_same [OF sample_ext_ok, of TCPListener_c] by simp

text \<open>
  The deprecated headers of version 0 include \<open>../sockets/v0/X.h\<close>, which relative to their directory is a path in \<open>mbed-net-sockets\<close>
  at which there is no regular file: they compile exactly if the path is found elsewhere, through a symbolic link or on the
  include path, which \<open>ext\<close> stands for.
\<close>

lemma deprecated_v0_broken:
  "preprocess ext empty_tu [([], Include [mbed_net_sockets, v0, file_of c])] = None \<longleftrightarrow>
     \<not> ext [dotdot, sockets, v0, file_of c]"
  by (cases c) (simp_all add: empty_tu_def find_header_def lookup_def repo_def header_defs)

end
