(* ===== verification/Class_Declarations.thy ===== *)
theory Class_Declarations
  imports Socket_Properties
begin

text \<open>
  The class declarations of \<open>sockets/v0/*.h\<close> and the rules of C++ that give them a meaning: which function a virtual call
  reaches, and which member functions an application may call on an object of a class. The dispatch in
  \<open>Socket_Events\<close>, \<open>Socket_Class\<close> and \<open>Sockets_System\<close> and the steps of the transition system are checked
  against them.
\<close>

section \<open>Declarations\<close>

datatype access = Public | Protected | Private

text \<open>Member functions by name and parameter types; \<open>name_of\<close> is the name that lookup goes by.\<close>

datatype member =
    M_dtor | M_resolve | M_open_af_pf | M_open_af | M_bind_str | M_bind_addr
  | M_setOnError | M_setOnReadable | M_setOnSent | M_recv | M_recv_from | M_send | M_send_to
  | M_close | M_error_check | M_isConnected | M_getLocalAddr | M_getLocalPort | M_getRemoteAddr | M_getRemotePort
  | M_eventHandler | M_nvEventHandler
  | M_udp_connect | M_tcp_connect | M_setOnDisconnect | M_setNagle
  | M_start_listening | M_stop_listening | M_accept | M_reject

datatype member_name = N_member member | N_open | N_bind | N_connect

fun name_of :: "member \<Rightarrow> member_name" where
  "name_of M_open_af_pf = N_open"
| "name_of M_open_af = N_open"
| "name_of M_bind_str = N_bind"
| "name_of M_bind_addr = N_bind"
| "name_of M_udp_connect = N_connect"
| "name_of M_tcp_connect = N_connect"
| "name_of m = N_member m"

record member_decl =
  member_of :: member
  access_of :: access
  virtual_kw :: bool
  const_kw :: bool

abbreviation declares :: "access \<Rightarrow> member \<Rightarrow> member_decl" where
  "declares acc m \<equiv> \<lparr>member_of = m, access_of = acc, virtual_kw = False, const_kw = False\<rparr>"

abbreviation declares_virtual :: "access \<Rightarrow> member \<Rightarrow> member_decl" where
  "declares_virtual acc m \<equiv> \<lparr>member_of = m, access_of = acc, virtual_kw = True, const_kw = False\<rparr>"

abbreviation declares_virtual_const :: "access \<Rightarrow> member \<Rightarrow> member_decl" where
  "declares_virtual_const acc m \<equiv> \<lparr>member_of = m, access_of = acc, virtual_kw = True, const_kw = True\<rparr>"

definition Socket_decl :: "member_decl list" where
  "Socket_decl = [
     declares_virtual Protected M_dtor,
     declares_virtual Public M_resolve,
     declares_virtual Public M_open_af_pf,
     declares_virtual Public M_bind_str,
     declares_virtual Public M_bind_addr,
     declares_virtual Public M_setOnError,
     declares_virtual Public M_setOnReadable,
     declares_virtual Public M_recv,
     declares_virtual Public M_recv_from,
     declares_virtual Public M_setOnSent,
     declares_virtual Public M_send,
     declares_virtual Public M_send_to,
     declares_virtual Public M_close,
     declares_virtual Public M_error_check,
     declares_virtual_const Public M_isConnected,
     declares_virtual_const Public M_getLocalAddr,
     declares_virtual_const Public M_getLocalPort,
     declares_virtual_const Public M_getRemoteAddr,
     declares_virtual_const Public M_getRemotePort,
     declares_virtual Protected M_eventHandler,
     declares Private M_nvEventHandler]"

definition TCPAsynch_decl :: "member_decl list" where
  "TCPAsynch_decl = [
     declares Protected M_dtor,
     declares_virtual Public M_open_af,
     declares Private M_open_af_pf]"

definition TCPStream_decl :: "member_decl list" where
  "TCPStream_decl = [
     declares Public M_dtor,
     declares_virtual Public M_tcp_connect,
     declares_virtual Public M_setOnDisconnect,
     declares_virtual Public M_setNagle,
     declares Protected M_eventHandler]"

definition TCPListener_decl :: "member_decl list" where
  "TCPListener_decl = [
     declares Public M_dtor,
     declares Public M_start_listening,
     declares Public M_stop_listening,
     declares_virtual Public M_accept,
     declares_virtual Public M_reject,
     declares Protected M_eventHandler]"

definition UDPSocket_decl :: "member_decl list" where
  "UDPSocket_decl = [
     declares Public M_dtor,
     declares Public M_open_af,
     declares Public M_udp_connect,
     declares Private M_open_af_pf]"

text \<open>All inheritance is public; a class and its bases, most derived first.\<close>

fun hierarchy :: "klass \<Rightarrow> klass list" where
  "hierarchy K_Socket = [K_Socket]"
| "hierarchy K_TCPAsynch = [K_TCPAsynch, K_Socket]"
| "hierarchy K_TCPStream = [K_TCPStream, K_TCPAsynch, K_Socket]"
| "hierarchy K_TCPListener = [K_TCPListener, K_TCPAsynch, K_Socket]"
| "hierarchy K_UDPSocket = [K_UDPSocket, K_Socket]"

fun decl_of :: "klass \<Rightarrow> member_decl list" where
  "decl_of K_Socket = Socket_decl"
| "decl_of K_TCPAsynch = TCPAsynch_decl"
| "decl_of K_TCPStream = TCPStream_decl"
| "decl_of K_TCPListener = TCPListener_decl"
| "decl_of K_UDPSocket = UDPSocket_decl"

lemmas decl_defs = Socket_decl_def TCPAsynch_decl_def TCPStream_decl_def TCPListener_decl_def UDPSocket_decl_def

section \<open>The rules of C++\<close>

definition declared_in :: "member \<Rightarrow> klass \<Rightarrow> bool" where
  "declared_in m k \<longleftrightarrow> list_ex (\<lambda>d. member_of d = m) (decl_of k)"

text \<open>
  A function is virtual in a class if it is declared so there or in a base. A call through a pointer to the class \<open>static\<close>, on an object of
  the class \<open>dynamic\<close>, reaches the declaration in the most derived class of the object if the function is virtual in \<open>static\<close>;
  otherwise the one that lookup in \<open>static\<close> finds.
\<close>

definition is_virtual :: "klass \<Rightarrow> member \<Rightarrow> bool" where
  "is_virtual k m \<longleftrightarrow> list_ex (\<lambda>c. list_ex (\<lambda>d. member_of d = m \<and> virtual_kw d) (decl_of c)) (hierarchy k)"

definition call_target :: "klass \<Rightarrow> klass \<Rightarrow> member \<Rightarrow> klass option" where
  "call_target static dynamic m =
     (if is_virtual static m then find (declared_in m) (hierarchy dynamic) else find (declared_in m) (hierarchy static))"

text \<open>
  A call by name finds the name in the most derived class that declares anything of that name; other functions of
  the name in bases are hidden. The function found must be public.
\<close>

definition name_scope :: "klass \<Rightarrow> member_name \<Rightarrow> klass option" where
  "name_scope k n = find (\<lambda>c. list_ex (\<lambda>d. name_of (member_of d) = n) (decl_of c)) (hierarchy k)"

definition may_call :: "klass \<Rightarrow> member \<Rightarrow> bool" where
  "may_call k m = (case name_scope k (name_of m) of
     None \<Rightarrow> False
   | Some c \<Rightarrow> list_ex (\<lambda>d. member_of d = m \<and> access_of d = Public) (decl_of c))"

section \<open>The dispatch of the model\<close>

lemmas rule_defs = declared_in_def is_virtual_def call_target_def name_scope_def may_call_def

lemma targets:
  "call_target K_Socket k M_eventHandler = Some (if k = K_TCPStream \<or> k = K_TCPListener then k else K_Socket)"
  "call_target K_Socket k M_open_af_pf =
     Some (if k = K_UDPSocket then K_UDPSocket else if is_TCPAsynch k then K_TCPAsynch else K_Socket)"
  "static \<in> set (hierarchy k) \<Longrightarrow> call_target static k M_dtor = Some k"
  by (cases k; auto simp: rule_defs decl_defs)+

text \<open>The member function that a step of the transition system calls.\<close>

fun member_called :: "sock_call \<Rightarrow> member" where
  "member_called (C_resolve name f) = M_resolve"
| "member_called (C_open af) = M_open_af"
| "member_called (C_bind addr port) = M_bind_addr"
| "member_called (C_bind_str tmp addr port) = M_bind_str"
| "member_called (C_setOnError f) = M_setOnError"
| "member_called (C_setOnReadable f) = M_setOnReadable"
| "member_called (C_setOnSent f) = M_setOnSent"
| "member_called (C_recv buf len) = M_recv"
| "member_called (C_recv_from a0 buf len ra rp) = M_recv_from"
| "member_called (C_send buf len) = M_send"
| "member_called (C_send_to buf len ra rp) = M_send_to"
| "member_called C_close = M_close"
| "member_called (C_error_check err) = M_error_check"
| "member_called (C_udp_connect sa port) = M_udp_connect"
| "member_called (C_tcp_connect sa port f) = M_tcp_connect"
| "member_called (C_setOnDisconnect f) = M_setOnDisconnect"
| "member_called (C_setNagle b) = M_setNagle"
| "member_called (C_start_listening f backlog) = M_start_listening"
| "member_called C_stop_listening = M_stop_listening"
| "member_called (C_reject s0 p) = M_reject"

text \<open>The preconditions of a call that are not a matter of the class.\<close>

fun pointers_ok :: "'w world \<Rightarrow> Socket \<Rightarrow> sock_call \<Rightarrow> bool" where
  "pointers_ok w ob (C_udp_connect sa port) = (sa \<noteq> None)"
| "pointers_ok w ob (C_setNagle b) = (api (sock ob) \<noteq> None)"
| "pointers_ok w ob (C_reject s0 p) =
     (api (sock ob) \<noteq> None \<and> (case handler s0 of None \<Rightarrow> True | Some h \<Rightarrow> objs w h \<noteq> None))"
| "pointers_ok w ob _ = True"

text \<open>
  The functions that an application cannot call on an object of these classes. The two-argument \<open>open\<close> is among them: name lookup
  finds the private one of \<open>UDPSocket\<close> or \<open>TCPAsynch\<close>, although it stays reachable through a \<open>Socket\<close>.
\<close>

lemma not_public:
  assumes "k \<in> {K_UDPSocket, K_TCPStream, K_TCPListener}"
  shows "\<not> may_call k M_open_af_pf" "\<not> may_call k M_eventHandler" "\<not> may_call k M_nvEventHandler"
  using assms by (auto simp: rule_defs decl_defs)

text \<open>A call is enabled exactly if lookup and access allow it on the class of the object and its pointers are valid.\<close>

lemma call_enabled_class:
  assumes "vptr ob \<in> {K_UDPSocket, K_TCPStream, K_TCPListener}"
  shows "call_enabled w ob c \<longleftrightarrow> may_call (vptr ob) (member_called c) \<and> pointers_ok w ob c"
  using assms by (cases c) (auto simp: rule_defs decl_defs)

section \<open>Properties\<close>

text \<open>
  C26. The dispatch of the model is the one that the class declarations give: on an object of every class, the call of \<open>_eventHandler\<close> in
  \<open>Socket::_nvEventHandler\<close> and the call of the two-argument \<open>open\<close> in \<open>Socket::bind\<close>, both through a pointer to \<open>Socket\<close>, and a
  \<open>delete\<close> through a pointer to the class of the object or to any of its bases, reach what the rules for virtual functions select. The
  \<open>virtual\<close> of the three functions in \<open>Socket.h\<close> decides it: without it the functions of \<open>Socket\<close> would be reached.
\<close>

theorem dispatch_virtual:
  assumes "objs w a = Some ob" and "static \<in> set (hierarchy (vptr ob))"
  shows "eventHandler a ob ev w =
      (case call_target K_Socket (vptr ob) M_eventHandler of
         Some K_TCPStream \<Rightarrow> TCPStream_eventHandler a ob ev w
       | Some K_TCPListener \<Rightarrow> TCPListener_eventHandler a ob ev w
       | _ \<Rightarrow> Socket_eventHandler a ob ev w) \<and>
    open_pf env a af pf w =
      (case call_target K_Socket (vptr ob) M_open_af_pf of
         Some K_UDPSocket \<Rightarrow> UDPSocket_open_pf a af pf w
       | Some K_TCPAsynch \<Rightarrow> TCPAsynch_open_pf a af pf w
       | _ \<Rightarrow> Socket_open env a af pf w) \<and>
    delete_obj env a w =
      (case call_target static (vptr ob) M_dtor of
         Some K_UDPSocket \<Rightarrow> UDPSocket_dtor env a w
       | Some K_TCPStream \<Rightarrow> TCPStream_dtor env a w
       | Some K_TCPListener \<Rightarrow> TCPListener_dtor env a w
       | _ \<Rightarrow> None)"
  using assms by (cases "vptr ob") (simp_all only: targets eventHandler_def open_pf_def delete_obj_def, simp_all)

text \<open>C26 on a listener that is deleted through a pointer to \<open>Socket\<close>.\<close>

theorem dispatch_virtual_witness:
  "delete_obj sample_env 4 (sample_world K_TCPListener (Some 7))
     = TCPListener_dtor sample_env 4 (sample_world K_TCPListener (Some 7))"
proof -
  have "call_target K_Socket K_TCPListener M_dtor = Some K_TCPListener" by (rule targets) simp
  then show ?thesis
    using dispatch_virtual [of "sample_world K_TCPListener (Some 7)" 4
        "sample_mem\<lparr>vptr := K_TCPListener, sock := sample_sock (Some 7)\<rparr>" K_Socket SOCKET_EVENT_NONE sample_env]
    by (simp add: sample_world_def)
qed

end
