(* ===== verification/Translation_Units.thy ===== *)
theory Translation_Units
  imports Header_Files Class_Declarations
begin

text \<open>
  The source files as translation units: what \<open>source/v0/*.cpp\<close> and the two tests include, and which functions and static
  members each file defines. The headers are those of \<open>Header_Files\<close>, the declarations those of \<open>Class_Declarations\<close>.
\<close>

section \<open>Symbols\<close>

text \<open>
  What a class can declare besides the member functions of \<open>Class_Declarations\<close>: its constructors, by the kind of their arguments, the
  static members of \<open>TCPAsynch\<close>, and the functions of \<open>SocketAddr\<close>, where the templates are those for arrays.
\<close>

datatype entity =
    Member member
  | Ctor_stack | Ctor_sock | Ctor_accept
  | Static_tick_handle | Static_TCPSockets
  | SA_getAddr | SA_getAddr_const | SA_setAddr_addr | SA_setAddr_SocketAddr | SA_setAddr_str | SA_getAddrSize | SA_is_v4
  | SA_fmtIPv4 | SA_fmtIPv4_array | SA_fmtIPv6 | SA_fmtIPv6_array

type_synonym symbol = "cls \<times> entity"

fun class_of :: "klass \<Rightarrow> cls" where
  "class_of K_Socket = Socket_c"
| "class_of K_TCPAsynch = TCPAsynch_c"
| "class_of K_TCPStream = TCPStream_c"
| "class_of K_TCPListener = TCPListener_c"
| "class_of K_UDPSocket = UDPSocket_c"

abbreviation members :: "cls \<Rightarrow> member list \<Rightarrow> symbol list" where
  "members c ms \<equiv> map (\<lambda>m. (c, Member m)) ms"

definition SocketAddr_decl :: "entity list" where
  "SocketAddr_decl = [SA_getAddr, SA_getAddr_const, SA_setAddr_addr, SA_setAddr_SocketAddr, SA_setAddr_str, SA_getAddrSize,
     SA_is_v4, SA_fmtIPv4, SA_fmtIPv4_array, SA_fmtIPv6, SA_fmtIPv6_array]"

text \<open>All declarations of the headers.\<close>

definition declared_symbols :: "symbol list" where
  "declared_symbols =
     concat (map (\<lambda>k. members (class_of k) (map member_of (decl_of k)))
               [K_Socket, K_TCPAsynch, K_TCPStream, K_TCPListener, K_UDPSocket]) @
     map (\<lambda>c. (c, Ctor_stack)) [Socket_c, TCPAsynch_c, TCPStream_c, TCPListener_c, UDPSocket_c] @
     [(TCPStream_c, Ctor_sock), (TCPStream_c, Ctor_accept), (TCPAsynch_c, Static_tick_handle), (TCPAsynch_c, Static_TCPSockets)] @
     map (Pair SocketAddr_c) SocketAddr_decl"

text \<open>What the headers define themselves, in the bodies of the classes.\<close>

definition inline_symbols :: "symbol list" where
  "inline_symbols =
     [(SocketAddr_c, SA_getAddr), (SocketAddr_c, SA_getAddr_const), (SocketAddr_c, SA_getAddrSize),
      (SocketAddr_c, SA_fmtIPv4_array), (SocketAddr_c, SA_fmtIPv6_array),
      (TCPStream_c, Member M_setOnDisconnect), (UDPSocket_c, Member M_open_af)]"

section \<open>The source files\<close>

text \<open>
  \<open>items\<close> are the includes and the directive \<open>using namespace mbed::Sockets::v0\<close> of a file in the directory \<open>dir\<close>, \<open>provides\<close> what it
  defines, in order. The tests define no member of the library; their directive for the namespace of the test
  tools is left out.
\<close>

record source_file =
  dir :: path
  items :: "item list"
  provides :: "symbol list"

definition Socket_cpp :: source_file where
  "Socket_cpp = \<lparr>dir = [source_dir, v0],
     items = [Include [sockets, v0, Socket_h], Include [minar_dir, minar_h], Include [sal, socket_api_h], Include [cmsis_h],
       Using_v0],
     provides = (Socket_c, Ctor_stack) # members Socket_c [M_dtor, M_open_af_pf, M_error_check, M_eventHandler, M_setOnError,
       M_setOnReadable, M_setOnSent, M_nvEventHandler, M_resolve, M_bind_str, M_bind_addr, M_close, M_recv, M_recv_from,
       M_send, M_send_to, M_isConnected, M_getLocalAddr, M_getLocalPort, M_getRemoteAddr, M_getRemotePort]\<rparr>"

definition SocketAddr_cpp :: source_file where
  "SocketAddr_cpp = \<lparr>dir = [source_dir, v0],
     items = [Include [string_h], Include [stdio_h], Include [sockets, v0, SocketAddr_h], Include [sal, socket_api_h], Using_v0],
     provides = map (Pair SocketAddr_c)
       [SA_setAddr_addr, SA_setAddr_SocketAddr, SA_setAddr_str, SA_is_v4, SA_fmtIPv4, SA_fmtIPv6]\<rparr>"

definition TCPAsynch_cpp :: source_file where
  "TCPAsynch_cpp = \<lparr>dir = [source_dir, v0],
     items = [Include [minar_dir, minar_h], Include [sockets, v0, TCPAsynch_h], Include [sal, socket_api_h], Using_v0],
     provides = map (Pair TCPAsynch_c) [Static_TCPSockets, Static_tick_handle, Ctor_stack] @
       members TCPAsynch_c [M_open_af, M_open_af_pf, M_dtor]\<rparr>"

definition TCPListener_cpp :: source_file where
  "TCPListener_cpp = \<lparr>dir = [source_dir, v0],
     items = [Include [sockets, v0, TCPListener_h], Include [sockets, v0, TCPStream_h], Include [sal, socket_api_h],
       Include [minar_dir, minar_h], Using_v0],
     provides = (TCPListener_c, Ctor_stack) #
       members TCPListener_c [M_dtor, M_start_listening, M_stop_listening, M_accept, M_reject, M_eventHandler]\<rparr>"

definition TCPStream_cpp :: source_file where
  "TCPStream_cpp = \<lparr>dir = [source_dir, v0],
     items = [Include [sockets, v0, TCPStream_h], Include [sockets, v0, SocketAddr_h], Include [sal, socket_api_h],
       Include [minar_dir, minar_h], Using_v0],
     provides = map (Pair TCPStream_c) [Ctor_stack, Ctor_sock, Ctor_accept] @
       members TCPStream_c [M_dtor, M_tcp_connect, M_eventHandler, M_setNagle]\<rparr>"

definition UDPSocket_cpp :: source_file where
  "UDPSocket_cpp = \<lparr>dir = [source_dir, v0],
     items = [Include [sockets, v0, UDPSocket_h], Include [sal, socket_api_h], Using_v0],
     provides = (UDPSocket_c, Ctor_stack) # members UDPSocket_c [M_dtor, M_udp_connect, M_open_af_pf]\<rparr>"

definition echo_tcp_main_cpp :: source_file where
  "echo_tcp_main_cpp = \<lparr>dir = [test_dir, echo_tcp_client],
     items = [Include [mbed_drivers, mbed_h], Include [sockets, TCPStream_h], Include [sal_stack_lwip, lwipv4_init_h],
       Include [sal_iface_eth, EthernetInterface_h], Include [minar_dir, minar_h], Include [core_util, FunctionPointer_h],
       Include [greentea_client, test_env_h], Include [utest, utest_h], Include [unity, unity_h], Using_v0],
     provides = []\<rparr>"

definition echo_udp_main_cpp :: source_file where
  "echo_udp_main_cpp = \<lparr>dir = [test_dir, echo_udp_client],
     items = [Include [mbed_drivers, mbed_h], Include [sal, socket_api_h], Include [algorithm_std], Include [sockets, UDPSocket_h],
       Include [sal_iface_eth, EthernetInterface_h], Include [sal_stack_lwip, lwipv4_init_h], Include [minar_dir, minar_h],
       Include [core_util, FunctionPointer_h], Include [greentea_client, test_env_h], Include [utest, utest_h],
       Include [unity, unity_h], Using_v0],
     provides = []\<rparr>"

definition library_units :: "source_file list" where
  "library_units = [Socket_cpp, SocketAddr_cpp, TCPAsynch_cpp, TCPListener_cpp, TCPStream_cpp, UDPSocket_cpp]"

definition test_units :: "source_file list" where
  "test_units = [echo_tcp_main_cpp, echo_udp_main_cpp]"

lemmas unit_defs = Socket_cpp_def SocketAddr_cpp_def TCPAsynch_cpp_def TCPListener_cpp_def TCPStream_cpp_def UDPSocket_cpp_def
  echo_tcp_main_cpp_def echo_udp_main_cpp_def

section \<open>Linking\<close>

text \<open>
  The library links: every constructor, member function and static member that the headers declare is defined exactly once, in the
  body of its class or in one of the source files, and nothing is defined that is not declared.
\<close>

lemma library_links:
  "distinct declared_symbols \<and> distinct (inline_symbols @ concat (map provides library_units)) \<and>
   set (inline_symbols @ concat (map provides library_units)) = set declared_symbols"
  by code_simp

section \<open>Compiling\<close>

text \<open>What the source files need from outside the repository besides what the headers need.\<close>

definition source_ext_files :: "path set" where
  "source_ext_files = ext_files \<union> {[cmsis_h], [string_h], [stdio_h], [algorithm_std], [sal_stack_lwip, lwipv4_init_h],
     [sal_iface_eth, EthernetInterface_h], [greentea_client, test_env_h], [utest, utest_h], [unity, unity_h]}"

text \<open>The classes that a source file needs to see: those whose members it defines.\<close>

definition needed_classes :: "source_file \<Rightarrow> cls set" where
  "needed_classes u = fst ` set (provides u)"

text \<open>
  Items that can be processed: every include is a v0 header, a current header, or a file from outside; \<open>n\<close> says that
  a class has been declared, which the directive needs.
\<close>

fun unit_ok :: "(path \<Rightarrow> bool) \<Rightarrow> path \<Rightarrow> bool \<Rightarrow> item list \<Rightarrow> bool" where
  "unit_ok ext d n [] \<longleftrightarrow> True"
| "unit_ok ext d n (Include p # its) \<longleftrightarrow>
     (if find_header d p = None then ext p \<and> unit_ok ext d n its
      else (\<exists>c. find_header d p = Some ([sockets, v0, file_of c], v0_header c) \<or>
                find_header d p = Some ([sockets, file_of c], current_header c)) \<and> unit_ok ext d True its)"
| "unit_ok ext d n (Using_v0 # its) \<longleftrightarrow> n \<and> unit_ok ext d n its"
| "unit_ok ext d n (_ # its) \<longleftrightarrow> False"

definition unit_grows :: "tu \<Rightarrow> tu \<Rightarrow> bool" where
  "unit_grows t t' \<longleftrightarrow> current_inv t' \<and> set (classes t) \<subseteq> set (classes t') \<and> warnings t' = warnings t"

lemma preprocess_header:
  assumes "ext_ok ext" and "current_inv t"
    and "find_header d p = Some ([sockets, v0, file_of c], v0_header c) \<or>
         find_header d p = Some ([sockets, file_of c], current_header c)"
  shows "\<exists>t'. preprocess ext t ((d, Include p) # xs) = preprocess ext t' xs \<and> unit_grows t t' \<and> c \<in> set (classes t')"
proof (cases "find_header d p = Some ([sockets, v0, file_of c], v0_header c)")
  case True
  from preprocess_v0 [OF assms(1) True, of "{}" t xs] assms(2) obtain t' where
    "preprocess ext t ((d, Include p) # xs) = preprocess ext t' xs" "grows {} t t'" "c \<in> set (classes t')"
    by (auto simp: current_inv_def)
  moreover have "unit_grows t t'" using \<open>grows {} t t'\<close> assms(2) by (auto simp: unit_grows_def current_inv_def grows_def)
  ultimately show ?thesis by blast
next
  case False
  with assms(3) preprocess_current [OF assms(1,2), of d p c xs] show ?thesis unfolding unit_grows_def by blast
qed

lemma file_of_inj [simp]: "file_of c = file_of c' \<longleftrightarrow> c = c'"
  by (cases c; cases c') simp_all

lemma preprocess_unit:
  assumes "ext_ok ext" and "current_inv t" and "unit_ok ext d (classes t \<noteq> []) its"
  shows "\<exists>t'. preprocess ext t (map (Pair d) its) = Some t' \<and> unit_grows t t' \<and>
    (\<forall>p c. Include p \<in> set its \<longrightarrow> find_header d p = Some ([sockets, v0, file_of c], v0_header c) \<longrightarrow> c \<in> set (classes t'))"
  using assms(2,3)
proof (induction its arbitrary: t)
  case Nil
  then show ?case by (simp add: unit_grows_def)
next
  case (Cons it its)
  let ?xs = "map (Pair d) its"
  have "\<exists>t1. preprocess ext t ((d, it) # ?xs) = preprocess ext t1 ?xs \<and> unit_grows t t1 \<and>
      unit_ok ext d (classes t1 \<noteq> []) its \<and>
      (\<forall>p c. it = Include p \<longrightarrow> find_header d p = Some ([sockets, v0, file_of c], v0_header c) \<longrightarrow> c \<in> set (classes t1))"
  proof (cases "\<exists>p. it = Include p \<and> find_header d p \<noteq> None")
    case True
    with Cons.prems(2) obtain p c where p: "it = Include p" "unit_ok ext d True its"
      "find_header d p = Some ([sockets, v0, file_of c], v0_header c) \<or>
       find_header d p = Some ([sockets, file_of c], current_header c)" by (auto split: if_splits)
    from preprocess_header [OF assms(1) Cons.prems(1) p(3), of ?xs] obtain t1 where
      "preprocess ext t ((d, it) # ?xs) = preprocess ext t1 ?xs" "unit_grows t t1" "c \<in> set (classes t1)"
      unfolding p(1) by blast
    moreover from this(3) have "classes t1 \<noteq> []" by auto
    ultimately show ?thesis using p by (intro exI [of _ t1]) (auto simp del: preprocess.simps)
  next
    case False
    with Cons.prems show ?thesis
      by (cases it) (auto simp: unit_grows_def split: if_splits intro!: exI [of _ t])
  qed
  then obtain t1 where t1: "preprocess ext t ((d, it) # ?xs) = preprocess ext t1 ?xs" "unit_grows t t1"
      "unit_ok ext d (classes t1 \<noteq> []) its"
      "\<forall>p c. it = Include p \<longrightarrow> find_header d p = Some ([sockets, v0, file_of c], v0_header c) \<longrightarrow> c \<in> set (classes t1)"
    by blast
  from Cons.IH [OF _ t1(3)] t1(2) obtain t2 where t2: "preprocess ext t1 ?xs = Some t2" "unit_grows t1 t2"
      "\<forall>p c. Include p \<in> set its \<longrightarrow> find_header d p = Some ([sockets, v0, file_of c], v0_header c) \<longrightarrow> c \<in> set (classes t2)"
    unfolding unit_grows_def by blast
  have "unit_grows t t2" using t1(2) t2(2) by (auto simp: unit_grows_def)
  moreover have "set (classes t1) \<subseteq> set (classes t2)" using t2(2) by (simp add: unit_grows_def)
  ultimately show ?case using t1(1,4) t2(1,3) by (intro exI [of _ t2]) auto
qed

section \<open>The units of the repository\<close>

lemma find_from_source:
  "find_header [source_dir, v0] [sockets, v0, file_of c] = Some ([sockets, v0, file_of c], v0_header c)"
  "find_header [test_dir, echo_tcp_client] [sockets, file_of c] = Some ([sockets, file_of c], current_header c)"
  "find_header [test_dir, echo_udp_client] [sockets, file_of c] = Some ([sockets, file_of c], current_header c)"
proof -
  have "map_of repo (source_dir # p) = None" "map_of repo (test_dir # p) = None" for p by (simp_all add: repo_def)
  moreover have "map_of repo [sockets, file_of c] = Some (current_header c)"
    by (cases c) (simp_all add: repo_def header_defs current_header_def)
  moreover have "file_of c \<noteq> dotdot" by (cases c) simp_all
  ultimately show
    "find_header [source_dir, v0] [sockets, v0, file_of c] = Some ([sockets, v0, file_of c], v0_header c)"
    "find_header [test_dir, echo_tcp_client] [sockets, file_of c] = Some ([sockets, file_of c], current_header c)"
    "find_header [test_dir, echo_udp_client] [sockets, file_of c] = Some ([sockets, file_of c], current_header c)"
    by (simp_all add: find_header_def lookup_def v0_header_file)
qed

lemma find_ext_from_source:
  assumes "p \<in> source_ext_files"
  shows "find_header [source_dir, n] p = None" "find_header [test_dir, n] p = None"
proof -
  have "map_of repo (source_dir # q) = None" "map_of repo (test_dir # q) = None" for q by (simp_all add: repo_def)
  moreover have "\<forall>p \<in> source_ext_files. map_of repo p = None \<and> dotdot \<notin> set p"
    by (simp add: source_ext_files_def ext_files_def repo_def)
  then have "map_of repo p = None" "dotdot \<notin> set p" using assms by blast+
  moreover have "walk d q = Some (d @ q)" if "dotdot \<notin> set q" for d q
    using that by (induction d q rule: walk.induct) auto
  ultimately show "find_header [source_dir, n] p = None" "find_header [test_dir, n] p = None"
    by (simp_all add: find_header_def lookup_def)
qed

lemmas source_finds =
  find_from_source(1) [where c = Socket_c, simplified] find_from_source(1) [where c = SocketAddr_c, simplified]
  find_from_source(1) [where c = TCPAsynch_c, simplified] find_from_source(1) [where c = TCPStream_c, simplified]
  find_from_source(1) [where c = TCPListener_c, simplified] find_from_source(1) [where c = UDPSocket_c, simplified]
  find_from_source(2) [where c = TCPStream_c, simplified] find_from_source(3) [where c = UDPSocket_c, simplified]

lemma repo_unit_ok:
  assumes "\<forall>p \<in> source_ext_files. ext p" and "u \<in> set (library_units @ test_units)"
  shows "unit_ok ext (dir u) False (items u)"
proof -
  have finds: "find_header [source_dir, n] p = None" "find_header [test_dir, n] p = None" "ext p"
    if "p \<in> source_ext_files" for p n
    using find_ext_from_source [OF that] assms(1) that by blast+
  have ext: "\<forall>p \<in> {[minar_dir, minar_h], [sal, socket_api_h], [cmsis_h], [string_h], [stdio_h], [mbed_drivers, mbed_h],
      [sal_stack_lwip, lwipv4_init_h], [sal_iface_eth, EthernetInterface_h], [core_util, FunctionPointer_h],
      [greentea_client, test_env_h], [utest, utest_h], [unity, unity_h], [algorithm_std]}. p \<in> source_ext_files"
    by (simp add: source_ext_files_def ext_files_def)
  have "\<forall>u \<in> set (library_units @ test_units). unit_ok ext (dir u) False (items u)"
    using ext by (simp add: library_units_def test_units_def unit_defs finds source_finds)
  with assms(2) show ?thesis by blast
qed

lemma repo_unit_needs:
  assumes "u \<in> set (library_units @ test_units)" and "c \<in> needed_classes u"
  shows "dir u = [source_dir, v0]" "Include [sockets, v0, file_of c] \<in> set (items u)"
  using assms by (auto simp: library_units_def test_units_def unit_defs needed_classes_def)

text \<open>
  C28. The source files compile as far as the headers are concerned: with the external files available, each of the six
  source files and each of the two tests is processed without an error, every class it sees is declared once and after its
  base classes, the classes whose members it defines are among them, and no deprecated header is involved.
\<close>

theorem units_compile:
  assumes "\<forall>p \<in> source_ext_files. ext p" and "u \<in> set (library_units @ test_units)"
  shows "\<exists>t. preprocess ext empty_tu (map (Pair (dir u)) (items u)) = Some t \<and> distinct (classes t) \<and>
    bases_first (classes t) \<and> needed_classes u \<subseteq> set (classes t) \<and> warnings t = []"
proof -
  have "ext_ok ext" using assms(1) by (simp add: ext_ok_def source_ext_files_def)
  moreover have "current_inv empty_tu" using public_inv_empty by (simp add: public_inv_def)
  moreover have "unit_ok ext (dir u) (classes empty_tu \<noteq> []) (items u)"
    using repo_unit_ok [OF assms] by (simp add: empty_tu_def)
  ultimately obtain t where t: "preprocess ext empty_tu (map (Pair (dir u)) (items u)) = Some t" "unit_grows empty_tu t"
    "\<forall>p c. Include p \<in> set (items u) \<longrightarrow>
       find_header (dir u) p = Some ([sockets, v0, file_of c], v0_header c) \<longrightarrow> c \<in> set (classes t)"
    using preprocess_unit [of ext empty_tu "dir u" "items u"] by blast
  have "needed_classes u \<subseteq> set (classes t)"
    using repo_unit_needs [OF assms(2)] find_from_source(1) t(3) by fastforce
  with t(1,2) show ?thesis by (auto simp: unit_grows_def current_inv_def tu_inv_def empty_tu_def)
qed

text \<open>C28 on the source file of the listener.\<close>

theorem units_compile_witness:
  "\<exists>t. preprocess (\<lambda>p. p \<in> source_ext_files) empty_tu (map (Pair [source_dir, v0]) (items TCPListener_cpp)) = Some t \<and>
     distinct (classes t) \<and> bases_first (classes t) \<and> TCPListener_c \<in> set (classes t)"
proof -
  have "needed_classes TCPListener_cpp = {TCPListener_c}" "dir TCPListener_cpp = [source_dir, v0]"
    by (auto simp: needed_classes_def TCPListener_cpp_def)
  with units_compile [of "\<lambda>p. p \<in> source_ext_files" TCPListener_cpp] show ?thesis by (auto simp: library_units_def)
qed

end
