(* ===== verification/Interrupt_Safety.thy ===== *)
theory Interrupt_Safety
  imports Socket_Properties
begin

text \<open>
  Interrupts during the setters. A handler is a \<open>FunctionPointer\<close>, an object of several words, and assigning one is not
  atomic: an interrupt in the middle finds neither the old nor the new handler. The setters of \<open>Socket\<close> mask interrupts
  around the assignment. Here they are split into their single writes, and the events of the stack may arrive before
  any of them.
\<close>

section \<open>Programs that can be interrupted\<close>

text \<open>
  A write changes the object; the two others are \<open>__disable_irq\<close> and \<open>__enable_irq\<close>.
\<close>

datatype micro = Mask | Unmask | Write oid "Socket \<Rightarrow> Socket"

fun micro_step :: "micro \<Rightarrow> 'w world \<Rightarrow> 'w world option" where
  "micro_step Mask w = Some (disable_irq w)"
| "micro_step Unmask w = Some (enable_irq w)"
| "micro_step (Write a f) w = with_obj a f w"

text \<open>
  \<open>irun arr pend ms w\<close> runs the program \<open>ms\<close>. \<open>arr\<close> lists the events that arrive before the next step, the one
  after it, and so on; \<open>pend\<close> are events that arrived while interrupts were masked. Pending events are delivered
  as soon as interrupts are enabled, those of the end of the program after its last step.
\<close>

fun irun :: "raised list \<Rightarrow> raised \<Rightarrow> micro list \<Rightarrow> 'w world \<Rightarrow> 'w world option" where
  "irun arr pend [] w =
    (if irq_enabled w then raise_events (pend @ concat arr) w else Some w)"
| "irun arr pend (m # ms) w =
    (let evs = pend @ (case arr of [] \<Rightarrow> [] | e # _ \<Rightarrow> e); arr' = (case arr of [] \<Rightarrow> [] | _ # es \<Rightarrow> es)
     in if irq_enabled w
        then do { w1 \<leftarrow> raise_events evs w; w2 \<leftarrow> micro_step m w1; irun arr' [] ms w2 }
        else do { w2 \<leftarrow> micro_step m w; irun arr' evs ms w2 })"

text \<open>
  The setters as the code writes them. \<open>torn\<close> are the values that the member takes while the new handler is copied
  into it, word by word; nothing is known about them.
\<close>

definition setOnError_micro :: "oid \<Rightarrow> fp \<Rightarrow> fp list \<Rightarrow> micro list" where
  "setOnError_micro this f torn =
     [Mask] @ map (\<lambda>v. Write this (\<lambda>ob. ob\<lparr>onError := v\<rparr>)) (torn @ [f]) @ [Unmask]"

definition setOnReadable_micro :: "oid \<Rightarrow> fp \<Rightarrow> fp list \<Rightarrow> micro list" where
  "setOnReadable_micro this f torn =
     [Mask] @ map (\<lambda>v. Write this (\<lambda>ob. ob\<lparr>onReadable := v\<rparr>)) (torn @ [f]) @ [Unmask]"

definition setOnSent_micro :: "oid \<Rightarrow> fp \<Rightarrow> fp list \<Rightarrow> micro list" where
  "setOnSent_micro this f torn =
     [Mask] @ map (\<lambda>v. Write this (\<lambda>ob. ob\<lparr>onSent := v\<rparr>)) (torn @ [f]) @ [Unmask]"

text \<open>\<open>setOnDisconnect\<close> is written in the header without masking.\<close>

definition setOnDisconnect_micro :: "oid \<Rightarrow> fp \<Rightarrow> fp list \<Rightarrow> micro list" where
  "setOnDisconnect_micro this f torn =
     map (\<lambda>v. Write this (\<lambda>ob. ob\<lparr>stream_part := (stream_part ob)\<lparr>onDisconnect := v\<rparr>\<rparr>)) (torn @ [f])"

section \<open>Masked assignments are atomic\<close>

text \<open>
  The contract of an assignment: \<open>upd v\<close> stores \<open>v\<close> in a member, and a later store overwrites an
  earlier one.
\<close>

locale handler_slot =
  fixes upd :: "fp \<Rightarrow> Socket \<Rightarrow> Socket"
  assumes overwrite: "upd u (upd v ob) = upd u ob"
begin

definition masked :: "oid \<Rightarrow> fp \<Rightarrow> fp list \<Rightarrow> micro list" where
  "masked a f torn = [Mask] @ map (\<lambda>v. Write a (upd v)) (torn @ [f]) @ [Unmask]"

definition assign :: "oid \<Rightarrow> fp \<Rightarrow> 'w world \<Rightarrow> 'w world option" where
  "assign a f w = do { w1 \<leftarrow> with_obj a (upd f) (disable_irq w); Some (enable_irq w1) }"

text \<open>With interrupts masked the writes are one store, and arriving events are kept for later.\<close>

lemma irun_writes:
  assumes "\<not> irq_enabled w" and "objs w a = Some ob"
  shows "\<exists>evs arr'. pend @ concat arr = evs @ concat arr' \<and>
    irun arr pend (map (\<lambda>v. Write a (upd v)) (torn @ [f]) @ ms) w = irun arr' evs ms (put_obj a (upd f ob) w)"
  using assms
proof (induction torn arbitrary: w ob arr pend)
  case Nil
  then show ?case
    by (intro exI [of _ "pend @ (case arr of [] \<Rightarrow> [] | e # _ \<Rightarrow> e)"]
        exI [of _ "case arr of [] \<Rightarrow> [] | _ # es \<Rightarrow> es"]) (cases arr; simp add: Let_def)
next
  case (Cons v torn)
  let ?w = "put_obj a (upd v ob) w"
  let ?evs = "pend @ (case arr of [] \<Rightarrow> [] | e # _ \<Rightarrow> e)" and ?arr = "case arr of [] \<Rightarrow> [] | _ # es \<Rightarrow> es"
  from Cons.IH [of ?w "upd v ob" ?evs ?arr] Cons.prems(1) obtain evs arr' where
    "?evs @ concat ?arr = evs @ concat arr'"
    "irun ?arr ?evs (map (\<lambda>v. Write a (upd v)) (torn @ [f]) @ ms) ?w
       = irun arr' evs ms (put_obj a (upd f (upd v ob)) ?w)"
    by auto
  moreover have "pend @ concat arr = ?evs @ concat ?arr" by (cases arr) simp_all
  ultimately show ?case
    using Cons.prems by (intro exI [of _ evs] exI [of _ arr']) (simp add: Let_def overwrite)
qed

lemma masked_atomic:
  assumes "irq_enabled w" and "objs w a = Some ob"
  shows "\<exists>before after. concat arr = before @ after \<and>
    irun arr [] (masked a f torn) w =
      do { w1 \<leftarrow> raise_events before w; w2 \<leftarrow> assign a f w1; raise_events after w2 }"
proof -
  let ?before = "case arr of [] \<Rightarrow> [] | e # _ \<Rightarrow> e" and ?arr = "case arr of [] \<Rightarrow> [] | _ # es \<Rightarrow> es"
  have split: "concat arr = ?before @ concat ?arr" by (cases arr) simp_all
  show ?thesis
  proof (cases "raise_events ?before w")
    case None
    with assms(1) split show ?thesis
      by (intro exI [of _ ?before] exI [of _ "concat ?arr"]) (simp add: masked_def Let_def)
  next
    case (Some w1)
    have "a \<in> dom (objs w1)" using event_frame_dom [OF raise_events_frame [OF Some]] assms(2) by auto
    then obtain ob1 where ob1: "objs w1 a = Some ob1" by blast
    have "\<not> irq_enabled (disable_irq w1)" by (simp add: disable_irq_def)
    from irun_writes [OF this, of a ob1 "[]" ?arr torn f "[Unmask]"] ob1 obtain evs arr' where
      w: "concat ?arr = evs @ concat arr'"
        "irun ?arr [] (map (\<lambda>v. Write a (upd v)) (torn @ [f]) @ [Unmask]) (disable_irq w1)
         = irun arr' evs [Unmask] (put_obj a (upd f ob1) (disable_irq w1))" by auto
    have "irun arr' evs [Unmask] (put_obj a (upd f ob1) (disable_irq w1))
        = raise_events (evs @ concat arr') (enable_irq (put_obj a (upd f ob1) (disable_irq w1)))"
      by (cases arr') (simp_all add: Let_def disable_irq_def enable_irq_def)
    with w have "irun arr [] (masked a f torn) w
        = raise_events (concat ?arr) (enable_irq (put_obj a (upd f ob1) (disable_irq w1)))"
      using assms(1) Some by (simp add: masked_def Let_def)
    with split Some ob1 show ?thesis
      by (intro exI [of _ ?before] exI [of _ "concat ?arr"]) (simp add: assign_def)
  qed
qed

end

interpretation error_slot: handler_slot "\<lambda>v ob. ob\<lparr>onError := v\<rparr>"
  by unfold_locales simp

interpretation readable_slot: handler_slot "\<lambda>v ob. ob\<lparr>onReadable := v\<rparr>"
  by unfold_locales simp

interpretation sent_slot: handler_slot "\<lambda>v ob. ob\<lparr>onSent := v\<rparr>"
  by unfold_locales simp

section \<open>Properties\<close>

text \<open>
  C18. The setters of \<open>Socket\<close> are atomic for interrupts: whatever events arrive while \<open>setOnError\<close>, \<open>setOnReadable\<close> or
  \<open>setOnSent\<close> copies the handler, and whatever the half-copied handler looks like, the result is the one of delivering
  some of the events, calling the setter in one step, and delivering the rest, in the order in which
  they arrived. No event ever sees a half-written handler.
\<close>

theorem setters_atomic:
  assumes "irq_enabled w" and "objs w a = Some ob"
  shows "(\<exists>before after. concat arr = before @ after \<and>
      irun arr [] (setOnError_micro a f torn) w =
        do { w1 \<leftarrow> raise_events before w; w2 \<leftarrow> setOnError a f w1; raise_events after w2 }) \<and>
    (\<exists>before after. concat arr = before @ after \<and>
      irun arr [] (setOnReadable_micro a f torn) w =
        do { w1 \<leftarrow> raise_events before w; w2 \<leftarrow> setOnReadable a f w1; raise_events after w2 }) \<and>
    (\<exists>before after. concat arr = before @ after \<and>
      irun arr [] (setOnSent_micro a f torn) w =
        do { w1 \<leftarrow> raise_events before w; w2 \<leftarrow> setOnSent a f w1; raise_events after w2 })"
  using error_slot.masked_atomic [OF assms, of arr f torn] readable_slot.masked_atomic [OF assms, of arr f torn]
    sent_slot.masked_atomic [OF assms, of arr f torn]
  by (simp only: error_slot.masked_def readable_slot.masked_def sent_slot.masked_def
      error_slot.assign_def readable_slot.assign_def sent_slot.assign_def
      setOnError_micro_def setOnReadable_micro_def setOnSent_micro_def
      setOnError_def setOnReadable_def setOnSent_def)

text \<open>C18 applied to an event that arrives between two halves of the assignment of \<open>setOnError\<close>.\<close>

theorem setters_atomic_witness:
  "\<exists>before after. [(4, SOCKET_EVENT_TX_DONE 3)] = before @ after \<and>
     irun [[], [], [(4, SOCKET_EVENT_TX_DONE 3)]] [] (setOnError_micro 4 (Some 6) [Some 99])
       (sample_world K_TCPStream (Some 7)) =
     do { w1 \<leftarrow> raise_events before (sample_world K_TCPStream (Some 7)); w2 \<leftarrow> setOnError 4 (Some 6) w1;
          raise_events after w2 }"
  using conjunct1 [OF setters_atomic [of "sample_world K_TCPStream (Some 7)" 4 "sample_mem\<lparr>vptr := K_TCPStream,
      sock := sample_sock (Some 7)\<rparr>" "[[], [], [(4, SOCKET_EVENT_TX_DONE 3)]]" "Some 6" "[Some 99]"]]
  by (simp add: sample_world_def init_world_def)

text \<open>
  \<open>TCPStream::setOnDisconnect\<close> does not mask interrupts, and is not atomic: when the connection is lost while
  the handler is being copied, the event posts the half-written handler, whatever it is, and neither
  the old one nor the new one.
\<close>

theorem disconnect_torn:
  assumes "irq_enabled w" and "objs w a = Some ob" and "vptr ob = K_TCPStream"
  shows "\<exists>w'. irun [[], [(a, SOCKET_EVENT_DISCONNECT)]] [] (setOnDisconnect_micro a f [Some t]) w = Some w' \<and>
    minar w' = minar w @ [PostCallback (CB_onDisconnect (Some t) a)] \<and>
    map_option (onDisconnect \<circ> stream_part) (objs w' a) = Some f"
  using assms by (simp add: setOnDisconnect_micro_def raise_event_def nvEventHandler_def Let_def
      eventHandler_def TCPStream_eventHandler_def)

text \<open>The same applied to a stream without a handler: the callback has the half-written value 99.\<close>

theorem disconnect_torn_witness:
  "\<exists>w'. irun [[], [(4, SOCKET_EVENT_DISCONNECT)]] [] (setOnDisconnect_micro 4 (Some 6) [Some 99])
       (sample_world K_TCPStream (Some 7)) = Some w' \<and>
     minar w' = [PostCallback (CB_onDisconnect (Some 99) 4)]"
  using disconnect_torn [of "sample_world K_TCPStream (Some 7)" 4 "sample_mem\<lparr>vptr := K_TCPStream,
      sock := sample_sock (Some 7)\<rparr>" "Some 6" 99]
  by (auto simp: sample_world_def init_world_def)

text \<open>
  Masking does not nest: a setter that is called while interrupts are masked enables them, and delivers
  what was pending before the caller's critical section is over.
\<close>

lemma setters_unmask:
  assumes "\<not> irq_enabled w" and "objs w a = Some ob"
  shows "irun [] evs (setOnError_micro a f torn) w =
    raise_events evs (enable_irq (put_obj a (ob\<lparr>onError := f\<rparr>) w))"
proof -
  have w: "disable_irq w = w" using assms(1) by (simp add: disable_irq_def)
  obtain evs' arr' where e: "evs = evs' @ concat arr'"
    "irun [] evs (map (\<lambda>v. Write a (\<lambda>ob. ob\<lparr>onError := v\<rparr>)) (torn @ [f]) @ [Unmask]) w
       = irun arr' evs' [Unmask] (put_obj a (ob\<lparr>onError := f\<rparr>) w)"
    using error_slot.irun_writes [OF assms, of evs "[]" torn f "[Unmask]"] by auto
  then show ?thesis
    using assms(1) w by (cases arr') (simp_all add: setOnError_micro_def Let_def enable_irq_def)
qed

end
