(* ===== verification/Unmasked_Handlers.thy ===== *)
theory Unmasked_Handlers
  imports Interrupt_Safety TCP_Properties
begin

text \<open>
  Four handlers are assigned without masking interrupts: \<open>resolve\<close> assigns \<open>_onDNS\<close>, \<open>connect\<close> \<open>_onConnect\<close>, \<open>start_listening\<close>
  \<open>_onIncoming\<close> and \<open>setOnDisconnect\<close> \<open>_onDisconnect\<close>. Such an assignment is atomic for all events that do not use the
  handler, and for no others.
\<close>

section \<open>The operations with interrupts\<close>

text \<open>
  The operations as in the component theories, except that the assignment is split into its writes: \<open>torn\<close> are the values that the member
  takes before it has the new one, and \<open>arr\<close> the events that arrive before each write and after the last.
\<close>

definition resolve_irq ::
  "'w env \<Rightarrow> oid \<Rightarrow> string option \<Rightarrow> fp \<Rightarrow> fp list \<Rightarrow> raised list \<Rightarrow> 'w world \<Rightarrow> (socket_error_t \<times> 'w world) option" where
  "resolve_irq env this address f torn arr w = do {
     ob \<leftarrow> objs w this;
     if impl (sock ob) = None then Some (SOCKET_ERROR_NULL_PTR, w)
     else if handler (sock ob) = None then Some (SOCKET_ERROR_CLOSED, w)
     else do {
       w1 \<leftarrow> irun arr [] (map (\<lambda>v. Write this (\<lambda>ob. ob\<lparr>onDNS := v\<rparr>)) (torn @ [f])) w;
       api_call env this (\<lambda>t. api_resolve t address) w1 } }"

definition connect_irq ::
  "'w env \<Rightarrow> oid \<Rightarrow> SocketAddr \<Rightarrow> u16 \<Rightarrow> fp \<Rightarrow> fp list \<Rightarrow> raised list \<Rightarrow> 'w world
     \<Rightarrow> (socket_error_t \<times> 'w world) option" where
  "connect_irq env this address port f torn arr w = do {
     ob \<leftarrow> objs w this;
     if api (sock ob) = None then Some (SOCKET_ERROR_BAD_STACK, w)
     else do {
       w1 \<leftarrow> irun arr [] (map (\<lambda>v. Write this (\<lambda>ob. ob\<lparr>stream_part := (stream_part ob)\<lparr>onConnect := v\<rparr>\<rparr>)) (torn @ [f])) w;
       api_call env this (\<lambda>t. api_connect t (getAddr address) port) w1 } }"

definition start_listening_irq ::
  "'w env \<Rightarrow> oid \<Rightarrow> fp \<Rightarrow> u32 \<Rightarrow> fp list \<Rightarrow> raised list \<Rightarrow> 'w world \<Rightarrow> (socket_error_t \<times> 'w world) option" where
  "start_listening_irq env this f backlog torn arr w = do {
     ob \<leftarrow> objs w this;
     if api (sock ob) = None then Some (SOCKET_ERROR_BAD_STACK, w)
     else do {
       w1 \<leftarrow> irun arr [] (map (\<lambda>v. Write this (\<lambda>ob. ob\<lparr>listener_part := (listener_part ob)\<lparr>onIncoming := v\<rparr>\<rparr>)) (torn @ [f])) w;
       api_call env this (\<lambda>t. api_start_listen t backlog) w1 } }"

section \<open>Events that do not use the handler\<close>

text \<open>
  The contract of a handler that is assigned without masking: \<open>reads\<close> are the events that use it; the others are handled in the
  same way whatever it is, and an event changes only the event fields of the object, which the assignment does not.
\<close>

locale unmasked_slot = handler_slot upd for upd :: "fp \<Rightarrow> Socket \<Rightarrow> Socket" +
  fixes reads :: "socket_event \<Rightarrow> bool"
  assumes unread: "\<not> reads ev \<Longrightarrow> event_callback a (upd v ob) ev = event_callback a ob ev"
    and seen: "seen_event ev (upd v ob) = upd v (seen_event ev ob)"
begin

definition unmasked :: "oid \<Rightarrow> fp \<Rightarrow> fp list \<Rightarrow> micro list" where
  "unmasked a f torn = map (\<lambda>v. Write a (upd v)) (torn @ [f])"

abbreviation avoids :: "oid \<Rightarrow> raised \<Rightarrow> bool" where
  "avoids a evs \<equiv> \<forall>r \<in> set evs. \<not> (fst r = a \<and> reads (snd r))"

lemma put_obj_post_opt: "put_obj a ob (post_opt co w) = post_opt co (put_obj a ob w)"
  by (simp add: post_opt_def postCallback_def minar_do_def put_obj_def split: option.splits)

lemma raise_event_commutes:
  assumes "objs w a = Some ob" and "\<not> (b = a \<and> reads ev)"
  shows "raise_event b ev (put_obj a (upd v ob) w) = Option.bind (raise_event b ev w) (with_obj a (upd v))"
proof (cases "b = a")
  case True
  with assms show ?thesis
    by (simp add: raise_event_eq unread seen put_obj_post_opt)
next
  case False
  show ?thesis
  proof (cases "objs w b")
    case None
    with False show ?thesis by (simp add: raise_event_dead)
  next
    case (Some ob')
    have "put_obj b (seen_event ev ob') (put_obj a (upd v ob) w) = put_obj a (upd v ob) (put_obj b (seen_event ev ob') w)"
      using False by (simp add: put_obj_def fun_upd_twist)
    with Some False assms(1) show ?thesis by (simp add: raise_event_eq put_obj_post_opt)
  qed
qed

lemma raise_events_commute:
  assumes "objs w a = Some ob" and "avoids a evs"
  shows "raise_events evs (put_obj a (upd v ob) w) = Option.bind (raise_events evs w) (with_obj a (upd v))"
  using assms
proof (induction evs arbitrary: w ob)
  case Nil
  then show ?case by simp
next
  case (Cons r evs)
  show ?case
  proof (cases "raise_event (fst r) (snd r) w")
    case None
    with Cons.prems show ?thesis by (simp add: raise_event_commutes)
  next
    case (Some w1)
    obtain ob1 where ob1: "objs w1 a = Some ob1"
      using event_frame_dom [OF raise_event_frame [OF Some]] Cons.prems(1) by blast
    with Some Cons.prems have "raise_event (fst r) (snd r) (put_obj a (upd v ob) w) = Some (put_obj a (upd v ob1) w1)"
      by (simp add: raise_event_commutes)
    with Some Cons.IH [OF ob1] Cons.prems(2) show ?thesis by simp
  qed
qed

lemma with_obj_overwrite: "Option.bind (with_obj a (upd v) w) (with_obj a (upd f)) = with_obj a (upd f) w"
  by (cases "objs w a") (simp_all add: with_obj_def overwrite)

text \<open>One write and what follows it.\<close>

lemma irun_write:
  fixes w :: "'w world" and k :: "'w world \<Rightarrow> 'w world option"
  assumes "irq_enabled w" and "objs w a = Some ob" and "avoids a (pend @ concat arr)"
    and rest: "\<And>(w2 :: 'w world) arr'. irq_enabled w2 \<Longrightarrow> objs w2 a \<noteq> None \<Longrightarrow> avoids a (concat arr') \<Longrightarrow>
      irun arr' [] ms w2 = Option.bind (raise_events (concat arr') w2) k"
    and k: "\<And>w :: 'w world. Option.bind (with_obj a (upd v) w) k = with_obj a (upd f) w"
  shows "irun arr pend (Write a (upd v) # ms) w = Option.bind (raise_events (pend @ concat arr) w) (with_obj a (upd f))"
proof -
  define evs where "evs = pend @ (case arr of [] \<Rightarrow> [] | e # _ \<Rightarrow> e)"
  define arr' where "arr' = (case arr of [] \<Rightarrow> [] | _ # es \<Rightarrow> es)"
  have split: "pend @ concat arr = evs @ concat arr'" by (cases arr) (simp_all add: evs_def arr'_def)
  have first: "irun arr pend (Write a (upd v) # ms) w =
      Option.bind (raise_events evs w) (\<lambda>w1. Option.bind (with_obj a (upd v) w1) (irun arr' [] ms))"
    using assms(1) by (simp add: Let_def evs_def arr'_def)
  show ?thesis
  proof (cases "raise_events evs w")
    case None
    then show ?thesis unfolding first split raise_events_append by simp
  next
    case (Some w1)
    have fr: "event_frame w w1" by (rule raise_events_frame [OF Some])
    with event_frame_dom [OF fr] assms(1,2) obtain ob1 where ob1: "irq_enabled w1" "objs w1 a = Some ob1"
      by (auto simp: event_frame_def)
    have "avoids a (concat arr')" using assms(3) unfolding split by simp
    with rest [of "put_obj a (upd v ob1) w1" arr'] raise_events_commute [OF ob1(2), of "concat arr'" v] ob1 k
    show ?thesis unfolding first split raise_events_append by (simp add: Some)
  qed
qed

text \<open>Such events can as well all be delivered before the assignment, which then is one store.\<close>

lemma unmasked_atomic:
  assumes "irq_enabled w" and "objs w a \<noteq> None" and "avoids a (pend @ concat arr)"
  shows "irun arr pend (unmasked a f torn) w = Option.bind (raise_events (pend @ concat arr) w) (with_obj a (upd f))"
  using assms
proof (induction torn arbitrary: w arr pend)
  case Nil
  then obtain ob where "objs w a = Some ob" by blast
  then show ?case
    unfolding unmasked_def append.simps list.map
    by (rule irun_write [OF Nil(1) _ Nil(3), of ob "[]" Some f f]) simp_all
next
  case (Cons v torn)
  then obtain ob where ob: "objs w a = Some ob" by blast
  have "unmasked a f (v # torn) = Write a (upd v) # unmasked a f torn" by (simp add: unmasked_def)
  then show ?case
    by (simp only:) (rule irun_write [OF Cons.prems(1) ob Cons.prems(3) _ with_obj_overwrite],
        use Cons.IH [of _ "[]"] in simp)
qed

end

text \<open>The four handlers and the events that use them.\<close>

fun is_DNS :: "socket_event \<Rightarrow> bool" where
  "is_DNS (SOCKET_EVENT_DNS addr name) = True"
| "is_DNS _ = False"

fun is_ACCEPT :: "socket_event \<Rightarrow> bool" where
  "is_ACCEPT (SOCKET_EVENT_ACCEPT p) = True"
| "is_ACCEPT _ = False"

lemmas callback_cases = event_callback_def seen_event_def

interpretation dns_slot: unmasked_slot "\<lambda>v ob. ob\<lparr>onDNS := v\<rparr>" is_DNS
proof
  fix ev a v and ob :: Socket
  show "event_callback a (ob\<lparr>onDNS := v\<rparr>) ev = event_callback a ob ev" if "\<not> is_DNS ev"
    using that by (cases ev) (simp_all add: callback_cases)
qed (simp_all add: seen_event_def)

interpretation connect_slot: unmasked_slot "\<lambda>v ob. ob\<lparr>stream_part := (stream_part ob)\<lparr>onConnect := v\<rparr>\<rparr>"
  "\<lambda>ev. ev = SOCKET_EVENT_CONNECT"
proof
  fix ev a v and ob :: Socket
  show "event_callback a (ob\<lparr>stream_part := (stream_part ob)\<lparr>onConnect := v\<rparr>\<rparr>) ev = event_callback a ob ev"
    if "ev \<noteq> SOCKET_EVENT_CONNECT"
    using that by (cases ev) (simp_all add: callback_cases)
qed (simp_all add: seen_event_def)

interpretation disconnect_slot: unmasked_slot "\<lambda>v ob. ob\<lparr>stream_part := (stream_part ob)\<lparr>onDisconnect := v\<rparr>\<rparr>"
  "\<lambda>ev. ev = SOCKET_EVENT_DISCONNECT"
proof
  fix ev a v and ob :: Socket
  show "event_callback a (ob\<lparr>stream_part := (stream_part ob)\<lparr>onDisconnect := v\<rparr>\<rparr>) ev = event_callback a ob ev"
    if "ev \<noteq> SOCKET_EVENT_DISCONNECT"
    using that by (cases ev) (simp_all add: callback_cases)
qed (simp_all add: seen_event_def)

interpretation incoming_slot: unmasked_slot "\<lambda>v ob. ob\<lparr>listener_part := (listener_part ob)\<lparr>onIncoming := v\<rparr>\<rparr>" is_ACCEPT
proof
  fix ev a v and ob :: Socket
  show "event_callback a (ob\<lparr>listener_part := (listener_part ob)\<lparr>onIncoming := v\<rparr>\<rparr>) ev = event_callback a ob ev"
    if "\<not> is_ACCEPT ev"
    using that by (cases ev) (simp_all add: callback_cases)
qed (simp_all add: seen_event_def)

section \<open>Properties\<close>

lemma events_keep_struct:
  assumes "raise_events evs w = Some w1" and "objs w a = Some ob"
  shows "\<exists>ob1. objs w1 a = Some ob1 \<and> impl (sock ob1) = impl (sock ob) \<and> handler (sock ob1) = handler (sock ob) \<and>
    api (sock ob1) = api (sock ob)"
proof -
  have "map_option quiet (objs w1 a) = Some (quiet ob)"
    using raise_events_frame [OF assms(1)] assms(2) by (simp add: event_frame_def)
  then obtain ob1 where "objs w1 a = Some ob1" "quiet ob1 = quiet ob" by auto
  then show ?thesis using quiet_eq_fields [of ob1 ob] by simp
qed

text \<open>
  C19. Assigning a handler without masking interrupts is safe for all other events: when no DNS answer for the socket arrives
  while \<open>resolve\<close> copies its handler, no connection while \<open>connect\<close> does, no new connection while \<open>start_listening\<close> does, no disconnection
  while \<open>setOnDisconnect\<close> does, the result is the one of delivering the events and then calling the operation,
  whatever else arrives and in whatever pieces the handler is copied.
\<close>

theorem unmasked_safe:
  assumes "irq_enabled w" and "objs w a = Some ob" and "impl (sock ob) \<noteq> None" and "handler (sock ob) \<noteq> None"
    and "api (sock ob) \<noteq> None"
  shows "((\<forall>r \<in> set (concat arr). \<not> (fst r = a \<and> is_DNS (snd r))) \<longrightarrow>
      resolve_irq env a address f torn arr w =
        do { w1 \<leftarrow> raise_events (concat arr) w; Socket_resolve env a address f w1 }) \<and>
    ((\<forall>r \<in> set (concat arr). \<not> (fst r = a \<and> snd r = SOCKET_EVENT_CONNECT)) \<longrightarrow>
      connect_irq env a sa port f torn arr w =
        do { w1 \<leftarrow> raise_events (concat arr) w; TCPStream_connect env a sa port f w1 }) \<and>
    ((\<forall>r \<in> set (concat arr). \<not> (fst r = a \<and> is_ACCEPT (snd r))) \<longrightarrow>
      start_listening_irq env a f backlog torn arr w =
        do { w1 \<leftarrow> raise_events (concat arr) w; start_listening env a f backlog w1 }) \<and>
    ((\<forall>r \<in> set (concat arr). \<not> (fst r = a \<and> snd r = SOCKET_EVENT_DISCONNECT)) \<longrightarrow>
      irun arr [] (setOnDisconnect_micro a f torn) w =
        do { w1 \<leftarrow> raise_events (concat arr) w; setOnDisconnect a f w1 })"
proof -
  have live: "objs w a \<noteq> None" using assms(2) by simp
  obtain i h p where set: "impl (sock ob) = Some i" "handler (sock ob) = Some h" "api (sock ob) = Some p"
    using assms(3-5) by auto
  note atomic = dns_slot.unmasked_atomic [OF assms(1) live, of "[]" arr f torn, unfolded dns_slot.unmasked_def append_Nil]
    connect_slot.unmasked_atomic [OF assms(1) live, of "[]" arr f torn, unfolded connect_slot.unmasked_def append_Nil]
    incoming_slot.unmasked_atomic [OF assms(1) live, of "[]" arr f torn, unfolded incoming_slot.unmasked_def append_Nil]
    disconnect_slot.unmasked_atomic [OF assms(1) live, of "[]" arr f torn, unfolded disconnect_slot.unmasked_def append_Nil]
  show ?thesis
  proof (cases "raise_events (concat arr) w")
    case None
    with assms(2) set atomic show ?thesis
      by (simp del: irun.simps add: resolve_irq_def connect_irq_def start_listening_irq_def setOnDisconnect_micro_def)
  next
    case (Some w1)
    from events_keep_struct [OF Some assms(2)] set obtain ob1 where
      "objs w1 a = Some ob1" "impl (sock ob1) = Some i" "handler (sock ob1) = Some h" "api (sock ob1) = Some p" by auto
    with Some assms(2) set atomic show ?thesis
      by (simp del: irun.simps add: resolve_irq_def connect_irq_def start_listening_irq_def setOnDisconnect_micro_def
          Socket_resolve_def TCPStream_connect_def start_listening_def setOnDisconnect_def)
  qed
qed

text \<open>C19 on a stream on which data and an acknowledgement arrive while \<open>connect\<close> copies the handler in two parts.\<close>

definition busy :: "raised list" where
  "busy = [[], [(4, SOCKET_EVENT_RX_DONE)], [(4, SOCKET_EVENT_TX_DONE 3)]]"

theorem unmasked_safe_witness:
  "connect_irq sample_env 4 \<lparr>addr_member = sample_addr\<rparr> 80 (Some 6) [Some 99] busy (sample_world K_TCPStream (Some 7)) =
     do { w1 \<leftarrow> raise_events [(4, SOCKET_EVENT_RX_DONE), (4, SOCKET_EVENT_TX_DONE 3)] (sample_world K_TCPStream (Some 7));
          TCPStream_connect sample_env 4 \<lparr>addr_member = sample_addr\<rparr> 80 (Some 6) w1 }"
proof -
  let ?ob = "sample_mem\<lparr>vptr := K_TCPStream, sock := sample_sock (Some 7)\<rparr>"
  have "irq_enabled (sample_world K_TCPStream (Some 7))" "objs (sample_world K_TCPStream (Some 7)) 4 = Some ?ob"
    "impl (sock ?ob) \<noteq> None" "handler (sock ?ob) \<noteq> None" "api (sock ?ob) \<noteq> None"
    by (simp_all add: sample_world_def init_world_def sample_sock_def)
  from conjunct1 [OF conjunct2 [OF unmasked_safe [OF this, of busy sample_env None "Some 6" "[Some 99]"]]]
  show ?thesis by (simp add: busy_def)
qed

lemma torn_calls:
  assumes "irq_enabled w" and "objs w a = Some ob" and "impl (sock ob) \<noteq> None" and "handler (sock ob) \<noteq> None"
    and "api (sock ob) \<noteq> None"
  shows "\<exists>w1. minar w1 = minar w @ [PostCallback (CB_onDNS (Some t) a addr name)] \<and>
      resolve_irq env a address f [Some t] [[], [(a, SOCKET_EVENT_DNS addr name)]] w =
        api_call env a (\<lambda>t. api_resolve t address) w1"
    and "vptr ob = K_TCPStream \<longrightarrow> (\<exists>w1. minar w1 = minar w @ [PostCallback (CB_onConnect (Some t) a)] \<and>
      connect_irq env a sa port f [Some t] [[], [(a, SOCKET_EVENT_CONNECT)]] w =
        api_call env a (\<lambda>t. api_connect t (getAddr sa) port) w1)"
    and "vptr ob = K_TCPListener \<longrightarrow> (\<exists>w1. minar w1 = minar w @ [PostCallback (CB_onIncoming (Some t) a p)] \<and>
      start_listening_irq env a f backlog [Some t] [[], [(a, SOCKET_EVENT_ACCEPT p)]] w =
        api_call env a (\<lambda>t. api_start_listen t backlog) w1)"
  using assms by (auto simp: resolve_irq_def connect_irq_def start_listening_irq_def raise_event_eq event_callback_def if_set_def
      intro!: exI)

text \<open>
  C37. For the event that uses the handler the assignment is not atomic: when it arrives in the middle, the half-written handler is
  posted, whatever it is. This holds for a DNS answer during \<open>resolve\<close>, a connection during \<open>connect\<close> and a new
  connection during \<open>start_listening\<close>.
\<close>

theorem unmasked_torn:
  assumes "irq_enabled w" and "objs w a = Some ob" and "impl (sock ob) \<noteq> None" and "handler (sock ob) \<noteq> None"
    and "api (sock ob) \<noteq> None"
  shows "(\<exists>w1. minar w1 = minar w @ [PostCallback (CB_onDNS (Some t) a addr name)] \<and>
      resolve_irq env a address f [Some t] [[], [(a, SOCKET_EVENT_DNS addr name)]] w =
        api_call env a (\<lambda>t. api_resolve t address) w1) \<and>
    (vptr ob = K_TCPStream \<longrightarrow> (\<exists>w1. minar w1 = minar w @ [PostCallback (CB_onConnect (Some t) a)] \<and>
      connect_irq env a sa port f [Some t] [[], [(a, SOCKET_EVENT_CONNECT)]] w =
        api_call env a (\<lambda>t. api_connect t (getAddr sa) port) w1)) \<and>
    (vptr ob = K_TCPListener \<longrightarrow> (\<exists>w1. minar w1 = minar w @ [PostCallback (CB_onIncoming (Some t) a p)] \<and>
      start_listening_irq env a f backlog [Some t] [[], [(a, SOCKET_EVENT_ACCEPT p)]] w =
        api_call env a (\<lambda>t. api_start_listen t backlog) w1))"
  by (intro conjI torn_calls [OF assms])

text \<open>C37 on a stream that is being connected a second time: the callback has the half-written value 99.\<close>

theorem unmasked_torn_witness:
  "\<exists>w1. minar w1 = [PostCallback (CB_onConnect (Some 99) 4)] \<and>
     connect_irq sample_env 4 \<lparr>addr_member = sample_addr\<rparr> 80 (Some 6) [Some 99] [[], [(4, SOCKET_EVENT_CONNECT)]]
       (sample_world K_TCPStream (Some 7)) = api_call sample_env 4 (\<lambda>t. api_connect t sample_addr 80) w1"
proof -
  let ?ob = "sample_mem\<lparr>vptr := K_TCPStream, sock := sample_sock (Some 7)\<rparr>" and ?w = "sample_world K_TCPStream (Some 7)"
  have "irq_enabled ?w" "objs ?w 4 = Some ?ob" "impl (sock ?ob) \<noteq> None" "handler (sock ?ob) \<noteq> None" "api (sock ?ob) \<noteq> None"
    and "minar ?w = []"
    by (simp_all add: sample_world_def init_world_def sample_sock_def)
  from conjunct1 [OF conjunct2 [OF unmasked_torn [OF this(1-5), of 99 sample_addr None sample_env None "Some 6"
      "\<lparr>addr_member = sample_addr\<rparr>" 80]]] this(6)
  show ?thesis by (simp add: getAddr_def)
qed

end
