(* ===== verification/Echo_Harness.thy ===== *)
theory Echo_Harness
  imports Socket_Properties
begin

text \<open>
  What the two test clients (\<open>test/echo-tcp-client\<close>, \<open>test/echo-udp-client\<close>) share: handlers that may fail, the rules by which
  a handler is shown to be safe from the contracts of the operations it calls, and what the clients rely on when they read.
\<close>

section \<open>Handlers that may fail\<close>

datatype echo_error = Undefined | Assertion string

definition lift :: "'a option \<Rightarrow> echo_error + 'a" where
  "lift m = (case m of None \<Rightarrow> Inl Undefined | Some x \<Rightarrow> Inr x)"

definition and_then :: "echo_error + 'a \<Rightarrow> ('a \<Rightarrow> echo_error + 'b) \<Rightarrow> echo_error + 'b" where
  "and_then m f = (case m of Inl e \<Rightarrow> Inl e | Inr x \<Rightarrow> f x)"

definition test_assert :: "bool \<Rightarrow> string \<Rightarrow> echo_error + 'a \<Rightarrow> echo_error + 'a" where
  "test_assert b msg k = (if b then k else Inl (Assertion msg))"

lemma echo_monad_simps [simp]:
  "lift None = Inl Undefined" "lift (Some x) = Inr x"
  "and_then (Inl e) f = Inl e" "and_then (Inr x) f = f x"
  "test_assert True msg k = k" "test_assert False msg k = Inl (Assertion msg)"
  by (simp_all add: lift_def and_then_def test_assert_def)

lemma echo_monad_Inr:
  "lift m = Inr x \<longleftrightarrow> m = Some x"
  "and_then m' f = Inr y \<longleftrightarrow> (\<exists>x. m' = Inr x \<and> f x = Inr y)"
  "test_assert b msg k = Inr z \<longleftrightarrow> b \<and> k = Inr z"
  by (auto simp: lift_def and_then_def test_assert_def split: option.splits sum.splits)

text \<open>
  A failed \<open>TEST_ASSERT\<close> ends a handler with the value \<open>Assertion\<close>; a call without a meaning (a null or dangling
  pointer, an index out of an array) ends it with \<open>Undefined\<close>.
\<close>

section \<open>Buffers\<close>

definition bytes :: "string \<Rightarrow> u8 list" where
  "bytes s = map of_char s"

text \<open>
  \<open>fmtIPv6\<close> with a buffer of bytes: it prints the address into the buffer, and its result is ignored by both
  clients.
\<close>

definition fmt_into :: "addr_lib \<Rightarrow> SocketAddr \<Rightarrow> u8 list \<Rightarrow> u8 list" where
  "fmt_into L sa b =
     (case snd (fmtIPv6 L sa (Some (map (\<lambda>v. char_of (unat v)) b)) (of_nat (length b))) of
        None \<Rightarrow> b
      | Some t \<Rightarrow> take (length b) (bytes t @ drop (length t) b))"

lemma length_fmt_into [simp]: "length (fmt_into L sa b) = length b"
  by (auto simp: fmt_into_def bytes_def split: option.splits)

text \<open>
  The documented behaviour of \<open>recv\<close>: it fills the buffer it was given, and the length it returns is not more than
  the length it got.
\<close>

definition recv_ok :: "'w env \<Rightarrow> bool" where
  "recv_ok env \<longleftrightarrow> (\<forall>p b n x s r b' n' s' rs x'.
     api_recv (vtable env p) (Some b) (Some n) x s = ((r, b', n'), s', rs, x') \<longrightarrow>
     (\<exists>b1 n1. b' = Some b1 \<and> n' = Some n1 \<and> length b1 = length b \<and> n1 \<le> n))"

lemma recv_bounds:
  assumes "recv_ok env" and "Socket_recv env s (Some b) (Some n) w = Some ((r, b', n'), w')"
  shows "\<exists>b1 n1. b' = Some b1 \<and> n' = Some n1 \<and> length b1 = length b \<and> n1 \<le> n"
  using assms(2)
  by (auto simp: Socket_recv_def api_call_def api_invoke_eq_Some split: if_splits
      dest!: assms(1) [unfolded recv_ok_def, rule_format])

section \<open>Safe handlers\<close>

text \<open>
  \<open>ok_result P m\<close>: \<open>m\<close> is not undefined, and when no assertion failed its result satisfies \<open>P\<close>. \<open>has_sock env k s w\<close>: the world is
  well-formed and has a socket of class \<open>k\<close> at \<open>s\<close>.
\<close>

definition ok_result :: "('a \<Rightarrow> bool) \<Rightarrow> echo_error + 'a \<Rightarrow> bool" where
  "ok_result P m \<longleftrightarrow> (case m of Inl e \<Rightarrow> e \<noteq> Undefined | Inr x \<Rightarrow> P x)"

definition has_sock :: "'w env \<Rightarrow> klass \<Rightarrow> oid \<Rightarrow> 'w world \<Rightarrow> bool" where
  "has_sock env k s w \<longleftrightarrow> wf_world env w \<and> (\<exists>ob. objs w s = Some ob \<and> vptr ob = k)"

named_theorems handler_rules "how a handler is shown to be safe"

lemma ok_Inr [handler_rules]: "P x \<Longrightarrow> ok_result P (Inr x)"
  by (simp add: ok_result_def)

lemma ok_assert [handler_rules]: "(b \<Longrightarrow> ok_result P k) \<Longrightarrow> ok_result P (test_assert b msg k)"
  by (cases b) (simp_all add: ok_result_def)

lemma ok_then: "ok_result Q m \<Longrightarrow> (\<And>x. Q x \<Longrightarrow> ok_result P (f x)) \<Longrightarrow> ok_result P (and_then m f)"
  by (cases m) (simp_all add: ok_result_def)

lemma ok_result_cases: "ok_result P m \<Longrightarrow> (\<exists>msg. m = Inl (Assertion msg)) \<or> (\<exists>x. m = Inr x \<and> P x)"
  by (cases m) (auto simp: ok_result_def, metis echo_error.exhaust)

lemma ok_lift_SomeI: "m = Some x \<Longrightarrow> P x \<Longrightarrow> ok_result P (lift m)"
  by (simp add: ok_result_def)

lemma has_sock_frame:
  assumes frame: "op_frame s w w'" and "has_sock env k s w"
  shows "has_sock env k s w'"
proof -
  from assms(2) obtain ob where ob: "objs w s = Some ob" "vptr ob = k" and wf: "wf_world env w"
    by (auto simp: has_sock_def)
  from ob(1) have "s \<in> dom (objs w')" using op_frame_dom [OF frame] by (simp add: domI)
  then obtain ob' where ob': "objs w' s = Some ob'" by blast
  with op_frame_obj [OF frame ob'] ob have "vptr ob' = k" by (auto simp: op_obj_def)
  with ob' op_frame_wf [OF frame wf] show ?thesis by (simp add: has_sock_def)
qed

context safe_op
begin

lemma handler_then:
  assumes "sal_ok env" and "has_sock env k s w"
    and "\<And>r w'. op env s w = Some (r, w') \<Longrightarrow> has_sock env k s w' \<Longrightarrow> ok_result P (f (r, w'))"
  shows "ok_result P (and_then (lift (op env s w)) f)"
proof -
  from assms(2) have "s \<in> dom (objs w)" and "wf_world env w" by (auto simp: has_sock_def)
  with returns [OF assms(1)] obtain r w' where "op env s w = Some (r, w')" by blast
  with assms(3) has_sock_frame [OF frame [OF assms(1)] assms(2)] show ?thesis by simp
qed

end

text \<open>The setters return nothing.\<close>

lemma no_result_then: "and_then (lift m) f = and_then (lift (no_result m)) (\<lambda>(_, w). f w)"
  by (cases m) simp_all

lemma setter_then:
  assumes "sal_ok env" and "has_sock env k s w" and "\<And>w'. has_sock env k s w' \<Longrightarrow> ok_result P (f w')"
  shows "ok_result P (and_then (lift (setOnError s h w)) f)"
    "ok_result P (and_then (lift (setOnReadable s h w)) f)"
    "ok_result P (and_then (lift (setOnSent s h w)) f)"
    "ok_result P (and_then (lift (setOnDisconnect s h w)) f)"
  unfolding no_result_then [of _ f] using assms(3)
  by (auto intro!: setOnError_op.handler_then [OF assms(1,2)] setOnReadable_op.handler_then [OF assms(1,2)]
      setOnSent_op.handler_then [OF assms(1,2)] setOnDisconnect_op.handler_then [OF assms(1,2)])

lemma connected_returns:
  assumes "has_sock env k s w"
  shows "\<exists>b. isConnected env s w = Some b"
proof -
  from assms obtain ob where ob: "objs w s = Some ob" and wf: "wf_world env w"
    by (auto simp: has_sock_def)
  then show ?thesis
    using wf_opened_api [OF wf ob] by (auto simp: isConnected_def)
qed

text \<open>Both clients end by closing a connected socket and destroying it.\<close>

context socket_class
begin

lemma close_and_delete:
  assumes ok: "sal_ok env" and w: "has_sock env K s w"
  shows "\<exists>w'. and_then (lift (isConnected env s w)) (\<lambda>connected.
      and_then (if connected then lift (map_option snd (Socket_close env s w)) else Inr w) (\<lambda>w1.
      lift (dtor env s w1))) = Inr w' \<and> wf_world env w' \<and> dom (objs w') = dom (objs w) - {s}"
proof -
  have del: "\<exists>w'. dtor env s w1 = Some w' \<and> wf_world env w' \<and> dom (objs w') = dom (objs w1) - {s}"
    if w1: "has_sock env K s w1" for w1
  proof -
    from w1 obtain ob where "objs w1 s = Some ob" "vptr ob = K" "wf_world env w1"
      by (auto simp: has_sock_def)
    with dtor_law [OF ok] obtain w' where w': "dtor env s w1 = Some w'" "wf_world env w'"
      "\<forall>b. map_option quiet (objs w' b) = (if b = s then None else map_option quiet (objs w1 b))" by blast
    have "b \<in> dom (objs w') \<longleftrightarrow> b \<in> dom (objs w1) - {s}" for b
      using w'(3) [rule_format, of b] by (cases "objs w' b"; cases "objs w1 b") (simp_all add: domIff split: if_splits)
    with w' show ?thesis by blast
  qed
  from w have wf: "wf_world env w" "s \<in> dom (objs w)" by (auto simp: has_sock_def)
  obtain b where b: "isConnected env s w = Some b" using connected_returns [OF w] by blast
  obtain r w1 where w1: "Socket_close env s w = Some (r, w1)" using close_op.returns [OF ok wf] by blast
  note fr = close_op.frame [OF ok w1]
  from has_sock_frame [OF fr w] have "has_sock env K s w1" .
  with del [of w] del [of w1] w b w1 op_frame_dom [OF fr] show ?thesis by (cases b) auto
qed

end

section \<open>Sockets that stay open\<close>

definition open_sock :: "'w env \<Rightarrow> klass \<Rightarrow> oid \<Rightarrow> 'w world \<Rightarrow> bool" where
  "open_sock env k s w \<longleftrightarrow> has_sock env k s w \<and> (\<exists>ob. objs w s = Some ob \<and> impl (sock ob) \<noteq> None)"

text \<open>
  A call of the stack on a socket that has one: it returns, and what the stack promises of its result, of the struct
  and of the network holds when the events it raised have been handled.
\<close>

lemma api_call_opens:
  assumes ok: "sal_ok env" and s: "has_sock env k s w" and ob: "objs w s = Some ob" "api (sock ob) \<noteq> None"
    and c: "callable env s f"
    and spec: "\<And>p r s' rs x. f (vtable env p) (network w) (sock ob) = (r, s', rs, x) \<Longrightarrow> impl s' \<noteq> None \<and> Q r x"
  shows "\<exists>r w'. api_call env s f w = Some (r, w') \<and> open_sock env k s w' \<and> Q r (network w')"
proof -
  from s have wf: "wf_world env w" by (simp add: has_sock_def)
  from wf_api_call [OF wf ob c] obtain r w' where r: "api_call env s f w = Some (r, w')" by blast
  then obtain p s' rs x where f: "f (vtable env p) (network w) (sock ob) = (r, s', rs, x)"
    and rs: "raise_events rs (put_obj s (ob\<lparr>sock := s'\<rparr>) (w\<lparr>network := x\<rparr>)) = Some w'"
    using ob(1) by (auto simp: api_call_def api_invoke_eq_Some)
  note ev = raise_events_frame [OF rs, unfolded event_frame_def]
  have s': "has_sock env k s w'" by (rule has_sock_frame [OF api_call_frame [OF r c] s])
  then obtain ob' where ob': "objs w' s = Some ob'" by (auto simp: has_sock_def)
  moreover from ev have "map_option quiet (objs w' s) = Some (quiet (ob\<lparr>sock := s'\<rparr>))" by simp
  ultimately have "impl (sock ob') = impl s'" by (auto dest: quiet_eq_fields(3))
  with spec [OF f] r s' ob' ev show ?thesis by (auto simp: open_sock_def)
qed

lemma open_sockD:
  assumes "open_sock env k s w"
  obtains ob where "has_sock env k s w" "objs w s = Some ob" "impl (sock ob) \<noteq> None" "api (sock ob) \<noteq> None"
  using assms wf_opened_api unfolding open_sock_def has_sock_def by blast

lemma setOnReadable_open:
  assumes "sal_ok env" and "open_sock env k s w"
  shows "\<exists>w'. setOnReadable s f w = Some w' \<and> open_sock env k s w' \<and> network w' = network w"
proof -
  from assms(2) obtain ob where ob: "has_sock env k s w" "objs w s = Some ob" "impl (sock ob) \<noteq> None"
    by (rule open_sockD)
  let ?w = "enable_irq (put_obj s (ob\<lparr>onReadable := f\<rparr>) (disable_irq w))"
  have w: "setOnReadable s f w = Some ?w" using ob by (simp add: setOnReadable_def)
  then have "has_sock env k s ?w"
    by (intro has_sock_frame [OF setOnReadable_op.frame [OF assms(1)] ob(1)]) simp
  with ob w show ?thesis by (simp add: open_sock_def)
qed

lemma open_sock_network: "open_sock env k s w \<Longrightarrow> open_sock env k s (w\<lparr>network := x\<rparr>)"
  by (auto simp: open_sock_def intro: has_sock_frame [OF set_network_frame])

section \<open>Sample networks\<close>

text \<open>
  A stack on which a socket can be opened and nothing else happens, to be changed into the networks that the theorems on the
  clients are applied to; and an environment with one stack.
\<close>

definition still :: "'r \<Rightarrow> ('w, 'r) eff" where
  "still r x s = (r, s, [], x)"

definition inert_api :: "'w socket_api" where
  "inert_api = \<lparr>
     api_create = (\<lambda>af pf h x s. (SOCKET_ERROR_NONE, s\<lparr>impl := Some 7, handler := Some h\<rparr>, [], x)),
     api_destroy = None,
     api_resolve = (\<lambda>n. still SOCKET_ERROR_NONE),
     api_str2addr = (\<lambda>a n. still (SOCKET_ERROR_NONE, a)),
     api_bind = (\<lambda>a p. still SOCKET_ERROR_NONE),
     api_connect = (\<lambda>a p. still SOCKET_ERROR_NONE),
     api_start_listen = (\<lambda>n. still SOCKET_ERROR_UNIMPLEMENTED),
     api_stop_listen = still SOCKET_ERROR_UNIMPLEMENTED,
     api_accept = (\<lambda>h. still SOCKET_ERROR_UNIMPLEMENTED),
     api_close = still SOCKET_ERROR_NONE,
     api_recv = (\<lambda>b l. still (SOCKET_ERROR_UNIMPLEMENTED, b, l)),
     api_recv_from = (\<lambda>b l a p. still (SOCKET_ERROR_UNIMPLEMENTED, b, l, a, p)),
     api_send = (\<lambda>b l. still SOCKET_ERROR_UNIMPLEMENTED),
     api_send_to = (\<lambda>b l a p. still SOCKET_ERROR_UNIMPLEMENTED),
     api_set_option = (\<lambda>lv op p n. still SOCKET_ERROR_NONE),
     api_is_connected = (\<lambda>x s. False),
     api_get_local_addr = (\<lambda>a x s. (SOCKET_ERROR_UNIMPLEMENTED, a)),
     api_get_local_port = (\<lambda>p x s. (SOCKET_ERROR_UNIMPLEMENTED, p)),
     api_get_remote_addr = (\<lambda>a x s. (SOCKET_ERROR_UNIMPLEMENTED, a)),
     api_get_remote_port = (\<lambda>p x s. (SOCKET_ERROR_UNIMPLEMENTED, p)),
     api_periodic_interval = (\<lambda>x s. 0),
     api_periodic_task = (\<lambda>x s. None)\<rparr>"

definition one_stack_env :: "'w socket_api \<Rightarrow> 'w env" where
  "one_stack_env t = \<lparr>
     vtable = (\<lambda>p. t),
     socket_get_api = (\<lambda>stk. Some 5),
     socket_accept = (\<lambda>ls h x s. (SOCKET_ERROR_UNIMPLEMENTED, ls, s, [], x)),
     getHandle = (\<lambda>cs. Some (length cs)),
     milliseconds = (\<lambda>n. n),
     addrs = sample_lib\<rparr>"

lemma inert_api_ok: "api_ok (inert_api :: 'w socket_api)"
  by (auto simp: api_ok_def keeps_def inert_api_def still_def)

lemma one_stack_env_ok: "minar_ok (one_stack_env t)" "api_ok t \<Longrightarrow> sal_ok (one_stack_env t)"
  by (auto simp: sal_ok_def accept_ok_def minar_ok_def one_stack_env_def)

end
