(* ===== verification/Host_Echo_Server.thy ===== *)
theory Host_Echo_Server
  imports Echo_Harness "HOL-Library.Sublist"
begin

text \<open>
  The host's side of the TCP echo test (\<open>test/host_tests/tcpecho_client_auto.py\<close>): \<open>TCPEchoClientHandler\<close>, a loop that polls
  the connection and the flag \<open>running\<close> of the server, and echoes what it receives until it sees \<open>{{end}}\<close>.
  The loop is a state machine whose inputs are what its calls observe.
\<close>

section \<open>The handler as a state machine\<close>

text \<open>
  Where the handler is: at the condition of the loop in \<open>handle\<close>, at the condition and in the \<open>select\<close> of \<open>recv\<close>, at the
  condition and in the \<open>select\<close> of \<open>send\<close>, with the data to send, or behind the loop.
\<close>

datatype host_pc =
    H_handle | H_recv | H_recv_select | H_send "u8 list" | H_send_select "u8 list" | H_finished

text \<open>
  What it observes: the result of \<open>isrunning()\<close>; that \<open>select\<close> reported the connection readable and \<open>recv(1024)\<close> returned these
  bytes; that \<open>select\<close> reported it writable and \<open>sendall\<close> sent the data; that \<open>select\<close> timed out;
  or that one of the calls raised an exception. A \<open>select\<close> and the call after it are one observation, so \<open>sendall\<close> is taken to
  return or to raise: one that blocks because the client does not read is left out.
\<close>

datatype host_obs = Is_running bool | Received "u8 list" | Sent_all | Timed_out | Raised

record host =
  pc :: host_pc
  chunks :: "u8 list list"
  echoed :: "u8 list"

text \<open>\<open>chunks\<close> and \<open>echoed\<close> record what came in and what went out.\<close>

definition end_mark :: "u8 list" where
  "end_mark = bytes ''{{end}}''"

text \<open>\<open>handle\<close> when its \<open>recv\<close> has returned; \<open>None\<close> is what \<open>recv\<close> returns when the server has been shut down.\<close>

definition host_received :: "u8 list option \<Rightarrow> host_pc" where
  "host_received data =
     (case data of
        None \<Rightarrow> H_finished
      | Some d \<Rightarrow> if d = [] then H_finished else if sublist end_mark d then H_handle else H_send d)"

fun host_step :: "host \<Rightarrow> host_obs \<Rightarrow> host option" where
  "host_step h (Is_running b) =
     (case pc h of
        H_handle \<Rightarrow> Some (h\<lparr>pc := if b then H_recv else H_finished\<rparr>)
      | H_recv \<Rightarrow> Some (h\<lparr>pc := if b then H_recv_select else host_received None\<rparr>)
      | H_send d \<Rightarrow> Some (h\<lparr>pc := if b then H_send_select d else H_handle\<rparr>)
      | _ \<Rightarrow> None)"
| "host_step h (Received d) =
     (if pc h = H_recv_select \<and> length d \<le> 1024
      then Some (h\<lparr>pc := host_received (Some d), chunks := chunks h @ [d]\<rparr>) else None)"
| "host_step h Sent_all =
     (case pc h of
        H_send_select d \<Rightarrow> Some (h\<lparr>pc := H_handle, echoed := echoed h @ d\<rparr>)
      | _ \<Rightarrow> None)"
| "host_step h Timed_out =
     (case pc h of
        H_recv_select \<Rightarrow> Some (h\<lparr>pc := H_recv\<rparr>)
      | H_send_select d \<Rightarrow> Some (h\<lparr>pc := H_send d\<rparr>)
      | _ \<Rightarrow> None)"
| "host_step h Raised =
     (case pc h of
        H_recv_select \<Rightarrow> Some (h\<lparr>pc := H_finished\<rparr>)
      | H_send_select d \<Rightarrow> Some (h\<lparr>pc := H_finished\<rparr>)
      | _ \<Rightarrow> None)"

fun host_run :: "host \<Rightarrow> host_obs list \<Rightarrow> host option" where
  "host_run h [] = Some h"
| "host_run h (ob # obs) = do { h1 \<leftarrow> host_step h ob; host_run h1 obs }"

definition host_start :: host where
  "host_start = \<lparr>pc = H_handle, chunks = [], echoed = []\<rparr>"

section \<open>The specification\<close>

text \<open>The echo of one chunk, and of a sequence of them.\<close>

definition echo_chunk :: "u8 list \<Rightarrow> u8 list" where
  "echo_chunk d = (if sublist end_mark d then [] else d)"

definition echo_spec :: "u8 list list \<Rightarrow> u8 list" where
  "echo_spec ds = concat (map echo_chunk ds)"

lemma echo_spec_simps [simp]: "echo_spec [] = []" "echo_spec (ds @ [d]) = echo_spec ds @ echo_chunk d"
  by (simp_all add: echo_spec_def)

text \<open>The chunk that has been received and not been sent back yet.\<close>

fun in_hand :: "host_pc \<Rightarrow> u8 list" where
  "in_hand (H_send d) = d"
| "in_hand (H_send_select d) = d"
| "in_hand p = []"

lemma host_received_in_hand: "in_hand (host_received (Some d)) = echo_chunk d"
  by (simp add: host_received_def echo_chunk_def)

text \<open>As long as the server runs and no call fails, a step keeps the specification.\<close>

lemma host_step_spec:
  assumes "host_step h ob = Some h'" and "ob \<notin> {Is_running False, Raised}"
    and "echoed h @ in_hand (pc h) = echo_spec (chunks h)"
  shows "echoed h' @ in_hand (pc h') = echo_spec (chunks h')"
  using assms
  by (cases ob) (auto simp: host_received_in_hand split: host_pc.splits if_splits)

lemma host_run_spec:
  assumes "host_run h obs = Some h'" and "set obs \<inter> {Is_running False, Raised} = {}"
    and "echoed h @ in_hand (pc h) = echo_spec (chunks h)"
  shows "echoed h' @ in_hand (pc h') = echo_spec (chunks h')"
  using assms by (induction h obs rule: host_run.induct) (auto dest: host_step_spec)

section \<open>Properties\<close>

text \<open>
  C15. The host's handler implements its specification, an echo of every chunk that does not contain \<open>{{end}}\<close>: while the server
  runs and no socket call fails, in whatever way its polling of the connection and of the flag interleave, the
  bytes it has sent back, with the chunk it has in hand, are the specified echo of the chunks it has
  received; and at the head of its loop nothing is in hand.
\<close>

theorem handler_echoes:
  assumes "host_run host_start obs = Some h" and "set obs \<inter> {Is_running False, Raised} = {}"
  shows "echoed h @ in_hand (pc h) = echo_spec (chunks h) \<and> (pc h = H_handle \<longrightarrow> echoed h = echo_spec (chunks h))"
proof -
  have "echoed h @ in_hand (pc h) = echo_spec (chunks h)"
    by (rule host_run_spec [OF assms]) (simp add: host_start_def)
  moreover from this have "pc h = H_handle \<longrightarrow> echoed h = echo_spec (chunks h)" by (cases "pc h") simp_all
  ultimately show ?thesis by blast
qed

text \<open>C15 applied to two chunks with a time-out between them; the second one contains \<open>{{end}}\<close> and is not echoed.\<close>

theorem handler_echoes_witness:
  "\<exists>h. host_run host_start [Is_running True, Is_running True, Timed_out, Is_running True, Received (bytes ''Hello''),
        Is_running True, Sent_all, Is_running True, Is_running True, Received (bytes ''{{success}} {{end}}'')] = Some h \<and>
     echoed h = bytes ''Hello''"
proof -
  let ?obs = "[Is_running True, Is_running True, Timed_out, Is_running True, Received (bytes ''Hello''),
      Is_running True, Sent_all, Is_running True, Is_running True, Received (bytes ''{{success}} {{end}}'')]"
  let ?chunks = "[bytes ''Hello'', bytes ''{{success}} {{end}}'']"
  have marks: "sublist end_mark (bytes ''{{success}} {{end}}'')" "\<not> sublist end_mark (bytes ''Hello'')"
    "bytes ''Hello'' \<noteq> []" "bytes ''{{success}} {{end}}'' \<noteq> []"
    "length (bytes ''Hello'') \<le> 1024" "length (bytes ''{{success}} {{end}}'') \<le> 1024"
    by code_simp+
  then obtain h where h: "host_run host_start ?obs = Some h" "pc h = H_handle" "chunks h = ?chunks"
    by (simp add: host_start_def host_received_def)
  with handler_echoes [OF h(1)] marks show ?thesis by (simp add: echo_spec_def echo_chunk_def)
qed

text \<open>How many observations the handler can still make once the server is shut down.\<close>

fun host_rank :: "host_pc \<Rightarrow> nat" where
  "host_rank H_finished = 0"
| "host_rank (H_send d) = 2"
| "host_rank H_recv_select = 3"
| "host_rank (H_send_select d) = 3"
| "host_rank p = 1"

lemma host_step_rank:
  "host_step h ob = Some h' \<Longrightarrow> ob \<noteq> Is_running True \<Longrightarrow> host_rank (pc h') < host_rank (pc h)"
  by (cases ob) (auto simp: host_received_def split: host_pc.splits if_splits)

lemma host_run_rank:
  "host_run h obs = Some h' \<Longrightarrow> Is_running True \<notin> set obs \<Longrightarrow> length obs + host_rank (pc h') \<le> host_rank (pc h)"
  by (induction h obs rule: host_run.induct) (force dest: host_step_rank)+

lemma host_rank_bounds: "host_rank p \<le> 3" "host_rank p = 0 \<longleftrightarrow> p = H_finished"
  by (cases p; simp)+

text \<open>
  C17. The handler stops when the server is shut down: wherever it is, once \<open>isrunning()\<close> is false it makes at most three
  further observations, and if it has made three it is behind its loop.
\<close>

theorem handler_stops:
  assumes "host_run h obs = Some h'" and "Is_running True \<notin> set obs"
  shows "length obs \<le> 3 \<and> (length obs = 3 \<longrightarrow> pc h' = H_finished)"
  using host_run_rank [OF assms] host_rank_bounds(1) [of "pc h"] host_rank_bounds(2) [of "pc h'"] by linarith

text \<open>C17 applied to a handler that receives a last chunk while the server is shut down.\<close>

theorem handler_stops_witness:
  "\<exists>h'. host_run \<lparr>pc = H_recv_select, chunks = [], echoed = []\<rparr>
       [Received (bytes ''x''), Is_running False, Is_running False] = Some h' \<and> pc h' = H_finished"
proof -
  let ?h = "\<lparr>pc = H_recv_select, chunks = [], echoed = []\<rparr>"
  let ?obs = "[Received (bytes ''x''), Is_running False, Is_running False]"
  have "\<not> sublist end_mark (bytes ''x'')" "bytes ''x'' \<noteq> []" "length (bytes ''x'') \<le> 1024" by code_simp+
  then obtain h' where h': "host_run ?h ?obs = Some h'" by (simp add: host_received_def)
  with handler_stops [OF h'] show ?thesis by simp
qed

end
