(* ===== verification/UDP_Echo_Client.thy ===== *)
theory UDP_Echo_Client
  imports Echo_Harness
begin

text \<open>
  The UDP echo client (\<open>test/echo-udp-client/main.cpp\<close>), an application of the library: it resolves a host and sends it random
  bytes a hundred times, each time when the previous ones have come back unchanged. \<open>printf\<close> is left
  out; the exchange with the host that precedes the test is in \<open>Test_Setup\<close>.
\<close>

section \<open>The client\<close>

definition BUFFER_SIZE :: nat where "BUFFER_SIZE = 64"
definition MAX_ECHO_LOOPS :: u32 where "MAX_ECHO_LOOPS = 100"
definition ASCII_MAX :: nat where "ASCII_MAX = 126 - 32"

text \<open>
  The members of \<open>UDPEchoClient\<close> besides \<open>_usock\<close>, which is an object of the library, and the globals it uses: \<open>udp_alive\<close> is
  \<open>client != NULL\<close>, \<open>udp_terminates\<close> are the posted calls of \<open>terminate\<close>, \<open>rand_pos\<close> is the number of random numbers
  drawn, and the last two count the calls of \<open>eth.disconnect()\<close> and \<open>Harness::validate_callback()\<close>. The member \<open>done\<close> is never used, and the member \<open>buffer\<close> hides the global one.
\<close>

record 'w udp_client =
  ulib :: "'w world"
  udp_resolvedAddr :: SocketAddr
  udp_port :: u16
  udp_out_buffer :: "u8 list"
  udp_buffer :: "u8 list"
  loop_ctr :: u32
  udp_alive :: bool
  udp_terminates :: "bool list"
  rand_pos :: nat
  udp_eth_disconnects :: nat
  udp_validates :: nat

definition udp_onError_fp :: fp where "udp_onError_fp = Some 1"
definition udp_onDNS_fp :: fp where "udp_onDNS_fp = Some 2"
definition udp_onRx_fp :: fp where "udp_onRx_fp = Some 3"

text \<open>\<open>rnd i\<close> is the result of the \<open>i\<close>-th call of \<open>rand()\<close>, which is not negative.\<close>

definition char_rand :: "(nat \<Rightarrow> nat) \<Rightarrow> nat \<Rightarrow> u8" where
  "char_rand rnd i = of_nat (rnd i mod ASCII_MAX + 32)"

definition udp_post_terminate :: "bool \<Rightarrow> 'w udp_client \<Rightarrow> 'w udp_client" where
  "udp_post_terminate status c = c\<lparr>udp_terminates := udp_terminates c @ [status]\<rparr>"

text \<open>\<open>c0\<close> holds the members that the constructor does not initialise and the globals; \<open>s\<close> is the address of \<open>_usock\<close>.\<close>

definition UDPEchoClient_ctor ::
  "'w env \<Rightarrow> oid \<Rightarrow> socket_stack_t \<Rightarrow> Socket \<Rightarrow> 'w udp_client \<Rightarrow> echo_error + 'w udp_client" where
  "UDPEchoClient_ctor env s stk mem c0 =
     and_then (lift (setOnError s udp_onError_fp (UDPSocket_ctor env s stk mem (ulib c0)))) (\<lambda>w1.
     Inr (c0\<lparr>ulib := w1, udp_alive := True\<rparr>))"

definition UDPEchoClient_dtor :: "'w env \<Rightarrow> oid \<Rightarrow> 'w world \<Rightarrow> echo_error + 'w world" where
  "UDPEchoClient_dtor env s w =
     and_then (lift (isConnected env s w)) (\<lambda>connected.
     and_then (if connected then lift (map_option snd (Socket_close env s w)) else Inr w) (\<lambda>w1.
     lift (UDPSocket_dtor env s w1)))"

section \<open>The handlers\<close>

definition udp_start_test ::
  "'w env \<Rightarrow> oid \<Rightarrow> string option \<Rightarrow> u16 \<Rightarrow> 'w udp_client \<Rightarrow> echo_error + 'w udp_client" where
  "udp_start_test env s host_addr port c =
     and_then (lift (UDPSocket_open env s SOCKET_AF_INET4 (ulib c))) (\<lambda>(err, w1).
     test_assert (err = SOCKET_ERROR_NONE) ''UDPClient unable to open socket'' (
     and_then (lift (Socket_resolve env s host_addr udp_onDNS_fp w1)) (\<lambda>(err, w2).
     test_assert (err = SOCKET_ERROR_NONE) ''UDPClient failed to resolve host server address''
     (Inr (c\<lparr>ulib := w2, udp_port := port, loop_ctr := 0\<rparr>)))))"

definition udp_onError :: "socket_error_t \<Rightarrow> 'w udp_client \<Rightarrow> echo_error + 'w udp_client" where
  "udp_onError err c =
     test_assert (err \<noteq> SOCKET_ERROR_NONE) ''udp_onError'' (Inr (udp_post_terminate False c))"

text \<open>
  \<open>send_test\<close> fills the whole buffer and sends \<open>sizeof(BUFFER_SIZE)\<close> bytes of it: the size of the constant, which is
  an \<open>int\<close>, and not the constant.
\<close>

definition send_test ::
  "'w env \<Rightarrow> (nat \<Rightarrow> nat) \<Rightarrow> oid \<Rightarrow> 'w udp_client \<Rightarrow> echo_error + 'w udp_client" where
  "send_test env rnd s c =
     (let c1 = c\<lparr>udp_out_buffer := map (\<lambda>i. char_rand rnd (rand_pos c + i)) [0..<BUFFER_SIZE],
                 rand_pos := rand_pos c + BUFFER_SIZE\<rparr> in
     and_then (lift (Socket_send_to env s (Some (udp_out_buffer c1)) 4 (Some (udp_resolvedAddr c1)) (udp_port c1) (ulib c1)))
     (\<lambda>(err, w1).
     test_assert (err = SOCKET_ERROR_NONE) ''UDPClient failed to send data!''
     (Inr (c1\<lparr>ulib := w1\<rparr>))))"

definition udp_onDNS ::
  "'w env \<Rightarrow> (nat \<Rightarrow> nat) \<Rightarrow> oid \<Rightarrow> socket_addr \<Rightarrow> 'w udp_client \<Rightarrow> echo_error + 'w udp_client" where
  "udp_onDNS env rnd s sa c =
     (let ra = setAddr_addr (addrs env) (udp_resolvedAddr c) sa;
          c1 = c\<lparr>udp_resolvedAddr := ra, udp_out_buffer := fmt_into (addrs env) ra (udp_out_buffer c)\<rparr> in
     and_then (lift (UDPSocket_open env s SOCKET_AF_INET4 (ulib c1))) (\<lambda>(err, w1).
     test_assert (err = SOCKET_ERROR_NONE) ''UDPClient failed to open socket!'' (
     and_then (lift (setOnReadable s udp_onRx_fp w1)) (\<lambda>w2.
     send_test env rnd s (c1\<lparr>ulib := w2\<rparr>)))))"

text \<open>\<open>strlen\<close> reads on behind an array that has no zero in it, which is undefined.\<close>

definition strlen :: "u8 list \<Rightarrow> nat option" where
  "strlen b = (if 0 \<in> set b then Some (length (takeWhile (\<lambda>v. v \<noteq> 0) b)) else None)"

definition udp_onRx ::
  "'w env \<Rightarrow> (nat \<Rightarrow> nat) \<Rightarrow> oid \<Rightarrow> 'w udp_client \<Rightarrow> echo_error + 'w udp_client" where
  "udp_onRx env rnd s c =
     and_then (lift (Socket_recv env s (Some (udp_buffer c)) (Some (of_nat (length (udp_buffer c)))) (ulib c)))
     (\<lambda>((err, b, n), w1).
     test_assert (err = SOCKET_ERROR_NONE) ''UDPClient failed to recv data!'' (
     case (b, n) of (Some b1, Some n1) \<Rightarrow>
       let c1 = c\<lparr>ulib := w1, udp_buffer := b1\<rparr>; m = min BUFFER_SIZE (unat n1) in
       test_assert (take m (udp_buffer c1) = take m (udp_out_buffer c1)) ''UDPClient round trip data validation error!'' (
       let c2 = c1\<lparr>loop_ctr := loop_ctr c1 + 1\<rparr> in
       and_then (if loop_ctr c2 < MAX_ECHO_LOOPS then send_test env rnd s c2 else Inr c2) (\<lambda>c3.
       if MAX_ECHO_LOOPS \<le> loop_ctr c3
       then and_then (lift (strlen (udp_buffer c3))) (\<lambda>len.
            and_then (lift (Socket_send_to env s (Some (udp_buffer c3)) (of_nat len) (Some (udp_resolvedAddr c3))
                              (udp_port c3) (ulib c3))) (\<lambda>(_, w4).
            Inr (udp_post_terminate True (c3\<lparr>ulib := w4\<rparr>))))
       else Inr c3))
     | _ \<Rightarrow> Inl Undefined))"

definition udp_terminate :: "'w env \<Rightarrow> oid \<Rightarrow> bool \<Rightarrow> 'w udp_client \<Rightarrow> echo_error + 'w udp_client" where
  "udp_terminate env s status c =
     (if udp_alive c
      then and_then (UDPEchoClient_dtor env s (ulib c)) (\<lambda>w1.
           let c1 = c\<lparr>ulib := w1, udp_alive := False, udp_eth_disconnects := Suc (udp_eth_disconnects c)\<rparr> in
           test_assert status ''test failed!'' (Inr (c1\<lparr>udp_validates := Suc (udp_validates c1)\<rparr>)))
      else Inr c)"

text \<open>\<open>n\<close> datagrams arrive, each one after the previous one has been handled.\<close>

primrec udp_reads ::
  "'w env \<Rightarrow> (nat \<Rightarrow> nat) \<Rightarrow> oid \<Rightarrow> nat \<Rightarrow> 'w udp_client \<Rightarrow> echo_error + 'w udp_client" where
  "udp_reads env rnd s 0 c = Inr c"
| "udp_reads env rnd s (Suc n) c = and_then (udp_reads env rnd s n c) (udp_onRx env rnd s)"

section \<open>A network that echoes\<close>

text \<open>
  \<open>sent x\<close> are the bytes of the last datagram in the state \<open>x\<close> of the network. Opening a socket succeeds, sending stores the
  datagram, and reading returns it.
\<close>

definition echo_net :: "'w env \<Rightarrow> ('w \<Rightarrow> u8 list) \<Rightarrow> bool" where
  "echo_net env sent \<longleftrightarrow> (\<forall>p x s r s' rs x'.
     (\<forall>af pf h. api_create (vtable env p) af pf h x s = (r, s', rs, x') \<longrightarrow>
        r = SOCKET_ERROR_NONE \<and> impl s' \<noteq> None) \<and>
     (\<forall>b n sa port. impl s \<noteq> None \<longrightarrow> api_send_to (vtable env p) (Some b) n sa port x s = (r, s', rs, x') \<longrightarrow>
        r = SOCKET_ERROR_NONE \<and> impl s' \<noteq> None \<and> sent x' = take (unat n) b) \<and>
     (\<forall>b n res. impl s \<noteq> None \<longrightarrow> length (sent x) \<le> length b \<longrightarrow> length (sent x) \<le> unat n \<longrightarrow>
        api_recv (vtable env p) (Some b) (Some n) x s = (res, s', rs, x') \<longrightarrow>
        res = (SOCKET_ERROR_NONE, Some (sent x @ drop (length (sent x)) b), Some (of_nat (length (sent x)))) \<and>
        impl s' \<noteq> None \<and> sent x' = sent x))"

lemma echo_netD:
  assumes "echo_net env sent"
  shows "api_create (vtable env p) af pf h x s = (r, s', rs, x') \<Longrightarrow> impl s' \<noteq> None \<and> r = SOCKET_ERROR_NONE"
    "impl s \<noteq> None \<Longrightarrow> api_send_to (vtable env p) (Some b) n sa port x s = (r, s', rs, x') \<Longrightarrow>
       impl s' \<noteq> None \<and> r = SOCKET_ERROR_NONE \<and> sent x' = take (unat n) b"
    "impl s \<noteq> None \<Longrightarrow> length (sent x) \<le> length b \<Longrightarrow> length (sent x) \<le> unat n \<Longrightarrow>
       api_recv (vtable env p) (Some b) (Some n) x s = (res, s', rs, x') \<Longrightarrow>
       impl s' \<noteq> None \<and>
       res = (SOCKET_ERROR_NONE, Some (sent x @ drop (length (sent x)) b), Some (of_nat (length (sent x)))) \<and>
       sent x' = sent x"
  using assms unfolding echo_net_def by blast+

lemma create_echo:
  assumes "sal_ok env" and "echo_net env sent" and "has_sock env k s w"
    and "objs w s = Some ob" and "api (sock ob) \<noteq> None"
  shows "\<exists>w'. UDPSocket_open env s af w = Some (SOCKET_ERROR_NONE, w') \<and> open_sock env k s w'"
proof -
  have "\<exists>r w'. api_call env s (\<lambda>t. api_create t af SOCKET_DGRAM s) w = Some (r, w') \<and> open_sock env k s w' \<and>
      r = SOCKET_ERROR_NONE"
    by (rule api_call_opens [OF assms(1,3-5), where Q = "\<lambda>r x. r = SOCKET_ERROR_NONE"])
       (simp add: assms(1), rule echo_netD(1) [OF assms(2)])
  with assms(4,5) show ?thesis by (auto simp: UDPSocket_open_def Socket_open_def)
qed

lemma send_to_echo:
  assumes "sal_ok env" and "echo_net env sent" and "open_sock env k s w"
  shows "\<exists>w'. Socket_send_to env s (Some b) n (Some ra) port w = Some (SOCKET_ERROR_NONE, w') \<and>
    open_sock env k s w' \<and> sent (network w') = take (unat n) b"
proof -
  from assms(3) obtain ob where ob: "has_sock env k s w" "objs w s = Some ob" "impl (sock ob) \<noteq> None"
    "api (sock ob) \<noteq> None" by (rule open_sockD)
  have "\<exists>r w'. api_call env s (\<lambda>t. api_send_to t (Some b) n (getAddr ra) port) w = Some (r, w') \<and>
      open_sock env k s w' \<and> r = SOCKET_ERROR_NONE \<and> sent (network w') = take (unat n) b"
    by (rule api_call_opens [OF assms(1) ob(1,2,4), where Q = "\<lambda>r x. r = SOCKET_ERROR_NONE \<and> sent x = take (unat n) b"])
       (simp add: assms(1), rule echo_netD(2) [OF assms(2) ob(3)])
  with ob show ?thesis by (auto simp: Socket_send_to_def)
qed

lemma recv_echo:
  assumes "sal_ok env" and "echo_net env sent" and "open_sock env k s w"
    and "length (sent (network w)) \<le> length b" and "length (sent (network w)) \<le> unat n"
  shows "\<exists>w'. Socket_recv env s (Some b) (Some n) w =
      Some ((SOCKET_ERROR_NONE, Some (sent (network w) @ drop (length (sent (network w))) b),
             Some (of_nat (length (sent (network w))))), w') \<and>
    open_sock env k s w' \<and> sent (network w') = sent (network w)"
proof -
  from assms(3) obtain ob where ob: "has_sock env k s w" "objs w s = Some ob" "impl (sock ob) \<noteq> None"
    "api (sock ob) \<noteq> None" by (rule open_sockD)
  let ?r = "(SOCKET_ERROR_NONE, Some (sent (network w) @ drop (length (sent (network w))) b),
      Some (of_nat (length (sent (network w)))))"
  have "\<exists>r w'. api_call env s (\<lambda>t. api_recv t (Some b) (Some n)) w = Some (r, w') \<and>
      open_sock env k s w' \<and> r = ?r \<and> sent (network w') = sent (network w)"
    by (rule api_call_opens [OF assms(1) ob(1,2,4), where Q = "\<lambda>r x. r = ?r \<and> sent x = sent (network w)"])
       (simp add: assms(1), rule echo_netD(3) [OF assms(2) ob(3) assms(4,5)])
  with ob show ?thesis by (auto simp: Socket_recv_def)
qed

section \<open>A hundred echoes\<close>

text \<open>The random bytes are printable characters, so none of them is zero.\<close>

lemma char_rand_printable: "32 \<le> unat (char_rand rnd i) \<and> unat (char_rand rnd i) < 126"
proof -
  have "rnd i mod 94 < 94" by simp
  then show ?thesis by (simp add: char_rand_def ASCII_MAX_def unat_of_nat del: of_nat_add)
qed

lemma char_rand_not_0 [simp]: "char_rand rnd i \<noteq> 0"
  using char_rand_printable [of rnd i] by auto

text \<open>
  The state after \<open>k\<close> echoes. \<open>tl60\<close> are the 60 bytes of the member \<open>buffer\<close> that no echo of 4 bytes ever reaches.
\<close>

definition echoed :: "'w env \<Rightarrow> ('w \<Rightarrow> u8 list) \<Rightarrow> oid \<Rightarrow> u8 list \<Rightarrow> nat \<Rightarrow> 'w udp_client \<Rightarrow> bool" where
  "echoed env sent s tl60 k c \<longleftrightarrow>
     open_sock env K_UDPSocket s (ulib c) \<and> sent (network (ulib c)) = take 4 (udp_out_buffer c) \<and>
     length (udp_out_buffer c) = 64 \<and> 0 \<notin> set (take 4 (udp_out_buffer c)) \<and>
     length (udp_buffer c) = 64 \<and> drop 4 (udp_buffer c) = tl60 \<and>
     loop_ctr c = of_nat k \<and> udp_terminates c = []"

lemma send_test_echoed:
  assumes "sal_ok env" and "echo_net env sent" and "open_sock env K_UDPSocket s (ulib c)"
    and "length (udp_buffer c) = 64" and "loop_ctr c = of_nat k" and "udp_terminates c = []"
  shows "\<exists>c'. send_test env rnd s c = Inr c' \<and> echoed env sent s (drop 4 (udp_buffer c)) k c'"
proof -
  let ?out = "map (\<lambda>i. char_rand rnd (rand_pos c + i)) [0..<BUFFER_SIZE]"
  obtain w' where "Socket_send_to env s (Some ?out) 4 (Some (udp_resolvedAddr c)) (udp_port c) (ulib c)
      = Some (SOCKET_ERROR_NONE, w')" "open_sock env K_UDPSocket s w'" "sent (network w') = take (unat (4 :: u32)) ?out"
    using send_to_echo [OF assms(1-3)] by blast
  moreover have "0 \<notin> set ?out" by auto
  ultimately show ?thesis
    using assms(4-6) by (auto simp: send_test_def echoed_def BUFFER_SIZE_def dest: in_set_takeD)
qed

lemma recv_echoed:
  assumes "sal_ok env" and "echo_net env sent" and c: "echoed env sent s tl60 k c"
  shows "\<exists>w1. Socket_recv env s (Some (udp_buffer c)) (Some (of_nat (length (udp_buffer c)))) (ulib c) =
      Some ((SOCKET_ERROR_NONE, Some (take 4 (udp_out_buffer c) @ tl60), Some 4), w1) \<and>
    open_sock env K_UDPSocket s w1 \<and> sent (network w1) = take 4 (udp_out_buffer c)"
  using recv_echo [OF assms(1,2), of K_UDPSocket s "ulib c" "udp_buffer c" 64] c
  by (simp add: echoed_def)

lemma loop_ctr_word:
  assumes "k \<le> 99"
  shows "of_nat k + 1 < MAX_ECHO_LOOPS \<longleftrightarrow> k < 99" "MAX_ECHO_LOOPS \<le> of_nat k + 1 \<longleftrightarrow> \<not> k < 99"
proof -
  have "(of_nat k + 1 :: u32) = of_nat (Suc k)" by simp
  then have "unat (of_nat k + 1 :: u32) = Suc k" using assms by (simp only: unat_of_nat) simp
  moreover have "unat (100 :: u32) = 100" by simp
  ultimately have "(of_nat k + 1 :: u32) < 100 \<longleftrightarrow> Suc k < 100" by (simp only: word_less_nat_alt)
  then show less: "of_nat k + 1 < MAX_ECHO_LOOPS \<longleftrightarrow> k < 99" unfolding MAX_ECHO_LOOPS_def by linarith
  then show "MAX_ECHO_LOOPS \<le> of_nat k + 1 \<longleftrightarrow> \<not> k < 99" by (simp add: not_less [symmetric] del: not_less)
qed

lemma send_test_loop_ctr:
  "and_then (send_test env rnd s c) (\<lambda>c'. if MAX_ECHO_LOOPS \<le> loop_ctr c' then f c' else Inr c') =
     (if MAX_ECHO_LOOPS \<le> loop_ctr c then and_then (send_test env rnd s c) f else send_test env rnd s c)"
proof (cases "send_test env rnd s c")
  case (Inr c')
  then have "loop_ctr c' = loop_ctr c" by (auto simp: send_test_def Let_def echo_monad_Inr)
  with Inr show ?thesis by simp
qed simp

text \<open>What \<open>onRx\<close> does once the bytes that were sent have come back.\<close>

lemma onRx_received:
  assumes "Socket_recv env s (Some (udp_buffer c)) (Some (of_nat (length (udp_buffer c)))) (ulib c) =
      Some ((SOCKET_ERROR_NONE, Some (take 4 (udp_out_buffer c) @ tl60), Some 4), w1)"
    and "length (udp_out_buffer c) = 64" and "loop_ctr c = of_nat k" and "k \<le> 99"
    and "c1 = c\<lparr>ulib := w1, udp_buffer := take 4 (udp_out_buffer c) @ tl60, loop_ctr := loop_ctr c + 1\<rparr>"
  shows "udp_onRx env rnd s c =
      (if k < 99 then send_test env rnd s c1
       else and_then (lift (strlen (udp_buffer c1))) (\<lambda>len.
            and_then (lift (Socket_send_to env s (Some (udp_buffer c1)) (of_nat len) (Some (udp_resolvedAddr c1))
                              (udp_port c1) (ulib c1))) (\<lambda>(_, w4).
            Inr (udp_post_terminate True (c1\<lparr>ulib := w4\<rparr>)))))"
  using assms(1-3) loop_ctr_word [OF assms(4)]
  unfolding assms(5) by (simp add: udp_onRx_def Let_def BUFFER_SIZE_def send_test_loop_ctr)

lemma onRx_step:
  assumes "sal_ok env" and "echo_net env sent" and c: "echoed env sent s tl60 k c" and "k \<le> 99"
  shows "\<exists>c1. open_sock env K_UDPSocket s (ulib c1) \<and> udp_buffer c1 = take 4 (udp_out_buffer c) @ tl60 \<and>
    loop_ctr c1 = of_nat (Suc k) \<and> udp_terminates c1 = [] \<and>
    udp_onRx env rnd s c =
      (if k < 99 then send_test env rnd s c1
       else and_then (lift (strlen (udp_buffer c1))) (\<lambda>len.
            and_then (lift (Socket_send_to env s (Some (udp_buffer c1)) (of_nat len) (Some (udp_resolvedAddr c1))
                              (udp_port c1) (ulib c1))) (\<lambda>(_, w4).
            Inr (udp_post_terminate True (c1\<lparr>ulib := w4\<rparr>)))))"
proof -
  obtain w1 where w1: "Socket_recv env s (Some (udp_buffer c)) (Some (of_nat (length (udp_buffer c)))) (ulib c) =
      Some ((SOCKET_ERROR_NONE, Some (take 4 (udp_out_buffer c) @ tl60), Some 4), w1)"
    "open_sock env K_UDPSocket s w1" using recv_echoed [OF assms(1-3)] by blast
  have "length (udp_out_buffer c) = 64" "loop_ctr c = of_nat k" "udp_terminates c = []"
    using c by (simp_all add: echoed_def)
  with onRx_received [OF w1(1) _ _ assms(4) refl, of rnd] w1(2) show ?thesis
    by (intro exI [of _ "c\<lparr>ulib := w1, udp_buffer := take 4 (udp_out_buffer c) @ tl60, loop_ctr := loop_ctr c + 1\<rparr>"]) simp
qed

lemma onRx_echoed:
  assumes "sal_ok env" and "echo_net env sent" and "echoed env sent s tl60 k c" and "k < 99"
  shows "\<exists>c'. udp_onRx env rnd s c = Inr c' \<and> echoed env sent s tl60 (Suc k) c'"
proof -
  from assms(4) have "k \<le> 99" by simp
  from onRx_step [OF assms(1-3) this, of rnd] assms(4) obtain c1 where
    c1: "open_sock env K_UDPSocket s (ulib c1)" "udp_buffer c1 = take 4 (udp_out_buffer c) @ tl60"
      "loop_ctr c1 = of_nat (Suc k)" "udp_terminates c1 = []" "udp_onRx env rnd s c = send_test env rnd s c1"
    by auto
  have "length (udp_out_buffer c) = 64" "length tl60 = 60" using assms(3) by (auto simp: echoed_def)
  with c1(2) have "length (udp_buffer c1) = 64" "drop 4 (udp_buffer c1) = tl60" by simp_all
  with send_test_echoed [OF assms(1,2) c1(1) _ c1(3,4)] c1(5) show ?thesis by simp
qed

lemma onDNS_echoed:
  assumes "sal_ok env" and "echo_net env sent" and "has_sock env K_UDPSocket s (ulib c)"
    and "objs (ulib c) s = Some ob" and "api (sock ob) \<noteq> None"
    and "length (udp_buffer c) = 64" and "loop_ctr c = 0" and "udp_terminates c = []"
  shows "\<exists>c1. udp_onDNS env rnd s sa c = Inr c1 \<and> echoed env sent s (drop 4 (udp_buffer c)) 0 c1"
proof -
  obtain w1 where w1: "UDPSocket_open env s SOCKET_AF_INET4 (ulib c) = Some (SOCKET_ERROR_NONE, w1)"
    "open_sock env K_UDPSocket s w1" using create_echo [OF assms(1-5)] by blast
  with setOnReadable_open [OF assms(1)] obtain w2 where
    w2: "setOnReadable s udp_onRx_fp w1 = Some w2" "open_sock env K_UDPSocket s w2" by blast
  let ?ra = "setAddr_addr (addrs env) (udp_resolvedAddr c) sa"
  let ?c = "c\<lparr>udp_resolvedAddr := ?ra, udp_out_buffer := fmt_into (addrs env) ?ra (udp_out_buffer c), ulib := w2\<rparr>"
  have "udp_onDNS env rnd s sa c = send_test env rnd s ?c" using w1 w2 by (simp add: udp_onDNS_def Let_def)
  with send_test_echoed [OF assms(1,2), of s ?c 0 rnd] w2(2) assms(6-8) show ?thesis by simp
qed

text \<open>The last echo: the rest of the buffer decides whether the length of the text in it is defined.\<close>

lemma last_echo:
  assumes "sal_ok env" and "echo_net env sent" and "echoed env sent s tl60 99 c"
  shows "if 0 \<in> set tl60 then \<exists>c'. udp_onRx env rnd s c = Inr c' \<and> udp_terminates c' = [True]
    else udp_onRx env rnd s c = Inl Undefined"
proof -
  from onRx_step [OF assms, of rnd] obtain c1 where
    c1: "open_sock env K_UDPSocket s (ulib c1)" "udp_buffer c1 = take 4 (udp_out_buffer c) @ tl60"
      "udp_terminates c1 = []" and
    rx: "udp_onRx env rnd s c = and_then (lift (strlen (udp_buffer c1))) (\<lambda>len.
            and_then (lift (Socket_send_to env s (Some (udp_buffer c1)) (of_nat len) (Some (udp_resolvedAddr c1))
                              (udp_port c1) (ulib c1))) (\<lambda>(_, w4).
            Inr (udp_post_terminate True (c1\<lparr>ulib := w4\<rparr>))))"
    by auto
  have z: "0 \<in> set (udp_buffer c1) \<longleftrightarrow> 0 \<in> set tl60" using assms(3) c1(2) by (simp add: echoed_def)
  show ?thesis
  proof (cases "0 \<in> set tl60")
    case True
    then obtain len where "strlen (udp_buffer c1) = Some len" using z by (simp add: strlen_def)
    moreover obtain w4 where "Socket_send_to env s (Some (udp_buffer c1)) (of_nat len) (Some (udp_resolvedAddr c1))
        (udp_port c1) (ulib c1) = Some (SOCKET_ERROR_NONE, w4)" using send_to_echo [OF assms(1,2) c1(1)] by blast
    ultimately show ?thesis using rx c1(3) True by (simp add: udp_post_terminate_def)
  qed (use rx z in \<open>simp add: strlen_def\<close>)
qed

lemma reads_echoed:
  assumes "sal_ok env" and "echo_net env sent" and "echoed env sent s tl60 0 c" and "k \<le> 99"
  shows "\<exists>c'. udp_reads env rnd s k c = Inr c' \<and> echoed env sent s tl60 k c'"
  using assms(4)
proof (induction k)
  case 0
  with assms(3) show ?case by simp
next
  case (Suc k)
  then obtain c' where "udp_reads env rnd s k c = Inr c'" "echoed env sent s tl60 k c'" by auto
  with onRx_echoed [OF assms(1,2), of s tl60 k c' rnd] Suc.prems show ?case by simp
qed

text \<open>
  C14. The UDP echo client ends after a hundred echoes, on a network that echoes. Once the address of the host is known, the
  client sends its first datagram; each of the next 99 echoes is compared, counted and answered by a new
  datagram, without \<open>terminate\<close>. The hundredth posts \<open>terminate(true)\<close>, once, if the member
  \<open>buffer\<close> has a zero among its last 60 bytes. These bytes are never written, neither by the
  constructor nor by an echo of 4 bytes; if none of them is zero, \<open>strlen\<close> reads behind the buffer.
\<close>

theorem udp_echo_ends:
  assumes "sal_ok env" and "echo_net env sent" and "has_sock env K_UDPSocket s (ulib c)"
    and "objs (ulib c) s = Some ob" and "api (sock ob) \<noteq> None"
    and "length (udp_buffer c) = 64" and "loop_ctr c = 0" and "udp_terminates c = []"
  shows "\<exists>c1. udp_onDNS env rnd s sa c = Inr c1 \<and>
    (\<forall>k < 100. \<exists>c'. udp_reads env rnd s k c1 = Inr c' \<and> loop_ctr c' = of_nat k \<and> udp_terminates c' = []) \<and>
    (if 0 \<in> set (drop 4 (udp_buffer c))
     then \<exists>c'. udp_reads env rnd s 100 c1 = Inr c' \<and> udp_terminates c' = [True]
     else udp_reads env rnd s 100 c1 = Inl Undefined)"
proof -
  let ?tl = "drop 4 (udp_buffer c)"
  obtain c1 where c1: "udp_onDNS env rnd s sa c = Inr c1" "echoed env sent s ?tl 0 c1"
    using onDNS_echoed [OF assms] by blast
  have "\<exists>c'. udp_reads env rnd s k c1 = Inr c' \<and> loop_ctr c' = of_nat k \<and> udp_terminates c' = []" if "k < 100" for k
    using reads_echoed [OF assms(1,2) c1(2), of k rnd] that by (auto simp: echoed_def)
  moreover obtain c99 where c99: "udp_reads env rnd s 99 c1 = Inr c99" "echoed env sent s ?tl 99 c99"
    using reads_echoed [OF assms(1,2) c1(2), of 99 rnd] by auto
  have "udp_reads env rnd s 100 c1 = udp_onRx env rnd s c99"
    using udp_reads.simps(2) [of env rnd s 99 c1] c99(1) by simp
  ultimately show ?thesis using c1(1) last_echo [OF assms(1,2) c99(2), of rnd] by (intro exI [of _ c1]) simp
qed

section \<open>A sample network\<close>

text \<open>A network whose state is the last datagram.\<close>

definition datagram_recv ::
  "u8 list option \<Rightarrow> u32 option \<Rightarrow> (u8 list, socket_error_t \<times> u8 list option \<times> u32 option) eff" where
  "datagram_recv b l x s =
     (case (b, l) of
        (Some b1, Some l1) \<Rightarrow>
          let k = min (length x) (min (length b1) (unat l1))
          in ((SOCKET_ERROR_NONE, Some (take k x @ drop k b1), Some (of_nat k)), s, [], x)
      | _ \<Rightarrow> ((SOCKET_ERROR_NULL_PTR, b, l), s, [], x))"

definition datagram_send_to :: "u8 list option \<Rightarrow> u32 \<Rightarrow> socket_addr \<Rightarrow> u16 \<Rightarrow> (u8 list, socket_error_t) eff" where
  "datagram_send_to b l a p x s =
     (case b of
        None \<Rightarrow> (SOCKET_ERROR_NULL_PTR, s, [], x)
      | Some b1 \<Rightarrow> (SOCKET_ERROR_NONE, s, [], take (unat l) b1))"

definition echo_api :: "u8 list socket_api" where
  "echo_api = inert_api\<lparr>api_recv := datagram_recv, api_send_to := datagram_send_to\<rparr>"

definition udp_echo_env :: "u8 list env" where
  "udp_echo_env = one_stack_env echo_api"

definition sample_udp_client :: "u8 list udp_client" where
  "sample_udp_client = \<lparr>ulib = UDPSocket_ctor udp_echo_env 4 1 sample_mem (init_world []),
     udp_resolvedAddr = \<lparr>addr_member = sample_addr\<rparr>, udp_port = 7, udp_out_buffer = replicate 64 0,
     udp_buffer = replicate 64 0, loop_ctr = 0, udp_alive = True, udp_terminates = [], rand_pos = 0, udp_eth_disconnects = 0, udp_validates = 0\<rparr>"

lemma udp_echo_env_ok: "sal_ok udp_echo_env" "minar_ok udp_echo_env"
proof -
  have "keeps H (datagram_recv b l)" "keeps H (datagram_send_to b n a p)" for H b l n a p
    by (auto simp: keeps_def datagram_recv_def datagram_send_to_def Let_def split: option.splits)
  with inert_api_ok [where 'w = "u8 list"] have "api_ok echo_api" by (simp add: api_ok_def echo_api_def)
  then show "sal_ok udp_echo_env" "minar_ok udp_echo_env" by (simp_all add: udp_echo_env_def one_stack_env_ok)
qed

lemma udp_echo_env_echoes: "echo_net udp_echo_env (\<lambda>x. x)"
  by (auto simp: echo_net_def udp_echo_env_def one_stack_env_def echo_api_def inert_api_def datagram_recv_def
      datagram_send_to_def min_absorb1 Let_def)

lemma sample_udp_sock: "has_sock udp_echo_env K_UDPSocket 4 (ulib sample_udp_client)"
  using udp_class.ctor_law [OF udp_echo_env_ok(2) wf_init, of 4 "[]" 1 sample_mem]
  by (auto simp: sample_udp_client_def has_sock_def) (auto simp: init_world_def)

text \<open>C14 applied to a client whose buffer is filled with zeros: the hundredth echo ends the test.\<close>

theorem udp_echo_ends_witness:
  "\<exists>c1 c'. udp_onDNS udp_echo_env (\<lambda>i. i * i) 4 sample_addr sample_udp_client = Inr c1 \<and>
     udp_reads udp_echo_env (\<lambda>i. i * i) 4 100 c1 = Inr c' \<and> udp_terminates c' = [True]"
proof -
  obtain ob where "objs (ulib sample_udp_client) 4 = Some ob" "api (sock ob) \<noteq> None"
    by (auto simp: sample_udp_client_def UDPSocket_ctor_def Socket_ctor_def udp_echo_env_def one_stack_env_def Let_def)
  from udp_echo_ends [OF udp_echo_env_ok(1) udp_echo_env_echoes sample_udp_sock this, of "\<lambda>i. i * i" sample_addr]
  show ?thesis by (auto simp: sample_udp_client_def simp del: udp_reads.simps)
qed

section \<open>The end of the test\<close>

lemma udp_terminate_ends:
  assumes "sal_ok env" and "has_sock env K_UDPSocket s (ulib c)" and "udp_alive c"
  shows "\<exists>c'. udp_terminate env s True c = Inr c' \<and> \<not> udp_alive c' \<and> wf_world env (ulib c') \<and>
    dom (objs (ulib c')) = dom (objs (ulib c)) - {s} \<and> udp_eth_disconnects c' = Suc (udp_eth_disconnects c) \<and>
    udp_validates c' = Suc (udp_validates c) \<and> udp_terminate env s status c' = Inr c' \<and>
    udp_terminate env s False c = Inl (Assertion ''test failed!'')"
proof -
  from udp_class.close_and_delete [OF assms(1,2)] obtain w' where "UDPEchoClient_dtor env s (ulib c) = Inr w'"
    "wf_world env w'" "dom (objs w') = dom (objs (ulib c)) - {s}" unfolding UDPEchoClient_dtor_def by blast
  with assms(3) show ?thesis
    by (intro exI [of _ "c\<lparr>ulib := w', udp_alive := False, udp_eth_disconnects := Suc (udp_eth_disconnects c),
        udp_validates := Suc (udp_validates c)\<rparr>"]) (simp add: udp_terminate_def)
qed

end
