(* ===== verification/UDP_Session.thy ===== *)
theory UDP_Session
  imports UDP_Echo_Client
begin

text \<open>
  The UDP echo test as a whole: the client on the target, the handler on the host (\<open>test/host_tests/udpecho_client_auto.py\<close>), and a network
  that keeps the datagrams of each direction in order and may lose some.
\<close>

section \<open>The network and the host\<close>

text \<open>
  A datagram to the server carries the address of its sender; \<open>own\<close> is the address of the client's socket.
\<close>

record 'w dgrams =
  own :: "socket_addr \<times> u16"
  to_server :: "'w \<Rightarrow> (u8 list \<times> socket_addr \<times> u16) list"
  to_client :: "'w \<Rightarrow> u8 list list"
  set_dgrams :: "(u8 list \<times> socket_addr \<times> u16) list \<Rightarrow> u8 list list \<Rightarrow> 'w \<Rightarrow> 'w"

text \<open>\<open>UDPEchoClientHandler.handle\<close>: the data of a request and the address they are sent to.\<close>

definition udp_handle :: "u8 list \<times> 'a \<Rightarrow> u8 list \<times> 'a" where
  "udp_handle request = (let (data, client_address) = request in (data, client_address))"







section \<open>The steps of the session\<close>

text \<open>
  The host takes a datagram and its handler answers it. A readable event runs the client's handler, as long as \<open>terminate\<close> has not been
  posted, which runs before any later callback and destroys the socket. A network that is \<open>lossy\<close> drops a datagram
  of either direction.
\<close>

definition on_network :: "('w \<Rightarrow> 'w) \<Rightarrow> 'w udp_client \<Rightarrow> 'w udp_client" where
  "on_network f c = c\<lparr>ulib := (ulib c)\<lparr>network := f (network (ulib c))\<rparr>\<rparr>"

definition host_answers_dgram :: "'w dgrams \<Rightarrow> 'w \<Rightarrow> 'w" where
  "host_answers_dgram D x =
     (let (data, address) = udp_handle (hd (to_server D x))
      in set_dgrams D (tl (to_server D x)) (to_client D x @ (if address = own D then [data] else [])) x)"

inductive udp_step ::
  "'w env \<Rightarrow> (nat \<Rightarrow> nat) \<Rightarrow> oid \<Rightarrow> 'w dgrams \<Rightarrow> bool \<Rightarrow> 'w udp_client \<Rightarrow> echo_error + 'w udp_client \<Rightarrow> bool"
  for env rnd s D lossy where
  readable: "udp_terminates c = [] \<Longrightarrow> to_client D (network (ulib c)) \<noteq> [] \<Longrightarrow>
     udp_step env rnd s D lossy c (udp_onRx env rnd s c)"
| host_handles: "to_server D (network (ulib c)) \<noteq> [] \<Longrightarrow>
     udp_step env rnd s D lossy c (Inr (on_network (host_answers_dgram D) c))"
| lost_request: "lossy \<Longrightarrow> to_server D (network (ulib c)) = r # rs \<Longrightarrow>
     udp_step env rnd s D lossy c (Inr (on_network (\<lambda>x. set_dgrams D rs (to_client D x) x) c))"
| lost_answer: "lossy \<Longrightarrow> to_client D (network (ulib c)) = d # ds \<Longrightarrow>
     udp_step env rnd s D lossy c (Inr (on_network (\<lambda>x. set_dgrams D (to_server D x) ds x) c))"

inductive_cases udp_stepE: "udp_step env rnd s D lossy c r"


section \<open>The invariant and the work left\<close>














section \<open>Properties\<close>


section \<open>A sample network\<close>












end
