(* ===== verification/Server_Threads.thy ===== *)
theory Server_Threads
  imports Host_Echo_Server UDP_Session
begin

text \<open>
  The two threads of a host test (\<open>test/host_tests/*.py\<close>): the main thread, whose \<open>teardown\<close> shuts the server down and joins its
  thread, and the server's thread, which runs \<open>serve_forever\<close> and in it the handlers of the requests. They share the
  flag \<open>running\<close> of \<open>TCPServerWrapper\<close> and the two members of the standard library's server,
  \<open>__shutdown_request\<close> and \<open>__is_shut_down\<close>.
\<close>

section \<open>The threads\<close>

text \<open>
  Where the server's thread is: before \<open>self.running = True\<close> in the wrapper's \<open>serve_forever\<close>; before \<open>__is_shut_down.clear()\<close>; at the
  condition of the library's loop; in its \<open>select\<close>; in a handler; at the two statements of the \<open>finally\<close> clause; or
  at its end. The main thread is before the two assignments of \<open>shutdown\<close>, in \<open>__is_shut_down.wait()\<close>,
  in \<open>join\<close>, or behind \<open>teardown\<close>.
\<close>

datatype 'h server_pc = T_start | T_clear | T_loop | T_select | T_handle 'h | T_finally | T_set | T_done

datatype main_pc = M_shutdown | M_request | M_wait | M_join | M_returned

record 'h threads =
  srv_running :: bool
  shutdown_request :: bool
  is_shut_down :: bool
  server_pc :: "'h server_pc"
  main_pc :: main_pc

text \<open>
  A class of handlers: a new one for a request, its steps, which read the flag \<open>running\<close>, and when it has returned.
\<close>

record ('q, 'h, 'o) request_handler =
  handler_new :: "'q \<Rightarrow> 'h"
  handler_step :: "bool \<Rightarrow> 'h \<Rightarrow> 'o \<Rightarrow> 'h option"
  handler_done :: "'h \<Rightarrow> bool"

text \<open>
  Which thread moves, and what it observes: \<open>Requested\<close> is a request that \<open>select\<close> reports and \<open>get_request\<close> returns, \<open>Idle\<close> a
  \<open>select\<close> that times out or a \<open>get_request\<close> that fails.
\<close>

datatype ('q, 'o) thread_event = Main | Server | Requested 'q | Idle | Handler 'o

fun server_step :: "('q, 'h, 'o) request_handler \<Rightarrow> 'h threads \<Rightarrow> 'h threads option" where
  "server_step H t =
     (case server_pc t of
        T_start \<Rightarrow> Some (t\<lparr>srv_running := True, server_pc := T_clear\<rparr>)
      | T_clear \<Rightarrow> Some (t\<lparr>is_shut_down := False, server_pc := T_loop\<rparr>)
      | T_loop \<Rightarrow> Some (t\<lparr>server_pc := if shutdown_request t then T_finally else T_select\<rparr>)
      | T_handle h \<Rightarrow> if handler_done H h then Some (t\<lparr>server_pc := T_loop\<rparr>) else None
      | T_finally \<Rightarrow> Some (t\<lparr>shutdown_request := False, server_pc := T_set\<rparr>)
      | T_set \<Rightarrow> Some (t\<lparr>is_shut_down := True, server_pc := T_done\<rparr>)
      | _ \<Rightarrow> None)"

fun main_step :: "'h threads \<Rightarrow> 'h threads option" where
  "main_step t =
     (case main_pc t of
        M_shutdown \<Rightarrow> Some (t\<lparr>srv_running := False, main_pc := M_request\<rparr>)
      | M_request \<Rightarrow> Some (t\<lparr>shutdown_request := True, main_pc := M_wait\<rparr>)
      | M_wait \<Rightarrow> if is_shut_down t then Some (t\<lparr>main_pc := M_join\<rparr>) else None
      | M_join \<Rightarrow> (case server_pc t of T_done \<Rightarrow> Some (t\<lparr>main_pc := M_returned\<rparr>) | _ \<Rightarrow> None)
      | M_returned \<Rightarrow> None)"

fun thread_step ::
  "('q, 'h, 'o) request_handler \<Rightarrow> 'h threads \<Rightarrow> ('q, 'o) thread_event \<Rightarrow> 'h threads option" where
  "thread_step H t Main = main_step t"
| "thread_step H t Server = server_step H t"
| "thread_step H t (Requested q) =
     (case server_pc t of T_select \<Rightarrow> Some (t\<lparr>server_pc := T_handle (handler_new H q)\<rparr>) | _ \<Rightarrow> None)"
| "thread_step H t Idle = (case server_pc t of T_select \<Rightarrow> Some (t\<lparr>server_pc := T_loop\<rparr>) | _ \<Rightarrow> None)"
| "thread_step H t (Handler ob) =
     (case server_pc t of
        T_handle h \<Rightarrow> map_option (\<lambda>h'. t\<lparr>server_pc := T_handle h'\<rparr>) (handler_step H (srv_running t) h ob)
      | _ \<Rightarrow> None)"

fun thread_run ::
  "('q, 'h, 'o) request_handler \<Rightarrow> 'h threads \<Rightarrow> ('q, 'o) thread_event list \<Rightarrow> 'h threads option" where
  "thread_run H t [] = Some t"
| "thread_run H t (e # es) = do { t1 \<leftarrow> thread_step H t e; thread_run H t1 es }"

text \<open>
  \<open>TCPEchoClientHandler\<close>, whose \<open>isrunning()\<close> returns the flag, and \<open>UDPEchoClientHandler\<close>, which sends one answer and never
  reads the flag.
\<close>

definition tcp_request_handler :: "(unit, host, host_obs) request_handler" where
  "tcp_request_handler = \<lparr>
     handler_new = (\<lambda>_. host_start),
     handler_step = (\<lambda>r h ob. if ob = Is_running (\<not> r) then None else host_step h ob),
     handler_done = (\<lambda>h. pc h = H_finished)\<rparr>"

datatype 'a udp_host = U_sendto "u8 list" 'a | U_finished "(u8 list \<times> 'a) option"

datatype udp_obs = Datagram_sent | Sendto_raised

fun udp_host_step :: "'a udp_host \<Rightarrow> udp_obs \<Rightarrow> 'a udp_host option" where
  "udp_host_step (U_sendto d a) ob = Some (U_finished (if ob = Datagram_sent then Some (d, a) else None))"
| "udp_host_step (U_finished r) ob = None"

definition udp_request_handler :: "(u8 list \<times> 'a, 'a udp_host, udp_obs) request_handler" where
  "udp_request_handler = \<lparr>
     handler_new = (\<lambda>q. case udp_handle q of (d, a) \<Rightarrow> U_sendto d a),
     handler_step = (\<lambda>r h ob. udp_host_step h ob),
     handler_done = (\<lambda>h. case h of U_finished r \<Rightarrow> True | _ \<Rightarrow> False)\<rparr>"

text \<open>
  The threads when \<open>setup_tcp_server\<close> has started the server's thread. A \<open>UDPServer\<close> has no wrapper: both threads start at the
  library's own functions.
\<close>

definition tcp_threads_init :: "host threads" where
  "tcp_threads_init = \<lparr>srv_running = False, shutdown_request = False, is_shut_down = False, server_pc = T_start,
     main_pc = M_shutdown\<rparr>"

definition udp_threads_init :: "'a udp_host threads" where
  "udp_threads_init = \<lparr>srv_running = False, shutdown_request = False, is_shut_down = False, server_pc = T_clear,
     main_pc = M_request\<rparr>"

section \<open>Shutting down\<close>

text \<open>The shutdown has been requested.\<close>

definition requested :: "'h threads \<Rightarrow> bool" where
  "requested t \<longleftrightarrow> main_pc t \<noteq> M_shutdown \<and> main_pc t \<noteq> M_request"

text \<open>What holds once the wrapper's \<open>serve_forever\<close> has set the flag.\<close>

definition threads_inv :: "'h threads \<Rightarrow> bool" where
  "threads_inv t \<longleftrightarrow>
     server_pc t \<noteq> T_start \<and> (main_pc t \<noteq> M_shutdown \<longrightarrow> \<not> srv_running t) \<and>
     (requested t \<longrightarrow> shutdown_request t \<or> server_pc t \<in> {T_set, T_done}) \<and>
     (\<not> requested t \<longrightarrow> \<not> shutdown_request t \<and> server_pc t \<notin> {T_finally, T_set, T_done}) \<and>
     (is_shut_down t \<longleftrightarrow> server_pc t = T_done) \<and> (main_pc t \<in> {M_join, M_returned} \<longrightarrow> server_pc t = T_done)"

lemmas threads_inv_defs = threads_inv_def requested_def

lemma main_step_inv: "threads_inv t \<Longrightarrow> main_step t = Some t' \<Longrightarrow> threads_inv t'"
  by (cases "main_pc t"; cases "server_pc t") (auto simp: threads_inv_defs split: if_splits)

lemma server_step_inv: "threads_inv t \<Longrightarrow> server_step H t = Some t' \<Longrightarrow> threads_inv t'"
  by (cases "server_pc t"; cases "main_pc t") (auto simp: threads_inv_defs split: if_splits)

lemma thread_step_inv: "threads_inv t \<Longrightarrow> thread_step H t e = Some t' \<Longrightarrow> threads_inv t'"
proof (cases e)
  case Main
  then show "threads_inv t \<Longrightarrow> thread_step H t e = Some t' \<Longrightarrow> threads_inv t'"
    by (simp only: thread_step.simps main_step_inv)
next
  case Server
  then show "threads_inv t \<Longrightarrow> thread_step H t e = Some t' \<Longrightarrow> threads_inv t'"
    by (simp only: thread_step.simps server_step_inv)
qed (cases "server_pc t"; auto simp: threads_inv_defs)+

lemma thread_run_inv: "threads_inv t \<Longrightarrow> thread_run H t es = Some t' \<Longrightarrow> threads_inv t'"
  by (induction H t es rule: thread_run.induct) (auto simp: bind_eq_Some_conv dest: thread_step_inv)

lemma threads_inv_init: "threads_inv udp_threads_init"
  by (simp add: threads_inv_defs udp_threads_init_def)

text \<open>
  The contract of a handler that a shutdown relies on: while \<open>running\<close> is false it makes a bounded number of steps, and it can
  always go on until it has returned.
\<close>

locale stopping_handler =
  fixes H :: "('q, 'h, 'o) request_handler"
    and rank :: "'h \<Rightarrow> nat"
    and bound :: nat
  assumes step_rank: "handler_step H False h ob = Some h' \<Longrightarrow> rank h' < rank h"
    and rank_bound: "rank h \<le> bound"
    and can_go_on: "\<not> handler_done H h \<Longrightarrow> \<exists>ob h'. handler_step H r h ob = Some h'"
begin

text \<open>How many steps the two threads can still make.\<close>

fun server_rank :: "'h server_pc \<Rightarrow> nat" where
  "server_rank T_done = 0"
| "server_rank T_set = 1"
| "server_rank T_finally = 2"
| "server_rank T_loop = 3"
| "server_rank (T_handle h) = 4 + rank h"
| "server_rank T_select = 5 + bound"
| "server_rank p = 4"

fun main_rank :: "main_pc \<Rightarrow> nat" where
  "main_rank M_wait = 2"
| "main_rank M_join = 1"
| "main_rank p = 0"

abbreviation work_left :: "'h threads \<Rightarrow> nat" where
  "work_left t \<equiv> server_rank (server_pc t) + main_rank (main_pc t)"

lemma main_step_work: "threads_inv t \<Longrightarrow> requested t \<Longrightarrow> main_step t = Some t' \<Longrightarrow> requested t' \<and> work_left t' < work_left t"
  by (cases "main_pc t"; cases "server_pc t") (auto simp: threads_inv_defs split: if_splits)

lemma server_step_work:
  "threads_inv t \<Longrightarrow> requested t \<Longrightarrow> server_step H t = Some t' \<Longrightarrow> requested t' \<and> work_left t' < work_left t"
  by (cases "server_pc t") (auto simp: threads_inv_defs split: if_splits)

lemma step_work:
  assumes "threads_inv t" and "requested t" and "thread_step H t e = Some t'"
  shows "requested t' \<and> work_left t' < work_left t"
proof (cases e)
  case Main
  with assms main_step_work show ?thesis by (simp only: thread_step.simps)
next
  case Server
  with assms server_step_work show ?thesis by (simp only: thread_step.simps)
next
  case (Requested q)
  with assms rank_bound [of "handler_new H q"] show ?thesis by (cases "server_pc t") (auto simp: requested_def)
next
  case Idle
  with assms show ?thesis by (cases "server_pc t") (auto simp: requested_def)
next
  case (Handler ob)
  with assms show ?thesis by (cases "server_pc t") (auto simp: threads_inv_defs dest: step_rank)
qed

lemma run_work:
  "threads_inv t \<Longrightarrow> requested t \<Longrightarrow> thread_run H t es = Some t' \<Longrightarrow> length es + work_left t' \<le> work_left t"
proof (induction es arbitrary: t)
  case (Cons e es)
  from Cons.prems(3) obtain t1 where t1: "thread_step H t e = Some t1" "thread_run H t1 es = Some t'"
    by (auto simp: bind_eq_Some_conv)
  with step_work [OF Cons.prems(1,2) t1(1)] Cons.IH [OF thread_step_inv [OF Cons.prems(1) t1(1)]]
  show ?case by fastforce
qed simp

lemma work_bound: "work_left t \<le> 7 + bound"
proof -
  have "server_rank (server_pc t) \<le> 5 + bound"
    by (cases "server_pc t") (use rank_bound in \<open>auto intro: le_SucI\<close>)
  moreover have "main_rank (main_pc t) \<le> 2" by (cases "main_pc t") simp_all
  ultimately show ?thesis by linarith
qed

text \<open>Until \<open>teardown\<close> has returned, a thread can move.\<close>

lemma not_stuck:
  assumes "threads_inv t" and "\<And>e. thread_step H t e = None"
  shows "main_pc t = M_returned \<and> server_pc t = T_done"
proof -
  note main = assms(2) [of Main] and server = assms(2) [of Server]
  have "server_pc t = T_done"
  proof (cases "server_pc t")
    case T_select
    with assms(2) [of Idle] show ?thesis by simp
  next
    case (T_handle h)
    with server have "\<not> handler_done H h" by auto
    from can_go_on [OF this, of "srv_running t"] obtain ob h' where "handler_step H (srv_running t) h ob = Some h'" by blast
    with assms(2) [of "Handler ob"] T_handle show ?thesis by simp
  qed (use server in auto)
  with assms(1) main show ?thesis by (cases "main_pc t") (auto simp: threads_inv_defs)
qed

lemma shutdown_returns:
  assumes "threads_inv t" and "thread_run H t es = Some t'"
  shows "(\<not> requested t' \<longrightarrow> (\<exists>t''. thread_step H t' Main = Some t'')) \<and>
    (requested t' \<longrightarrow> (\<forall>es' t''. thread_run H t' es' = Some t'' \<longrightarrow> length es' \<le> 7 + bound)) \<and>
    ((\<forall>e. thread_step H t' e = None) \<longrightarrow> main_pc t' = M_returned \<and> server_pc t' = T_done)"
proof -
  have inv: "threads_inv t'" by (rule thread_run_inv [OF assms])
  have "\<exists>t''. thread_step H t' Main = Some t''" if "\<not> requested t'"
    using that by (cases "main_pc t'") (simp_all add: requested_def)
  moreover have "length es' \<le> 7 + bound" if "requested t'" "thread_run H t' es' = Some t''" for es' t''
    using run_work [OF inv that] work_bound [of t'] by linarith
  moreover have "main_pc t' = M_returned \<and> server_pc t' = T_done" if "\<forall>e. thread_step H t' e = None"
    by (rule not_stuck [OF inv]) (use that in simp)
  ultimately show ?thesis by blast
qed

end

interpretation tcp_handler: stopping_handler tcp_request_handler "\<lambda>h. host_rank (pc h)" 3
proof
  show "handler_step tcp_request_handler False h ob = Some h' \<Longrightarrow> host_rank (pc h') < host_rank (pc h)" for h ob h'
    using host_step_rank [of h ob h'] by (auto simp: tcp_request_handler_def split: if_splits)
  show "host_rank (pc h) \<le> 3" for h by (rule host_rank_bounds)
  show "\<exists>ob h'. handler_step tcp_request_handler r h ob = Some h'" if "\<not> handler_done tcp_request_handler h" for h r
  proof (cases "pc h")
    case H_recv_select
    then show ?thesis by (intro exI [of _ Timed_out]) (simp add: tcp_request_handler_def)
  next
    case (H_send_select d)
    then show ?thesis by (intro exI [of _ Timed_out]) (simp add: tcp_request_handler_def)
  qed (use that in \<open>auto simp: tcp_request_handler_def intro!: exI [of _ "Is_running r"]\<close>)
qed

interpretation udp_handler: stopping_handler udp_request_handler "\<lambda>h. case h of U_sendto d a \<Rightarrow> 1 | _ \<Rightarrow> 0" 1
  by unfold_locales (auto simp: udp_request_handler_def split: udp_host.splits elim!: udp_host_step.elims)

section \<open>Properties\<close>

text \<open>A run in which the main thread has not moved, and the server's thread has.\<close>

lemma main_moved: "thread_run H t es = Some t' \<Longrightarrow> main_pc t \<noteq> M_shutdown \<Longrightarrow> main_pc t' \<noteq> M_shutdown"
proof (induction es arbitrary: t)
  case (Cons e es)
  from Cons.prems(1) obtain t1 where t1: "thread_step H t e = Some t1" "thread_run H t1 es = Some t'"
    by (auto simp: bind_eq_Some_conv)
  have "main_pc t1 \<noteq> M_shutdown"
    using t1(1) Cons.prems(2) by (cases e) (auto split: main_pc.splits server_pc.splits if_splits)
  with Cons.IH [OF t1(2)] show ?case by blast
qed simp

lemma started_inv:
  assumes "thread_run tcp_request_handler tcp_threads_init es = Some t" and "main_pc t = M_shutdown" and "server_pc t \<noteq> T_start"
  shows "threads_inv t"
proof (cases es)
  case Nil
  with assms show ?thesis by (auto simp: tcp_threads_init_def)
next
  case (Cons e es1)
  with assms(1) obtain t1 where t1: "thread_step tcp_request_handler tcp_threads_init e = Some t1"
    "thread_run tcp_request_handler t1 es1 = Some t" by (auto simp: bind_eq_Some_conv)
  with main_moved [OF t1(2)] assms(2) have "threads_inv t1"
    by (cases e) (auto simp: tcp_threads_init_def threads_inv_defs)
  then show ?thesis by (rule thread_run_inv [OF _ t1(2)])
qed

text \<open>
  C16. The host's \<open>teardown\<close> returns. Let the server's thread have entered \<open>serve_forever\<close> when \<open>teardown\<close> is called, and let the two
  threads interleave in any way, whatever the client does: until the shutdown is requested the main thread can always move;
  from then on at most ten steps are left, although a handler may be in the middle of its polling; and when
  neither thread can move, the server's thread has ended and \<open>teardown\<close> has joined it. That \<open>running\<close>
  is cleared before the library's \<open>shutdown\<close> waits is what makes it so.
\<close>

theorem teardown_returns:
  assumes "thread_run tcp_request_handler tcp_threads_init es0 = Some t0" and "main_pc t0 = M_shutdown"
    and "server_pc t0 \<noteq> T_start" and "thread_run tcp_request_handler t0 es = Some t"
  shows "(\<not> requested t \<longrightarrow> (\<exists>t'. thread_step tcp_request_handler t Main = Some t')) \<and>
    (requested t \<longrightarrow> (\<forall>es' t'. thread_run tcp_request_handler t es' = Some t' \<longrightarrow> length es' \<le> 10)) \<and>
    ((\<forall>e. thread_step tcp_request_handler t e = None) \<longrightarrow> main_pc t = M_returned \<and> server_pc t = T_done)"
proof -
  have "threads_inv t0" using assms(1-3) by (rule started_inv)
  from tcp_handler.shutdown_returns [OF this assms(4)] show ?thesis by simp
qed

text \<open>C16 applied to a handler that waits for data when \<open>teardown\<close> is called.\<close>

definition sample_serving :: "(unit, host_obs) thread_event list" where
  "sample_serving = [Server, Server, Server, Requested (), Handler (Is_running True), Handler (Is_running True)]"

definition sample_shutdown :: "(unit, host_obs) thread_event list" where
  "sample_shutdown = [Main, Main, Handler Timed_out, Handler (Is_running False), Server, Server, Server, Server, Main, Main]"

theorem teardown_returns_witness:
  "\<exists>t0 t. thread_run tcp_request_handler tcp_threads_init sample_serving = Some t0 \<and>
     thread_run tcp_request_handler t0 sample_shutdown = Some t \<and> main_pc t = M_returned \<and> server_pc t = T_done"
proof -
  let ?h = "\<lparr>pc = H_recv_select, chunks = [], echoed = []\<rparr>"
  let ?s = "\<lparr>srv_running = True, shutdown_request = False, is_shut_down = False, server_pc = T_handle ?h, main_pc = M_shutdown\<rparr>"
  let ?t = "\<lparr>srv_running = False, shutdown_request = False, is_shut_down = True, server_pc = T_done, main_pc = M_returned\<rparr>"
  have t0: "thread_run tcp_request_handler tcp_threads_init sample_serving = Some ?s"
    by code_simp
  have t: "thread_run tcp_request_handler ?s sample_shutdown = Some ?t"
    by (simp add: sample_shutdown_def tcp_request_handler_def host_received_def)
  have "thread_step tcp_request_handler ?t e = None" for e by (cases e) simp_all
  with teardown_returns [OF t0 _ _ t] t0 t show ?thesis by simp
qed

text \<open>The same for the UDP test, whose handlers do not loop.\<close>

theorem udp_teardown_returns:
  assumes "thread_run udp_request_handler udp_threads_init es = Some t"
  shows "(\<not> requested t \<longrightarrow> (\<exists>t'. thread_step udp_request_handler t Main = Some t')) \<and>
    (requested t \<longrightarrow> (\<forall>es' t'. thread_run udp_request_handler t es' = Some t' \<longrightarrow> length es' \<le> 8)) \<and>
    ((\<forall>e. thread_step udp_request_handler t e = None) \<longrightarrow> main_pc t = M_returned \<and> server_pc t = T_done)"
  using udp_handler.shutdown_returns [OF threads_inv_init assms] by simp

text \<open>
  A shutdown that comes before the server's thread has set the flag.
\<close>

definition sample_late_start :: "(unit, host_obs) thread_event list" where
  "sample_late_start =
     [Main, Server, Server, Server, Requested (), Main, Handler (Is_running True)]"

text \<open>The handler polls, the flag is set again, and the main thread waits.\<close>

definition hanging :: "host threads \<Rightarrow> bool" where
  "hanging t \<longleftrightarrow> main_pc t = M_wait \<and> srv_running t \<and> \<not> is_shut_down t \<and>
     (\<exists>h. server_pc t = T_handle h \<and> pc h \<in> {H_recv, H_recv_select})"

definition silent_client :: "(unit, host_obs) thread_event list \<Rightarrow> bool" where
  "silent_client es \<longleftrightarrow> Handler Raised \<notin> set es \<and> (\<forall>d. Handler (Received d) \<notin> set es)"

lemma hanging_step:
  assumes "hanging t" and "thread_step tcp_request_handler t e = Some t'" and "silent_client [e]"
  shows "hanging t'"
proof (cases e)
  case (Handler ob)
  with assms show ?thesis
    by (cases ob) (auto simp: hanging_def silent_client_def tcp_request_handler_def split: if_splits)
qed (use assms in \<open>auto simp: hanging_def tcp_request_handler_def split: if_splits\<close>)

lemma hanging_run:
  "thread_run tcp_request_handler t es = Some t' \<Longrightarrow> hanging t \<Longrightarrow> silent_client es \<Longrightarrow> hanging t'"
proof (induction es arbitrary: t)
  case (Cons e es)
  from Cons.prems(1) obtain t1 where t1: "thread_step tcp_request_handler t e = Some t1"
    "thread_run tcp_request_handler t1 es = Some t'" by (auto simp: bind_eq_Some_conv)
  have "silent_client [e]" "silent_client es" using Cons.prems(3) by (auto simp: silent_client_def)
  with Cons.IH [OF t1(2)] hanging_step [OF Cons.prems(2) t1(1)] show ?case by blast
qed simp

text \<open>
  A shutdown that is complete before the server's thread starts: the loop of the library sees the request at once.
\<close>

definition early_inv :: "host threads \<Rightarrow> bool" where
  "early_inv t \<longleftrightarrow> requested t \<and> server_pc t \<in> {T_start, T_clear, T_loop, T_finally, T_set, T_done} \<and>
     (shutdown_request t \<or> server_pc t \<in> {T_set, T_done}) \<and> (is_shut_down t \<longleftrightarrow> server_pc t = T_done) \<and>
     (main_pc t \<in> {M_join, M_returned} \<longrightarrow> server_pc t = T_done)"

fun early_rank :: "host server_pc \<Rightarrow> nat" where
  "early_rank T_start = 5"
| "early_rank T_clear = 4"
| "early_rank T_loop = 3"
| "early_rank T_finally = 2"
| "early_rank T_set = 1"
| "early_rank p = 0"

definition early_work :: "host threads \<Rightarrow> nat" where
  "early_work t = early_rank (server_pc t) + (case main_pc t of M_wait \<Rightarrow> 2 | M_join \<Rightarrow> 1 | _ \<Rightarrow> 0)"

lemma early_step:
  assumes "early_inv t" and "thread_step tcp_request_handler t e = Some t'"
  shows "early_inv t' \<and> early_work t' < early_work t"
proof (cases e)
  case Main
  with assms show ?thesis
    by (cases "main_pc t"; cases "server_pc t") (auto simp: early_inv_def early_work_def requested_def split: if_splits)
next
  case Server
  with assms show ?thesis
    by (cases "server_pc t"; cases "main_pc t") (auto simp: early_inv_def early_work_def requested_def)
qed (use assms in \<open>cases "server_pc t"; auto simp: early_inv_def\<close>)+

lemma early_run:
  "thread_run tcp_request_handler t es = Some t' \<Longrightarrow> early_inv t \<Longrightarrow> early_inv t' \<and> length es + early_work t' \<le> early_work t"
proof (induction es arbitrary: t)
  case (Cons e es)
  from Cons.prems(1) obtain t1 where t1: "thread_step tcp_request_handler t e = Some t1"
    "thread_run tcp_request_handler t1 es = Some t'" by (auto simp: bind_eq_Some_conv)
  with early_step [OF Cons.prems(2) t1(1)] Cons.IH [OF t1(2)] show ?case by fastforce
qed simp

lemma early_not_stuck:
  assumes "early_inv t" and "\<And>e. thread_step tcp_request_handler t e = None"
  shows "main_pc t = M_returned"
proof -
  have "server_pc t = T_done" using assms(2) [of Server] assms(1) by (cases "server_pc t") (auto simp: early_inv_def)
  with assms(1) assms(2) [of Main] show ?thesis by (cases "main_pc t") (auto simp: early_inv_def requested_def)
qed

text \<open>
  C38. A \<open>teardown\<close> that is called before the server's thread has run. \<open>serve_forever\<close> sets \<open>running\<close> in that thread, and \<open>shutdown\<close> clears it and then
  requests the shutdown, in two assignments. If both come before the thread runs, all is well: at most seven steps are left and
  \<open>teardown\<close> returns. But there is an interleaving, in which the thread starts and takes a connection between the two, after
  which the main thread waits for the server and the server's handler polls with \<open>running\<close> set; from there \<open>teardown\<close> does
  not return in any run in which the client neither sends nor closes.
\<close>

theorem late_start_hangs:
  "(\<exists>t. thread_run tcp_request_handler tcp_threads_init sample_late_start = Some t \<and>
      (\<forall>es t'. thread_run tcp_request_handler t es = Some t' \<and> silent_client es \<longrightarrow> main_pc t' = M_wait) \<and>
      thread_run tcp_request_handler t [Handler (Is_running True), Handler Timed_out] = Some t) \<and>
   (\<forall>t0 es t. thread_run tcp_request_handler tcp_threads_init [Main, Main] = Some t0 \<and>
      thread_run tcp_request_handler t0 es = Some t \<longrightarrow>
      length es \<le> 7 \<and> ((\<forall>e. thread_step tcp_request_handler t e = None) \<longrightarrow> main_pc t = M_returned))"
proof (intro conjI allI impI)
  let ?t = "\<lparr>srv_running = True, shutdown_request = True, is_shut_down = False,
      server_pc = T_handle \<lparr>pc = H_recv, chunks = [], echoed = []\<rparr>, main_pc = M_wait\<rparr>"
  have "thread_run tcp_request_handler tcp_threads_init sample_late_start = Some ?t"
    by (simp add: sample_late_start_def tcp_threads_init_def tcp_request_handler_def host_start_def)
  moreover have "thread_run tcp_request_handler ?t [Handler (Is_running True), Handler Timed_out] = Some ?t"
    by (simp add: tcp_request_handler_def)
  moreover have "main_pc t' = M_wait" if "thread_run tcp_request_handler ?t es = Some t'" "silent_client es" for es t'
    using hanging_run [OF that(1) _ that(2)] by (simp add: hanging_def)
  ultimately show "\<exists>t. thread_run tcp_request_handler tcp_threads_init sample_late_start = Some t \<and>
      (\<forall>es t'. thread_run tcp_request_handler t es = Some t' \<and> silent_client es \<longrightarrow> main_pc t' = M_wait) \<and>
      thread_run tcp_request_handler t [Handler (Is_running True), Handler Timed_out] = Some t" by blast
next
  fix t0 es t
  assume runs: "thread_run tcp_request_handler tcp_threads_init [Main, Main] = Some t0 \<and>
    thread_run tcp_request_handler t0 es = Some t"
  then have "early_inv t0" "early_work t0 = 7"
    by (auto simp: tcp_threads_init_def early_inv_def early_work_def requested_def)
  with early_run runs have t: "early_inv t" "length es \<le> 7" by fastforce+
  show "length es \<le> 7" by (rule t(2))
  assume "\<forall>e. thread_step tcp_request_handler t e = None"
  with early_not_stuck [OF t(1)] show "main_pc t = M_returned" by blast
qed

text \<open>C38 applied to a round of the polling.\<close>

theorem late_start_hangs_witness:
  "\<exists>t. thread_run tcp_request_handler tcp_threads_init sample_late_start = Some t \<and>
     thread_run tcp_request_handler t [Handler (Is_running True), Handler Timed_out] = Some t \<and> main_pc t = M_wait"
proof -
  let ?round = "[Handler (Is_running True), Handler Timed_out] :: (unit, host_obs) thread_event list"
  obtain t where t: "thread_run tcp_request_handler tcp_threads_init sample_late_start = Some t"
    "\<forall>es t'. thread_run tcp_request_handler t es = Some t' \<and> silent_client es \<longrightarrow> main_pc t' = M_wait"
    "thread_run tcp_request_handler t ?round = Some t"
    using conjunct1 [OF late_start_hangs] by blast
  have "silent_client ?round" by (simp add: silent_client_def)
  with t show ?thesis by blast
qed

end
