(* ===== verification/TCP_Echo_Client.thy ===== *)
theory TCP_Echo_Client
  imports Echo_Harness
begin

text \<open>
  The TCP echo client (\<open>test/echo-tcp-client/main.cpp\<close>), an application of the library: it resolves a host, connects,
  sends a greeting, checks what comes back, sends a closing message, and ends when everything it sent has been
  acknowledged. Its handlers are defined over the operations of \<open>TCPStream\<close>.

  \<open>printf\<close> is left out; the exchange with the host that precedes the test is in \<open>Test_Setup\<close>.
\<close>

section \<open>The client\<close>

text \<open>
  The members of \<open>TCPEchoClient\<close> besides \<open>_stream\<close>, which is an object of the library, and the globals of the file:
  \<open>client_alive\<close> is \<open>client != NULL\<close>, \<open>terminates\<close> are the posted calls of \<open>terminate\<close> with their first argument, and the last two count
  the calls of \<open>eth.disconnect()\<close> and of \<open>Harness::validate_callback()\<close>, which tells the test framework that the case has
  passed.
\<close>

record 'w tcp_client =
  lib :: "'w world"
  resolvedAddr :: SocketAddr
  tcp_port :: u16
  is_done :: bool
  disconnected :: bool
  unacked :: u32
  tcp_buffer :: "u8 list"
  client_alive :: bool
  terminates :: "bool list"
  eth_disconnects :: nat
  validates :: nat

text \<open>The two messages, without the terminating zero: their lengths are \<open>sizeof(...) - 1\<close>.\<close>

definition out_buffer :: "u8 list" where
  "out_buffer = bytes (''Hello World'' @ [CHR 0x0A])"

definition out_success :: "u8 list" where
  "out_success = bytes (''{{success}}'' @ [CHR 0x0A] @ ''{{end}}'' @ [CHR 0x0A])"

text \<open>The function pointers made of the client and one of its methods.\<close>

definition onError_fp :: fp where "onError_fp = Some 1"
definition onDNS_fp :: fp where "onDNS_fp = Some 2"
definition onConnect_fp :: fp where "onConnect_fp = Some 3"
definition onRx_fp :: fp where "onRx_fp = Some 4"
definition onSent_fp :: fp where "onSent_fp = Some 5"
definition onDisconnect_fp :: fp where "onDisconnect_fp = Some 6"

text \<open>
  The constructor; \<open>c0\<close> holds the members that it does not initialise and the globals. \<open>s\<close> is the
  address of the member \<open>_stream\<close>.
\<close>

definition TCPEchoClient_ctor ::
  "'w env \<Rightarrow> oid \<Rightarrow> socket_stack_t \<Rightarrow> Socket \<Rightarrow> 'w tcp_client \<Rightarrow> echo_error + 'w tcp_client" where
  "TCPEchoClient_ctor env s stk mem c0 =
     and_then (lift (TCPStream_ctor env s stk mem (lib c0))) (\<lambda>w1.
     and_then (lift (setOnError s onError_fp w1)) (\<lambda>w2.
     Inr (c0\<lparr>lib := w2, is_done := False, disconnected := True, client_alive := True\<rparr>)))"

definition TCPEchoClient_dtor :: "'w env \<Rightarrow> oid \<Rightarrow> 'w world \<Rightarrow> echo_error + 'w world" where
  "TCPEchoClient_dtor env s w =
     and_then (lift (isConnected env s w)) (\<lambda>connected.
     and_then (if connected then lift (map_option snd (Socket_close env s w)) else Inr w) (\<lambda>w1.
     lift (TCPStream_dtor env s w1)))"

section \<open>The handlers\<close>

definition post_terminate :: "bool \<Rightarrow> 'w tcp_client \<Rightarrow> 'w tcp_client" where
  "post_terminate status c = c\<lparr>terminates := terminates c @ [status]\<rparr>"

definition tcp_onError :: "socket_error_t \<Rightarrow> 'w tcp_client \<Rightarrow> echo_error + 'w tcp_client" where
  "tcp_onError err c =
     test_assert (err \<noteq> SOCKET_ERROR_NONE) ''socket_strerror''
     (Inr (post_terminate False (c\<lparr>is_done := True\<rparr>)))"

definition tcp_start_test ::
  "'w env \<Rightarrow> oid \<Rightarrow> string option \<Rightarrow> u16 \<Rightarrow> 'w tcp_client \<Rightarrow> echo_error + 'w tcp_client" where
  "tcp_start_test env s host_addr port c =
     and_then (lift (TCPAsynch_open env s SOCKET_AF_INET4 (lib c))) (\<lambda>(err, w1).
     test_assert (err = SOCKET_ERROR_NONE) ''Failed to open socket!'' (
     and_then (lift (Socket_resolve env s host_addr onDNS_fp w1)) (\<lambda>(err, w2).
     test_assert (err = SOCKET_ERROR_NONE) ''Failed to resolve host address!''
     (Inr (c\<lparr>lib := w2, tcp_port := port, is_done := False, disconnected := True\<rparr>)))))"

definition tcp_onDNS ::
  "'w env \<Rightarrow> oid \<Rightarrow> socket_addr \<Rightarrow> 'w tcp_client \<Rightarrow> echo_error + 'w tcp_client" where
  "tcp_onDNS env s sa c =
     (let ra = setAddr_addr (addrs env) (resolvedAddr c) sa;
          c1 = c\<lparr>resolvedAddr := ra, tcp_buffer := fmt_into (addrs env) ra (tcp_buffer c)\<rparr> in
     and_then (lift (setOnReadable s onRx_fp (lib c1))) (\<lambda>w1.
     and_then (lift (setOnSent s onSent_fp w1)) (\<lambda>w2.
     and_then (lift (setOnDisconnect s onDisconnect_fp w2)) (\<lambda>w3.
     and_then (lift (TCPStream_connect env s ra (tcp_port c1) onConnect_fp w3)) (\<lambda>(err, w4).
     test_assert (err = SOCKET_ERROR_NONE) ''Failed to connect host server!''
     (Inr (c1\<lparr>lib := w4\<rparr>)))))))"

definition tcp_onConnect :: "'w env \<Rightarrow> oid \<Rightarrow> 'w tcp_client \<Rightarrow> echo_error + 'w tcp_client" where
  "tcp_onConnect env s c =
     (let c1 = c\<lparr>disconnected := False, unacked := of_nat (length out_buffer)\<rparr> in
     and_then (lift (Socket_send env s (Some out_buffer) (of_nat (length out_buffer)) (lib c1))) (\<lambda>(err, w1).
     test_assert (err = SOCKET_ERROR_NONE) ''TCPClient failed to send data!''
     (Inr (c1\<lparr>lib := w1\<rparr>))))"

text \<open>
  \<open>eq\<close> is the comparison of \<open>TEST_ASSERT_EQUAL_STRING_LEN\<close>. The buffer has 256 bytes; the read gets
  one less, and the zero is written behind what it returned.
\<close>

definition tcp_onRx ::
  "'w env \<Rightarrow> (u8 list \<Rightarrow> u8 list \<Rightarrow> nat \<Rightarrow> bool) \<Rightarrow> oid \<Rightarrow> 'w tcp_client \<Rightarrow> echo_error + 'w tcp_client" where
  "tcp_onRx env eq s c =
     and_then (lift (Socket_recv env s (Some (tcp_buffer c)) (Some (of_nat (length (tcp_buffer c)) - 1)) (lib c)))
     (\<lambda>((err, b, n), w1).
     test_assert (err = SOCKET_ERROR_NONE) ''TCPClient failed to recv data!'' (
     case (b, n) of (Some b1, Some n1) \<Rightarrow>
       if length b1 \<le> unat n1 then Inl Undefined
       else let c1 = c\<lparr>lib := w1, tcp_buffer := b1[unat n1 := 0]\<rparr> in
         and_then
           (if \<not> is_done c1 \<and> 0 < n1
            then test_assert (eq out_buffer (tcp_buffer c1) (unat n1)) ''TCPClient round trip data validation failed!'' (
                 and_then (lift (Socket_send env s (Some out_success) (of_nat (length out_success)) (lib c1)))
                 (\<lambda>(err, w2).
                 test_assert (err = SOCKET_ERROR_NONE) ''TCPClient failed to send data!''
                 (Inr (c1\<lparr>lib := w2, unacked := unacked c1 + of_nat (length out_success), is_done := True\<rparr>))))
            else Inr c1)
           (\<lambda>c2. Inr (if is_done c2 then c2 else post_terminate False c2))
     | _ \<Rightarrow> Inl Undefined))"

definition tcp_onSent :: "u16 \<Rightarrow> 'w tcp_client \<Rightarrow> 'w tcp_client" where
  "tcp_onSent nbytes c =
     (let c1 = c\<lparr>unacked := unacked c - ucast nbytes\<rparr>
      in if is_done c1 \<and> unacked c1 = 0 then post_terminate True c1 else c1)"

definition tcp_onDisconnect :: "'w tcp_client \<Rightarrow> 'w tcp_client" where
  "tcp_onDisconnect c = c\<lparr>disconnected := True\<rparr>"

definition tcp_terminate :: "'w env \<Rightarrow> oid \<Rightarrow> bool \<Rightarrow> 'w tcp_client \<Rightarrow> echo_error + 'w tcp_client" where
  "tcp_terminate env s status c =
     (if client_alive c
      then and_then (TCPEchoClient_dtor env s (lib c)) (\<lambda>w1.
           let c1 = c\<lparr>lib := w1, client_alive := False, eth_disconnects := Suc (eth_disconnects c)\<rparr> in
           test_assert status ''test failed!'' (Inr (c1\<lparr>validates := Suc (validates c1)\<rparr>)))
      else Inr c)"

section \<open>The callbacks the scheduler runs\<close>

text \<open>A callback is bound to the client: it may only run while the client exists.\<close>

definition tcp_callback ::
  "'w env \<Rightarrow> (u8 list \<Rightarrow> u8 list \<Rightarrow> nat \<Rightarrow> bool) \<Rightarrow> oid \<Rightarrow> callback \<Rightarrow> 'w tcp_client \<Rightarrow> echo_error + 'w tcp_client" where
  "tcp_callback env eq s cb c =
     (if \<not> client_alive c then Inl Undefined
      else case cb of
        CB_onDNS f a sa domain \<Rightarrow> if f = onDNS_fp then tcp_onDNS env s sa c else Inl Undefined
      | CB_onError f a err \<Rightarrow> if f = onError_fp then tcp_onError err c else Inl Undefined
      | CB_onReadable f a \<Rightarrow> if f = onRx_fp then tcp_onRx env eq s c else Inl Undefined
      | CB_onSent f a n \<Rightarrow> if f = onSent_fp then Inr (tcp_onSent n c) else Inl Undefined
      | CB_onConnect f a \<Rightarrow> if f = onConnect_fp then tcp_onConnect env s c else Inl Undefined
      | CB_onDisconnect f a \<Rightarrow> if f = onDisconnect_fp then Inr (tcp_onDisconnect c) else Inl Undefined
      | CB_onIncoming f a p \<Rightarrow> Inl Undefined)"

fun tcp_callbacks ::
  "'w env \<Rightarrow> (u8 list \<Rightarrow> u8 list \<Rightarrow> nat \<Rightarrow> bool) \<Rightarrow> oid \<Rightarrow> callback list \<Rightarrow> 'w tcp_client
     \<Rightarrow> echo_error + 'w tcp_client" where
  "tcp_callbacks env eq s [] c = Inr c"
| "tcp_callbacks env eq s (cb # cbs) c = and_then (tcp_callback env eq s cb c) (tcp_callbacks env eq s cbs)"

lemmas tcp_handlers = tcp_onError_def tcp_start_test_def tcp_onDNS_def tcp_onConnect_def tcp_onRx_def
  tcp_onSent_def tcp_onDisconnect_def post_terminate_def

lemma message_lengths [simp]: "length out_buffer = 12" "length out_success = 20"
  by (simp_all add: out_buffer_def out_success_def bytes_def)

section \<open>A sample network\<close>

text \<open>A stack on which every read returns the greeting, and a client on it that is connected.\<close>

definition echo_recv ::
  "u8 list option \<Rightarrow> u32 option \<Rightarrow> (nat, socket_error_t \<times> u8 list option \<times> u32 option) eff" where
  "echo_recv b l = quiet_fn
     (case (b, l) of
        (Some b1, Some l1) \<Rightarrow>
          let k = min 12 (min (length b1) (unat l1))
          in (SOCKET_ERROR_NONE, Some (take k out_buffer @ drop k b1), Some (of_nat k))
      | _ \<Rightarrow> (SOCKET_ERROR_NULL_PTR, b, l))"

definition tcp_echo_env :: "nat env" where
  "tcp_echo_env = sample_env\<lparr>vtable := (\<lambda>p. sample_api\<lparr>api_recv := echo_recv\<rparr>)\<rparr>"

definition sample_client :: "nat tcp_client" where
  "sample_client = \<lparr>lib = sample_world K_TCPStream (Some 7), resolvedAddr = \<lparr>addr_member = sample_addr\<rparr>, tcp_port = 80,
     is_done = False, disconnected = False, unacked = 12, tcp_buffer = replicate 256 0, client_alive = True,
     terminates = [], eth_disconnects = 0, validates = 0\<rparr>"

definition strn_eq :: "u8 list \<Rightarrow> u8 list \<Rightarrow> nat \<Rightarrow> bool" where
  "strn_eq x y n \<longleftrightarrow> take n x = take n y"

lemma tcp_echo_env_ok [simp]: "sal_ok tcp_echo_env" "recv_ok tcp_echo_env"
proof -
  have "keeps H (echo_recv b l)" for H b l by (simp add: echo_recv_def)
  with sample_api_ok have "api_ok (sample_api\<lparr>api_recv := echo_recv\<rparr>)" by (simp add: api_ok_def)
  moreover have "accept_ok tcp_echo_env"
    using sample_accept_ok by (simp add: accept_ok_def tcp_echo_env_def)
  ultimately show "sal_ok tcp_echo_env" by (simp add: sal_ok_def) (simp add: tcp_echo_env_def)
  show "recv_ok tcp_echo_env"
    by (auto simp: recv_ok_def tcp_echo_env_def echo_recv_def quiet_fn_def Let_def word_le_nat_alt unat_of_nat
        intro: order_trans [OF mod_less_eq_dividend])
qed

section \<open>Every handler is safe\<close>

definition tcp_client_ok :: "'w env \<Rightarrow> oid \<Rightarrow> 'w tcp_client \<Rightarrow> bool" where
  "tcp_client_ok env s c \<longleftrightarrow> client_alive c \<and> length (tcp_buffer c) = 256 \<and> has_sock env K_TCPStream s (lib c)"

text \<open>The function pointer of a callback is the one that the client registered for it.\<close>

fun tcp_registered :: "callback \<Rightarrow> bool" where
  "tcp_registered (CB_onDNS f a sa d) = (f = onDNS_fp)"
| "tcp_registered (CB_onError f a e) = (f = onError_fp)"
| "tcp_registered (CB_onReadable f a) = (f = onRx_fp)"
| "tcp_registered (CB_onSent f a n) = (f = onSent_fp)"
| "tcp_registered (CB_onConnect f a) = (f = onConnect_fp)"
| "tcp_registered (CB_onDisconnect f a) = (f = onDisconnect_fp)"
| "tcp_registered (CB_onIncoming f a p) = False"

lemma ctor_ok:
  assumes "sal_ok env" and "minar_ok env" and "wf_world env (lib c0)" and "s \<noteq> 0" and "objs (lib c0) s = None"
    and "length (tcp_buffer c0) = 256"
  shows "\<exists>c. TCPEchoClient_ctor env s stk mem c0 = Inr c \<and> tcp_client_ok env s c"
proof -
  from stream_class.ctor_law [OF assms(2-5), of stk mem] obtain w1 where
    w1: "TCPStream_ctor env s stk mem (lib c0) = Some w1" "has_sock env K_TCPStream s w1"
    by (auto simp: has_sock_def)
  then have "wf_world env w1" "s \<in> dom (objs w1)" by (auto simp: has_sock_def)
  with setOnError_op.returns [OF assms(1)] obtain w2 where w2: "setOnError s onError_fp w1 = Some w2" by fastforce
  then have "has_sock env K_TCPStream s w2"
    by (intro has_sock_frame [OF setOnError_op.frame [OF assms(1)] w1(2)]) simp
  with w1 w2 assms(6) show ?thesis by (simp add: TCPEchoClient_ctor_def tcp_client_ok_def)
qed

lemma start_ok:
  assumes "sal_ok env" and "tcp_client_ok env s c"
  shows "ok_result (tcp_client_ok env s) (tcp_start_test env s host port c)"
  using assms(2) unfolding tcp_start_test_def tcp_client_ok_def
  by (intro tcp_open_op.handler_then [OF assms(1), of K_TCPStream])
     (auto intro!: handler_rules resolve_op.handler_then [OF assms(1), of K_TCPStream])

lemma onConnect_ok:
  assumes "sal_ok env" and "tcp_client_ok env s c"
  shows "ok_result (tcp_client_ok env s) (tcp_onConnect env s c)"
  using assms(2) unfolding tcp_onConnect_def Let_def tcp_client_ok_def
  by (intro send_op.handler_then [OF assms(1), of K_TCPStream]) (auto intro!: handler_rules)

lemma onDNS_ok:
  assumes "sal_ok env" and "tcp_client_ok env s c"
  shows "ok_result (tcp_client_ok env s) (tcp_onDNS env s sa c)"
  using assms(2) unfolding tcp_onDNS_def Let_def tcp_client_ok_def
  by (intro setter_then [OF assms(1), of K_TCPStream] connect_op.handler_then [OF assms(1), of K_TCPStream])
     (auto intro!: handler_rules)

lemma onRx_ok:
  assumes "sal_ok env" and "recv_ok env" and "tcp_client_ok env s c"
  shows "ok_result (tcp_client_ok env s) (tcp_onRx env eq s c)"
  unfolding tcp_onRx_def
proof (rule recv_op.handler_then [OF assms(1), of K_TCPStream], goal_cases)
  case 1
  with assms(3) show ?case by (simp add: tcp_client_ok_def)
next
  case (2 r w1)
  have len: "length (tcp_buffer c) = 256" "client_alive c" using assms(3) by (simp_all add: tcp_client_ok_def)
  obtain err b n where r: "r = (err, b, n)" by (cases r)
  from recv_bounds [OF assms(2) 2(1) [unfolded r]] len obtain b1 n1 where
    bn: "b = Some b1" "n = Some n1" "length b1 = 256" "n1 \<le> 255" by auto
  then have n1: "\<not> 256 \<le> unat n1" by (simp add: word_le_nat_alt)
  show ?case
    unfolding r bn
    by (auto simp: bn n1 len tcp_client_ok_def 2(2) Let_def post_terminate_def
        intro!: handler_rules ok_then [where Q = "tcp_client_ok env s"]
          send_op.handler_then [OF assms(1), of K_TCPStream])
qed

text \<open>
  C29. The handlers of the TCP echo client are safe: in a well-formed state with the client alive, every callback that
  the client registered runs without undefined behaviour, in particular the zero that \<open>onRx\<close> writes behind the
  received bytes is inside the buffer. A handler ends with a failed assertion or in a state that is
  well-formed again, with the stream alive.
\<close>

theorem tcp_client_safe:
  assumes "sal_ok env" and "recv_ok env" and "tcp_client_ok env s c" and "tcp_registered cb"
  shows "(\<exists>msg. tcp_callback env eq s cb c = Inl (Assertion msg)) \<or>
    (\<exists>c'. tcp_callback env eq s cb c = Inr c' \<and> tcp_client_ok env s c')"
proof -
  have "client_alive c" using assms(3) by (simp add: tcp_client_ok_def)
  then have "ok_result (tcp_client_ok env s) (tcp_callback env eq s cb c)"
    using assms(3,4) onConnect_ok [OF assms(1,3)] onDNS_ok [OF assms(1,3)] onRx_ok [OF assms(1,2,3)]
    by (cases cb) (auto simp: tcp_callback_def tcp_onError_def tcp_onSent_def tcp_onDisconnect_def
        post_terminate_def tcp_client_ok_def Let_def intro!: handler_rules)
  then show ?thesis by (rule ok_result_cases)
qed

text \<open>A client on the sample network that has just been made.\<close>

definition new_client :: "echo_error + nat tcp_client" where
  "new_client = TCPEchoClient_ctor tcp_echo_env 4 1 sample_mem (sample_client\<lparr>lib := init_world 0\<rparr>)"

lemma new_client_ok: "\<exists>c. new_client = Inr c \<and> tcp_client_ok tcp_echo_env 4 c"
proof -
  have "minar_ok tcp_echo_env" using sample_minar_ok by (simp add: minar_ok_def tcp_echo_env_def)
  then show ?thesis
    unfolding new_client_def by (intro ctor_ok) (simp_all add: sample_client_def, simp add: init_world_def)
qed

text \<open>C29 applied to the new client when it reads.\<close>

theorem tcp_client_safe_witness:
  "\<exists>c. new_client = Inr c \<and>
     ((\<exists>msg. tcp_callback tcp_echo_env strn_eq 4 (CB_onReadable onRx_fp 4) c = Inl (Assertion msg)) \<or>
      (\<exists>c'. tcp_callback tcp_echo_env strn_eq 4 (CB_onReadable onRx_fp 4) c = Inr c' \<and> tcp_client_ok tcp_echo_env 4 c'))"
proof -
  obtain c where c: "new_client = Inr c" "tcp_client_ok tcp_echo_env 4 c" using new_client_ok by blast
  with tcp_client_safe [of tcp_echo_env 4 c "CB_onReadable onRx_fp 4" strn_eq] show ?thesis
    by (intro exI [of _ c]) simp
qed

text \<open>
  Every posted \<open>terminate\<close> ends the test properly: whatever the stack answers to \<open>close\<close> and \<open>destroy\<close>, running it
  destroys the client's stream, leaves the other sockets of the library well-formed, disconnects the interface and validates the
  test case, once; the assertion on the status fails exactly for \<open>false\<close>. A second \<open>terminate\<close> does nothing.
\<close>

theorem tcp_terminate_ends:
  assumes "sal_ok env" and "tcp_client_ok env s c"
  shows "\<exists>c'. tcp_terminate env s True c = Inr c' \<and> \<not> client_alive c' \<and> wf_world env (lib c') \<and>
    dom (objs (lib c')) = dom (objs (lib c)) - {s} \<and> eth_disconnects c' = Suc (eth_disconnects c) \<and>
    validates c' = Suc (validates c) \<and> tcp_terminate env s status c' = Inr c' \<and>
    tcp_terminate env s False c = Inl (Assertion ''test failed!'')"
proof -
  from assms(2) have "client_alive c" and "has_sock env K_TCPStream s (lib c)" by (simp_all add: tcp_client_ok_def)
  with stream_class.close_and_delete [OF assms(1)] obtain w' where "TCPEchoClient_dtor env s (lib c) = Inr w'"
    "wf_world env w'" "dom (objs w') = dom (objs (lib c)) - {s}" unfolding TCPEchoClient_dtor_def by blast
  with \<open>client_alive c\<close> show ?thesis
    by (intro exI [of _ "c\<lparr>lib := w', client_alive := False, eth_disconnects := Suc (eth_disconnects c),
        validates := Suc (validates c)\<rparr>"]) (simp add: tcp_terminate_def)
qed

text \<open>The same applied to the new client.\<close>

theorem tcp_terminate_ends_witness:
  "\<exists>c c'. new_client = Inr c \<and> tcp_terminate tcp_echo_env 4 True c = Inr c' \<and> \<not> client_alive c'"
proof -
  obtain c where c: "new_client = Inr c" "tcp_client_ok tcp_echo_env 4 c" using new_client_ok by blast
  with tcp_terminate_ends [of tcp_echo_env 4 c True] show ?thesis by auto
qed

text \<open>
  \<open>delete client\<close> does not cancel what is queued for it. When the stack fails to destroy the socket, the destructor of \<open>Socket\<close>
  itself posts the error callback that was registered for the client, and it runs on the deleted client.
\<close>

lemma terminate_dangling:
  "case new_client of Inl e \<Rightarrow> False | Inr c \<Rightarrow>
     (case tcp_terminate tcp_echo_env 4 True c of Inl e \<Rightarrow> False | Inr c' \<Rightarrow>
        PostCallback (CB_onError onError_fp 4 SOCKET_ERROR_UNKNOWN) \<in> set (minar (lib c')) \<and>
        (case tcp_callback tcp_echo_env strn_eq 4 (CB_onError onError_fp 4 SOCKET_ERROR_UNKNOWN) c' of
           Inl e \<Rightarrow> e = Undefined | Inr c2 \<Rightarrow> False))"
  by code_simp

section \<open>The client ends\<close>

text \<open>
  What the client needs of the network while it runs a sequence of callbacks: a read succeeds, returns at least one byte
  and, when it is the first one, the bytes that were sent; the closing message is accepted; and \<open>onSent\<close>
  reports bytes that were sent and not reported before.
\<close>

definition rx_good ::
  "'w env \<Rightarrow> (u8 list \<Rightarrow> u8 list \<Rightarrow> nat \<Rightarrow> bool) \<Rightarrow> oid \<Rightarrow> 'w tcp_client \<Rightarrow> bool" where
  "rx_good env eq s c =
     (case Socket_recv env s (Some (tcp_buffer c)) (Some (of_nat (length (tcp_buffer c)) - 1)) (lib c) of
        Some ((err, Some b, Some n), w) \<Rightarrow>
          err = SOCKET_ERROR_NONE \<and> unat n < length b \<and>
          (is_done c \<or> 0 < n \<and> eq out_buffer (b[unat n := 0]) (unat n) \<and>
             map_option fst (Socket_send env s (Some out_success) (of_nat (length out_success)) w)
               = Some SOCKET_ERROR_NONE)
      | _ \<Rightarrow> False)"

fun good_callback ::
  "'w env \<Rightarrow> (u8 list \<Rightarrow> u8 list \<Rightarrow> nat \<Rightarrow> bool) \<Rightarrow> oid \<Rightarrow> callback \<Rightarrow> 'w tcp_client \<Rightarrow> bool" where
  "good_callback env eq s (CB_onReadable f a) c = (f = onRx_fp \<and> rx_good env eq s c)"
| "good_callback env eq s (CB_onSent f a n) c = (f = onSent_fp \<and> 0 < n \<and> unat n \<le> unat (unacked c))"
| "good_callback env eq s (CB_onDisconnect f a) c = (f = onDisconnect_fp)"
| "good_callback env eq s cb c = False"

fun good_trace ::
  "'w env \<Rightarrow> (u8 list \<Rightarrow> u8 list \<Rightarrow> nat \<Rightarrow> bool) \<Rightarrow> oid \<Rightarrow> callback list \<Rightarrow> 'w tcp_client \<Rightarrow> bool" where
  "good_trace env eq s [] c = True"
| "good_trace env eq s (cb # cbs) c =
     (good_callback env eq s cb c \<and>
      (case tcp_callback env eq s cb c of Inl e \<Rightarrow> True | Inr c1 \<Rightarrow> good_trace env eq s cbs c1))"

fun acked :: "callback \<Rightarrow> nat" where
  "acked (CB_onSent f a n) = unat n"
| "acked cb = 0"

fun is_read :: "callback \<Rightarrow> bool" where
  "is_read (CB_onReadable f a) = True"
| "is_read cb = False"

text \<open>
  Progress from \<open>c\<close> to \<open>c'\<close>, over callbacks that report \<open>k\<close> bytes and, when \<open>rd\<close> holds, read: the bytes that are
  not acknowledged are accounted for, and \<open>terminate(true)\<close> is posted once, when the last of them is.
\<close>

definition finished :: "'w tcp_client \<Rightarrow> bool" where
  "finished c \<longleftrightarrow> is_done c \<and> unacked c = 0"

definition progress :: "nat \<Rightarrow> bool \<Rightarrow> 'w tcp_client \<Rightarrow> 'w tcp_client \<Rightarrow> bool" where
  "progress k rd c c' \<longleftrightarrow> client_alive c' \<and> is_done c' = (is_done c \<or> rd) \<and>
     unat (unacked c') + k = unat (unacked c) + (if \<not> is_done c \<and> is_done c' then 20 else 0) \<and>
     terminates c' = terminates c @ (if finished c' \<and> \<not> finished c then [True] else [])"

lemma progress_refl: "client_alive c \<Longrightarrow> progress 0 False c c"
  by (simp add: progress_def)

lemma progress_finished: "progress k rd c c' \<Longrightarrow> finished c \<Longrightarrow> finished c'"
  by (auto simp: progress_def finished_def unat_eq_0)

lemma progress_trans:
  assumes "progress k rd c1 c2" and "progress k' rd' c2 c3"
  shows "progress (k + k') (rd \<or> rd') c1 c3"
proof -
  note p = assms [unfolded progress_def]
  have "terminates c3 = terminates c1 @ (if finished c3 \<and> \<not> finished c1 then [True] else [])"
    using p progress_finished [OF assms(1)] progress_finished [OF assms(2)]
    by (cases "finished c1"; cases "finished c2") simp_all
  moreover have "unat (unacked c3) + (k + k') = unat (unacked c1) + (if \<not> is_done c1 \<and> is_done c3 then 20 else 0)"
  proof -
    have "unat (unacked c2) + k = unat (unacked c1) + (if \<not> is_done c1 \<and> is_done c2 then 20 else 0)"
      "unat (unacked c3) + k' = unat (unacked c2) + (if \<not> is_done c2 \<and> is_done c3 then 20 else 0)"
      "is_done c2 = (is_done c1 \<or> rd)" "is_done c3 = (is_done c2 \<or> rd')"
      using p by simp_all
    then show ?thesis by (auto split: if_splits)
  qed
  ultimately show ?thesis using p by (simp add: progress_def)
qed

lemma rx_progress:
  assumes "client_alive c" and "is_done c \<or> unat (unacked c) \<le> 12" and "rx_good env eq s c"
  shows "\<exists>c'. tcp_onRx env eq s c = Inr c' \<and> progress 0 True c c'"
proof -
  let ?recv = "Socket_recv env s (Some (tcp_buffer c)) (Some (of_nat (length (tcp_buffer c)) - 1)) (lib c)"
  obtain err bo no w where "?recv = Some ((err, bo, no), w)"
    using assms(3) by (cases ?recv) (auto simp: rx_good_def)
  moreover from this assms(3) obtain b n where "bo = Some b" "no = Some n"
    by (cases bo; cases no) (simp_all add: rx_good_def)
  ultimately have r: "?recv = Some ((SOCKET_ERROR_NONE, Some b, Some n), w)" "unat n < length b"
    and d: "is_done c \<or> 0 < n \<and> eq out_buffer (b[unat n := 0]) (unat n) \<and>
        map_option fst (Socket_send env s (Some out_success) (of_nat (length out_success)) w) = Some SOCKET_ERROR_NONE"
    using assms(3) by (simp_all add: rx_good_def)
  show ?thesis
  proof (cases "is_done c")
    case True
    with r assms(1) show ?thesis by (simp add: tcp_onRx_def progress_def finished_def)
  next
    case False
    with d obtain w2 where "Socket_send env s (Some out_success) 20 w = Some (SOCKET_ERROR_NONE, w2)"
      by auto
    moreover have "unat (unacked c + 20) = unat (unacked c) + 20"
      using assms(2) False unat_add_lem [of "unacked c" 20] by simp
    ultimately show ?thesis
      using r d False assms(1) by (simp add: tcp_onRx_def progress_def finished_def flip: unat_eq_0)
  qed
qed

lemma unat_ucast_u16 [simp]: "unat (ucast (n :: u16) :: u32) = unat n"
  by transfer (simp add: nat_mod_distrib take_bit_eq_mod)

lemma callback_progress:
  assumes "client_alive c" and "is_done c \<or> unat (unacked c) \<le> 12" and "good_callback env eq s cb c"
  shows "\<exists>c'. tcp_callback env eq s cb c = Inr c' \<and> progress (acked cb) (is_read cb) c c'"
proof (cases cb)
  case (CB_onReadable f a)
  with rx_progress [OF assms(1,2)] assms(1,3) show ?thesis by (simp add: tcp_callback_def)
next
  case (CB_onSent f a n)
  then have "0 < unat n" "unat n \<le> unat (unacked c)" "f = onSent_fp" using assms(3) by (simp_all add: unat_gt_0 word_gt_0)
  moreover from this have "unat (unacked c - ucast n) = unat (unacked c) - unat n"
    by (simp add: unat_sub word_le_nat_alt)
  ultimately show ?thesis
    using assms(1) CB_onSent
    by (auto simp: tcp_callback_def tcp_onSent_def progress_def finished_def post_terminate_def Let_def unat_eq_0)
next
  case (CB_onDisconnect f a)
  with assms show ?thesis
    by (simp add: tcp_callback_def tcp_onDisconnect_def progress_def finished_def)
qed (use assms(3) in simp_all)

lemma trace_progress:
  assumes "client_alive c" and "is_done c \<or> unat (unacked c) \<le> 12" and "good_trace env eq s cbs c"
  shows "\<exists>c'. tcp_callbacks env eq s cbs c = Inr c' \<and>
    progress (sum_list (map acked cbs)) (\<exists>cb \<in> set cbs. is_read cb) c c'"
  using assms
proof (induction cbs arbitrary: c)
  case Nil
  then show ?case by (simp add: progress_refl)
next
  case (Cons cb cbs)
  from Cons.prems callback_progress [of c env eq s cb] obtain c1 where
    c1: "tcp_callback env eq s cb c = Inr c1" and p: "progress (acked cb) (is_read cb) c c1" by auto
  from p Cons.prems(2) have "client_alive c1" "is_done c1 \<or> unat (unacked c1) \<le> 12"
    by (auto simp: progress_def split: if_splits)
  with Cons.IH [of c1] Cons.prems(3) c1 obtain c' where
    "tcp_callbacks env eq s cbs c1 = Inr c'" "progress (sum_list (map acked cbs)) (\<exists>cb \<in> set cbs. is_read cb) c1 c'"
    by auto
  with c1 progress_trans [OF p] show ?case by auto
qed

text \<open>
  The TCP echo client ends. Start it when the connection is made, with 12 bytes sent and none acknowledged, and run any
  sequence of reads, acknowledgements and disconnections, in any order and with the acknowledgements and
  the echo cut into pieces in any way. Once the echo has been read and the 32 bytes of both messages are
  acknowledged, no assertion has failed and \<open>terminate(true)\<close> has been posted exactly once; before
  that, it has not been posted.
\<close>

theorem tcp_echo_ends:
  assumes "client_alive c" and "\<not> is_done c" and "unacked c = 12" and "good_trace env eq s cbs c"
  shows "\<exists>c'. tcp_callbacks env eq s cbs c = Inr c' \<and>
    terminates c' = terminates c @
      (if (\<exists>cb \<in> set cbs. is_read cb) \<and> sum_list (map acked cbs) = 32 then [True] else [])"
proof -
  from trace_progress [of c env eq s cbs] assms obtain c' where
    "tcp_callbacks env eq s cbs c = Inr c'" and
    p: "progress (sum_list (map acked cbs)) (\<exists>cb \<in> set cbs. is_read cb) c c'" by auto
  moreover have "finished c' \<longleftrightarrow> (\<exists>cb \<in> set cbs. is_read cb) \<and> sum_list (map acked cbs) = 32"
    using p assms(2,3) by (auto simp: progress_def finished_def unat_eq_0 [symmetric] split: if_splits)
  ultimately show ?thesis
    using assms(2) by (auto simp: progress_def finished_def)
qed

lemma sample_trace_good:
  "good_trace tcp_echo_env strn_eq 4
     [CB_onSent onSent_fp 4 5, CB_onReadable onRx_fp 4, CB_onSent onSent_fp 4 7, CB_onSent onSent_fp 4 20] sample_client"
  by code_simp

text \<open>The same applied to a greeting that is acknowledged in two parts around the read, and the closing message in one.\<close>

theorem tcp_echo_ends_witness:
  "\<exists>c'. tcp_callbacks tcp_echo_env strn_eq 4
      [CB_onSent onSent_fp 4 5, CB_onReadable onRx_fp 4, CB_onSent onSent_fp 4 7, CB_onSent onSent_fp 4 20]
      sample_client = Inr c' \<and> terminates c' = [True]"
  using tcp_echo_ends [of sample_client tcp_echo_env strn_eq 4
      "[CB_onSent onSent_fp 4 5, CB_onReadable onRx_fp 4, CB_onSent onSent_fp 4 7, CB_onSent onSent_fp 4 20]"]
    sample_trace_good
  by (simp add: sample_client_def del: tcp_callbacks.simps good_trace.simps)

section \<open>From the constructor to the end\<close>

text \<open>The state in which the connection is made is the one that the theorem on the end of the client starts from.\<close>

lemma onConnect_starts:
  assumes "tcp_onConnect env s c = Inr c'"
  shows "unacked c' = 12 \<and> is_done c' = is_done c \<and> client_alive c' = client_alive c \<and> terminates c' = terminates c"
  using assms by (auto simp: tcp_onConnect_def Let_def echo_monad_Inr)

lemma start_not_done:
  "tcp_start_test env s host port c = Inr c' \<Longrightarrow> \<not> is_done c' \<and> tcp_port c' = port"
  "tcp_onDNS env s sa c = Inr c' \<Longrightarrow> is_done c' = is_done c \<and> terminates c' = terminates c"
  by (auto simp: tcp_start_test_def tcp_onDNS_def Let_def echo_monad_Inr)

text \<open>The callbacks that the library has posted, in order.\<close>

fun posted :: "minar_call list \<Rightarrow> callback list" where
  "posted [] = []"
| "posted (PostCallback cb # cs) = cb # posted cs"
| "posted (c # cs) = posted cs"

text \<open>
  A whole session on the sample network. The stack answers \<open>resolve\<close> and \<open>connect\<close> at once; the callbacks that the library
  posts for these events are the ones that the client runs. Then the greeting is acknowledged, echoed and answered, and
  \<open>terminate\<close> runs.
\<close>

definition session :: "echo_error + nat tcp_client" where
  "session =
     and_then new_client (\<lambda>c0.
     and_then (tcp_start_test tcp_echo_env 4 (Some ''host'') 80 c0) (\<lambda>c1.
     and_then (tcp_callbacks tcp_echo_env strn_eq 4 (posted (minar (lib c1))) c1) (\<lambda>c2.
     and_then (tcp_callbacks tcp_echo_env strn_eq 4 (drop (length (posted (minar (lib c1)))) (posted (minar (lib c2)))) c2)
     (\<lambda>c3.
     and_then (tcp_callbacks tcp_echo_env strn_eq 4
       [CB_onSent onSent_fp 4 12, CB_onReadable onRx_fp 4, CB_onSent onSent_fp 4 20] c3) (\<lambda>c4.
     tcp_terminate tcp_echo_env 4 (hd (terminates c4)) c4)))))"

lemma session_passes:
  "case session of Inl e \<Rightarrow> False
   | Inr c \<Rightarrow> \<not> client_alive c \<and> objs (lib c) 4 = None \<and> terminates c = [True] \<and> TCPSockets (lib c) = 0 \<and>
       posted (minar (lib c)) = [CB_onDNS onDNS_fp 4 sample_addr (Some ''host''), CB_onConnect onConnect_fp 4,
         CB_onError onError_fp 4 SOCKET_ERROR_UNKNOWN]"
  by code_simp

end
