(* ===== verification/Echo_Session.thy ===== *)
theory Echo_Session
  imports TCP_Echo_Client Host_Echo_Server
begin

text \<open>
  The TCP echo test as a whole: the client on the target, the handler on the host, and a connection between them that is a pair
  of byte streams. The stack of the target is any stack that puts what is sent into the one stream and reads
  from the other; how the streams are cut into reads, chunks and acknowledgements is not known.
\<close>

section \<open>The connection\<close>

text \<open>The two streams, as parts of the state of the network.\<close>

record 'w pipes =
  to_host :: "'w \<Rightarrow> u8 list"
  to_client :: "'w \<Rightarrow> u8 list"
  set_pipes :: "u8 list \<Rightarrow> u8 list \<Rightarrow> 'w \<Rightarrow> 'w"

text \<open>
  Sending appends the bytes to the stream to the host. Reading takes a first part of the stream to the client, at
  least one byte when there is one, and not more than the length that was given.
\<close>

definition pipe_net :: "'w env \<Rightarrow> 'w pipes \<Rightarrow> bool" where
  "pipe_net env P \<longleftrightarrow>
     (\<forall>u d x. to_host P (set_pipes P u d x) = u \<and> to_client P (set_pipes P u d x) = d) \<and>
     (\<forall>p b n x s r s' rs x'. impl s \<noteq> None \<longrightarrow> api_send (vtable env p) (Some b) n x s = (r, s', rs, x') \<longrightarrow>
        impl s' \<noteq> None \<and> r = SOCKET_ERROR_NONE \<and>
        to_host P x' = to_host P x @ take (unat n) b \<and> to_client P x' = to_client P x) \<and>
     (\<forall>p b n x s r s' rs x'. impl s \<noteq> None \<longrightarrow> to_client P x \<noteq> [] \<longrightarrow> 0 < n \<longrightarrow> unat n \<le> length b \<longrightarrow>
        api_recv (vtable env p) (Some b) (Some n) x s = (r, s', rs, x') \<longrightarrow>
        impl s' \<noteq> None \<and>
        (\<exists>k. 0 < k \<and> k \<le> length (to_client P x) \<and> k \<le> unat n \<and>
           r = (SOCKET_ERROR_NONE, Some (take k (to_client P x) @ drop k b), Some (of_nat k)) \<and>
           to_client P x' = drop k (to_client P x) \<and> to_host P x' = to_host P x))"

lemma pipe_netD:
  assumes "pipe_net env P"
  shows "to_host P (set_pipes P u d x) = u" "to_client P (set_pipes P u d x) = d"
    "impl s \<noteq> None \<Longrightarrow> api_send (vtable env p) (Some b) n x s = (r, s', rs, x') \<Longrightarrow>
       impl s' \<noteq> None \<and> r = SOCKET_ERROR_NONE \<and>
       to_host P x' = to_host P x @ take (unat n) b \<and> to_client P x' = to_client P x"
    "impl s \<noteq> None \<Longrightarrow> to_client P x \<noteq> [] \<Longrightarrow> 0 < n \<Longrightarrow> unat n \<le> length b \<Longrightarrow>
       api_recv (vtable env p) (Some b) (Some n) x s = (r', s', rs, x') \<Longrightarrow>
       impl s' \<noteq> None \<and>
       (\<exists>k. 0 < k \<and> k \<le> length (to_client P x) \<and> k \<le> unat n \<and>
          r' = (SOCKET_ERROR_NONE, Some (take k (to_client P x) @ drop k b), Some (of_nat k)) \<and>
          to_client P x' = drop k (to_client P x) \<and> to_host P x' = to_host P x)"
  using assms [unfolded pipe_net_def, THEN conjunct1] assms [unfolded pipe_net_def, THEN conjunct2, THEN conjunct1]
    assms [unfolded pipe_net_def, THEN conjunct2, THEN conjunct2]
  by (blast, blast, blast, meson)

lemma send_pipe:
  assumes "sal_ok env" and "pipe_net env P" and "open_sock env k s w"
  shows "\<exists>w'. Socket_send env s (Some b) n w = Some (SOCKET_ERROR_NONE, w') \<and> open_sock env k s w' \<and>
    to_host P (network w') = to_host P (network w) @ take (unat n) b \<and>
    to_client P (network w') = to_client P (network w)"
proof -
  from assms(3) obtain ob where ob: "has_sock env k s w" "objs w s = Some ob" "impl (sock ob) \<noteq> None"
    "api (sock ob) \<noteq> None" by (rule open_sockD)
  let ?Q = "\<lambda>r x. r = SOCKET_ERROR_NONE \<and> to_host P x = to_host P (network w) @ take (unat n) b \<and>
      to_client P x = to_client P (network w)"
  have "\<exists>r w'. api_call env s (\<lambda>t. api_send t (Some b) n) w = Some (r, w') \<and> open_sock env k s w' \<and> ?Q r (network w')"
    by (rule api_call_opens [OF assms(1) ob(1,2,4), where Q = ?Q])
       (simp add: assms(1), rule pipe_netD(3) [OF assms(2) ob(3)])
  with ob show ?thesis by (auto simp: Socket_send_def)
qed

lemma recv_pipe:
  assumes "sal_ok env" and "pipe_net env P" and "open_sock env K s w"
    and "to_client P (network w) \<noteq> []" and "0 < n" and "unat n \<le> length b"
  shows "\<exists>k w'. 0 < k \<and> k \<le> length (to_client P (network w)) \<and> k \<le> unat n \<and>
    Socket_recv env s (Some b) (Some n) w =
      Some ((SOCKET_ERROR_NONE, Some (take k (to_client P (network w)) @ drop k b), Some (of_nat k)), w') \<and>
    open_sock env K s w' \<and> to_client P (network w') = drop k (to_client P (network w)) \<and>
    to_host P (network w') = to_host P (network w)"
proof -
  from assms(3) obtain ob where ob: "has_sock env K s w" "objs w s = Some ob" "impl (sock ob) \<noteq> None"
    "api (sock ob) \<noteq> None" by (rule open_sockD)
  let ?Q = "\<lambda>r x. \<exists>k. 0 < k \<and> k \<le> length (to_client P (network w)) \<and> k \<le> unat n \<and>
      r = (SOCKET_ERROR_NONE, Some (take k (to_client P (network w)) @ drop k b), Some (of_nat k)) \<and>
      to_client P x = drop k (to_client P (network w)) \<and> to_host P x = to_host P (network w)"
  have "\<exists>r w'. api_call env s (\<lambda>t. api_recv t (Some b) (Some n)) w = Some (r, w') \<and> open_sock env K s w' \<and> ?Q r (network w')"
    by (rule api_call_opens [OF assms(1) ob(1,2,4), where Q = ?Q])
       (simp add: assms(1), rule pipe_netD(4) [OF assms(2) ob(3) assms(4-6)])
  with ob show ?thesis by (simp add: Socket_recv_def) blast
qed

section \<open>The steps of the session\<close>

text \<open>
  The host takes the first \<open>k\<close> bytes from its stream and appends its answer to the other.
\<close>

definition host_takes :: "'w pipes \<Rightarrow> nat \<Rightarrow> u8 list \<Rightarrow> 'w tcp_client \<Rightarrow> 'w tcp_client" where
  "host_takes P k answer c =
     (let x = network (lib c)
      in c\<lparr>lib := (lib c)\<lparr>network := set_pipes P (drop k (to_host P x)) (to_client P x @ answer) x\<rparr>\<rparr>)"

text \<open>
  A step is an acknowledgement, a readable event, or a pass of the host's handler through its loop, in which it receives one chunk, while
  the server runs and no call fails.
\<close>

inductive session_step ::
  "'w env \<Rightarrow> (u8 list \<Rightarrow> u8 list \<Rightarrow> nat \<Rightarrow> bool) \<Rightarrow> oid \<Rightarrow> 'w pipes
     \<Rightarrow> 'w tcp_client \<Rightarrow> echo_error + 'w tcp_client \<Rightarrow> bool" for env eq s P where
  acknowledged: "0 < n \<Longrightarrow> unat n \<le> unat (unacked c) \<Longrightarrow>
     session_step env eq s P c (tcp_callback env eq s (CB_onSent onSent_fp s n) c)"
| readable: "to_client P (network (lib c)) \<noteq> [] \<Longrightarrow>
     session_step env eq s P c (tcp_callback env eq s (CB_onReadable onRx_fp s) c)"
| host_handles: "0 < k \<Longrightarrow> k \<le> length (to_host P (network (lib c))) \<Longrightarrow>
     host_run host_start obs = Some h \<Longrightarrow> set obs \<inter> {Is_running False, Raised} = {} \<Longrightarrow> pc h = H_handle \<Longrightarrow>
     chunks h = [take k (to_host P (network (lib c)))] \<Longrightarrow>
     session_step env eq s P c (Inr (host_takes P k (echoed h) c))"

inductive_cases session_stepE: "session_step env eq s P c r"

text \<open>A session of \<open>n\<close> steps; a failed handler ends it.\<close>

fun echo_session ::
  "'w env \<Rightarrow> (u8 list \<Rightarrow> u8 list \<Rightarrow> nat \<Rightarrow> bool) \<Rightarrow> oid \<Rightarrow> 'w pipes \<Rightarrow> nat
     \<Rightarrow> 'w tcp_client \<Rightarrow> echo_error + 'w tcp_client \<Rightarrow> bool" where
  "echo_session env eq s P 0 c r \<longleftrightarrow> r = Inr c"
| "echo_session env eq s P (Suc n) c r \<longleftrightarrow>
     (\<exists>c1. echo_session env eq s P n c (Inr c1) \<and> session_step env eq s P c1 r)"

text \<open>Over every chunk of at most 1024 bytes there is a pass, and a pass answers with the echo of its chunk.\<close>

lemma host_pass:
  assumes "d \<noteq> []" and "length d \<le> 1024"
  shows "\<exists>obs h. host_run host_start obs = Some h \<and> set obs \<inter> {Is_running False, Raised} = {} \<and> pc h = H_handle \<and> chunks h = [d]"
proof (cases "sublist end_mark d")
  case True
  with assms show ?thesis
    by (intro exI [of _ "[Is_running True, Is_running True, Received d]"]) (simp add: host_received_def host_start_def)
next
  case False
  with assms show ?thesis
    by (intro exI [of _ "[Is_running True, Is_running True, Received d, Is_running True, Sent_all]"])
      (simp add: host_received_def host_start_def)
qed

lemma host_pass_echo:
  assumes "host_run host_start obs = Some h" and "set obs \<inter> {Is_running False, Raised} = {}" and "pc h = H_handle"
    and "chunks h = [d]"
  shows "echoed h = echo_chunk d"
proof -
  have "echoed h @ in_hand (pc h) = echo_spec (chunks h)"
    by (rule host_run_spec [OF assms(1,2)]) (simp add: host_start_def)
  with assms(3,4) show ?thesis by (simp add: echo_spec_def)
qed

section \<open>The invariant and the work left\<close>

definition session_inv :: "'w env \<Rightarrow> oid \<Rightarrow> 'w pipes \<Rightarrow> 'w tcp_client \<Rightarrow> bool" where
  "session_inv env s P c \<longleftrightarrow>
     client_alive c \<and> length (tcp_buffer c) = 256 \<and> open_sock env K_TCPStream s (lib c) \<and>
     unat (unacked c) \<le> 32 \<and> terminates c = (if finished c then [True] else []) \<and>
     (\<not> is_done c \<longrightarrow> unat (unacked c) \<le> 12 \<and>
        to_client P (network (lib c)) @ to_host P (network (lib c)) = out_buffer)"

text \<open>
  A byte on its way to the host costs two steps at most, one on its way to the client one, a byte that is not acknowledged one;
  and the closing message, before it is sent, three for each of its 20 bytes.
\<close>

definition session_work :: "'w pipes \<Rightarrow> 'w tcp_client \<Rightarrow> nat" where
  "session_work P c =
     2 * length (to_host P (network (lib c))) + length (to_client P (network (lib c))) + unat (unacked c) +
     (if is_done c then 0 else 60)"

definition reads_prefix :: "(u8 list \<Rightarrow> u8 list \<Rightarrow> nat \<Rightarrow> bool) \<Rightarrow> bool" where
  "reads_prefix eq \<longleftrightarrow> (\<forall>x y n. take n x = take n y \<longrightarrow> eq x y n)"

text \<open>The greeting contains no brace, so no part of it contains the mark.\<close>

lemma greeting_no_mark:
  assumes "p @ u = out_buffer"
  shows "echo_chunk (take k u) = take k u"
proof -
  have "of_char (CHR ''{'') \<notin> set out_buffer" by code_simp
  moreover have "set (take k u) \<subseteq> set out_buffer" using assms set_take_subset [of k u] by (metis le_supE set_append subset_trans order_refl)
  moreover have "of_char (CHR ''{'') \<in> set end_mark" by code_simp
  ultimately have "\<not> sublist end_mark (take k u)" using set_mono_sublist by blast
  then show ?thesis by (simp add: echo_chunk_def)
qed

lemma acknowledged_step:
  assumes "session_inv env s P c" and "0 < n" and "unat n \<le> unat (unacked c)"
  shows "session_inv env s P (tcp_onSent n c) \<and> session_work P (tcp_onSent n c) < session_work P c"
proof -
  have u: "unat (unacked c - ucast n) = unat (unacked c) - unat n"
    using assms(3) by (simp add: unat_sub word_le_nat_alt)
  have "0 < unat n" using assms(2) by (simp add: unat_gt_0 word_gt_0)
  moreover from this assms(3) have "unacked c \<noteq> 0" by auto
  ultimately show ?thesis
    using assms(1,3) u
    by (auto simp: session_inv_def session_work_def tcp_onSent_def post_terminate_def finished_def Let_def)
qed

lemma host_step_session:
  assumes "pipe_net env P" and "session_inv env s P c" and "0 < k" and "k \<le> length (to_host P (network (lib c)))"
  shows "session_inv env s P (host_takes P k (echo_chunk (take k (to_host P (network (lib c))))) c) \<and>
    session_work P (host_takes P k (echo_chunk (take k (to_host P (network (lib c))))) c) < session_work P c"
proof -
  let ?u = "to_host P (network (lib c))" and ?d = "to_client P (network (lib c))"
  have "length (echo_chunk (take k ?u)) \<le> k" by (simp add: echo_chunk_def)
  then have "session_work P (host_takes P k (echo_chunk (take k (to_host P (network (lib c))))) c) < session_work P c"
    using assms(3,4) by (simp add: session_work_def host_takes_def Let_def pipe_netD(1,2) [OF assms(1)])
  moreover have "(?d @ echo_chunk (take k ?u)) @ drop k ?u = out_buffer" if "\<not> is_done c"
    using that assms(2) greeting_no_mark [of ?d ?u k] by (simp add: session_inv_def)
  ultimately show ?thesis
    using assms(2) by (simp add: session_inv_def host_takes_def Let_def finished_def open_sock_network
        pipe_netD(1,2) [OF assms(1)])
qed

text \<open>The read of \<open>onRx\<close>: a first part of the stream, with a zero behind it.\<close>

lemma session_recv:
  assumes "sal_ok env" and "pipe_net env P" and "session_inv env s P c" and "to_client P (network (lib c)) \<noteq> []"
  obtains k w b where "0 < k" "k \<le> length (to_client P (network (lib c)))" "unat (of_nat k :: u32) = k"
    "Socket_recv env s (Some (tcp_buffer c)) (Some (of_nat (length (tcp_buffer c)) - 1)) (lib c) =
       Some ((SOCKET_ERROR_NONE, Some b, Some (of_nat k)), w)"
    "length b = 256" "k < 256" "take k b = take k (to_client P (network (lib c)))" "open_sock env K_TCPStream s w"
    "to_client P (network w) = drop k (to_client P (network (lib c)))" "to_host P (network w) = to_host P (network (lib c))"
proof -
  let ?d = "to_client P (network (lib c))" and ?b = "tcp_buffer c"
  have c: "length ?b = 256" "open_sock env K_TCPStream s (lib c)" using assms(3) by (simp_all add: session_inv_def)
  obtain k w where k: "0 < k" "k \<le> length ?d" "k \<le> 255" and
    r: "Socket_recv env s (Some ?b) (Some (of_nat (length ?b) - 1)) (lib c) =
      Some ((SOCKET_ERROR_NONE, Some (take k ?d @ drop k ?b), Some (of_nat k)), w)" and
    w: "open_sock env K_TCPStream s w" "to_client P (network w) = drop k ?d"
      "to_host P (network w) = to_host P (network (lib c))"
    using recv_pipe [OF assms(1,2) c(2) assms(4), of 255 ?b] c(1) by auto
  have "unat (of_nat k :: u32) = k" using k by (simp add: unat_of_nat)
  with that [OF k(1,2) _ r] k c(1) w show thesis by simp
qed

lemma unat_pos: "unat n = k \<Longrightarrow> 0 < k \<Longrightarrow> 0 < n" for n :: u32
  by (simp add: word_gt_0) auto

lemma readable_done:
  assumes "sal_ok env" and "pipe_net env P" and inv: "session_inv env s P c"
    and "to_client P (network (lib c)) \<noteq> []" and "is_done c"
  shows "\<exists>c'. tcp_onRx env eq s c = Inr c' \<and> session_inv env s P c' \<and> session_work P c' < session_work P c \<and>
    is_done c' \<and> unacked c' = unacked c \<and> to_host P (network (lib c')) = to_host P (network (lib c)) \<and> validates c' = validates c"
proof -
  obtain k w b where
    k: "0 < k" "k \<le> length (to_client P (network (lib c)))" "unat (of_nat k :: u32) = k" and
    r: "Socket_recv env s (Some (tcp_buffer c)) (Some (of_nat (length (tcp_buffer c)) - 1)) (lib c) =
       Some ((SOCKET_ERROR_NONE, Some b, Some (of_nat k)), w)" and
    b: "length b = 256" "k < 256" "take k b = take k (to_client P (network (lib c)))" and
    w: "open_sock env K_TCPStream s w" "to_client P (network w) = drop k (to_client P (network (lib c)))"
      "to_host P (network w) = to_host P (network (lib c))"
    by (rule session_recv [OF assms(1-4)])
  let ?c = "c\<lparr>lib := w, tcp_buffer := b[k := 0]\<rparr>"
  have "tcp_onRx env eq s c = Inr ?c" using assms(5) r k b by (simp add: tcp_onRx_def Let_def)
  moreover have "session_inv env s P ?c" using assms(5) inv w b by (simp add: session_inv_def finished_def)
  moreover have "session_work P ?c < session_work P c" using k w by (simp add: session_work_def)
  ultimately show ?thesis using assms(5) w(3) by (intro exI [of _ ?c]) simp
qed

text \<open>The first read is compared with the greeting, and equals a first part of it; then the closing message is sent.\<close>

lemma readable_first:
  assumes "sal_ok env" and "pipe_net env P" and inv: "session_inv env s P c"
    and "to_client P (network (lib c)) \<noteq> []" and "\<not> is_done c" and "reads_prefix eq"
  shows "\<exists>c'. tcp_onRx env eq s c = Inr c' \<and> session_inv env s P c' \<and> session_work P c' < session_work P c \<and>
    is_done c' \<and> unat (unacked c') = unat (unacked c) + 20 \<and>
    to_host P (network (lib c')) = to_host P (network (lib c)) @ out_success \<and> validates c' = validates c"
proof -
  let ?u = "to_host P (network (lib c))" and ?d = "to_client P (network (lib c))"
  obtain k w b where
    k: "0 < k" "k \<le> length ?d" "unat (of_nat k :: u32) = k" and
    r: "Socket_recv env s (Some (tcp_buffer c)) (Some (of_nat (length (tcp_buffer c)) - 1)) (lib c) =
       Some ((SOCKET_ERROR_NONE, Some b, Some (of_nat k)), w)" and
    b: "length b = 256" "k < 256" "take k b = take k ?d" and
    w: "open_sock env K_TCPStream s w" "to_client P (network w) = drop k ?d" "to_host P (network w) = ?u"
    by (rule session_recv [OF assms(1-4)])
  from send_pipe [OF assms(1,2) w(1), of out_success 20] w(2,3) obtain w2 where
    w2: "Socket_send env s (Some out_success) 20 w = Some (SOCKET_ERROR_NONE, w2)" "open_sock env K_TCPStream s w2"
      "to_host P (network w2) = ?u @ out_success" "to_client P (network w2) = drop k ?d" by auto
  have c: "client_alive c" "unat (unacked c) \<le> 12" "?d @ ?u = out_buffer" "terminates c = []"
    using assms(5) inv by (simp_all add: session_inv_def finished_def)
  have "take k out_buffer = take k (b[k := 0])" unfolding c(3) [symmetric] using k(2) b by simp
  with assms(6) have eq: "eq out_buffer (b[k := 0]) k" by (simp add: reads_prefix_def)
  let ?c = "c\<lparr>lib := w2, tcp_buffer := b[k := 0], unacked := unacked c + 20, is_done := True\<rparr>"
  have u: "unat (unacked c + 20) = unat (unacked c) + 20" using c(2) unat_add_lem [of "unacked c" 20] by simp
  then have "\<not> finished ?c" by (auto simp: finished_def)
  moreover have "tcp_onRx env eq s c = Inr ?c"
    using assms(5) r k b eq w2(1) unat_pos [OF k(3,1)] by (simp add: tcp_onRx_def Let_def)
  moreover have "session_work P ?c < session_work P c" using k w2 u assms(5) by (simp add: session_work_def)
  ultimately show ?thesis using c u w2(2,3) b(1) by (intro exI [of _ ?c]) (simp add: session_inv_def)
qed

lemma session_step_inv:
  assumes "sal_ok env" and "pipe_net env P" and "reads_prefix eq" and "session_inv env s P c"
    and "session_step env eq s P c r"
  shows "\<exists>c'. r = Inr c' \<and> session_inv env s P c' \<and> session_work P c' < session_work P c"
  using assms(5)
proof (cases rule: session_step.cases)
  case (acknowledged n)
  with acknowledged_step [OF assms(4)] assms(4) show ?thesis by (auto simp: tcp_callback_def session_inv_def)
next
  case readable
  have "client_alive c" using assms(4) by (simp add: session_inv_def)
  with readable(1) have "r = tcp_onRx env eq s c" by (simp add: tcp_callback_def)
  with readable_done [OF assms(1,2,4) readable(2)] readable_first [OF assms(1,2,4) readable(2) _ assms(3)] show ?thesis
    by (cases "is_done c") blast+
next
  case (host_handles k obs h)
  with host_pass_echo [OF host_handles(4-7)] host_step_session [OF assms(2,4)] show ?thesis by simp
qed

text \<open>A session that has not ended can go on.\<close>

lemma session_progress:
  assumes "session_inv env s P c" and "\<And>r. \<not> session_step env eq s P c r"
  shows "finished c"
proof -
  have "unacked c = 0"
  proof (rule ccontr)
    assume "unacked c \<noteq> 0"
    then have "unat (1 :: u16) \<le> unat (unacked c)" by (simp add: Suc_le_eq unat_gt_0)
    with assms(2) acknowledged [of 1 c env eq s P] show False by simp
  qed
  moreover have "to_client P (network (lib c)) = []" using assms(2) readable by blast
  moreover have "to_host P (network (lib c)) = []"
  proof (cases "to_host P (network (lib c))")
    case (Cons x xs)
    obtain obs h where "host_run host_start obs = Some h" "set obs \<inter> {Is_running False, Raised} = {}" "pc h = H_handle"
      "chunks h = [[x]]" using host_pass [of "[x]"] by auto
    with assms(2) host_handles [of 1 P c obs h env eq s] Cons show ?thesis by simp
  qed
  ultimately show ?thesis
    using assms(1) by (auto simp: session_inv_def finished_def out_buffer_def bytes_def)
qed

lemma session_bounded:
  assumes "sal_ok env" and "pipe_net env P" and "reads_prefix eq" and "session_inv env s P c"
    and "echo_session env eq s P n c r"
  shows "\<exists>c'. r = Inr c' \<and> session_inv env s P c' \<and> n + session_work P c' \<le> session_work P c"
  using assms(5)
proof (induction n arbitrary: r)
  case 0
  with assms(4) show ?case by simp
next
  case (Suc n)
  then obtain c1 where "session_inv env s P c1" "n + session_work P c1 \<le> session_work P c" "session_step env eq s P c1 r"
    by auto
  with session_step_inv [OF assms(1-3)] show ?case by fastforce
qed

lemma session_starts:
  assumes "sal_ok env" and "pipe_net env P" and "client_alive c" and "length (tcp_buffer c) = 256"
    and "open_sock env K_TCPStream s (lib c)" and "\<not> is_done c" and "terminates c = []"
    and "to_host P (network (lib c)) = []" and "to_client P (network (lib c)) = []"
  shows "\<exists>c1. tcp_onConnect env s c = Inr c1 \<and> session_inv env s P c1 \<and> session_work P c1 = 96"
proof -
  from send_pipe [OF assms(1,2,5), of out_buffer 12] assms(8,9) obtain w where
    w: "Socket_send env s (Some out_buffer) 12 (lib c) = Some (SOCKET_ERROR_NONE, w)" "open_sock env K_TCPStream s w"
      "to_host P (network w) = out_buffer" "to_client P (network w) = []" by auto
  let ?c = "c\<lparr>lib := w, disconnected := False, unacked := 12\<rparr>"
  have "tcp_onConnect env s c = Inr ?c" using w by (simp add: tcp_onConnect_def Let_def)
  moreover have "session_inv env s P ?c" using w assms by (simp add: session_inv_def finished_def)
  moreover have "session_work P ?c = 96" using w assms(6) by (simp add: session_work_def)
  ultimately show ?thesis by blast
qed

section \<open>Properties\<close>

text \<open>
  C12. The TCP echo test passes when every read finds data. When the connection is made, the client sends its greeting; from then on, let the
  host's handler, the acknowledgements and the reads of the client happen in any order and cut the streams in any way, a
  read whenever data are waiting.
  No handler of the client ever fails, so in particular the comparison with the greeting succeeds; after at
  most 96 steps nothing more can happen, and when nothing more can happen the client has posted
  \<open>terminate(true)\<close>, once.
\<close>

theorem echo_session_ends:
  assumes "sal_ok env" and "pipe_net env P" and "reads_prefix eq" and "client_alive c"
    and "length (tcp_buffer c) = 256" and "open_sock env K_TCPStream s (lib c)" and "\<not> is_done c"
    and "terminates c = []" and "to_host P (network (lib c)) = []" and "to_client P (network (lib c)) = []"
  shows "\<exists>c1. tcp_onConnect env s c = Inr c1 \<and>
    (\<forall>n r. echo_session env eq s P n c1 r \<longrightarrow> n \<le> 96 \<and>
       (\<exists>c'. r = Inr c' \<and> ((\<nexists>r'. session_step env eq s P c' r') \<longrightarrow> terminates c' = [True])))"
proof -
  from session_starts [OF assms(1,2,4-10)] obtain c1 where
    c1: "tcp_onConnect env s c = Inr c1" "session_inv env s P c1" "session_work P c1 = 96" by blast
  have "n \<le> 96 \<and> (\<exists>c'. r = Inr c' \<and> ((\<nexists>r'. session_step env eq s P c' r') \<longrightarrow> terminates c' = [True]))"
    if run: "echo_session env eq s P n c1 r" for n r
  proof -
    from session_bounded [OF assms(1-3) c1(2) run] c1(3) obtain c' where
      c': "r = Inr c'" "session_inv env s P c'" "n \<le> 96" by auto
    then have "terminates c' = [True]" if "\<nexists>r'. session_step env eq s P c' r'"
      using session_progress [OF c'(2)] that by (auto simp: session_inv_def)
    with c' show ?thesis by blast
  qed
  with c1(1) show ?thesis by blast
qed

section \<open>A sample connection\<close>

text \<open>The state of the network is the pair of the streams.\<close>

definition pair_pipes :: "(u8 list \<times> u8 list) pipes" where
  "pair_pipes = \<lparr>to_host = fst, to_client = snd, set_pipes = (\<lambda>u d x. (u, d))\<rparr>"

definition stream_recv ::
  "u8 list option \<Rightarrow> u32 option \<Rightarrow> (u8 list \<times> u8 list, socket_error_t \<times> u8 list option \<times> u32 option) eff" where
  "stream_recv b l x s =
     (case (b, l) of
        (Some b1, Some l1) \<Rightarrow>
          let k = min (length (snd x)) (unat l1)
          in ((SOCKET_ERROR_NONE, Some (take k (snd x) @ drop k b1), Some (of_nat k)), s, [], (fst x, drop k (snd x)))
      | _ \<Rightarrow> ((SOCKET_ERROR_NULL_PTR, b, l), s, [], x))"

definition stream_send :: "u8 list option \<Rightarrow> u32 \<Rightarrow> (u8 list \<times> u8 list, socket_error_t) eff" where
  "stream_send b l x s =
     (case b of
        None \<Rightarrow> (SOCKET_ERROR_NULL_PTR, s, [], x)
      | Some b1 \<Rightarrow> (SOCKET_ERROR_NONE, s, [], (fst x @ take (unat l) b1, snd x)))"

definition pair_env :: "(u8 list \<times> u8 list) env" where
  "pair_env = one_stack_env (inert_api\<lparr>api_recv := stream_recv, api_send := stream_send\<rparr>)"

lemma pair_env_ok: "sal_ok pair_env" "minar_ok pair_env"
proof -
  have "keeps H (stream_recv b l)" "keeps H (stream_send b n)" for H b l n
    by (auto simp: keeps_def stream_recv_def stream_send_def Let_def split: option.splits)
  with inert_api_ok [where 'w = "u8 list \<times> u8 list"]
  have "api_ok (inert_api\<lparr>api_recv := stream_recv, api_send := stream_send\<rparr>)" by (simp add: api_ok_def)
  then show "sal_ok pair_env" "minar_ok pair_env" by (simp_all add: pair_env_def one_stack_env_ok)
qed

lemma pair_env_pipes: "pipe_net pair_env pair_pipes"
  apply (auto simp: pipe_net_def pair_env_def one_stack_env_def pair_pipes_def stream_recv_def stream_send_def Let_def
      word_gt_0 min_def)
  subgoal for s i b n d by (intro exI [of _ "unat n"]) (simp add: unat_gt_0)
  done

text \<open>A client whose stream has been opened.\<close>

definition pair_world :: "(u8 list \<times> u8 list) world" where
  "pair_world = the (TCPStream_ctor pair_env 4 1 sample_mem (init_world ([], [])))"

definition pair_client :: "(u8 list \<times> u8 list) tcp_client" where
  "pair_client = \<lparr>
     lib = snd (the (TCPAsynch_open pair_env 4 SOCKET_AF_INET4 pair_world)),
     resolvedAddr = \<lparr>addr_member = sample_addr\<rparr>, tcp_port = 80, is_done = False, disconnected = True, unacked = 0,
     tcp_buffer = replicate 256 0, client_alive = True, terminates = [], eth_disconnects = 0, validates = 0\<rparr>"

lemma pair_world_state:
  "network pair_world = ([], [])" "map_option (\<lambda>ob. api (sock ob)) (objs pair_world 4) = Some (Some 5)"
  by code_simp+

lemma pair_world_sock: "has_sock pair_env K_TCPStream 4 pair_world"
  using stream_class.ctor_law [OF pair_env_ok(2) wf_init, of 4 "([], [])" 1 sample_mem]
  by (auto simp: init_world_def pair_world_def has_sock_def)

lemma pair_client_ok:
  "open_sock pair_env K_TCPStream 4 (lib pair_client)" "network (lib pair_client) = ([], [])"
proof -
  from pair_world_state(2) obtain ob where ob: "objs pair_world 4 = Some ob" "api (sock ob) \<noteq> None" by auto
  have c: "callable pair_env 4 (\<lambda>t. api_create t SOCKET_AF_INET4 SOCKET_STREAM 4)" using pair_env_ok by simp
  have "\<exists>r w'. api_call pair_env 4 (\<lambda>t. api_create t SOCKET_AF_INET4 SOCKET_STREAM 4) pair_world = Some (r, w') \<and>
      open_sock pair_env K_TCPStream 4 w' \<and> network w' = ([], [])"
    by (rule api_call_opens [OF pair_env_ok(1) pair_world_sock ob c, where Q = "\<lambda>r x. x = ([], [])"])
       (auto simp: pair_env_def one_stack_env_def inert_api_def pair_world_state)
  with ob show "open_sock pair_env K_TCPStream 4 (lib pair_client)" "network (lib pair_client) = ([], [])"
    by (auto simp: pair_client_def TCPAsynch_open_def Socket_open_def)
qed

text \<open>C12 applied to the pair of streams, a stream socket that has just been opened, and \<open>strncmp\<close>.\<close>

theorem echo_session_ends_witness:
  "\<exists>c1. tcp_onConnect pair_env 4 pair_client = Inr c1 \<and>
     (\<forall>n r. echo_session pair_env strn_eq 4 pair_pipes n c1 r \<longrightarrow> n \<le> 96 \<and>
       (\<exists>c'. r = Inr c' \<and> ((\<nexists>r'. session_step pair_env strn_eq 4 pair_pipes c' r') \<longrightarrow> terminates c' = [True])))"
  by (rule echo_session_ends [OF pair_env_ok(1) pair_env_pipes])
     (simp_all add: pair_client_ok pair_pipes_def strn_eq_def reads_prefix_def, simp_all add: pair_client_def)

end
