(* ===== verification/Event_Queue.thy ===== *)
theory Event_Queue
  imports Echo_Session
begin

text \<open>
  The TCP client behind the event handler of the library and the queue of the scheduler: the stack raises events at any time, the
  library posts callbacks, and the scheduler runs them later, in their order. A readable callback may therefore find that an earlier
  one has read its data, as the comment on \<open>_onReadable\<close> in \<open>Socket.h\<close> says.
\<close>

section \<open>The network\<close>

text \<open>
  The stack opens sockets, resolves names and connects, and leaves the streams of the connection alone while it does so; it
  raises its events between the calls and not in them. A read when no data are there reports an error or zero bytes; which
  of the two is left open.
\<close>

definition defers_events :: "('w, 'r) eff \<Rightarrow> bool" where
  "defers_events f \<longleftrightarrow> (\<forall>x s. fst (snd (snd (f x s))) = [])"

definition same_pipes :: "'w pipes \<Rightarrow> 'w \<Rightarrow> 'w \<Rightarrow> bool" where
  "same_pipes P x x' \<longleftrightarrow> to_host P x' = to_host P x \<and> to_client P x' = to_client P x"

definition tcp_net :: "'w env \<Rightarrow> 'w pipes \<Rightarrow> bool" where
  "tcp_net env P \<longleftrightarrow> pipe_net env P \<and>
     (\<forall>p b n. defers_events (api_send (vtable env p) b n) \<and> defers_events (api_recv (vtable env p) b (Some n))) \<and>
     (\<forall>p af pf h x s r s' rs x'. api_create (vtable env p) af pf h x s = (r, s', rs, x') \<longrightarrow>
        r = SOCKET_ERROR_NONE \<and> impl s' \<noteq> None \<and> handler s' \<noteq> None \<and> rs = [] \<and> same_pipes P x x') \<and>
     (\<forall>p n x s r s' rs x'. impl s \<noteq> None \<longrightarrow> api_resolve (vtable env p) (Some n) x s = (r, s', rs, x') \<longrightarrow>
        r = SOCKET_ERROR_NONE \<and> impl s' \<noteq> None \<and> rs = [] \<and> same_pipes P x x') \<and>
     (\<forall>p a n x s r s' rs x'. impl s \<noteq> None \<longrightarrow> api_connect (vtable env p) a n x s = (r, s', rs, x') \<longrightarrow>
        r = SOCKET_ERROR_NONE \<and> impl s' \<noteq> None \<and> rs = [] \<and> same_pipes P x x') \<and>
     (\<forall>p b n x s r s' rs x'. impl s \<noteq> None \<longrightarrow> to_client P x = [] \<longrightarrow> api_recv (vtable env p) (Some b) (Some n) x s = (r, s', rs, x') \<longrightarrow>
        impl s' \<noteq> None \<and> same_pipes P x x' \<and>
        (fst r = SOCKET_ERROR_NONE \<longrightarrow> (\<exists>b'. length b' = length b \<and> r = (SOCKET_ERROR_NONE, Some b', Some 0))))"

lemma tcp_netD:
  assumes "tcp_net env P"
  shows "pipe_net env P"
    "api_send (vtable env p) b n x s = (r, s', rs, x') \<Longrightarrow> rs = []"
    "api_recv (vtable env p) b (Some n) x s = (r1, s', rs, x') \<Longrightarrow> rs = []"
    "api_create (vtable env p) af pf h x s = (r, s', rs, x') \<Longrightarrow>
       r = SOCKET_ERROR_NONE \<and> impl s' \<noteq> None \<and> handler s' \<noteq> None \<and> rs = [] \<and> same_pipes P x x'"
    "impl s \<noteq> None \<Longrightarrow> api_resolve (vtable env p) (Some nm) x s = (r, s', rs, x') \<Longrightarrow>
       r = SOCKET_ERROR_NONE \<and> impl s' \<noteq> None \<and> rs = [] \<and> same_pipes P x x'"
    "impl s \<noteq> None \<Longrightarrow> api_connect (vtable env p) a q x s = (r, s', rs, x') \<Longrightarrow>
       r = SOCKET_ERROR_NONE \<and> impl s' \<noteq> None \<and> rs = [] \<and> same_pipes P x x'"
    "impl s \<noteq> None \<Longrightarrow> to_client P x = [] \<Longrightarrow> api_recv (vtable env p) (Some bf) (Some n) x s = (r1, s', rs, x') \<Longrightarrow>
       impl s' \<noteq> None \<and> same_pipes P x x' \<and>
       (fst r1 = SOCKET_ERROR_NONE \<longrightarrow> (\<exists>b'. length b' = length bf \<and> r1 = (SOCKET_ERROR_NONE, Some b', Some 0)))"
proof -
  note net = assms [unfolded tcp_net_def]
  show "pipe_net env P" using net by (rule conjunct1)
  note net2 = net [THEN conjunct2]
  have "defers_events (api_send (vtable env p) b n)" "defers_events (api_recv (vtable env p) b (Some n))"
    using net2 [THEN conjunct1] by simp_all
  then show "api_send (vtable env p) b n x s = (r, s', rs, x') \<Longrightarrow> rs = []"
    "api_recv (vtable env p) b (Some n) x s = (r1, s', rs, x') \<Longrightarrow> rs = []"
    unfolding defers_events_def by (metis fst_conv snd_conv)+
  note net3 = net2 [THEN conjunct2]
  show "api_create (vtable env p) af pf h x s = (r, s', rs, x') \<Longrightarrow>
       r = SOCKET_ERROR_NONE \<and> impl s' \<noteq> None \<and> handler s' \<noteq> None \<and> rs = [] \<and> same_pipes P x x'"
    by (rule net3 [THEN conjunct1, rule_format])
  show "impl s \<noteq> None \<Longrightarrow> api_resolve (vtable env p) (Some nm) x s = (r, s', rs, x') \<Longrightarrow>
       r = SOCKET_ERROR_NONE \<and> impl s' \<noteq> None \<and> rs = [] \<and> same_pipes P x x'"
    by (rule net3 [THEN conjunct2, THEN conjunct1, rule_format])
  show "impl s \<noteq> None \<Longrightarrow> api_connect (vtable env p) a q x s = (r, s', rs, x') \<Longrightarrow>
       r = SOCKET_ERROR_NONE \<and> impl s' \<noteq> None \<and> rs = [] \<and> same_pipes P x x'"
    by (rule net3 [THEN conjunct2, THEN conjunct2, THEN conjunct1, rule_format])
  show "impl s \<noteq> None \<Longrightarrow> to_client P x = [] \<Longrightarrow> api_recv (vtable env p) (Some bf) (Some n) x s = (r1, s', rs, x') \<Longrightarrow>
       impl s' \<noteq> None \<and> same_pipes P x x' \<and>
       (fst r1 = SOCKET_ERROR_NONE \<longrightarrow> (\<exists>b'. length b' = length bf \<and> r1 = (SOCKET_ERROR_NONE, Some b', Some 0)))"
    using net3 [THEN conjunct2, THEN conjunct2, THEN conjunct2] by blast
qed

section \<open>Events, the scheduler and the client\<close>

text \<open>
  What the scheduler has to run: callbacks that the library has posted, and calls of \<open>terminate\<close> that the client has posted. They are run in
  the order in which they were posted.
\<close>

datatype task = Task_callback callback | Task_terminate bool

text \<open>
  The client, the queue of the scheduler, and the number of bytes that have arrived at the client's stack and that it has not yet
  announced with an event.
\<close>

record 'w sched =
  tclient :: "'w tcp_client"
  queue :: "task list"
  fresh :: nat

fun posted_callbacks :: "minar_call list \<Rightarrow> callback list" where
  "posted_callbacks [] = []"
| "posted_callbacks (PostCallback cb # cs) = cb # posted_callbacks cs"
| "posted_callbacks (_ # cs) = posted_callbacks cs"

text \<open>What has been posted between two states; a handler posts \<open>terminate\<close> after its calls of the library.\<close>

definition posted_since :: "'w tcp_client \<Rightarrow> 'w tcp_client \<Rightarrow> task list" where
  "posted_since c c1 =
     map Task_callback (posted_callbacks (drop (length (minar (lib c))) (minar (lib c1)))) @
     map Task_terminate (drop (length (terminates c)) (terminates c1))"

text \<open>The stack raises an event on the stream: the library's handler runs, and what it posts is queued.\<close>

definition queue_event :: "oid \<Rightarrow> socket_event \<Rightarrow> 'w sched \<Rightarrow> echo_error + 'w sched" where
  "queue_event s ev x =
     (case raise_event s ev (lib (tclient x)) of
        None \<Rightarrow> Inl Undefined
      | Some w1 \<Rightarrow>
          let c1 = (tclient x)\<lparr>lib := w1\<rparr>
          in Inr (x\<lparr>tclient := c1, queue := queue x @ posted_since (tclient x) c1\<rparr>))"

text \<open>The scheduler runs the first task of the queue, which may post further ones.\<close>

definition run_task ::
  "'w env \<Rightarrow> (u8 list \<Rightarrow> u8 list \<Rightarrow> nat \<Rightarrow> bool) \<Rightarrow> oid \<Rightarrow> task \<Rightarrow> 'w tcp_client \<Rightarrow> echo_error + 'w tcp_client" where
  "run_task env eq s t c =
     (case t of Task_callback cb \<Rightarrow> tcp_callback env eq s cb c | Task_terminate status \<Rightarrow> tcp_terminate env s status c)"

definition run_next ::
  "'w env \<Rightarrow> (u8 list \<Rightarrow> u8 list \<Rightarrow> nat \<Rightarrow> bool) \<Rightarrow> oid \<Rightarrow> 'w sched \<Rightarrow> echo_error + 'w sched" where
  "run_next env eq s x =
     (case queue x of
        [] \<Rightarrow> Inr x
      | t # q \<Rightarrow> and_then (run_task env eq s t (tclient x))
                  (\<lambda>c1. Inr (x\<lparr>tclient := c1, queue := q @ posted_since (tclient x) c1\<rparr>)))"

abbreviation rx_task :: "oid \<Rightarrow> task" where
  "rx_task s \<equiv> Task_callback (CB_onReadable onRx_fp s)"

abbreviation ack_task :: "oid \<Rightarrow> u16 \<Rightarrow> task" where
  "ack_task s n \<equiv> Task_callback (CB_onSent onSent_fp s n)"

text \<open>The bytes whose acknowledgement has been reported and not been handled yet.\<close>

fun ack_of :: "task \<Rightarrow> nat" where
  "ack_of (Task_callback (CB_onSent f a n)) = unat n"
| "ack_of _ = 0"

definition queued_acks :: "task list \<Rightarrow> nat" where
  "queued_acks q = sum_list (map ack_of q)"

text \<open>
  The steps, as long as the client exists: the stack reports that sent bytes were acknowledged; it reports the arrival of some of the
  bytes that have come in, one event for each segment, whether or not a read has taken them already; the host's handler makes a
  pass of its loop; or the scheduler runs the next task. Events may be raised at any time, so any number of callbacks may be
  queued, and a readable callback may find nothing to read.
\<close>

inductive sched_step ::
  "'w env \<Rightarrow> (u8 list \<Rightarrow> u8 list \<Rightarrow> nat \<Rightarrow> bool) \<Rightarrow> oid \<Rightarrow> 'w pipes \<Rightarrow> 'w sched \<Rightarrow> echo_error + 'w sched \<Rightarrow> bool"
  for env eq s P where
  tx_done: "client_alive (tclient x) \<Longrightarrow> 0 < n \<Longrightarrow> unat n + queued_acks (queue x) \<le> unat (unacked (tclient x)) \<Longrightarrow>
     sched_step env eq s P x (queue_event s (SOCKET_EVENT_TX_DONE n) x)"
| rx_done: "client_alive (tclient x) \<Longrightarrow> 0 < k \<Longrightarrow> k \<le> fresh x \<Longrightarrow>
     sched_step env eq s P x (queue_event s SOCKET_EVENT_RX_DONE (x\<lparr>fresh := fresh x - k\<rparr>))"
| host_loop: "client_alive (tclient x) \<Longrightarrow> 0 < k \<Longrightarrow> k \<le> length (to_host P (network (lib (tclient x)))) \<Longrightarrow>
     host_run host_start obs = Some h \<Longrightarrow> set obs \<inter> {Is_running False, Raised} = {} \<Longrightarrow> pc h = H_handle \<Longrightarrow>
     chunks h = [take k (to_host P (network (lib (tclient x))))] \<Longrightarrow>
     sched_step env eq s P x
       (Inr (x\<lparr>tclient := host_takes P k (host.echoed h) (tclient x), fresh := fresh x + length (host.echoed h)\<rparr>))"
| dispatch: "client_alive (tclient x) \<Longrightarrow> queue x \<noteq> [] \<Longrightarrow> sched_step env eq s P x (run_next env eq s x)"

fun sched_run ::
  "'w env \<Rightarrow> (u8 list \<Rightarrow> u8 list \<Rightarrow> nat \<Rightarrow> bool) \<Rightarrow> oid \<Rightarrow> 'w pipes \<Rightarrow> nat \<Rightarrow> 'w sched \<Rightarrow> 'w sched \<Rightarrow> bool" where
  "sched_run env eq s P 0 x y \<longleftrightarrow> y = x"
| "sched_run env eq s P (Suc n) x y \<longleftrightarrow> (\<exists>z. sched_run env eq s P n x z \<and> sched_step env eq s P z (Inr y))"

section \<open>Calls of the stack that raise no event\<close>

lemma net_call:
  assumes ok: "sal_ok env" and s: "has_sock env k s w" and ob: "objs w s = Some ob" "api (sock ob) \<noteq> None"
    and c: "callable env s f"
    and spec: "\<And>p r s' rs x. f (vtable env p) (network w) (sock ob) = (r, s', rs, x) \<Longrightarrow> impl s' \<noteq> None \<and> rs = [] \<and> R r s' x"
  shows "\<exists>r s' w'. api_call env s f w = Some (r, w') \<and> open_sock env k s w' \<and> objs w' s = Some (ob\<lparr>sock := s'\<rparr>) \<and>
    minar w' = minar w \<and> R r s' (network w')"
proof -
  from ob(2) obtain p where p: "api (sock ob) = Some p" by blast
  obtain r s' rs x where f: "f (vtable env p) (network w) (sock ob) = (r, s', rs, x)" by (metis prod_cases4)
  let ?w = "put_obj s (ob\<lparr>sock := s'\<rparr>) (w\<lparr>network := x\<rparr>)"
  have r: "api_call env s f w = Some (r, ?w)"
    using spec [OF f] by (simp add: api_call_def api_invoke_def ob(1) p f)
  have "has_sock env k s ?w" by (rule has_sock_frame [OF api_call_frame [OF r c] s])
  with spec [OF f] r show ?thesis
    by (intro exI [of _ r] exI [of _ s'] exI [of _ ?w]) (simp add: open_sock_def)
qed

text \<open>The members of the stream that decide which callbacks its events post.\<close>

definition wiring :: "Socket \<Rightarrow> fp \<times> fp \<times> fp \<times> TCPStream_members" where
  "wiring ob = (onDNS ob, onReadable ob, onSent ob, stream_part ob)"

definition calm :: "oid \<Rightarrow> 'w world \<Rightarrow> 'w world \<Rightarrow> bool" where
  "calm s w w' \<longleftrightarrow> map_option wiring (objs w' s) = map_option wiring (objs w s) \<and> minar w' = minar w"

lemma calm_trans: "calm s w1 w2 \<Longrightarrow> calm s w2 w3 \<Longrightarrow> calm s w1 w3"
  by (simp add: calm_def)

lemma api_call_calm:
  assumes "api_call env s f w = Some (r, w')" and "\<And>p x st r s' rs x'. f (vtable env p) x st = (r, s', rs, x') \<Longrightarrow> rs = []"
  shows "calm s w w'"
proof -
  from assms(1) obtain ob p s' rs x where "objs w s = Some ob" "f (vtable env p) (network w) (sock ob) = (r, s', rs, x)"
    "raise_events rs (put_obj s (ob\<lparr>sock := s'\<rparr>) (w\<lparr>network := x\<rparr>)) = Some w'"
    by (auto simp: api_call_def api_invoke_eq_Some)
  with assms(2) show ?thesis by (fastforce simp: calm_def wiring_def)
qed

lemma calm_refl [simp]: "calm s w w"
  by (simp add: calm_def)

lemma send_calm:
  assumes "tcp_net env P" and "Socket_send env s b n w = Some (r, w')"
  shows "calm s w w'"
proof -
  have "calm s w w'" if "api_call env s (\<lambda>t. api_send t b n) w = Some (r, w')"
    by (rule api_call_calm [OF that]) (rule tcp_netD(2) [OF assms(1)])
  with assms(2) show ?thesis by (auto simp: Socket_send_def split: if_splits)
qed

lemma recv_calm:
  assumes "tcp_net env P" and "Socket_recv env s b (Some n) w = Some (r, w')"
  shows "calm s w w'"
proof -
  have "calm s w w'" if "api_call env s (\<lambda>t. api_recv t b (Some n)) w = Some (r, w')"
    by (rule api_call_calm [OF that]) (rule tcp_netD(3) [OF assms(1)])
  with assms(2) show ?thesis by (auto simp: Socket_recv_def split: if_splits)
qed

lemma onRx_calm:
  assumes net: "tcp_net env P" and "tcp_onRx env eq s c = Inr c'"
  shows "calm s (lib c) (lib c')"
proof -
  from assms(2) obtain err b n w1 where
    r: "Socket_recv env s (Some (tcp_buffer c)) (Some (of_nat (length (tcp_buffer c)) - 1)) (lib c) = Some ((err, b, n), w1)"
    by (auto simp: tcp_onRx_def echo_monad_Inr)
  have calm1: "calm s (lib c) w1" by (rule recv_calm [OF net r])
  from assms(2) r obtain b1 n1 where bn: "b = Some b1" "n = Some n1" "unat n1 < length b1"
    by (cases b; cases n) (auto simp: tcp_onRx_def echo_monad_Inr split: if_splits)
  show ?thesis
  proof (cases "\<not> is_done c \<and> 0 < n1")
    case True
    then obtain w2 where "Socket_send env s (Some out_success) 20 w1 = Some (SOCKET_ERROR_NONE, w2)" "lib c' = w2"
      using assms(2) r bn by (auto simp: tcp_onRx_def echo_monad_Inr Let_def)
    with send_calm [OF net] calm1 calm_trans show ?thesis by blast
  next
    case False
    with calm1 show ?thesis
      using assms(2) r bn by (auto simp: tcp_onRx_def echo_monad_Inr Let_def post_terminate_def split: if_splits)
  qed
qed

lemma onConnect_calm:
  assumes "tcp_net env P" and "tcp_onConnect env s c = Inr c'"
  shows "calm s (lib c) (lib c')"
  using assms(2) by (auto simp: tcp_onConnect_def echo_monad_Inr Let_def dest!: send_calm [OF assms(1)])

section \<open>Events are queued\<close>

text \<open>
  An event whose callback is set: it is queued, and nothing else of the client changes than the event fields and the list of
  calls to the scheduler.
\<close>

lemma queue_event_posts:
  assumes "open_sock env K_TCPStream s (lib (tclient x))" and "objs (lib (tclient x)) s = Some ob"
    and "event_callback s ob ev = Some cb"
  shows "\<exists>w1. queue_event s ev x = Inr (x\<lparr>tclient := (tclient x)\<lparr>lib := w1\<rparr>, queue := queue x @ [Task_callback cb]\<rparr>) \<and>
    open_sock env K_TCPStream s w1 \<and> network w1 = network (lib (tclient x)) \<and> objs w1 s = Some (seen_event ev ob)"
proof -
  let ?c = "tclient x"
  let ?w = "put_obj s (seen_event ev ob) (postCallback cb (lib ?c))"
  have r: "raise_event s ev (lib ?c) = Some ?w" using assms(2,3) by (simp add: raise_event_eq post_opt_def)
  have "has_sock env K_TCPStream s ?w"
    using assms(1) by (intro has_sock_frame [OF event_frame_op_frame [OF raise_event_frame [OF r]]]) (simp add: open_sock_def)
  with assms(1,2) r show ?thesis
    by (intro exI [of _ ?w]) (simp add: queue_event_def posted_since_def Let_def open_sock_def postCallback_def minar_do_def)
qed

text \<open>A client whose handlers for data and acknowledgements have been set.\<close>

definition wired :: "oid \<Rightarrow> 'w world \<Rightarrow> bool" where
  "wired s w \<longleftrightarrow> (\<exists>f m. map_option wiring (objs w s) = Some (f, onRx_fp, onSent_fp, m))"

lemma calm_wired: "calm s w w' \<Longrightarrow> wired s w \<Longrightarrow> wired s w'"
  by (simp add: calm_def wired_def)

lemma wired_network [simp]: "wired s (w\<lparr>network := x\<rparr>) = wired s w"
  by (simp add: wired_def)

lemma wired_callback:
  assumes "open_sock env K_TCPStream s w" and "wired s w"
  obtains ob where "objs w s = Some ob" "event_callback s ob (SOCKET_EVENT_TX_DONE n) = Some (CB_onSent onSent_fp s n)"
    "event_callback s ob SOCKET_EVENT_RX_DONE = Some (CB_onReadable onRx_fp s)"
proof -
  from assms obtain ob where "objs w s = Some ob" "vptr ob = K_TCPStream" "onReadable ob = onRx_fp" "onSent ob = onSent_fp"
    by (auto simp: wired_def wiring_def open_sock_def has_sock_def)
  with that show thesis by (simp add: event_callback_def if_set_def onRx_fp_def onSent_fp_def)
qed

section \<open>The invariant and the work left\<close>

definition test_inv :: "'w env \<Rightarrow> oid \<Rightarrow> 'w pipes \<Rightarrow> 'w tcp_client \<Rightarrow> bool" where
  "test_inv env s P c \<longleftrightarrow> session_inv env s P c \<and> wired s (lib c)"

definition client_task :: "oid \<Rightarrow> task \<Rightarrow> bool" where
  "client_task s t \<longleftrightarrow> t = rx_task s \<or> (\<exists>n. 0 < n \<and> t = ack_task s n) \<or> t = Task_terminate True"

text \<open>
  What is queued are tasks of the client; no more bytes are reported than were sent; \<open>terminate(true)\<close> is queued when everything is
  acknowledged; and until the first read all that has arrived is there: if it has not been announced then by a callback in the queue.
\<close>

definition sched_inv :: "'w env \<Rightarrow> oid \<Rightarrow> 'w pipes \<Rightarrow> 'w sched \<Rightarrow> bool" where
  "sched_inv env s P x \<longleftrightarrow> test_inv env s P (tclient x) \<and> list_all (client_task s) (queue x) \<and>
     queued_acks (queue x) \<le> unat (unacked (tclient x)) \<and>
     (Task_terminate True \<in> set (queue x) \<longleftrightarrow> finished (tclient x)) \<and>
     (\<not> is_done (tclient x) \<longrightarrow> fresh x \<le> length (to_client P (network (lib (tclient x)))) \<and>
        (if rx_task s \<in> set (queue x) then to_client P (network (lib (tclient x))) \<noteq> []
         else fresh x = length (to_client P (network (lib (tclient x))))))"

text \<open>
  A byte on its way to the host costs three steps at most, one that is not announced two, one whose acknowledgement is not
  reported two, a task one; the first read 100, for the 20 bytes of the closing message; and posting \<open>terminate\<close> one.
\<close>

definition sched_work :: "'w pipes \<Rightarrow> 'w sched \<Rightarrow> nat" where
  "sched_work P x =
     3 * length (to_host P (network (lib (tclient x)))) + 2 * fresh x +
     2 * (unat (unacked (tclient x)) - queued_acks (queue x)) + length (queue x) +
     (if is_done (tclient x) then 0 else 100) + (if finished (tclient x) then 0 else 1)"

definition goes_on :: "'w env \<Rightarrow> oid \<Rightarrow> 'w pipes \<Rightarrow> 'w sched \<Rightarrow> echo_error + 'w sched \<Rightarrow> bool" where
  "goes_on env s P x r \<longleftrightarrow> (\<exists>y. r = Inr y \<and> sched_inv env s P y \<and> sched_work P y < sched_work P x \<and>
     validates (tclient y) = validates (tclient x))"

lemma goes_onI:
  "sched_inv env s P y \<Longrightarrow> sched_work P y < sched_work P x \<Longrightarrow> validates (tclient y) = validates (tclient x) \<Longrightarrow>
   goes_on env s P x (Inr y)"
  by (simp add: goes_on_def)

lemma queued_acks_simps [simp]:
  "queued_acks [] = 0" "queued_acks (t # q) = ack_of t + queued_acks q" "queued_acks (p @ q) = queued_acks p + queued_acks q"
  by (simp_all add: queued_acks_def)

lemma sched_invD:
  assumes "sched_inv env s P x"
  shows "session_inv env s P (tclient x)" "wired s (lib (tclient x))" "client_alive (tclient x)"
    "open_sock env K_TCPStream s (lib (tclient x))" "list_all (client_task s) (queue x)"
    "queued_acks (queue x) \<le> unat (unacked (tclient x))"
    "Task_terminate True \<in> set (queue x) \<longleftrightarrow> finished (tclient x)"
    "\<not> is_done (tclient x) \<Longrightarrow> fresh x \<le> length (to_client P (network (lib (tclient x))))"
    "\<not> is_done (tclient x) \<Longrightarrow> rx_task s \<in> set (queue x) \<Longrightarrow> to_client P (network (lib (tclient x))) \<noteq> []"
    "\<not> is_done (tclient x) \<Longrightarrow> rx_task s \<notin> set (queue x) \<Longrightarrow> fresh x = length (to_client P (network (lib (tclient x))))"
  using assms by (simp_all add: sched_inv_def test_inv_def session_inv_def)

text \<open>An event that only the library has handled: the client's own members are as they were.\<close>

lemma seen_inv:
  assumes "session_inv env s P c" and "wired s (lib c)" and "open_sock env K_TCPStream s w1" and "network w1 = network (lib c)"
    and "objs (lib c) s = Some ob" and "objs w1 s = Some (seen_event ev ob)"
  shows "test_inv env s P (c\<lparr>lib := w1\<rparr>)"
  using assms by (simp add: test_inv_def session_inv_def finished_def wired_def wiring_def)

lemma tx_done_step:
  assumes inv: "sched_inv env s P x" and "0 < n" and "unat n + queued_acks (queue x) \<le> unat (unacked (tclient x))"
  shows "goes_on env s P x (queue_event s (SOCKET_EVENT_TX_DONE n) x)"
proof -
  note D = sched_invD [OF inv]
  obtain ob where ob: "objs (lib (tclient x)) s = Some ob"
    "event_callback s ob (SOCKET_EVENT_TX_DONE n) = Some (CB_onSent onSent_fp s n)" using wired_callback [OF D(4,2)] by blast
  from queue_event_posts [OF D(4) ob] obtain w1 where
    w1: "queue_event s (SOCKET_EVENT_TX_DONE n) x =
        Inr (x\<lparr>tclient := (tclient x)\<lparr>lib := w1\<rparr>, queue := queue x @ [ack_task s n]\<rparr>)"
      "open_sock env K_TCPStream s w1" "network w1 = network (lib (tclient x))" "objs w1 s = Some (seen_event (SOCKET_EVENT_TX_DONE n) ob)"
    by blast
  have "0 < unat n" using assms(2) by (simp add: unat_gt_0 word_gt_0)
  then show ?thesis
    unfolding w1(1)
    by (intro goes_onI)
       (use w1(3) D(5-10) assms(2,3) seen_inv [OF D(1,2) w1(2,3) ob(1) w1(4)] in
         \<open>auto simp: sched_inv_def client_task_def sched_work_def finished_def\<close>)
qed

lemma rx_done_step:
  assumes inv: "sched_inv env s P x" and "0 < k" and "k \<le> fresh x"
  shows "goes_on env s P x (queue_event s SOCKET_EVENT_RX_DONE (x\<lparr>fresh := fresh x - k\<rparr>))"
proof -
  note D = sched_invD [OF inv]
  obtain ob where ob: "objs (lib (tclient x)) s = Some ob"
    "event_callback s ob SOCKET_EVENT_RX_DONE = Some (CB_onReadable onRx_fp s)" using wired_callback [OF D(4,2)] by blast
  let ?x = "x\<lparr>fresh := fresh x - k\<rparr>"
  from queue_event_posts [of env s ?x ob SOCKET_EVENT_RX_DONE "CB_onReadable onRx_fp s"] D(4) ob obtain w1 where
    w1: "queue_event s SOCKET_EVENT_RX_DONE ?x = Inr (?x\<lparr>tclient := (tclient x)\<lparr>lib := w1\<rparr>, queue := queue x @ [rx_task s]\<rparr>)"
      "open_sock env K_TCPStream s w1" "network w1 = network (lib (tclient x))" "objs w1 s = Some (seen_event SOCKET_EVENT_RX_DONE ob)"
    by auto
  have d: "to_client P (network (lib (tclient x))) \<noteq> []" if "\<not> is_done (tclient x)"
    using D(8) [OF that] assms(2,3) by auto
  show ?thesis
    unfolding w1(1)
    by (intro goes_onI)
       (use w1(3) D(5-8) assms(2,3) d seen_inv [OF D(1,2) w1(2,3) ob(1) w1(4)] in
         \<open>auto simp: sched_inv_def client_task_def sched_work_def finished_def\<close>)
qed

lemma host_pass_step:
  assumes net: "pipe_net env P" and inv: "sched_inv env s P x" and "0 < k"
    and "k \<le> length (to_host P (network (lib (tclient x))))" and "a = echo_chunk (take k (to_host P (network (lib (tclient x)))))"
  shows "goes_on env s P x (Inr (x\<lparr>tclient := host_takes P k a (tclient x), fresh := fresh x + length a\<rparr>))"
proof -
  note D = sched_invD [OF inv]
  let ?c = "host_takes P k a (tclient x)"
  have "session_inv env s P ?c" using host_step_session [OF net D(1) assms(3,4)] assms(5) by simp
  moreover have c: "lib ?c = (lib (tclient x))\<lparr>network := network (lib ?c)\<rparr>" "unacked ?c = unacked (tclient x)"
    "is_done ?c = is_done (tclient x)" "validates ?c = validates (tclient x)"
    "to_client P (network (lib ?c)) = to_client P (network (lib (tclient x))) @ a"
    "to_host P (network (lib ?c)) = drop k (to_host P (network (lib (tclient x))))"
    by (simp_all add: host_takes_def Let_def pipe_netD(1,2) [OF net])
  moreover have "wired s (lib ?c)" using D(2) by (simp add: host_takes_def Let_def)
  moreover have "length a \<le> k" using assms(4,5) by (simp add: echo_chunk_def)
  moreover have "finished ?c = finished (tclient x)" using c by (simp add: finished_def)
  ultimately show ?thesis
    by (intro goes_onI) (use D(5-10) assms(3,4) in \<open>auto simp: sched_inv_def test_inv_def sched_work_def\<close>)
qed

section \<open>The scheduler runs a task\<close>

lemma posted_since_none: "minar (lib c1) = minar (lib c) \<Longrightarrow> terminates c1 = terminates c \<Longrightarrow> posted_since c c1 = []"
  by (simp add: posted_since_def)

lemma posted_since_onSent:
  "posted_since c (tcp_onSent n c) = (if is_done c \<and> unacked c = ucast n then [Task_terminate True] else [])"
  by (simp add: posted_since_def tcp_onSent_def post_terminate_def Let_def)

lemma run_ack:
  assumes inv: "sched_inv env s P x" and q: "queue x = ack_task s n # q" and "0 < n"
  shows "goes_on env s P x (run_next env eq s x)"
proof -
  note D = sched_invD [OF inv]
  let ?c = "tclient x"
  have n: "0 < unat n" "unat n \<le> unat (unacked ?c)" "unat n + queued_acks q \<le> unat (unacked ?c)"
    using assms(3) D(6) q by (simp_all add: unat_gt_0 word_gt_0)
  have u: "unat (unacked ?c - ucast n) = unat (unacked ?c) - unat n" using n(2) by (simp add: unat_sub word_le_nat_alt)
  have e: "unacked ?c = ucast n \<longleftrightarrow> unacked ?c - ucast n = 0" by simp
  have c1: "session_inv env s P (tcp_onSent n ?c)" using acknowledged_step [OF D(1) assms(3) n(2)] by blast
  have onSent: "unacked (tcp_onSent n ?c) = unacked ?c - ucast n" "is_done (tcp_onSent n ?c) = is_done ?c"
    "lib (tcp_onSent n ?c) = lib ?c" "validates (tcp_onSent n ?c) = validates ?c"
    by (simp_all add: tcp_onSent_def post_terminate_def Let_def)
  have nf: "\<not> finished ?c" using n by (auto simp: finished_def)
  have r: "run_next env eq s x = Inr (x\<lparr>tclient := tcp_onSent n ?c,
      queue := q @ (if is_done ?c \<and> unacked ?c = ucast n then [Task_terminate True] else [])\<rparr>)"
    using D(3) q by (simp add: run_next_def run_task_def tcp_callback_def posted_since_onSent)
  show ?thesis
    unfolding r
    by (intro goes_onI)
       (use c1 onSent nf D(2,5-10) q n u e in \<open>auto simp: client_task_def sched_inv_def test_inv_def sched_work_def finished_def\<close>)
qed

text \<open>A read that takes data, before and after the comparison with the greeting.\<close>

lemma run_rx:
  assumes ok: "sal_ok env" "tcp_net env P" "reads_prefix eq" and inv: "sched_inv env s P x" and q: "queue x = rx_task s # q"
    and d: "to_client P (network (lib (tclient x))) \<noteq> []"
  shows "goes_on env s P x (run_next env eq s x)"
proof -
  note D = sched_invD [OF inv]
  let ?c = "tclient x"
  have net: "pipe_net env P" by (rule tcp_netD(1) [OF ok(2)])
  have rn: "run_next env eq s x = Inr (x\<lparr>tclient := c1, queue := q\<rparr>)"
    if "tcp_onRx env eq s ?c = Inr c1" "session_inv env s P c1" "finished c1 = finished ?c" for c1
  proof -
    have "minar (lib c1) = minar (lib ?c)" using onRx_calm [OF ok(2) that(1)] by (simp add: calm_def)
    moreover have "terminates c1 = terminates ?c" using that(2,3) D(1) by (simp add: session_inv_def)
    ultimately have "posted_since ?c c1 = []" by (rule posted_since_none)
    with that(1) D(3) q show ?thesis by (simp add: run_next_def run_task_def tcp_callback_def)
  qed
  show ?thesis
  proof (cases "is_done ?c")
    case True
    from readable_done [OF ok(1) net D(1) d True, of eq] obtain c1 where
      c1: "tcp_onRx env eq s ?c = Inr c1" "session_inv env s P c1" "is_done c1" "unacked c1 = unacked ?c"
        "to_host P (network (lib c1)) = to_host P (network (lib ?c))" "validates c1 = validates ?c" by blast
    then have f: "finished c1 = finished ?c" using True by (simp add: finished_def)
    have "wired s (lib c1)" by (rule calm_wired [OF onRx_calm [OF ok(2) c1(1)] D(2)])
    with c1(2-6) f D(5-7) q True show ?thesis
      unfolding rn [OF c1(1,2) f] by (intro goes_onI) (simp_all add: sched_inv_def test_inv_def sched_work_def)
  next
    case False
    from readable_first [OF ok(1) net D(1) d False ok(3)] obtain c1 where
      c1: "tcp_onRx env eq s ?c = Inr c1" "session_inv env s P c1" "is_done c1" "unat (unacked c1) = unat (unacked ?c) + 20"
        "to_host P (network (lib c1)) = to_host P (network (lib ?c)) @ out_success" "validates c1 = validates ?c" by blast
    have f: "finished c1 = finished ?c" "\<not> finished ?c" using False c1(4) by (auto simp: finished_def)
    have "wired s (lib c1)" by (rule calm_wired [OF onRx_calm [OF ok(2) c1(1)] D(2)])
    with c1(2-6) f D(5-7) q False show ?thesis
      unfolding rn [OF c1(1,2) f(1)] by (intro goes_onI) (auto simp: sched_inv_def test_inv_def sched_work_def)
  qed
qed

text \<open>A read that finds nothing: an event has announced data that an earlier read had already taken.\<close>

lemma recv_empty:
  assumes "sal_ok env" and "tcp_net env P" and "open_sock env K s w" and "to_client P (network w) = []"
  shows "\<exists>r w'. Socket_recv env s (Some b) (Some n) w = Some (r, w') \<and> open_sock env K s w' \<and> same_pipes P (network w) (network w') \<and>
    (fst r = SOCKET_ERROR_NONE \<longrightarrow> (\<exists>b'. length b' = length b \<and> r = (SOCKET_ERROR_NONE, Some b', Some 0)))"
proof -
  from assms(3) obtain ob where ob: "has_sock env K s w" "objs w s = Some ob" "impl (sock ob) \<noteq> None"
    "api (sock ob) \<noteq> None" by (rule open_sockD)
  let ?Q = "\<lambda>r x. same_pipes P (network w) x \<and>
      (fst r = SOCKET_ERROR_NONE \<longrightarrow> (\<exists>b'. length b' = length b \<and> r = (SOCKET_ERROR_NONE, Some b', Some 0)))"
  have "\<exists>r w'. api_call env s (\<lambda>t. api_recv t (Some b) (Some n)) w = Some (r, w') \<and> open_sock env K s w' \<and> ?Q r (network w')"
    by (rule api_call_opens [OF assms(1) ob(1,2,4), where Q = ?Q])
       (simp add: assms(1), rule tcp_netD(7) [OF assms(2) ob(3) assms(4)])
  then obtain r w' where r: "api_call env s (\<lambda>t. api_recv t (Some b) (Some n)) w = Some (r, w')" "open_sock env K s w'"
    "?Q r (network w')" by blast
  have "Socket_recv env s (Some b) (Some n) w = Some (r, w')" using r(1) ob(2,3) by (auto simp: Socket_recv_def)
  with r(2,3) show ?thesis by blast
qed

text \<open>The read of \<open>onRx\<close> finds no data, and the stack reports that as an error.\<close>

definition refused_read :: "'w env \<Rightarrow> oid \<Rightarrow> 'w pipes \<Rightarrow> 'w tcp_client \<Rightarrow> bool" where
  "refused_read env s P c \<longleftrightarrow> is_done c \<and> to_client P (network (lib c)) = [] \<and>
     (\<exists>err b n w. err \<noteq> SOCKET_ERROR_NONE \<and>
        Socket_recv env s (Some (tcp_buffer c)) (Some (of_nat (length (tcp_buffer c)) - 1)) (lib c) = Some ((err, b, n), w))"

abbreviation recv_assertion :: echo_error where
  "recv_assertion \<equiv> Assertion ''TCPClient failed to recv data!''"

lemma run_rx_empty:
  assumes ok: "sal_ok env" "tcp_net env P" and inv: "sched_inv env s P x" and q: "queue x = rx_task s # q"
    and d: "to_client P (network (lib (tclient x))) = []"
  shows "goes_on env s P x (run_next env eq s x) \<or> run_next env eq s x = Inl recv_assertion \<and> refused_read env s P (tclient x)"
proof -
  note D = sched_invD [OF inv]
  let ?c = "tclient x"
  have dn: "is_done ?c" using D(9) d q by auto
  have len: "length (tcp_buffer ?c) = 256" using D(1) by (simp add: session_inv_def)
  let ?b = "tcp_buffer ?c"
  from recv_empty [OF ok D(4) d, of ?b "of_nat (length ?b) - 1"] obtain err b n w where
    r: "Socket_recv env s (Some ?b) (Some (of_nat (length ?b) - 1)) (lib ?c) = Some ((err, b, n), w)"
      "open_sock env K_TCPStream s w" "same_pipes P (network (lib ?c)) (network w)"
      "err = SOCKET_ERROR_NONE \<longrightarrow> (\<exists>b'. length b' = 256 \<and> b = Some b' \<and> n = Some 0)"
    using len by auto
  show ?thesis
  proof (cases "err = SOCKET_ERROR_NONE")
    case False
    then have "run_next env eq s x = Inl recv_assertion"
      using r(1) D(3) q by (simp add: run_next_def run_task_def tcp_callback_def tcp_onRx_def)
    moreover have "refused_read env s P ?c" using False r(1) dn d by (auto simp: refused_read_def)
    ultimately show ?thesis by blast
  next
    case True
    with r(4) obtain b' where b': "length b' = 256" "b = Some b'" "n = Some 0" by blast
    let ?c1 = "?c\<lparr>lib := w, tcp_buffer := b'[0 := 0]\<rparr>"
    have rx: "tcp_onRx env eq s ?c = Inr ?c1" using r(1) b' True dn by (simp add: tcp_onRx_def Let_def)
    have calm: "calm s (lib ?c) w" using onRx_calm [OF ok(2) rx] by simp
    then have "posted_since ?c ?c1 = []" by (intro posted_since_none) (simp_all add: calm_def)
    with rx D(3) q have rn: "run_next env eq s x = Inr (x\<lparr>tclient := ?c1, queue := q\<rparr>)"
      by (simp add: run_next_def run_task_def tcp_callback_def)
    have "test_inv env s P ?c1"
      using D(1) r(2) b'(1) dn calm_wired [OF calm D(2)] by (simp add: test_inv_def session_inv_def finished_def)
    then have "goes_on env s P x (run_next env eq s x)"
      unfolding rn by (intro goes_onI)
        (use D(5-7) q dn r(3) in \<open>simp_all add: sched_inv_def sched_work_def same_pipes_def finished_def\<close>)
    then show ?thesis ..
  qed
qed

text \<open>What holds when \<open>terminate\<close> has run; \<open>v\<close> is the number of validations before the test.\<close>

definition test_over :: "'w env \<Rightarrow> oid \<Rightarrow> nat \<Rightarrow> 'w tcp_client \<Rightarrow> bool" where
  "test_over env s v c \<longleftrightarrow> \<not> client_alive c \<and> terminates c = [True] \<and> validates c = Suc v \<and>
     wf_world env (lib c) \<and> objs (lib c) s = None"

lemma run_terminate:
  assumes "sal_ok env" and inv: "sched_inv env s P x" and q: "queue x = Task_terminate True # q"
  shows "\<exists>y. run_next env eq s x = Inr y \<and> test_over env s (validates (tclient x)) (tclient y)"
proof -
  note D = sched_invD [OF inv]
  have "finished (tclient x)" using D(7) q by simp
  then have "terminates (tclient x) = [True]" using D(1) by (simp add: session_inv_def)
  moreover have "tcp_client_ok env s (tclient x)" using D(1) by (simp add: session_inv_def tcp_client_ok_def open_sock_def)
  from tcp_terminate_ends [OF assms(1) this] obtain c1 where
    c1: "tcp_terminate env s True (tclient x) = Inr c1" "\<not> client_alive c1" "wf_world env (lib c1)"
      "dom (objs (lib c1)) = dom (objs (lib (tclient x))) - {s}" "validates c1 = Suc (validates (tclient x))" by blast
  moreover have "terminates c1 = terminates (tclient x)"
    using c1(1) by (auto simp: tcp_terminate_def echo_monad_Inr Let_def split: if_splits)
  moreover have "s \<notin> dom (objs (lib c1))" using c1(4) by simp
  then have "objs (lib c1) s = None" by (simp add: domIff)
  ultimately show ?thesis using q by (simp add: run_next_def run_task_def test_over_def)
qed

section \<open>Runs\<close>

lemma sched_step_inv:
  assumes ok: "sal_ok env" "tcp_net env P" "reads_prefix eq" and inv: "sched_inv env s P x" and "sched_step env eq s P x r"
  shows "goes_on env s P x r \<or> (\<exists>y. r = Inr y \<and> queue x \<noteq> [] \<and> test_over env s (validates (tclient x)) (tclient y)) \<or>
    r = Inl recv_assertion \<and> (\<exists>q. queue x = rx_task s # q) \<and> refused_read env s P (tclient x)"
  using assms(5)
proof (cases rule: sched_step.cases)
  case (tx_done n)
  with tx_done_step [OF inv] show ?thesis by simp
next
  case (rx_done k)
  with rx_done_step [OF inv] show ?thesis by simp
next
  case (host_loop k obs h)
  with host_pass_step [OF tcp_netD(1) [OF ok(2)] inv host_loop(3,4)] host_pass_echo [OF host_loop(5-8)] show ?thesis by simp
next
  case dispatch
  then obtain t q where q: "queue x = t # q" by (cases "queue x") simp_all
  have "client_task s t" using sched_invD(5) [OF inv] q by simp
  then consider "t = rx_task s" | n where "0 < n" "t = ack_task s n" | "t = Task_terminate True"
    by (auto simp: client_task_def)
  then show ?thesis
  proof cases
    case 1
    with run_rx [OF ok inv] run_rx_empty [OF ok(1,2) inv, of q eq] q dispatch(1) show ?thesis
      by (cases "to_client P (network (lib (tclient x))) = []") auto
  next
    case (2 n)
    with run_ack [OF inv] q dispatch(1) show ?thesis by blast
  next
    case 3
    with run_terminate [OF ok(1) inv, of q eq] q dispatch(1) show ?thesis by auto
  qed
qed

text \<open>As long as the client exists, something can happen.\<close>

lemma sched_progress:
  assumes inv: "sched_inv env s P x"
  shows "\<exists>r. sched_step env eq s P x r"
proof -
  note D = sched_invD [OF inv]
  let ?c = "tclient x"
  consider "queue x \<noteq> []" | "queue x = []" "unacked ?c \<noteq> 0" | "queue x = []" "unacked ?c = 0" by blast
  then show ?thesis
  proof cases
    case 1
    with dispatch [OF D(3)] show ?thesis by blast
  next
    case 2
    then have "unat (1 :: u16) + queued_acks (queue x) \<le> unat (unacked ?c)" by (simp add: Suc_le_eq unat_gt_0)
    with tx_done [OF D(3), of 1 env eq s P] show ?thesis by auto
  next
    case 3
    with D(7) have nd: "\<not> is_done ?c" by (simp add: finished_def)
    then have buf: "to_client P (network (lib ?c)) @ to_host P (network (lib ?c)) = out_buffer"
      using D(1) by (simp add: session_inv_def)
    show ?thesis
    proof (cases "to_host P (network (lib ?c))")
      case Nil
      with buf have "to_client P (network (lib ?c)) \<noteq> []" by (auto simp: out_buffer_def bytes_def)
      with D(10) [OF nd] 3 have "0 < fresh x" by simp
      with rx_done [OF D(3)] show ?thesis by blast
    next
      case (Cons b bs)
      obtain obs h where "host_run host_start obs = Some h" "set obs \<inter> {Is_running False, Raised} = {}" "pc h = H_handle"
        "chunks h = [[b]]" using host_pass [of "[b]"] by auto
      with host_loop [OF D(3), of 1 P obs h env eq s] Cons show ?thesis by auto
    qed
  qed
qed

lemma sched_run_inv:
  assumes ok: "sal_ok env" "tcp_net env P" "reads_prefix eq" and inv: "sched_inv env s P x" and "sched_run env eq s P k x y"
  shows "sched_inv env s P y \<and> validates (tclient y) = validates (tclient x) \<and> k + sched_work P y \<le> sched_work P x \<or>
    test_over env s (validates (tclient x)) (tclient y) \<and> k \<le> sched_work P x"
  using assms(5)
proof (induction k arbitrary: y)
  case 0
  with inv show ?case by simp
next
  case (Suc k)
  then obtain z where z: "sched_run env eq s P k x z" "sched_step env eq s P z (Inr y)" by auto
  then have "client_alive (tclient z)" by (auto elim: sched_step.cases)
  with Suc.IH [OF z(1)] have i: "sched_inv env s P z" "validates (tclient z) = validates (tclient x)"
    "k + sched_work P z \<le> sched_work P x" by (auto simp: test_over_def)
  from sched_step_inv [OF ok i(1) z(2)] consider "goes_on env s P z (Inr y)" |
    "queue z \<noteq> []" "test_over env s (validates (tclient z)) (tclient y)" by auto
  then show ?case
  proof cases
    case 1
    with i show ?thesis by (auto simp: goes_on_def)
  next
    case 2
    then have "0 < sched_work P z" by (simp add: sched_work_def)
    with 2(2) i show ?thesis by auto
  qed
qed

end
