(* ===== verification/Host_Test.thy ===== *)
theory Host_Test
  imports Sockets_Prelude
begin

text \<open>
  The host's side of the set-up of the echo tests (\<open>test/host_tests/*.py\<close>): the classes \<open>TCPEchoClientTest\<close> and
  \<open>UDPEchoClientTest\<close>, which learn the address of the target, start the server and tell the target where it listens. The two
  classes have the same members and callbacks; the callbacks take the method that makes the server as an argument.
\<close>

section \<open>Python values as text\<close>

text \<open>\<open>str\<close> of a number that is not negative: its decimal digits.\<close>

definition digit :: "nat \<Rightarrow> char" where
  "digit d = char_of (48 + d)"

fun decimal :: "nat \<Rightarrow> string" where
  "decimal n = (if n < 10 then [digit n] else decimal (n div 10) @ [digit (n mod 10)])"

declare decimal.simps [simp del]

datatype py_value = Py_None | Py_str string | Py_int nat

fun py_str :: "py_value \<Rightarrow> string" where
  "py_str Py_None = ''None''"
| "py_str (Py_str s) = s"
| "py_str (Py_int n) = decimal n"

lemma decimal_not_Nil [simp]: "decimal n \<noteq> []"
  by (subst decimal.simps) simp

lemma length_decimal: "n < 10 ^ k \<Longrightarrow> 0 < k \<Longrightarrow> length (decimal n) \<le> k"
proof (induction k arbitrary: n)
  case 0
  then show ?case by simp
next
  case (Suc k)
  show ?case
  proof (cases "n < 10")
    case True
    then show ?thesis by (subst decimal.simps) simp
  next
    case False
    with Suc.prems have "n div 10 < 10 ^ k" by (simp add: div_less_iff_less_mult mult.commute)
    moreover from Suc.prems False have "0 < k" by (cases k) simp_all
    ultimately
    show ?thesis using Suc.IH False by (subst decimal.simps) simp
  qed
qed

section \<open>The host test\<close>

text \<open>
  The members of the classes. \<open>server\<close> is the kind of the server and the address that its socket is bound to, \<open>server_thread\<close> that
  its thread has been started and not been joined (\<open>Server_Threads\<close> has its steps), \<open>to_target\<close> what \<open>send_kv\<close> has
  sent and the target has not read yet, and \<open>completions\<close> the arguments of the calls of \<open>notify_complete\<close>.
\<close>

datatype server_kind = TCPServerWrapper | UDPServer

record host_test =
  SERVER_IP :: "string option"
  SERVER_PORT :: nat
  server :: "(server_kind \<times> string \<times> nat) option"
  server_thread :: bool
  target_ip :: "string option"
  to_target :: "(string \<times> py_value) list"
  completions :: "bool list"

text \<open>
  The operating system: the address of the interface through which a target is reached, and the port that a server on an
  address gets when it asks for one (0 stands for any port). Both may raise an exception.
\<close>

record host_os =
  interface_to :: "string \<Rightarrow> string option"
  bind_server :: "string \<Rightarrow> nat \<Rightarrow> nat option"

definition host_test_init :: host_test where
  "host_test_init = \<lparr>SERVER_IP = None, SERVER_PORT = 0, server = None, server_thread = False, target_ip = None, to_target = [],
     completions = []\<rparr>"

text \<open>
  \<open>Inl h\<close> is an exception that leaves the members \<open>h\<close>. Without an address the test is reported as failed, and the function goes on: it makes
  the server with the address \<open>None\<close>, for which the constructor of the server raises a \<open>TypeError\<close>.
\<close>

definition setup_server :: "server_kind \<Rightarrow> host_os \<Rightarrow> host_test \<Rightarrow> host_test + host_test" where
  "setup_server kind os h =
     (case SERVER_IP h of
        None \<Rightarrow> Inl (h\<lparr>completions := completions h @ [False]\<rparr>)
      | Some ip \<Rightarrow>
          (case bind_server os ip (SERVER_PORT h) of
             None \<Rightarrow> Inl h
           | Some port \<Rightarrow> Inr (h\<lparr>server := Some (kind, ip, port), SERVER_PORT := port, server_thread := True\<rparr>)))"

definition setup_tcp_server :: "host_os \<Rightarrow> host_test \<Rightarrow> host_test + host_test" where
  "setup_tcp_server = setup_server TCPServerWrapper"

definition setup_udp_server :: "host_os \<Rightarrow> host_test \<Rightarrow> host_test + host_test" where
  "setup_udp_server = setup_server UDPServer"

definition callback_target_ip ::
  "(host_os \<Rightarrow> host_test \<Rightarrow> host_test + host_test) \<Rightarrow> host_os \<Rightarrow> string \<Rightarrow> host_test \<Rightarrow> host_test + host_test" where
  "callback_target_ip mk_server os value h =
     (let h1 = h\<lparr>target_ip := Some value\<rparr>
      in case interface_to os value of
           None \<Rightarrow> Inl h1
         | Some ip \<Rightarrow> mk_server os (h1\<lparr>SERVER_IP := Some ip\<rparr>))"

definition callback_host_ip :: "host_test \<Rightarrow> host_test" where
  "callback_host_ip h = h\<lparr>to_target := to_target h @
     [(''host_ip'', case SERVER_IP h of None \<Rightarrow> Py_None | Some ip \<Rightarrow> Py_str ip)]\<rparr>"

definition callback_host_port :: "host_test \<Rightarrow> host_test" where
  "callback_host_port h = h\<lparr>to_target := to_target h @ [(''host_port'', Py_int (SERVER_PORT h))]\<rparr>"

definition host_teardown :: "host_test \<Rightarrow> host_test" where
  "host_teardown h = (if server h \<noteq> None then h\<lparr>server_thread := False\<rparr> else h)"

text \<open>The callbacks by the key they are declared for; other keys are not for these classes.\<close>

definition host_event ::
  "(host_os \<Rightarrow> host_test \<Rightarrow> host_test + host_test) \<Rightarrow> host_os \<Rightarrow> string \<Rightarrow> string \<Rightarrow> host_test \<Rightarrow> host_test + host_test" where
  "host_event mk_server os key value h =
     (if key = ''target_ip'' then callback_target_ip mk_server os value h
      else if key = ''host_ip'' then Inr (callback_host_ip h)
      else if key = ''host_port'' then Inr (callback_host_port h)
      else Inr h)"

lemmas host_callbacks = host_event_def callback_target_ip_def callback_host_ip_def callback_host_port_def
  setup_tcp_server_def setup_udp_server_def setup_server_def

section \<open>What the target is told\<close>

fun host_events ::
  "(host_os \<Rightarrow> host_test \<Rightarrow> host_test + host_test) \<Rightarrow> host_os \<Rightarrow> (string \<times> string) list \<Rightarrow> host_test \<Rightarrow> host_test + host_test" where
  "host_events mk_server os [] h = Inr h"
| "host_events mk_server os ((k, v) # es) h =
     (case host_event mk_server os k v h of Inl h1 \<Rightarrow> Inl h1 | Inr h1 \<Rightarrow> host_events mk_server os es h1)"

text \<open>The members agree with the server, and the set-up was not called without an address.\<close>

definition host_test_inv :: "host_test \<Rightarrow> bool" where
  "host_test_inv h \<longleftrightarrow> completions h = [] \<and>
     (case server h of
        None \<Rightarrow> SERVER_IP h = None \<and> SERVER_PORT h = 0 \<and> \<not> server_thread h
      | Some (k, ip, port) \<Rightarrow> SERVER_IP h = Some ip \<and> SERVER_PORT h = port \<and> server_thread h)"

definition is_setup :: "(host_os \<Rightarrow> host_test \<Rightarrow> host_test + host_test) \<Rightarrow> bool" where
  "is_setup mk_server \<longleftrightarrow> mk_server = setup_tcp_server \<or> mk_server = setup_udp_server"

lemma is_setup [simp]: "is_setup setup_tcp_server" "is_setup setup_udp_server"
  by (simp_all add: is_setup_def)

lemma host_event_inv:
  "is_setup mk_server \<Longrightarrow> host_test_inv h \<Longrightarrow> host_event mk_server os k v h = Inr h' \<Longrightarrow> host_test_inv h'"
  by (auto simp: is_setup_def host_callbacks host_test_inv_def Let_def split: if_splits option.splits)

lemma host_events_inv:
  "is_setup mk_server \<Longrightarrow> host_test_inv h \<Longrightarrow> host_events mk_server os es h = Inr h' \<Longrightarrow> host_test_inv h'"
  by (induction mk_server os es h rule: host_events.induct) (auto split: sum.splits dest: host_event_inv)

text \<open>
  The host tells the target where its server listens: after any sequence of messages from the target in which no callback
  raised an exception, once the server is running the answers to \<open>host_ip\<close> and \<open>host_port\<close> are the address and the
  port it is bound to; before the target has sent its own address there is no server, and the answers are
  \<open>None\<close> and 0. The callbacks never report a failure: they set the address before they make the server.
\<close>

theorem host_answers:
  assumes "is_setup mk_server" and "host_events mk_server os es host_test_init = Inr h"
  shows "\<exists>h'. host_events mk_server os [(''host_ip'', v), (''host_port'', v')] h = Inr h' \<and> server h' = server h \<and>
    server_thread h' = (server h \<noteq> None) \<and> completions h' = [] \<and>
    to_target h' = to_target h @
      (case server h of
         None \<Rightarrow> [(''host_ip'', Py_None), (''host_port'', Py_int 0)]
       | Some (k, ip, port) \<Rightarrow> [(''host_ip'', Py_str ip), (''host_port'', Py_int port)])"
proof -
  have "host_test_inv host_test_init" by (simp add: host_test_inv_def host_test_init_def)
  from host_events_inv [OF assms(1) this assms(2)] show ?thesis
    by (auto simp: host_test_inv_def host_callbacks split: option.splits)
qed

text \<open>The same on a target that has sent its address, and a host that gives it the port 50007.\<close>

definition sample_os :: host_os where
  "sample_os = \<lparr>interface_to = (\<lambda>a. Some ''10.0.0.1''), bind_server = (\<lambda>ip p. Some (if p = 0 then 50007 else p))\<rparr>"

theorem host_answers_witness:
  "\<exists>h'. host_events setup_tcp_server sample_os [(''target_ip'', ''10.0.0.2''), (''host_ip'', '' ''), (''host_port'', '' '')] host_test_init = Inr h' \<and>
     server h' = Some (TCPServerWrapper, ''10.0.0.1'', 50007) \<and>
     to_target h' = [(''host_ip'', Py_str ''10.0.0.1''), (''host_port'', Py_int 50007)]"
proof -
  let ?h = "\<lparr>SERVER_IP = Some ''10.0.0.1'', SERVER_PORT = 50007, server = Some (TCPServerWrapper, ''10.0.0.1'', 50007), server_thread = True,
    target_ip = Some ''10.0.0.2'', to_target = [], completions = []\<rparr>"
  have e: "host_event setup_tcp_server sample_os ''target_ip'' ''10.0.0.2'' host_test_init = Inr ?h"
    by (simp add: host_callbacks sample_os_def host_test_init_def)
  then have "host_events setup_tcp_server sample_os [(''target_ip'', ''10.0.0.2'')] host_test_init = Inr ?h" by simp
  from host_answers [OF is_setup(1) this, of "'' ''" "'' ''"] e show ?thesis by auto
qed

end
