(* ===== verification/Test_Setup.thy ===== *)
theory Test_Setup
  imports TCP_Echo_Client UDP_Echo_Client Host_Test
begin

text \<open>
  How the echo tests start: \<open>test_echo_tcp_client\<close> and \<open>test_echo_udp_client\<close> bring the network up, exchange key-value messages with the
  host (\<open>Host_Test\<close>) to learn the address and the port of its server, make the client and post its \<open>start_test\<close>.
\<close>

section \<open>Strings in buffers\<close>

definition c_string :: "u8 list \<Rightarrow> string option" where
  "c_string b = (if 0 \<in> set b then Some (map (\<lambda>v. char_of (unat v)) (takeWhile (\<lambda>v. v \<noteq> 0) b)) else None)"

definition c_array :: "string \<Rightarrow> u8 list" where
  "c_array s = bytes s @ [0]"

text \<open>
  \<open>sscanf\<close> with the format \<open>%d\<close> and a variable that holds \<open>old\<close>: white space, an optional sign and digits. Without digits the
  variable keeps its value; a value that is not an \<open>int\<close> is undefined.
\<close>

definition is_digit :: "char \<Rightarrow> bool" where
  "is_digit c \<longleftrightarrow> 48 \<le> (of_char c :: nat) \<and> of_char c \<le> (57 :: nat)"

definition is_space :: "char \<Rightarrow> bool" where
  "is_space c \<longleftrightarrow> (of_char c :: nat) \<in> {9, 10, 11, 12, 13, 32}"

fun read_nat :: "nat \<Rightarrow> string \<Rightarrow> nat" where
  "read_nat a [] = a"
| "read_nat a (c # cs) = (if is_digit c then read_nat (10 * a + (of_char c - 48)) cs else a)"

definition read_int :: "string \<Rightarrow> int option" where
  "read_int s =
     (let s1 = dropWhile is_space s;
          neg = (s1 \<noteq> [] \<and> hd s1 = CHR ''-'');
          s2 = (if s1 \<noteq> [] \<and> hd s1 \<in> {CHR ''-'', CHR ''+''} then tl s1 else s1)
      in if s2 = [] \<or> \<not> is_digit (hd s2) then None
         else Some (if neg then - int (read_nat 0 s2) else int (read_nat 0 s2)))"

definition sscanf_d :: "string \<Rightarrow> int \<Rightarrow> echo_error + int" where
  "sscanf_d s old =
     (case read_int s of
        None \<Rightarrow> Inr old
      | Some n \<Rightarrow> if - (2 ^ 31) \<le> n \<and> n < 2 ^ 31 then Inr n else Inl Undefined)"

section \<open>The set-up functions\<close>

text \<open>
  The platform: the stack, the Ethernet interface \<open>eth\<close> and the key-value messages of the test tools. \<open>greentea_parse_kv\<close> gets the
  two buffers and their sizes and returns them filled.
\<close>

record 'g platform =
  lwipv4_socket_init :: "'g \<Rightarrow> socket_error_t \<times> 'g"
  eth_init :: "'g \<Rightarrow> int \<times> 'g"
  eth_connect :: "'g \<Rightarrow> 'g"
  getIPAddress :: "'g \<Rightarrow> string"
  greentea_send_kv :: "string \<Rightarrow> string \<Rightarrow> 'g \<Rightarrow> 'g"
  greentea_parse_kv :: "u8 list \<Rightarrow> u8 list \<Rightarrow> nat \<Rightarrow> nat \<Rightarrow> 'g \<Rightarrow> int \<times> u8 list \<times> u8 list \<times> 'g"

text \<open>
  The part that the two functions share: from \<open>lwipv4_socket_init\<close> to \<open>sscanf\<close>. \<open>sz\<close> is the size of the global \<open>buffer\<close>, the
  results are its contents and \<open>port\<close>. The messages are those of the assertions.
\<close>

definition find_host ::
  "'g platform \<Rightarrow> string \<Rightarrow> string \<Rightarrow> string \<Rightarrow> nat \<Rightarrow> 'g \<Rightarrow> echo_error + (u8 list \<times> int \<times> 'g)" where
  "find_host p m1 m2 m3 sz g =
     (let (err, g1) = lwipv4_socket_init p g in
      test_assert (err = SOCKET_ERROR_NONE) m1 (
      let (rc, g2) = eth_init p g1 in
      test_assert (rc = 0) m2 (
      let g3 = eth_connect p g2;
          g4 = greentea_send_kv p ''target_ip'' (getIPAddress p g3) g3;
          buffer = replicate sz 0;
          recv_key = c_array ''host_port'';
          port_value = c_array ''65325'';
          g5 = greentea_send_kv p ''host_ip'' '' '' g4;
          (rc1, recv_key1, buffer1, g6) = greentea_parse_kv p recv_key buffer (length recv_key) (length buffer) g5 in
      test_assert (rc1 \<noteq> 0) m3 (
      let g7 = greentea_send_kv p ''host_port'' '' '' g6;
          (rc2, recv_key2, port_value1, g8) =
            greentea_parse_kv p recv_key1 port_value (length recv_key1) (length port_value) g7 in
      test_assert (rc2 \<noteq> 0) m3 (
      and_then (lift (c_string port_value1)) (\<lambda>s.
      and_then (sscanf_d s 0) (\<lambda>port.
      Inr (buffer1, port, g8))))))))"

text \<open>
  The functions return the client, the arguments that \<open>start_test\<close> is posted with, the \<open>int\<close> converted to \<open>uint16_t\<close>, the time limit
  in milliseconds and the state of the platform. \<open>c0\<close> holds the globals.
\<close>

definition test_echo_tcp_client ::
  "'g platform \<Rightarrow> 'w env \<Rightarrow> oid \<Rightarrow> socket_stack_t \<Rightarrow> Socket \<Rightarrow> 'w tcp_client \<Rightarrow> 'g
     \<Rightarrow> echo_error + ('w tcp_client \<times> u8 list \<times> u16 \<times> nat \<times> 'g)" where
  "test_echo_tcp_client p env s SOCKET_STACK_LWIP_IPV4 mem c0 g =
     and_then (find_host p [] [] ''MBED: Failed to recv/parse key value from host test!'' 256 g) (\<lambda>(b, port, g1).
     and_then (TCPEchoClient_ctor env s SOCKET_STACK_LWIP_IPV4 mem (c0\<lparr>tcp_buffer := b\<rparr>)) (\<lambda>c.
     Inr (c, b, of_int port, 15000, g1)))"

definition test_echo_udp_client ::
  "'g platform \<Rightarrow> 'w env \<Rightarrow> oid \<Rightarrow> socket_stack_t \<Rightarrow> Socket \<Rightarrow> 'w udp_client \<Rightarrow> 'g
     \<Rightarrow> echo_error + ('w udp_client \<times> u8 list \<times> u16 \<times> nat \<times> 'g)" where
  "test_echo_udp_client p env s SOCKET_STACK_LWIP_IPV4 mem c0 g =
     and_then (find_host p ''Failed to init LWIPv4 socket!'' ''Failed to init LWIPv4 socket!''
        ''MBED: Failed to recv/parse key value from host!'' BUFFER_SIZE g) (\<lambda>(b, port, g1).
     and_then (UDPEchoClient_ctor env s SOCKET_STACK_LWIP_IPV4 mem c0) (\<lambda>c.
     Inr (c, b, of_int port, 25000, g1)))"

text \<open>The posted call; the buffer is read as a string when the address is resolved.\<close>

definition tcp_start_posted ::
  "'w env \<Rightarrow> oid \<Rightarrow> u8 list \<Rightarrow> u16 \<Rightarrow> 'w tcp_client \<Rightarrow> echo_error + 'w tcp_client" where
  "tcp_start_posted env s b port c =
     and_then (lift (c_string b)) (\<lambda>host. tcp_start_test env s (Some host) port c)"

definition udp_start_posted ::
  "'w env \<Rightarrow> oid \<Rightarrow> u8 list \<Rightarrow> u16 \<Rightarrow> 'w udp_client \<Rightarrow> echo_error + 'w udp_client" where
  "udp_start_posted env s b port c =
     and_then (lift (c_string b)) (\<lambda>host. udp_start_test env s (Some host) port c)"

section \<open>Decimal numbers\<close>

lemma of_char_digit: "d < 10 \<Longrightarrow> (of_char (digit d) :: nat) = 48 + d"
  by (simp add: digit_def)

lemma is_digit_digit: "d < 10 \<Longrightarrow> is_digit (digit d)"
  by (simp add: is_digit_def of_char_digit)

lemma decimal_digits: "c \<in> set (decimal n) \<Longrightarrow> is_digit c"
  by (induction n rule: decimal.induct) (subst (asm) (2) decimal.simps, auto simp: is_digit_digit split: if_splits)

lemma read_nat_append: "\<forall>c \<in> set s. is_digit c \<Longrightarrow> read_nat a (s @ t) = read_nat (read_nat a s) t"
  by (induction a s rule: read_nat.induct) simp_all

lemma read_nat_decimal: "read_nat 0 (decimal n) = n"
proof (induction n rule: decimal.induct)
  case (1 n)
  then show ?case
    by (subst decimal.simps) (auto simp: read_nat_append decimal_digits is_digit_digit of_char_digit)
qed

lemma digit_not_special: "is_digit c \<Longrightarrow> \<not> is_space c \<and> c \<noteq> CHR ''-'' \<and> c \<noteq> CHR ''+''"
  by (auto simp: is_digit_def is_space_def)

lemma read_int_decimal: "read_int (decimal n) = Some (int n)"
proof -
  obtain c cs where s: "decimal n = c # cs" by (cases "decimal n") simp_all
  then have "is_digit c" using decimal_digits [of c n] by simp
  with s show ?thesis
    using digit_not_special [of c] read_nat_decimal [of n] by (simp add: read_int_def Let_def)
qed

lemma sscanf_decimal: "n < 2 ^ 31 \<Longrightarrow> sscanf_d (decimal n) old = Inr (int n)"
  by (simp add: sscanf_d_def read_int_decimal)

text \<open>A text of \<open>k\<close> characters has a value of at most \<open>k\<close> digits.\<close>

lemma read_nat_bound: "read_nat a s < (a + 1) * 10 ^ length s"
proof (induction a s rule: read_nat.induct)
  case (1 a)
  then show ?case by simp
next
  case (2 a c cs)
  show ?case
  proof (cases "is_digit c")
    case True
    then have "10 * a + (of_char c - 48) + 1 \<le> 10 * (a + 1)" by (auto simp: is_digit_def)
    then have "(10 * a + (of_char c - 48) + 1) * 10 ^ length cs \<le> 10 * (a + 1) * 10 ^ length cs" by (rule mult_le_mono1)
    with 2 [OF True] have "read_nat (10 * a + (of_char c - 48)) cs < 10 * (a + 1) * 10 ^ length cs" by (rule order_less_le_trans)
    with True show ?thesis by (simp add: algebra_simps)
  next
    case False
    have "(a + 1) * 1 \<le> (a + 1) * 10 ^ length (c # cs)" by (rule mult_le_mono2) (rule one_le_power, simp)
    with False show ?thesis by simp
  qed
qed

lemma read_int_bound:
  assumes "read_int s = Some n"
  shows "\<bar>n\<bar> < 10 ^ length s"
proof -
  have len: "length (dropWhile is_space s) \<le> length s" by (simp add: length_dropWhile_le)
  have "\<exists>s2 \<in> {dropWhile is_space s, tl (dropWhile is_space s)}. \<bar>n\<bar> = int (read_nat 0 s2)"
    using assms by (auto simp: read_int_def Let_def split: if_splits)
  then obtain s2 where s2: "length s2 \<le> length (dropWhile is_space s)" "\<bar>n\<bar> = int (read_nat 0 s2)"
    using length_tl [of "dropWhile is_space s"] by (metis diff_le_self empty_iff insertE order_refl)
  have "read_nat 0 s2 < 10 ^ length s2" using read_nat_bound [of 0 s2] by simp
  also have "\<dots> \<le> 10 ^ length s" using s2(1) len by (intro power_increasing) simp_all
  finally show ?thesis using s2(2) by (simp flip: of_nat_power_less_of_nat_cancel_iff)
qed

section \<open>The link to the host\<close>

text \<open>
  The string \<open>s\<close> and its terminating zero at the start of the buffer \<open>b\<close>.
\<close>

definition store :: "string \<Rightarrow> u8 list \<Rightarrow> u8 list" where
  "store s b = c_array s @ drop (Suc (length s)) b"

lemma length_store [simp]: "length s < length b \<Longrightarrow> length (store s b) = length b"
  by (simp add: store_def c_array_def bytes_def)

lemma unat_of_char [simp]: "unat (of_char c :: u8) = of_char c"
  using unat_of_nat [of "of_char c", where 'a = 8] by (simp add: of_nat_of_char)

lemma of_char_0: "(of_char c :: u8) = 0 \<Longrightarrow> c = CHR 0x00"
  using unat_of_char [of c] by (intro of_char_eqI [where 'a = nat]) simp

lemma c_string_store:
  assumes "CHR 0x00 \<notin> set s"
  shows "c_string (store s b) = Some s"
proof -
  have nz: "(of_char c :: u8) \<noteq> 0" if "c \<in> set s" for c
    using of_char_0 [of c] that assms by auto
  then have "takeWhile (\<lambda>v. v \<noteq> 0) (bytes s @ 0 # t) = bytes s" for t
    by (induction s) (simp_all add: bytes_def)
  then show ?thesis by (simp add: c_string_def store_def c_array_def bytes_def o_def)
qed

text \<open>
  \<open>host g\<close> is the state of the host test in the state \<open>g\<close> of the platform. A message of the target runs its callback; the next message
  of the host is read into the buffers when there is room for it; the other calls leave the host alone. The text
  of a value is what Python's \<open>str\<close> makes of it.
\<close>

definition kv_link :: "'g platform \<Rightarrow> (string \<Rightarrow> string \<Rightarrow> host_test \<Rightarrow> host_test + host_test) \<Rightarrow> ('g \<Rightarrow> host_test) \<Rightarrow> bool" where
  "kv_link p ev host \<longleftrightarrow>
     (\<forall>g. host (snd (lwipv4_socket_init p g)) = host g \<and> host (snd (eth_init p g)) = host g \<and>
          host (eth_connect p g) = host g) \<and>
     (\<forall>k v g h'. ev k v (host g) = Inr h' \<longrightarrow> host (greentea_send_kv p k v g) = h') \<and>
     (\<forall>kb vb ks vs g k v rest rc kb' vb' g'. to_target (host g) = (k, v) # rest \<longrightarrow>
        length k < ks \<longrightarrow> ks \<le> length kb \<longrightarrow> length (py_str v) < vs \<longrightarrow> vs \<le> length vb \<longrightarrow>
        greentea_parse_kv p kb vb ks vs g = (rc, kb', vb', g') \<longrightarrow>
        rc \<noteq> 0 \<and> kb' = store k kb \<and> vb' = store (py_str v) vb \<and> host g' = (host g)\<lparr>to_target := rest\<rparr>)"

lemma kv_linkD:
  assumes "kv_link p ev host"
  shows "host (snd (lwipv4_socket_init p g)) = host g" "host (snd (eth_init p g)) = host g" "host (eth_connect p g) = host g"
    "ev k s (host g) = Inr h' \<Longrightarrow> host (greentea_send_kv p k s g) = h'"
    "greentea_parse_kv p kb vb ks vs g = (rc, kb', vb', g') \<Longrightarrow> to_target (host g) = (k, v) # rest \<Longrightarrow>
       length k < ks \<Longrightarrow> ks \<le> length kb \<Longrightarrow> length (py_str v) < vs \<Longrightarrow> vs \<le> length vb \<Longrightarrow>
       rc \<noteq> 0 \<and> kb' = store k kb \<and> vb' = store (py_str v) vb \<and> host g' = (host g)\<lparr>to_target := rest\<rparr>"
  using assms unfolding kv_link_def by blast+

text \<open>A question to the host and its answer.\<close>

lemma ask_host:
  assumes link: "kv_link p ev host" and "ev k '' '' (host g) = Inr ((host g)\<lparr>to_target := [(k, v)]\<rparr>)"
    and "to_target (host g) = []" and "length k < length kb" and "length (py_str v) < length vb"
  shows "\<exists>rc g'. greentea_parse_kv p kb vb (length kb) (length vb) (greentea_send_kv p k '' '' g) =
      (rc, store k kb, store (py_str v) vb, g') \<and> rc \<noteq> 0 \<and> host g' = host g"
proof -
  let ?g = "greentea_send_kv p k '' '' g"
  have "host ?g = (host g)\<lparr>to_target := [(k, v)]\<rparr>" by (rule kv_linkD(4) [OF link assms(2)])
  moreover obtain rc kb' vb' g' where r: "greentea_parse_kv p kb vb (length kb) (length vb) ?g = (rc, kb', vb', g')"
    by (metis prod_cases4)
  ultimately show ?thesis
    using kv_linkD(5) [OF link r, of k v "[]"] assms(3-5) by simp
qed

text \<open>The exchange: the target learns the address and the port that the server is bound to.\<close>

lemma find_host_agrees:
  assumes kind: "(mk_server, K) \<in> {(setup_tcp_server, TCPServerWrapper), (setup_udp_server, UDPServer)}"
    and link: "kv_link p (host_event mk_server os) host" and up: "fst (lwipv4_socket_init p g) = SOCKET_ERROR_NONE" "\<And>g. fst (eth_init p g) = 0"
    and h: "host g = host_test_init"
    and os: "\<And>g. interface_to os (getIPAddress p g) = Some ip" "bind_server os ip 0 = Some port"
    and ip: "length ip < sz" "CHR 0x00 \<notin> set ip" and port: "port < 2 ^ 16"
  shows "\<exists>b g'. find_host p m1 m2 m3 sz g = Inr (b, int port, g') \<and> length b = sz \<and> c_string b = Some ip \<and>
    server (host g') = Some (K, ip, port) \<and> server_thread (host g')"
proof -
  obtain g1 where g1: "lwipv4_socket_init p g = (SOCKET_ERROR_NONE, g1)" "host g1 = host_test_init"
    using up(1) kv_linkD(1) [OF link, of g] h by (cases "lwipv4_socket_init p g") simp
  obtain g2 where g2: "eth_init p g1 = (0, g2)" "host g2 = host_test_init"
    using up(2) [of g1] kv_linkD(2) [OF link, of g1] g1(2) by (cases "eth_init p g1") simp
  let ?g3 = "eth_connect p g2"
  let ?g4 = "greentea_send_kv p ''target_ip'' (getIPAddress p ?g3) ?g3"
  let ?h = "host_test_init\<lparr>target_ip := Some (getIPAddress p ?g3), SERVER_IP := Some ip, server := Some (K, ip, port),
      SERVER_PORT := port, server_thread := True\<rparr>"
  have h4: "host ?g4 = ?h"
    using kind os g2(2) by (intro kv_linkD(4) [OF link]) (auto simp: host_callbacks Let_def kv_linkD(3) [OF link] host_test_init_def)
  let ?key = "c_array ''host_port''" and ?buf = "replicate sz 0 :: u8 list" and ?val = "c_array ''65325''"
  have l: "length ?key = 10" "length ?val = 6" by (simp_all add: c_array_def bytes_def)
  let ?key1 = "store ''host_ip'' ?key" and ?buf1 = "store ip ?buf"
  obtain rc1 g6 where p1: "greentea_parse_kv p ?key ?buf (length ?key) (length ?buf)
      (greentea_send_kv p ''host_ip'' '' '' ?g4) = (rc1, ?key1, ?buf1, g6)" "rc1 \<noteq> 0" "host g6 = ?h"
    using ask_host [OF link, of "''host_ip''" ?g4 "Py_str ip" ?key ?buf] h4 l ip(1)
    by (auto simp: host_callbacks host_test_init_def)
  have "length (decimal port) < 6" using length_decimal [of port 5] port by simp
  then obtain rc2 g8 where p2: "greentea_parse_kv p ?key1 ?val (length ?key1) (length ?val)
      (greentea_send_kv p ''host_port'' '' '' g6) = (rc2, store ''host_port'' ?key1, store (decimal port) ?val, g8)"
      "rc2 \<noteq> 0" "host g8 = ?h"
    using ask_host [OF link, of "''host_port''" g6 "Py_int port" ?key1 ?val] p1(3) l
    by (auto simp: host_callbacks host_test_init_def)
  have "CHR 0x00 \<notin> set (decimal port)" using decimal_digits [of "CHR 0x00" port] by (auto simp: is_digit_def)
  with g1(1) g2(1) p1(1,2) p2(1,2) port
  have "find_host p m1 m2 m3 sz g = Inr (?buf1, int port, g8)"
    by (simp add: find_host_def Let_def c_string_store sscanf_decimal)
  with p2(3) c_string_store [OF ip(2)] ip(1) show ?thesis by auto
qed

section \<open>Properties\<close>

text \<open>
  The TCP test starts where the host listens: when the stack and the interface come up, the host can be reached and its
  server got a port, the set-up function makes a client and posts its \<open>start_test\<close>, which opens the stream and resolves exactly
  the address that the server is bound to and stores exactly its port. The buffers are large enough for
  every port and every address of fewer than 256 characters, and the conversion to \<open>uint16_t\<close> loses nothing.
\<close>

theorem tcp_test_starts:
  assumes "sal_ok env" and "minar_ok env" and "wf_world env (lib c0)" and "s \<noteq> 0" and "objs (lib c0) s = None"
    and "kv_link p (host_event setup_tcp_server os) host" and "fst (lwipv4_socket_init p g) = SOCKET_ERROR_NONE" and "\<And>g. fst (eth_init p g) = 0"
    and "host g = host_test_init" and "\<And>g. interface_to os (getIPAddress p g) = Some ip"
    and "bind_server os ip 0 = Some port" and "length ip < 256" and "CHR 0x00 \<notin> set ip" and "port < 2 ^ 16"
  shows "\<exists>c b n g'. test_echo_tcp_client p env s stk mem c0 g = Inr (c, b, n, 15000, g') \<and>
    tcp_client_ok env s c \<and> server (host g') = Some (TCPServerWrapper, ip, port) \<and> server_thread (host g') \<and> unat n = port \<and>
    tcp_start_posted env s b n c = tcp_start_test env s (Some ip) n c"
proof -
  from find_host_agrees [OF insertI1 assms(6-14)] obtain b g' where
    b: "find_host p [] [] ''MBED: Failed to recv/parse key value from host test!'' 256 g = Inr (b, int port, g')"
      "length b = 256" "c_string b = Some ip" "server (host g') = Some (TCPServerWrapper, ip, port)" "server_thread (host g')" by blast
  from ctor_ok [OF assms(1,2), of "c0\<lparr>tcp_buffer := b\<rparr>" s stk mem] assms(3-5) b(2) obtain c where
    "TCPEchoClient_ctor env s stk mem (c0\<lparr>tcp_buffer := b\<rparr>) = Inr c" "tcp_client_ok env s c" by auto
  moreover have "unat (of_nat port :: u16) = port" using assms(14) by (simp add: unat_of_nat)
  ultimately show ?thesis
    using b by (simp add: test_echo_tcp_client_def tcp_start_posted_def)
qed

text \<open>The UDP test has a smaller buffer for the address, 64 bytes.\<close>

lemma udp_test_starts:
  assumes "sal_ok env" and "minar_ok env" and "wf_world env (ulib c0)" and "s \<noteq> 0" and "objs (ulib c0) s = None"
    and "kv_link p (host_event setup_udp_server os) host" and "fst (lwipv4_socket_init p g) = SOCKET_ERROR_NONE" and "\<And>g. fst (eth_init p g) = 0"
    and "host g = host_test_init" and "\<And>g. interface_to os (getIPAddress p g) = Some ip"
    and "bind_server os ip 0 = Some port" and "length ip < 64" and "CHR 0x00 \<notin> set ip" and "port < 2 ^ 16"
  shows "\<exists>c b n g'. test_echo_udp_client p env s stk mem c0 g = Inr (c, b, n, 25000, g') \<and>
    has_sock env K_UDPSocket s (ulib c) \<and> server (host g') = Some (UDPServer, ip, port) \<and> unat n = port \<and>
    udp_start_posted env s b n c = udp_start_test env s (Some ip) n c"
proof -
  from assms(12) have "length ip < BUFFER_SIZE" by (simp add: BUFFER_SIZE_def)
  from find_host_agrees [OF insertI2 [OF singletonI] assms(6-11) this assms(13,14)] obtain b g' where
    b: "find_host p ''Failed to init LWIPv4 socket!'' ''Failed to init LWIPv4 socket!''
        ''MBED: Failed to recv/parse key value from host!'' BUFFER_SIZE g = Inr (b, int port, g')"
      "c_string b = Some ip" "server (host g') = Some (UDPServer, ip, port)" by blast
  let ?w1 = "UDPSocket_ctor env s stk mem (ulib c0)"
  from udp_class.ctor_law [OF assms(2-5), of stk mem] have w1: "has_sock env K_UDPSocket s ?w1"
    by (auto simp: has_sock_def)
  then have "wf_world env ?w1" "s \<in> dom (objs ?w1)" by (auto simp: has_sock_def)
  with setOnError_op.returns [OF assms(1)] obtain w2 where w2: "setOnError s udp_onError_fp ?w1 = Some w2" by fastforce
  then have "has_sock env K_UDPSocket s w2"
    by (intro has_sock_frame [OF setOnError_op.frame [OF assms(1)] w1]) simp
  moreover have "unat (of_nat port :: u16) = port" using assms(14) by (simp add: unat_of_nat)
  ultimately show ?thesis
    using b w2 by (simp add: test_echo_udp_client_def UDPEchoClient_ctor_def udp_start_posted_def)
qed

text \<open>
  The documented behaviour of \<open>greentea_parse_kv\<close> towards its buffers, whatever the host sends: it keeps to their sizes, and when it
  succeeds they hold strings.
\<close>

definition parse_ok :: "'g platform \<Rightarrow> bool" where
  "parse_ok p \<longleftrightarrow> (\<forall>kb vb g rc kb' vb' g'.
     greentea_parse_kv p kb vb (length kb) (length vb) g = (rc, kb', vb', g') \<longrightarrow>
     length kb' = length kb \<and> length vb' = length vb \<and> (rc \<noteq> 0 \<longrightarrow> 0 \<in> set vb'))"

text \<open>A string in an array of six bytes has at most five characters, so its value is an \<open>int\<close>.\<close>

lemma short_string:
  assumes "length b = 6" and "0 \<in> set b"
  shows "\<exists>s n. c_string b = Some s \<and> sscanf_d s 0 = Inr n \<and> \<bar>n\<bar> < 10 ^ 5"
proof -
  let ?s = "map (\<lambda>v. char_of (unat v)) (takeWhile (\<lambda>v. v \<noteq> 0) b) :: string"
  have "length (takeWhile (\<lambda>v. v \<noteq> 0) b) < length b"
    using assms(2) by (induction b) auto
  then have "length ?s \<le> 5" using assms(1) by simp
  then have "(10 :: int) ^ length ?s \<le> 10 ^ 5" by (intro power_increasing) simp_all
  then have "\<bar>n\<bar> < 10 ^ 5" if "read_int ?s = Some n" for n
    using read_int_bound [OF that] by linarith
  then have "\<exists>n. sscanf_d ?s 0 = Inr n \<and> \<bar>n\<bar> < 10 ^ 5"
    by (cases "read_int ?s") (force simp: sscanf_d_def)+
  with assms(2) show ?thesis by (simp add: c_string_def)
qed

text \<open>
  C32. Whatever the host answers, the exchange has a defined result: it ends with one of its assertions, or with a buffer that holds a
  string and a value of \<open>port\<close> of at most five digits. In particular \<open>sscanf\<close> cannot overflow.
\<close>

theorem setup_defined:
  assumes "parse_ok p"
  shows "(\<exists>m \<in> {m1, m2, m3}. find_host p m1 m2 m3 sz g = Inl (Assertion m)) \<or>
    (\<exists>b n g'. find_host p m1 m2 m3 sz g = Inr (b, n, g') \<and> length b = sz \<and> c_string b \<noteq> None \<and> \<bar>n\<bar> < 10 ^ 5)"
proof -
  obtain err g1 where g1: "lwipv4_socket_init p g = (err, g1)" by (metis surj_pair)
  obtain rc g2 where g2: "eth_init p g1 = (rc, g2)" by (metis surj_pair)
  let ?g4 = "greentea_send_kv p ''target_ip'' (getIPAddress p (eth_connect p g2)) (eth_connect p g2)"
  let ?key = "c_array ''host_port''" and ?buf = "replicate sz 0 :: u8 list" and ?val = "c_array ''65325''"
  obtain rc1 k1 b1 g6 where p1: "greentea_parse_kv p ?key ?buf (length ?key) (length ?buf)
      (greentea_send_kv p ''host_ip'' '' '' ?g4) = (rc1, k1, b1, g6)" by (metis prod_cases4)
  obtain rc2 k2 v2 g8 where p2: "greentea_parse_kv p k1 ?val (length k1) (length ?val)
      (greentea_send_kv p ''host_port'' '' '' g6) = (rc2, k2, v2, g8)" by (metis prod_cases4)
  note parse = assms [unfolded parse_ok_def, rule_format]
  have "find_host p m1 m2 m3 sz g =
      (if err \<noteq> SOCKET_ERROR_NONE then Inl (Assertion m1) else if rc \<noteq> 0 then Inl (Assertion m2)
       else if rc1 = 0 \<or> rc2 = 0 then Inl (Assertion m3)
       else and_then (lift (c_string v2)) (\<lambda>s. and_then (sscanf_d s 0) (\<lambda>n. Inr (b1, n, g8))))"
    by (simp add: find_host_def Let_def g1 g2 p1 [unfolded length_replicate] p2 test_assert_def)
  moreover have "rc1 \<noteq> 0 \<Longrightarrow> length b1 = sz \<and> c_string b1 \<noteq> None" using parse [OF p1] by (simp add: c_string_def)
  moreover have "rc2 \<noteq> 0 \<Longrightarrow> \<exists>s n. c_string v2 = Some s \<and> sscanf_d s 0 = Inr n \<and> \<bar>n\<bar> < 10 ^ 5"
    using parse [OF p2] short_string [of v2] by (simp add: c_array_def bytes_def)
  ultimately show ?thesis by (auto split: if_splits)
qed

section \<open>The registration of the tests\<close>

text \<open>
  What the tests use of the test framework: the handshake that asks the host for a test script and a time in seconds, the two handlers
  of the framework for the start and the end of a test, and the report of the result.
\<close>

record ('g, 'st, 'f) test_framework =
  GREENTEA_SETUP :: "nat \<Rightarrow> string \<Rightarrow> 'g \<Rightarrow> 'g"
  greentea_test_setup_handler :: "nat \<Rightarrow> 'g \<Rightarrow> 'st \<times> 'g"
  greentea_test_teardown_handler :: "nat \<Rightarrow> nat \<Rightarrow> 'f \<Rightarrow> 'g \<Rightarrow> 'g"
  GREENTEA_TESTSUITE_RESULT :: "bool \<Rightarrow> 'g \<Rightarrow> 'g"

record ('g, 'st, 'f, 'c) test_specification =
  spec_setup :: "nat \<Rightarrow> 'g \<Rightarrow> 'st \<times> 'g"
  spec_cases :: "(string \<times> 'c) list"
  spec_teardown :: "(nat \<Rightarrow> nat \<Rightarrow> 'f \<Rightarrow> 'g \<Rightarrow> 'g) option"

definition tcp_greentea_setup :: "('g, 'st, 'f) test_framework \<Rightarrow> nat \<Rightarrow> 'g \<Rightarrow> 'st \<times> 'g" where
  "tcp_greentea_setup F number_of_cases g =
     greentea_test_setup_handler F number_of_cases (GREENTEA_SETUP F 20 ''tcpecho_client_auto'' g)"

definition udp_greentea_setup :: "('g, 'st, 'f) test_framework \<Rightarrow> nat \<Rightarrow> 'g \<Rightarrow> 'st \<times> 'g" where
  "udp_greentea_setup F number_of_cases g =
     greentea_test_setup_handler F number_of_cases (GREENTEA_SETUP F 30 ''udpecho_client_auto'' g)"

definition udp_greentea_teardown :: "('g, 'st, 'f) test_framework \<Rightarrow> nat \<Rightarrow> nat \<Rightarrow> 'f \<Rightarrow> 'g \<Rightarrow> 'g" where
  "udp_greentea_teardown F passed failed failure g =
     GREENTEA_TESTSUITE_RESULT F (failed = 0) (greentea_test_teardown_handler F passed failed failure g)"

text \<open>A specification without a teardown function leaves the teardown to the framework.\<close>

definition tcp_specification :: "('g, 'st, 'f) test_framework \<Rightarrow> 'c \<Rightarrow> ('g, 'st, 'f, 'c) test_specification" where
  "tcp_specification F test = \<lparr>spec_setup = tcp_greentea_setup F, spec_cases = [(''Test Echo TCP Client'', test)],
     spec_teardown = None\<rparr>"

definition udp_specification :: "('g, 'st, 'f) test_framework \<Rightarrow> 'c \<Rightarrow> ('g, 'st, 'f, 'c) test_specification" where
  "udp_specification F test = \<lparr>spec_setup = udp_greentea_setup F, spec_cases = [(''Test Echo UDP Client'', test)],
     spec_teardown = Some (udp_greentea_teardown F)\<rparr>"

text \<open>\<open>app_start\<close> runs the specification; \<open>harness_run\<close> is the framework's \<open>Harness::run\<close>.\<close>

definition tcp_app_start ::
  "(('g, 'st, 'f, 'c) test_specification \<Rightarrow> 'g \<Rightarrow> 'g) \<Rightarrow> ('g, 'st, 'f) test_framework \<Rightarrow> 'c \<Rightarrow> 'g \<Rightarrow> 'g" where
  "tcp_app_start harness_run F test g = harness_run (tcp_specification F test) g"

definition udp_app_start ::
  "(('g, 'st, 'f, 'c) test_specification \<Rightarrow> 'g \<Rightarrow> 'g) \<Rightarrow> ('g, 'st, 'f) test_framework \<Rightarrow> 'c \<Rightarrow> 'g \<Rightarrow> 'g" where
  "udp_app_start harness_run F test g = harness_run (udp_specification F test) g"

text \<open>A framework that records the handshakes and the result.\<close>

definition recording :: "((nat \<times> string) list \<times> bool option, unit, unit) test_framework" where
  "recording = \<lparr>
     GREENTEA_SETUP = (\<lambda>t script g. (fst g @ [(t, script)], snd g)),
     greentea_test_setup_handler = (\<lambda>n g. ((), g)),
     greentea_test_teardown_handler = (\<lambda>p f e g. g),
     GREENTEA_TESTSUITE_RESULT = (\<lambda>b g. (fst g, Some b))\<rparr>"

text \<open>
  The host waits longer than the target, as the comment in \<open>greentea_setup\<close> demands: the time that each test asks the host for is more
  than the time-out that its case returns, which leaves five seconds for the summary.
\<close>

lemma host_waits_longer:
  "fst (snd (spec_setup (tcp_specification recording test) 1 ([], None))) = [(20, ''tcpecho_client_auto'')]"
  "test_echo_tcp_client p env s stk mem c0 g = Inr (c, b, n, t, g') \<Longrightarrow> t + 5000 = 1000 * 20"
  "fst (snd (spec_setup (udp_specification recording test) 1 ([], None))) = [(30, ''udpecho_client_auto'')]"
  "test_echo_udp_client p env s stk mem u0 g = Inr (u, b, n, t, g') \<Longrightarrow> t + 5000 = 1000 * 30"
  by (auto simp: tcp_specification_def udp_specification_def tcp_greentea_setup_def udp_greentea_setup_def recording_def
      test_echo_tcp_client_def test_echo_udp_client_def echo_monad_Inr)

section \<open>A sample platform\<close>

text \<open>The state of the platform is the host test; the link delivers its messages at once.\<close>

definition link_parse :: "u8 list \<Rightarrow> u8 list \<Rightarrow> nat \<Rightarrow> nat \<Rightarrow> host_test \<Rightarrow> int \<times> u8 list \<times> u8 list \<times> host_test" where
  "link_parse kb vb ks vs h =
     (case to_target h of
        [] \<Rightarrow> (0, kb, vb, h)
      | (k, v) # rest \<Rightarrow>
          if length k < ks \<and> length (py_str v) < vs
          then (1, store k kb, store (py_str v) vb, h\<lparr>to_target := rest\<rparr>)
          else (0, kb, vb, h\<lparr>to_target := rest\<rparr>))"

definition sample_platform :: "host_test platform" where
  "sample_platform = \<lparr>
     lwipv4_socket_init = (\<lambda>h. (SOCKET_ERROR_NONE, h)), eth_init = (\<lambda>h. (0, h)), eth_connect = (\<lambda>h. h),
     getIPAddress = (\<lambda>h. ''10.0.0.2''),
     greentea_send_kv = (\<lambda>k v h. case host_event setup_tcp_server sample_os k v h of Inl h' \<Rightarrow> h' | Inr h' \<Rightarrow> h'),
     greentea_parse_kv = link_parse\<rparr>"

lemma sample_link: "kv_link sample_platform (host_event setup_tcp_server sample_os) (\<lambda>h. h)"
  by (simp add: kv_link_def sample_platform_def link_parse_def)

lemma sample_parse_ok: "parse_ok sample_platform"
  by (auto simp: parse_ok_def sample_platform_def link_parse_def store_def c_array_def bytes_def split: list.splits if_splits)

text \<open>The same applied to a host whose server got the port 50007, and a client on the sample connection of the TCP client.\<close>

theorem tcp_test_starts_witness:
  "\<exists>c b n g'. test_echo_tcp_client sample_platform tcp_echo_env 4 1 sample_mem
       (sample_client\<lparr>lib := init_world 0\<rparr>) host_test_init = Inr (c, b, n, 15000, g') \<and>
     server g' = Some (TCPServerWrapper, ''10.0.0.1'', 50007) \<and> unat n = 50007 \<and>
     tcp_start_posted tcp_echo_env 4 b n c = tcp_start_test tcp_echo_env 4 (Some ''10.0.0.1'') n c"
proof -
  have "minar_ok tcp_echo_env" using sample_minar_ok by (simp add: minar_ok_def tcp_echo_env_def)
  have "\<exists>c b n g'. test_echo_tcp_client sample_platform tcp_echo_env 4 1 sample_mem
       (sample_client\<lparr>lib := init_world 0\<rparr>) host_test_init = Inr (c, b, n, 15000, g') \<and>
     tcp_client_ok tcp_echo_env 4 c \<and> server g' = Some (TCPServerWrapper, ''10.0.0.1'', 50007) \<and> server_thread g' \<and> unat n = 50007 \<and>
     tcp_start_posted tcp_echo_env 4 b n c = tcp_start_test tcp_echo_env 4 (Some ''10.0.0.1'') n c"
    by (rule tcp_test_starts [OF tcp_echo_env_ok(1) \<open>minar_ok tcp_echo_env\<close> _ _ _ sample_link])
       (simp_all add: wf_init, simp_all add: init_world_def sample_platform_def sample_os_def)
  then show ?thesis by blast
qed

text \<open>C32 applied to the sample platform, before the host has been started.\<close>

theorem setup_defined_witness:
  "(\<exists>m \<in> {''a'', ''b'', ''c''}. find_host sample_platform ''a'' ''b'' ''c'' 64 host_test_init = Inl (Assertion m)) \<or>
    (\<exists>b n g'. find_host sample_platform ''a'' ''b'' ''c'' 64 host_test_init = Inr (b, n, g') \<and> length b = 64 \<and>
       c_string b \<noteq> None \<and> \<bar>n\<bar> < 10 ^ 5)"
  by (rule setup_defined [OF sample_parse_ok])

end
