(* ===== verification/TCP_Test.thy ===== *)
theory TCP_Test
  imports Event_Queue Test_Setup
begin

text \<open>
  The TCP echo test from its set-up to its end, through every layer: the set-up function of the target and the host test, the
  events of the stack, the event handler of the library, the scheduler, the handlers of the client, the operations of
  the library that they call, the connection, and the handler on the host. Beside the theorem that it ends well except for one
  assertion stands the run in which that assertion fails.
\<close>

section \<open>From the set-up to the connection\<close>

text \<open>The stream between the calls: open, with the streams of the network still empty.\<close>

definition idle_stream :: "'w env \<Rightarrow> oid \<Rightarrow> 'w pipes \<Rightarrow> 'w world \<Rightarrow> bool" where
  "idle_stream env s P w \<longleftrightarrow> open_sock env K_TCPStream s w \<and> to_host P (network w) = [] \<and> to_client P (network w) = []"

lemma open_idle:
  assumes "sal_ok env" and "tcp_net env P" and "has_sock env K_TCPStream s w" and "objs w s = Some ob" and "api (sock ob) \<noteq> None"
    and "to_host P (network w) = []" and "to_client P (network w) = []"
  shows "\<exists>w' ob'. TCPAsynch_open env s af w = Some (SOCKET_ERROR_NONE, w') \<and> idle_stream env s P w' \<and>
    objs w' s = Some ob' \<and> handler (sock ob') \<noteq> None"
proof -
  let ?R = "\<lambda>r s' x. r = SOCKET_ERROR_NONE \<and> handler s' \<noteq> None \<and> same_pipes P (network w) x"
  have "\<exists>r s' w'. api_call env s (\<lambda>t. api_create t af SOCKET_STREAM s) w = Some (r, w') \<and> open_sock env K_TCPStream s w' \<and>
      objs w' s = Some (ob\<lparr>sock := s'\<rparr>) \<and> minar w' = minar w \<and> ?R r s' (network w')"
    by (rule net_call [OF assms(1,3-5), where R = ?R]) (simp add: assms(1), use tcp_netD(4) [OF assms(2)] in blast)
  with assms(4-7) show ?thesis
    by (auto simp: TCPAsynch_open_def Socket_open_def idle_stream_def same_pipes_def)
qed

text \<open>A call of the stack on an idle stream after a member of the stream has been set.\<close>

lemma idle_call:
  assumes "sal_ok env" and "idle_stream env s P w" and "callable env s f"
    and "\<And>p x st r s' rs x'. impl st \<noteq> None \<Longrightarrow> f (vtable env p) x st = (r, s', rs, x') \<Longrightarrow>
      r = SOCKET_ERROR_NONE \<and> impl s' \<noteq> None \<and> rs = [] \<and> same_pipes P x x'"
  shows "\<exists>w'. api_call env s f w = Some (SOCKET_ERROR_NONE, w') \<and> idle_stream env s P w' \<and>
    map_option wiring (objs w' s) = map_option wiring (objs w s) \<and> minar w' = minar w"
proof -
  from assms(2) have "open_sock env K_TCPStream s w" by (simp add: idle_stream_def)
  then obtain ob where ob: "has_sock env K_TCPStream s w" "objs w s = Some ob" "impl (sock ob) \<noteq> None" "api (sock ob) \<noteq> None"
    by (rule open_sockD)
  let ?R = "\<lambda>r s' x. r = SOCKET_ERROR_NONE \<and> same_pipes P (network w) x"
  have "\<exists>r s' w'. api_call env s f w = Some (r, w') \<and> open_sock env K_TCPStream s w' \<and>
      objs w' s = Some (ob\<lparr>sock := s'\<rparr>) \<and> minar w' = minar w \<and> ?R r s' (network w')"
    by (rule net_call [OF assms(1) ob(1,2,4) assms(3), where R = ?R]) (use assms(4) [OF ob(3)] in blast)
  with assms(2) ob(2) show ?thesis by (auto simp: idle_stream_def same_pipes_def wiring_def)
qed

text \<open>Setting members of an idle stream.\<close>

lemma set_idle:
  assumes "idle_stream env s P w" and "objs w s = Some ob" and "sock ob' = sock ob" and "vptr ob' = vptr ob"
  shows "idle_stream env s P (put_obj s ob' w)"
proof -
  have "with_obj s (\<lambda>ob. ob') w = Some (put_obj s ob' w)" using assms(2) by (simp add: with_obj_def)
  moreover have "op_obj s ob ob'" using assms(3,4) by (simp add: op_obj_def)
  ultimately have "op_frame s w (put_obj s ob' w)"
    using assms(2) by (auto simp: op_frame_def option_rel_Some1 live_posts_def intro: exI [of _ "[]"])
  moreover from assms(1) have "has_sock env K_TCPStream s w" by (simp add: idle_stream_def open_sock_def)
  ultimately have "has_sock env K_TCPStream s (put_obj s ob' w)" by (rule has_sock_frame)
  with assms show ?thesis by (simp add: idle_stream_def open_sock_def)
qed


text \<open>The setters and \<open>connect\<close> in \<open>onDNS\<close>.\<close>

lemma setters_idle:
  assumes "idle_stream env s P w"
  shows "\<exists>w'. setOnReadable s f w = Some w' \<and> idle_stream env s P w' \<and> minar w' = minar w \<and>
      (\<forall>a b c m. map_option wiring (objs w s) = Some (a, b, c, m) \<longrightarrow> map_option wiring (objs w' s) = Some (a, f, c, m))"
    "\<exists>w'. setOnSent s f w = Some w' \<and> idle_stream env s P w' \<and> minar w' = minar w \<and>
      (\<forall>a b c m. map_option wiring (objs w s) = Some (a, b, c, m) \<longrightarrow> map_option wiring (objs w' s) = Some (a, b, f, m))"
    "\<exists>w'. setOnDisconnect s f w = Some w' \<and> idle_stream env s P w' \<and> minar w' = minar w \<and>
      (\<forall>a b c m. map_option wiring (objs w s) = Some (a, b, c, m) \<longrightarrow>
         map_option wiring (objs w' s) = Some (a, b, c, m\<lparr>onDisconnect := f\<rparr>))"
proof -
  obtain ob where ob: "objs w s = Some ob" using assms by (auto simp: idle_stream_def open_sock_def)
  note set = set_idle [OF assms ob]
  have "irq_enabled w" using assms by (simp add: idle_stream_def open_sock_def has_sock_def wf_world_def)
  then have irq: "enable_irq (put_obj s ob' (disable_irq w)) = put_obj s ob' w" for ob'
    by (cases w) (simp add: world_defs)
  show "\<exists>w'. setOnReadable s f w = Some w' \<and> idle_stream env s P w' \<and> minar w' = minar w \<and>
      (\<forall>a b c m. map_option wiring (objs w s) = Some (a, b, c, m) \<longrightarrow> map_option wiring (objs w' s) = Some (a, f, c, m))"
    using set [of "ob\<lparr>onReadable := f\<rparr>"] ob by (simp add: setOnReadable_def wiring_def irq)
  show "\<exists>w'. setOnSent s f w = Some w' \<and> idle_stream env s P w' \<and> minar w' = minar w \<and>
      (\<forall>a b c m. map_option wiring (objs w s) = Some (a, b, c, m) \<longrightarrow> map_option wiring (objs w' s) = Some (a, b, f, m))"
    using set [of "ob\<lparr>onSent := f\<rparr>"] ob by (simp add: setOnSent_def wiring_def irq)
  show "\<exists>w'. setOnDisconnect s f w = Some w' \<and> idle_stream env s P w' \<and> minar w' = minar w \<and>
      (\<forall>a b c m. map_option wiring (objs w s) = Some (a, b, c, m) \<longrightarrow>
         map_option wiring (objs w' s) = Some (a, b, c, m\<lparr>onDisconnect := f\<rparr>))"
    using set [of "ob\<lparr>stream_part := (stream_part ob)\<lparr>onDisconnect := f\<rparr>\<rparr>"] ob by (simp add: setOnDisconnect_def with_obj_def wiring_def)
qed

lemma connect_idle:
  assumes "sal_ok env" and "tcp_net env P" and "idle_stream env s P w" and "map_option wiring (objs w s) = Some (a, b, d, m)"
  shows "\<exists>w'. TCPStream_connect env s sa port f w = Some (SOCKET_ERROR_NONE, w') \<and> idle_stream env s P w' \<and> minar w' = minar w \<and>
    map_option wiring (objs w' s) = Some (a, b, d, m\<lparr>onConnect := f\<rparr>)"
proof -
  from assms(3) have "open_sock env K_TCPStream s w" by (simp add: idle_stream_def)
  then obtain ob where ob: "objs w s = Some ob" "api (sock ob) \<noteq> None" by (rule open_sockD)
  let ?w = "put_obj s (ob\<lparr>stream_part := (stream_part ob)\<lparr>onConnect := f\<rparr>\<rparr>) w"
  have "idle_stream env s P ?w" by (rule set_idle [OF assms(3) ob(1)]) simp_all
  from idle_call [OF assms(1) this, of "\<lambda>t. api_connect t (getAddr sa) port"] obtain w' where
    "api_call env s (\<lambda>t. api_connect t (getAddr sa) port) ?w = Some (SOCKET_ERROR_NONE, w')" "idle_stream env s P w'"
      "map_option wiring (objs w' s) = map_option wiring (objs ?w s)" "minar w' = minar ?w"
    using assms(1) tcp_netD(6) [OF assms(2)] by blast
  with ob assms(4) show ?thesis by (auto simp: TCPStream_connect_def with_obj_def wiring_def)
qed

lemma onDNS_idle:
  assumes "sal_ok env" and "tcp_net env P" and "idle_stream env s P (lib c)"
    and "map_option wiring (objs (lib c) s) = Some (a, b, d, m)"
  shows "\<exists>w c'. tcp_onDNS env s sa c = Inr c' \<and> lib c' = w \<and> idle_stream env s P w \<and>
    map_option wiring (objs w s) = Some (a, onRx_fp, onSent_fp, m\<lparr>onDisconnect := onDisconnect_fp, onConnect := onConnect_fp\<rparr>) \<and>
    client_alive c' = client_alive c \<and> length (tcp_buffer c') = length (tcp_buffer c) \<and> is_done c' = is_done c \<and>
    terminates c' = terminates c \<and> minar (lib c') = minar (lib c)"
proof -
  from setters_idle(1) [OF assms(3), of onRx_fp] assms(4) obtain w1 where
    w1: "setOnReadable s onRx_fp (lib c) = Some w1" "idle_stream env s P w1" "map_option wiring (objs w1 s) = Some (a, onRx_fp, d, m)"
      "minar w1 = minar (lib c)"
    by blast
  from setters_idle(2) [OF w1(2), of onSent_fp] w1(3) obtain w2 where
    w2: "setOnSent s onSent_fp w1 = Some w2" "idle_stream env s P w2" "map_option wiring (objs w2 s) = Some (a, onRx_fp, onSent_fp, m)"
      "minar w2 = minar w1"
    by blast
  from setters_idle(3) [OF w2(2), of onDisconnect_fp] w2(3) obtain w3 where
    w3: "setOnDisconnect s onDisconnect_fp w2 = Some w3" "idle_stream env s P w3"
      "map_option wiring (objs w3 s) = Some (a, onRx_fp, onSent_fp, m\<lparr>onDisconnect := onDisconnect_fp\<rparr>)" "minar w3 = minar w2" by blast
  let ?ra = "setAddr_addr (addrs env) (resolvedAddr c) sa"
  from connect_idle [OF assms(1,2) w3(2,3), of ?ra "tcp_port c" onConnect_fp] obtain w4 where
    "TCPStream_connect env s ?ra (tcp_port c) onConnect_fp w3 = Some (SOCKET_ERROR_NONE, w4)" "idle_stream env s P w4"
      "map_option wiring (objs w4 s) = Some (a, onRx_fp, onSent_fp, m\<lparr>onDisconnect := onDisconnect_fp, onConnect := onConnect_fp\<rparr>)"
      "minar w4 = minar w3"
    by auto
  with w1(1,4) w2(1,4) w3(1,4) show ?thesis by (simp add: tcp_onDNS_def Let_def)
qed




section \<open>From the connection to the end\<close>





section \<open>A stack that refuses empty reads\<close>

text \<open>
  A stack that hands out everything that has arrived, as far as the buffer goes, and that reports a read without data as an error.
\<close>

definition refuses_empty :: "'w env \<Rightarrow> 'w pipes \<Rightarrow> bool" where
  "refuses_empty env P \<longleftrightarrow> (\<forall>p b n x s r s' rs x'. api_recv (vtable env p) (Some b) (Some n) x s = (r, s', rs, x') \<longrightarrow>
     (length (to_client P x) \<le> unat n \<longrightarrow> to_client P x' = []) \<and> (to_client P x = [] \<longrightarrow> fst r \<noteq> SOCKET_ERROR_NONE))"

lemma recv_refuses:
  assumes "tcp_net env P" and "refuses_empty env P" and "open_sock env K s w"
    and "Socket_recv env s (Some b) (Some n) w = Some (r, w')"
  shows "length (to_client P (network w)) \<le> unat n \<Longrightarrow> to_client P (network w') = []"
    "to_client P (network w) = [] \<Longrightarrow> fst r \<noteq> SOCKET_ERROR_NONE"
proof -
  obtain ob where "objs w s = Some ob" "impl (sock ob) \<noteq> None" using assms(3) by (auto simp: open_sock_def)
  with assms(4) have "api_call env s (\<lambda>t. api_recv t (Some b) (Some n)) w = Some (r, w')" by (auto simp: Socket_recv_def)
  then obtain p st s' rs x where "api_recv (vtable env p) (Some b) (Some n) (network w) st = (r, s', rs, x)"
    "raise_events rs (put_obj s (ob\<lparr>sock := s'\<rparr>) (w\<lparr>network := x\<rparr>)) = Some w'"
    using \<open>objs w s = Some ob\<close> by (auto simp: api_call_def api_invoke_eq_Some)
  moreover have "rs = []" by (rule tcp_netD(3) [OF assms(1) calculation(1)])
  ultimately show "length (to_client P (network w)) \<le> unat n \<Longrightarrow> to_client P (network w') = []"
    "to_client P (network w) = [] \<Longrightarrow> fst r \<noteq> SOCKET_ERROR_NONE"
    using assms(2) unfolding refuses_empty_def by fastforce+
qed

text \<open>With a readable callback first in the queue, the read takes all the data; with no data, it fails.\<close>

lemma rx_takes_all:
  assumes ok: "sal_ok env" "tcp_net env P" "reads_prefix eq" and ref: "refuses_empty env P" and inv: "sched_inv env s P x"
    and q: "queue x = rx_task s # q" and d: "to_client P (network (lib (tclient x))) \<noteq> []"
    and len: "length (to_client P (network (lib (tclient x)))) < 256"
  shows "\<exists>y p. run_next env eq s x = Inr y \<and> sched_inv env s P y \<and> queue y = q @ p \<and> to_client P (network (lib (tclient y))) = []"
proof -
  note D = sched_invD [OF inv]
  let ?c = "tclient x"
  from run_rx [OF ok inv q d] obtain y where y: "run_next env eq s x = Inr y" "sched_inv env s P y" by (auto simp: goes_on_def)
  then have rx: "tcp_onRx env eq s ?c = Inr (tclient y)" "queue y = q @ posted_since ?c (tclient y)"
    using q D(3) by (auto simp: run_next_def run_task_def tcp_callback_def echo_monad_Inr)
  have b: "length (tcp_buffer ?c) = 256" using D(1) by (simp add: session_inv_def)
  from rx(1) obtain err b n w1 where
    r: "Socket_recv env s (Some (tcp_buffer ?c)) (Some 255) (lib ?c) = Some ((err, b, n), w1)"
    using b by (auto simp: tcp_onRx_def echo_monad_Inr)
  have w1: "to_client P (network w1) = []" by (rule recv_refuses(1) [OF ok(2) ref D(4) r]) (use len in simp)
  have o1: "open_sock env K_TCPStream s w1"
    using recv_pipe [OF ok(1) tcp_netD(1) [OF ok(2)] D(4) d, of 255 "tcp_buffer ?c"] r b by auto
  have "lib c1 = w1 \<or> (\<exists>e. Socket_send env s (Some out_success) 20 w1 = Some (e, lib c1))" if "tcp_onRx env eq s ?c = Inr c1" for c1
    using that r b by (cases b; cases n) (auto simp: tcp_onRx_def echo_monad_Inr Let_def post_terminate_def split: if_splits)
  with rx(1) send_pipe [OF ok(1) tcp_netD(1) [OF ok(2)] o1, of out_success 20] w1
  have "to_client P (network (lib (tclient y))) = []" by auto
  with y rx(2) show ?thesis by blast
qed

lemma rx_refused:
  assumes ok: "sal_ok env" "tcp_net env P" and ref: "refuses_empty env P" and inv: "sched_inv env s P x"
    and q: "queue x = rx_task s # q" and d: "to_client P (network (lib (tclient x))) = []"
  shows "run_next env eq s x = Inl recv_assertion"
proof -
  note D = sched_invD [OF inv]
  let ?c = "tclient x"
  from recv_empty [OF ok D(4) d, of "tcp_buffer ?c" "of_nat (length (tcp_buffer ?c)) - 1"] obtain err b n w where
    r: "Socket_recv env s (Some (tcp_buffer ?c)) (Some (of_nat (length (tcp_buffer ?c)) - 1)) (lib ?c) = Some ((err, b, n), w)"
    by auto
  with recv_refuses(2) [OF ok(2) ref D(4) r d] D(3) q show ?thesis
    by (simp add: run_next_def run_task_def tcp_callback_def tcp_onRx_def)
qed

text \<open>The client between the connection and the first echo, and the echo in two segments that are announced before the first read.\<close>

lemma onDNS_connects:
  assumes "sal_ok env" and "tcp_net env P" and "client_alive c" and "length (tcp_buffer c) = 256"
    and "open_sock env K_TCPStream s (lib c)" and "\<not> is_done c" and "terminates c = []"
    and "to_host P (network (lib c)) = []" and "to_client P (network (lib c)) = []"
  shows "\<exists>c2 c3. tcp_onDNS env s sa c = Inr c2 \<and> tcp_onConnect env s c2 = Inr c3 \<and> \<not> is_done c3 \<and>
    sched_inv env s P \<lparr>tclient = c3, queue = [], fresh = 0\<rparr> \<and> to_host P (network (lib c3)) = out_buffer"
proof -
  have idle: "idle_stream env s P (lib c)" using assms by (simp add: idle_stream_def)
  obtain ob where "objs (lib c) s = Some ob" using assms(5) by (auto simp: open_sock_def)
  then obtain a b d m where "map_option wiring (objs (lib c) s) = Some (a, b, d, m)" by (simp add: wiring_def)
  from onDNS_idle [OF assms(1,2) idle this, of sa] assms(3,4,6,7) obtain c2 where
    c2: "tcp_onDNS env s sa c = Inr c2" "idle_stream env s P (lib c2)" "wired s (lib c2)" "client_alive c2"
      "length (tcp_buffer c2) = 256" "\<not> is_done c2" "terminates c2 = []" by (auto simp: wired_def)
  from session_starts [OF assms(1) tcp_netD(1) [OF assms(2)] c2(4,5) _ c2(6,7)] c2(2) obtain c3 where
    c3: "tcp_onConnect env s c2 = Inr c3" "session_inv env s P c3" by (auto simp: idle_stream_def)
  from c3(1) obtain w where w: "Socket_send env s (Some out_buffer) 12 (lib c2) = Some (SOCKET_ERROR_NONE, w)" "lib c3 = w"
    "\<not> is_done c3" "unacked c3 = 12" using c2(6) by (auto simp: tcp_onConnect_def echo_monad_Inr Let_def)
  have p: "to_host P (network (lib c3)) = out_buffer" "to_client P (network (lib c3)) = []"
    using send_pipe [OF assms(1) tcp_netD(1) [OF assms(2)], of K_TCPStream s "lib c2" out_buffer 12] c2(2) w
    by (auto simp: idle_stream_def)
  have "wired s (lib c3)" by (rule calm_wired [OF onConnect_calm [OF assms(2) c3(1)] c2(3)])
  with c2(1) c3 w(3) p show ?thesis by (auto simp: sched_inv_def test_inv_def finished_def)
qed

lemma rx_queued:
  assumes inv: "sched_inv env s P x" and k: "0 < k" "k \<le> fresh x"
  shows "\<exists>y. sched_step env eq s P x (Inr y) \<and> sched_inv env s P y \<and> queue y = queue x @ [rx_task s] \<and> fresh y = fresh x - k \<and>
    network (lib (tclient y)) = network (lib (tclient x))"
proof -
  note D = sched_invD [OF inv]
  let ?x = "x\<lparr>fresh := fresh x - k\<rparr>"
  obtain ob where ob: "objs (lib (tclient x)) s = Some ob"
    "event_callback s ob SOCKET_EVENT_RX_DONE = Some (CB_onReadable onRx_fp s)" using wired_callback [OF D(4,2)] by blast
  with queue_event_posts [of env s ?x ob SOCKET_EVENT_RX_DONE "CB_onReadable onRx_fp s"] D(4) obtain y where
    y: "queue_event s SOCKET_EVENT_RX_DONE ?x = Inr y" "queue y = queue x @ [rx_task s]" "fresh y = fresh x - k"
      "network (lib (tclient y)) = network (lib (tclient x))" by auto
  moreover have "sched_inv env s P y" using rx_done_step [OF inv k] y(1) by (simp add: goes_on_def)
  moreover have "sched_step env eq s P x (Inr y)" using rx_done [OF D(3) k, of env eq s P] y(1) by simp
  ultimately show ?thesis by blast
qed

lemma echo_in_two:
  assumes net: "tcp_net env P" and nd: "\<not> is_done c" and inv: "sched_inv env s P \<lparr>tclient = c, queue = [], fresh = 0\<rparr>"
    and u: "to_host P (network (lib c)) = out_buffer"
  shows "\<exists>x. sched_run env eq s P 3 \<lparr>tclient = c, queue = [], fresh = 0\<rparr> x \<and> sched_inv env s P x \<and>
    queue x = [rx_task s, rx_task s] \<and> to_client P (network (lib (tclient x))) = out_buffer"
proof -
  let ?x0 = "\<lparr>tclient = c, queue = [], fresh = 0\<rparr>"
  note D = sched_invD [OF inv, simplified]
  obtain obs h where h: "host_run host_start obs = Some h" "set obs \<inter> {Is_running False, Raised} = {}" "pc h = H_handle"
    "chunks h = [out_buffer]" using host_pass [of out_buffer] by (auto simp: out_buffer_def bytes_def)
  let ?c1 = "host_takes P 12 (host.echoed h) c" and ?a = "host.echoed h"
  let ?x1 = "\<lparr>tclient = ?c1, queue = [], fresh = length ?a\<rparr>"
  have a: "?a = echo_chunk out_buffer" by (rule host_pass_echo [OF h])
  have inv1: "sched_inv env s P ?x1"
    using host_pass_step [OF tcp_netD(1) [OF net] inv, of 12 ?a] u a by (simp add: goes_on_def)
  have s1: "sched_step env eq s P ?x0 (Inr ?x1)" using host_loop [OF _ _ _ h(1-3), of ?x0 12 P env eq s] h(4) u D(3) by simp
  have p1: "to_client P (network (lib ?c1)) = out_buffer" "length ?a = 12"
  proof -
    have "session_inv env s P ?c1" "\<not> is_done ?c1" using sched_invD(1) [OF inv1] nd by (simp_all add: host_takes_def Let_def)
    moreover have "to_host P (network (lib ?c1)) = []"
      using u pipe_netD(1) [OF tcp_netD(1) [OF net]] by (simp add: host_takes_def Let_def)
    ultimately show "to_client P (network (lib ?c1)) = out_buffer" by (simp add: session_inv_def)
    then show "length ?a = 12" using sched_invD(10) [OF inv1] \<open>\<not> is_done ?c1\<close> by simp
  qed
  from rx_queued [OF inv1, of 6] p1(2) obtain x2 where
    x2: "sched_step env eq s P ?x1 (Inr x2)" "sched_inv env s P x2" "queue x2 = [rx_task s]" "fresh x2 = 6"
      "network (lib (tclient x2)) = network (lib ?c1)" by auto
  from rx_queued [OF x2(2), of 6] x2(3-5) obtain x3 where
    x3: "sched_step env eq s P x2 (Inr x3)" "sched_inv env s P x3" "queue x3 = [rx_task s, rx_task s]"
      "network (lib (tclient x3)) = network (lib ?c1)" by auto
  have "sched_run env eq s P 3 ?x0 x3" using s1 x2(1) x3(1) by (auto simp: numeral_nat)
  with x3(2-4) p1(1) show ?thesis by auto
qed

section \<open>Properties\<close>





text \<open>
  C11. The test can fail although the library, the host and the stack do what they promise. Take a stack whose \<open>recv\<close> hands out
  everything that has arrived, as far as the buffer goes, and answers a read without data with an error. After \<open>onDNS\<close> and
  \<open>onConnect\<close> there is a run of the events, the host and the scheduler after which the assertion on \<open>recv\<close> in \<open>onRx\<close>
  fails: the echo arrives in two segments, both events are raised before the first callback runs, and the first read takes
  the data of both.
\<close>

theorem empty_read_fails:
  assumes "sal_ok env" and "tcp_net env P" and "refuses_empty env P" and "reads_prefix eq" and "client_alive c"
    and "length (tcp_buffer c) = 256" and "open_sock env K_TCPStream s (lib c)" and "\<not> is_done c"
    and "terminates c = []" and "to_host P (network (lib c)) = []" and "to_client P (network (lib c)) = []"
  shows "\<exists>c2 c3 k x. tcp_onDNS env s sa c = Inr c2 \<and> tcp_onConnect env s c2 = Inr c3 \<and>
    sched_run env eq s P k \<lparr>tclient = c3, queue = [], fresh = 0\<rparr> x \<and> sched_step env eq s P x (Inl recv_assertion)"
proof -
  obtain c2 c3 where c: "tcp_onDNS env s sa c = Inr c2" "tcp_onConnect env s c2 = Inr c3" "\<not> is_done c3"
    "sched_inv env s P \<lparr>tclient = c3, queue = [], fresh = 0\<rparr>" "to_host P (network (lib c3)) = out_buffer"
    using onDNS_connects [OF assms(1,2,5-11)] by blast
  from echo_in_two [OF assms(2) c(3,4,5)] obtain x where
    x: "sched_run env eq s P 3 \<lparr>tclient = c3, queue = [], fresh = 0\<rparr> x" "sched_inv env s P x" "queue x = [rx_task s, rx_task s]"
      "to_client P (network (lib (tclient x))) = out_buffer" by blast
  from rx_takes_all [OF assms(1,2,4,3) x(2,3)] x(4) obtain y q where
    y: "run_next env eq s x = Inr y" "sched_inv env s P y" "queue y = rx_task s # q" "to_client P (network (lib (tclient y))) = []"
    by (auto simp: out_buffer_def bytes_def)
  have "sched_step env eq s P x (Inr y)" using dispatch [of x env eq s P] sched_invD(3) [OF x(2)] x(3) y(1) by simp
  with x(1) have "sched_run env eq s P 4 \<lparr>tclient = c3, queue = [], fresh = 0\<rparr> y" by (auto simp: numeral_nat)
  moreover have "sched_step env eq s P y (Inl recv_assertion)"
    using dispatch [of y env eq s P] sched_invD(3) [OF y(2)] y(3) rx_refused [OF assms(1,2,3) y(2-4), of eq] by simp
  ultimately show ?thesis using c(1,2) by blast
qed

text \<open>The pair of streams, with reads that fail when there is nothing to read.\<close>

definition strict_recv ::
  "u8 list option \<Rightarrow> u32 option \<Rightarrow> (u8 list \<times> u8 list, socket_error_t \<times> u8 list option \<times> u32 option) eff" where
  "strict_recv b l x s = (if snd x = [] then ((SOCKET_ERROR_UNKNOWN, b, l), s, [], x) else stream_recv b l x s)"

definition strict_env :: "(u8 list \<times> u8 list) env" where
  "strict_env = one_stack_env (inert_api\<lparr>api_recv := strict_recv, api_send := stream_send\<rparr>)"

lemma strict_env_ok: "sal_ok strict_env" "minar_ok strict_env"
proof -
  have "keeps H (strict_recv b l)" "keeps H (stream_send b n)" for H b l n
    by (auto simp: keeps_def strict_recv_def stream_recv_def stream_send_def Let_def split: option.splits)
  with inert_api_ok [where 'w = "u8 list \<times> u8 list"]
  have "api_ok (inert_api\<lparr>api_recv := strict_recv, api_send := stream_send\<rparr>)" by (simp add: api_ok_def)
  then show "sal_ok strict_env" "minar_ok strict_env" by (simp_all add: strict_env_def one_stack_env_ok)
qed

lemma strict_env_net: "tcp_net strict_env pair_pipes" "refuses_empty strict_env pair_pipes"
proof -
  have "pipe_net strict_env pair_pipes"
    apply (auto simp: pipe_net_def strict_env_def one_stack_env_def pair_pipes_def strict_recv_def stream_recv_def stream_send_def
        Let_def word_gt_0 min_def)
    subgoal for s i b n d by (intro exI [of _ "unat n"]) (simp add: unat_gt_0)
    done
  then show "tcp_net strict_env pair_pipes"
    unfolding tcp_net_def
    by (intro conjI)
       (auto simp: defers_events_def strict_env_def one_stack_env_def stream_send_def strict_recv_def stream_recv_def inert_api_def
         still_def same_pipes_def pair_pipes_def Let_def split: option.splits)
  show "refuses_empty strict_env pair_pipes"
    by (auto simp: refuses_empty_def strict_env_def one_stack_env_def strict_recv_def stream_recv_def pair_pipes_def Let_def split: if_splits)
qed

definition strict_world :: "(u8 list \<times> u8 list) world" where
  "strict_world = the (TCPStream_ctor strict_env 4 1 sample_mem (init_world ([], [])))"

definition strict_client :: "(u8 list \<times> u8 list) tcp_client" where
  "strict_client = pair_client\<lparr>lib := snd (the (TCPAsynch_open strict_env 4 SOCKET_AF_INET4 strict_world))\<rparr>"

lemma strict_client_idle: "idle_stream strict_env 4 pair_pipes (lib strict_client)"
proof -
  have "network strict_world = ([], [])" "map_option (\<lambda>ob. api (sock ob)) (objs strict_world 4) = Some (Some 5)" by code_simp+
  moreover have "has_sock strict_env K_TCPStream 4 strict_world"
    using stream_class.ctor_law [OF strict_env_ok(2) wf_init, of 4 "([], [])" 1 sample_mem]
    by (auto simp: init_world_def strict_world_def has_sock_def)
  ultimately show ?thesis
    using open_idle [OF strict_env_ok(1) strict_env_net(1), of 4 strict_world _ SOCKET_AF_INET4]
    by (auto simp: strict_client_def pair_pipes_def)
qed

text \<open>C11 applied to that network, a stream that has just been opened, \<open>strncmp\<close> and the resolved address of all zeros.\<close>

theorem empty_read_fails_witness:
  "\<exists>c2 c3 k x. tcp_onDNS strict_env 4 sample_addr strict_client = Inr c2 \<and> tcp_onConnect strict_env 4 c2 = Inr c3 \<and>
     sched_run strict_env strn_eq 4 pair_pipes k \<lparr>tclient = c3, queue = [], fresh = 0\<rparr> x \<and>
     sched_step strict_env strn_eq 4 pair_pipes x (Inl recv_assertion)"
  by (rule empty_read_fails [OF strict_env_ok(1) strict_env_net])
     (use strict_client_idle in \<open>simp_all add: idle_stream_def strn_eq_def reads_prefix_def\<close>,
      simp_all add: strict_client_def pair_client_def)

end
