(* ===== verification/Spec2Isabelle.thy ===== *)
theory Spec2Isabelle
  imports Address_Properties Documented_Classes Translation_Units Unmasked_Handlers Server_Threads TCP_Test
begin

text \<open>
  A verification library for the mbed \<open>sockets\<close> library, version v0 of its interface: the classes \<open>Socket\<close>,
  \<open>SocketAddr\<close>, \<open>UDPSocket\<close>, \<open>TCPAsynch\<close>, \<open>TCPStream\<close> and \<open>TCPListener\<close> of \<open>src/sockets/v0\<close> and
  \<open>src/source/v0\<close>.

  \<^bold>\<open>The program.\<close> A socket object is a thin layer between an application and a network stack. It holds the
  handlers of the application and a \<open>struct socket\<close>; a member function checks a few pointers and calls the stack
  through the function table \<open>_socket.api\<close>. The stack answers with events: it calls the interrupt entry of
  the object (a \<open>CThunk\<close> made by the constructor of \<open>Socket\<close>), the virtual \<open>_eventHandler\<close> picks the handler
  that belongs to the event, and the handler is bound to its arguments and posted to the \<open>minar\<close> scheduler, which runs it later.
  \<open>TCPAsynch\<close> counts the TCP sockets in a static machine word and keeps one periodic task of the stack scheduled while
  there are any. \<open>TCPListener::accept\<close> builds a stream for an incoming connection and destroys it again when the stack
  refuses. Two virtual functions matter: \<open>_eventHandler\<close>, and the two-argument \<open>open\<close>, which \<open>bind\<close> calls
  and which the derived classes override with a function that only fails.

  \<^bold>\<open>The theories.\<close>
  \<^item> \<open>Sockets_Prelude\<close>: machine types, collections of rewrite rules, counting in finite maps, words as counters.
  \<^item> \<open>SAL_Interface\<close>: what is not part of the repository, as parameters: the enumerations and structs of
    \<open>sal/socket_types.h\<close> as far as the sources name them, the function table \<open>socket_api\<close>, \<open>socket_accept\<close>,
    \<open>socket_get_api\<close>, \<open>inet_pton\<close>, \<open>inet_ntop\<close> and the other address utilities, and the scheduler's
    \<open>getHandle\<close> and \<open>milliseconds\<close>. They are fields of the record \<open>env\<close>, an argument of every operation.
  \<^item> \<open>Socket_Objects\<close>: the record \<open>Socket\<close> (the members of the classes, with the dynamic class in \<open>vptr\<close>) and the
    record \<open>world\<close> (all objects by address, the static members of \<open>TCPAsynch\<close>, the calls made to the scheduler, the
    interrupt mask, the state of the stack), and its primitive updates.
  \<^item> \<open>Socket_Events\<close>: the three \<open>_eventHandler\<close>, their dispatch, \<open>_nvEventHandler\<close>, and \<open>api_call\<close>, a call through the function table,
    which delivers the events the stack raises before it returns. The locale \<open>event_handler\<close> states what a
    handler may do; it is interpreted on each of the handlers and on the dispatch.
  \<^item> \<open>SocketAddr_Class\<close>, \<open>Socket_Class\<close>, \<open>UDPSocket_Class\<close>, \<open>TCPAsynch_Class\<close>, \<open>TCPStream_Class\<close>,
    \<open>TCPListener_Class\<close>: one definition per constructor, destructor and member function, in the order of the
    sources (\<open>Class_member\<close> for \<open>Class::member\<close>), followed by the interpretations of the contracts.
  \<^item> \<open>Socket_Contract\<close>: the hypotheses on the stack (\<open>sal_ok\<close>), the frame of an operation (\<open>op_frame\<close>), the
    invariant of the state (\<open>wf_world\<close>), and the locales \<open>socket_op\<close> (an operation that keeps the frame) and \<open>safe_op\<close>
    (one that moreover always returns). \<open>Socket_Class\<close> adds the locale \<open>socket_class\<close>, the contract of a constructor
    with its destructor. Every operation and every class is an interpretation.
  \<^item> \<open>Sockets_System\<close>: what an application and a stack can do as a transition system (\<open>sys_step\<close>, preconditions
    in \<open>enabled\<close>), except the deprecated constructor of a stream and direct writes to the public \<open>_socket\<close>; the locale \<open>inductive_invariant\<close> and its interpretation on \<open>wf_world\<close>.
  \<^item> \<open>Registry_Spec\<close>: the abstract specification of the book-keeping and the simulation.
  \<^item> \<open>Sample_Stack\<close>: a concrete environment on which all hypotheses hold; the theorems are applied to it.
  \<^item> \<open>Address_Properties\<close>, \<open>Socket_Properties\<close>, \<open>TCP_Properties\<close>, \<open>Documented_API\<close>, \<open>Documented_Classes\<close> and this theory: the
    properties. \<open>Documented_API\<close> states the results promised by the comments of \<open>Socket.h\<close> and \<open>SocketAddr.h\<close> as predicates and when
    they are delivered, \<open>Documented_Classes\<close> the promises of the derived classes.
  \<^item> \<open>Header_Files\<close>: the header files (\<open>sockets/v0/*.h\<close>, \<open>sockets/*.h\<close>, \<open>mbed-net-sockets/**\<close>), one definition each with its guard,
    includes and class, and a small preprocessor that runs them; it terminates because every include that is
    followed defines a guard of a finite set.
  \<^item> \<open>Class_Declarations\<close>: the member functions that the classes declare, with access, \<open>virtual\<close> and \<open>const\<close>, and the C++ rules for
    virtual dispatch (with and without \<open>virtual\<close>), name hiding and access; the dispatch and the transition system are compared with them.
  \<^item> \<open>Interrupt_Safety\<close>: the handler setters as sequences of single writes, between which events may arrive. The
    locale \<open>handler_slot\<close> states what an assignment is; it is interpreted on the three members that the setters write.
  \<^item> \<open>Unmasked_Handlers\<close>: \<open>resolve\<close>, \<open>connect\<close>, \<open>start_listening\<close> and \<open>setOnDisconnect\<close>, which assign their handlers without masking,
    with events between the writes; the locale \<open>unmasked_slot\<close> extends \<open>handler_slot\<close> by the events that use the handler.
  \<^item> \<open>Translation_Units\<close>: the source files \<open>source/v0/*.cpp\<close> and the tests, with what they include and define; the preprocessor of
    \<open>Header_Files\<close> runs them, and their definitions are compared with the declarations.
  \<^item> \<open>Echo_Harness\<close>, \<open>TCP_Echo_Client\<close>, \<open>UDP_Echo_Client\<close>: the two test programs (\<open>test/echo-tcp-client\<close>,
    \<open>test/echo-udp-client\<close>), one definition per handler, as applications of the library. \<open>Echo_Harness\<close> holds
    the rules by which a handler is safe, derived from the contracts \<open>safe_op\<close> and \<open>socket_class\<close>. A
    whole session of the TCP client, from its constructor to its end, is evaluated on the sample network.
  \<^item> \<open>Host_Echo_Server\<close>, \<open>Host_Test\<close>: the host's side of the tests (\<open>test/host_tests/*.py\<close>). The handler of a TCP connection is a state machine
    whose inputs are what its calls observe; the callbacks of the two host tests change their members and queue the answers.
  \<^item> \<open>Server_Threads\<close>: the main thread and the server's thread of a host test, interleaved at every access to what they share, with the
    loop and the shutdown of the standard library's server. The locale \<open>stopping_handler\<close> states what a shutdown needs of a
    handler; it is interpreted on the TCP and on the UDP handler. Ten steps bound a shutdown: seven for a thread in
    \<open>select\<close> and three for the handler it may still start.
  \<^item> \<open>Test_Setup\<close>: the functions \<open>test_echo_tcp_client\<close> and \<open>test_echo_udp_client\<close>, which find the host, with the strings, buffers and
    numbers they handle, and their agreement with \<open>Host_Test\<close>; and the registration of the tests with the test framework.
  \<^item> \<open>Echo_Session\<close>, \<open>UDP_Session\<close>: client, host and network together, as step relations in which the host, the acknowledgements, the
    reads and the losses happen in any order. A measure bounds the steps of a session: 96 for TCP, where each of
    the 12 bytes of the greeting and the 20 of the closing message costs three steps at most, and 202 for UDP, two for
    each of the hundred echoes and two for the closing datagram.
  \<^item> \<open>Event_Queue\<close>: the TCP client behind the library's event handler and the queue of the scheduler. Events are raised at any time, one for
    each segment that arrives; the library posts callbacks, and the scheduler runs them later in their order, so a callback may find
    that an earlier one has taken its data. A run has at most 161 steps: three for a byte on its way to the host, two for
    a byte to be announced or acknowledged, one for a queued task, of the 12 bytes of the greeting and the 20 of the closing message.
  \<^item> \<open>TCP_Test\<close>: the TCP test from its set-up to its end through all layers, and the run in which it fails.

  \<^bold>\<open>Results and undefined behaviour.\<close> An operation returns an option. \<open>None\<close> is undefined behaviour of the C++ program: a
  null function table or a null argument is dereferenced, or an object that no longer exists is entered. Error codes are
  values. Memory that the code does not initialise (a constructed object, a local struct) is an argument of the definition.
  There is no fuel anywhere: the recursions are over the list of events that one call of the stack raises, over lists of
  steps, and over the includes of a header, whose termination is proved.

  \<^bold>\<open>Hypotheses.\<close> \<open>sal_ok\<close>: a function of the stack keeps the stack, table and family fields of the struct it gets,
  stores no foreign handler in it, and raises events only on handlers it was given. \<open>minar_ok\<close>: the handle of a
  posted callback is not null. \<open>copy_ok\<close>: copying an address copies it. \<open>keeps_impl\<close>: \<open>socket_accept\<close> leaves the
  implementation it was given. \<open>ext_ok\<close>: the
  headers of other modules can be found. \<open>recv_ok\<close>: a read returns no more than the buffer holds. \<open>ntop_sizes\<close>: the
  documented buffer sizes are enough for \<open>inet_ntop\<close>. For the end of the echo
  clients, \<open>good_trace\<close> and \<open>echo_net\<close>: the network accepts what is sent and returns it; for the sessions, \<open>pipe_net\<close>: the stack's
  \<open>send\<close> and \<open>recv\<close> work on two byte streams, \<open>dgram_net\<close>: \<open>send_to\<close> and \<open>recv\<close> work on two queues of datagrams,
  \<open>tcp_net\<close>: moreover \<open>create\<close>, \<open>resolve\<close> and \<open>connect\<close> succeed, no event is raised in a call, and a read without data returns zero
  bytes or an error, \<open>refuses_empty\<close>: it is an error, \<open>create_ok\<close>: a successful
  \<open>create\<close> has made an implementation, and \<open>reads_prefix\<close>: the comparison of the test tools looks at the given number of bytes. \<open>kv_link\<close> and \<open>parse_ok\<close>: key-value
  messages reach the host's callbacks, and answers fill the buffers they are given as strings. In the sessions of the echo clients the stack
  raises readable events for data that have arrived and sent events for bytes that were sent, and no error, DNS or disconnect
  events after the connection is made; the scheduler of \<open>Event_Queue\<close> is first-in first-out. The theorems on the library itself assume
  nothing else about which results, events or states the stack produces.

  \<^bold>\<open>What the theorems show.\<close> Over the whole system: every use within its preconditions returns and keeps the invariant; the
  counter of TCP sockets is exact and cannot wrap; at most one periodic task is pending, and only while TCP sockets exist; calls on
  one socket leave the others alone; only set callbacks of live objects are posted by calls; the library refines the registry. Per class:
  the callback of every event; handlers are stored before the stack is called; results on unopened sockets, on unknown
  stacks and for null pointers; construction and destruction are inverse; \<open>accept\<close> does not leak; which promises of the
  headers' comments the library keeps itself, which depend on the stack's answer, and which it breaks. Several theorems state behaviour that looks unintended: \<open>bind\<close> with a
  \<open>SocketAddr\<close> can never open a socket, a first TCP socket without a stack suppresses the periodic task of later
  ones until no TCP socket is left, \<open>error_check\<close> and the destructor post callbacks that are null or bound to a dead object, \<open>recv_from\<close> overwrites the
  caller's address on failure, and \<open>UDPSocket::connect\<close> dereferences a null address. The headers can be included in any order; the deprecated
  ones equal their replacements, except those of version 0, which include a path at which there is no regular file. The setters of
  \<open>Socket\<close> are atomic for interrupts; the assignments in \<open>resolve\<close>, \<open>connect\<close>, \<open>start_listening\<close> and \<open>setOnDisconnect\<close> are for the events
  that do not use the handler, and for no others. Every source file finds its headers, and the library links: what is declared is
  defined exactly once. The tests start with the address and the port that the host's server is bound to. In every
  interleaving of client, host and network the sessions end with success, if a read happens when data are waiting; the UDP
  client needs a zero byte in its uninitialised buffer for it, because of \<open>strlen\<close>. For TCP the whole test is followed from the set-up
  function to the destruction of the client, with the scheduler's queue between the events and the handlers: it passes, or a readable
  callback finds its data taken and the assertion on \<open>recv\<close> fails, which needs a stack that answers such a read with an error; that
  such a run exists is a theorem too. The host's \<open>teardown\<close> returns in every interleaving of its threads once the server's thread
  serves, and also when the shutdown is complete before that thread runs; in between there is an interleaving in which it hangs. The TCP client posts
  \<open>terminate(true)\<close> exactly when the echo has been read and all its bytes are acknowledged, the UDP client with the hundredth echo.

  \<^bold>\<open>Not modelled.\<close> The bodies of \<open>sal\<close>, \<open>minar\<close>, \<open>core-util\<close>, \<open>CThunk\<close> and of the test framework (not in the repository). Outside
  \<open>Interrupt_Safety\<close> and \<open>Unmasked_Handlers\<close> an event is delivered between calls or by the stack during a call; interrupts between the
  writes of one assignment are studied for the assignments of handlers only. A \<open>sendall\<close> of the host that blocks is not modelled. Of the tests, the output with \<open>printf\<close>, \<open>print\<close> and
  \<open>log\<close>. Of the headers, the three declarations that \<open>Socket.h\<close> excludes with \<open>#if 0\<close>. The rest of the sources' lines that no
  definition stands for are licence texts.
\<close>

section \<open>Properties of the whole library\<close>

text \<open>
  C1. No defined use of the library leads to undefined behaviour. In every state that can be reached
  by any sequence of constructions, destructions, calls, accepted connections and events of the stack, every
  step whose precondition holds returns, without entering a destroyed object or using a null
  function table, and leads to a reachable state again.
\<close>

theorem no_undefined_behaviour:
  assumes "env_ok env" and "sys_reachable env w" and "enabled w act"
  shows "\<exists>w'. exec env act w = Some w' \<and> sys_reachable env w'"
proof -
  obtain w' where w': "exec env act w = Some w'"
    using exec_safe [OF assms(1) reachable_wf [OF assms(1,2)] assms(3)] by blast
  moreover have "sys_reachable env w'"
    using assms(2) by (rule reach_step) (rule sys_step_exec [OF assms(3) w'])
  ultimately show ?thesis by blast
qed

text \<open>C1 on a stream that connects.\<close>

theorem no_undefined_behaviour_witness:
  "\<exists>w'. exec sample_env (Call 4 (C_tcp_connect \<lparr>addr_member = sample_addr\<rparr> 80 (Some 6))) (one_stream 1) = Some w' \<and>
     sys_reachable sample_env w'"
  by (rule no_undefined_behaviour [OF sample_env_ok one_stream_reachable]) (simp add: one_stream_obj)

text \<open>
  C3. The counter of TCP sockets is exact: in every reachable state the machine word \<open>_TCPSockets\<close> is the
  number of streams and listeners that exist; neither construction nor destruction ever wraps it around.
\<close>

theorem TCPSockets_exact:
  assumes "env_ok env" and "sys_reachable env w"
  shows "unat (TCPSockets w) = live_TCP w"
proof -
  have wf: "wf_world env w" by (rule reachable_wf [OF assms])
  show ?thesis
    using wf_worldD(3) [OF wf] live_TCP_bound [OF wf_worldD(1) [OF wf]] by (simp add: unat_of_nat)
qed

text \<open>C3 on a state with one stream.\<close>

theorem TCPSockets_exact_witness: "unat (TCPSockets (one_stream 1)) = live_TCP (one_stream 1)"
  by (rule TCPSockets_exact [OF sample_env_ok one_stream_reachable])

text \<open>
  C4. The periodic task: in every reachable state at most one periodic callback is pending with the
  scheduler; \<open>_tick_handle\<close> is its handle, and null when there is none; and none is pending
  when no TCP socket exists.
\<close>

theorem one_periodic_task:
  assumes "env_ok env" and "sys_reachable env w"
  shows "periodic_pending (minar w) = (if tick_handle w = None then [] else [tick_handle w]) \<and>
    (live_TCP w = 0 \<longrightarrow> periodic_pending (minar w) = [])"
  using wf_worldD(4) [OF reachable_wf [OF assms]] by (auto simp: tick_ok_def)

text \<open>C4 on a state with one stream on a valid stack.\<close>

theorem one_periodic_task_witness: "periodic_pending (minar (one_stream 1)) = [Some 0]"
  using one_periodic_task [OF sample_env_ok one_stream_reachable, of 1] by (simp add: one_stream_tick del: One_nat_def)

text \<open>
  C6. The objects are always consistent: in every reachable state every object is of one of the three classes,
  its function table is the one of its stack, an opened socket has a function table, its
  handler is its own interrupt entry or has been cleared, its protocol family is the one of its class,
  no object has a null address, and interrupts are enabled.
\<close>

theorem objects_consistent:
  assumes "env_ok env" and "sys_reachable env w" and "objs w a = Some ob"
  shows "a \<noteq> 0 \<and> irq_enabled w \<and> vptr ob \<in> {K_UDPSocket, K_TCPStream, K_TCPListener} \<and>
    api (sock ob) = socket_get_api env (stack (sock ob)) \<and>
    (impl (sock ob) \<noteq> None \<longrightarrow> api (sock ob) \<noteq> None) \<and>
    (handler (sock ob) = Some a \<or> handler (sock ob) = None) \<and>
    family (sock ob) = (if vptr ob = K_UDPSocket then SOCKET_DGRAM else SOCKET_STREAM)"
proof -
  have wf: "wf_world env w" by (rule reachable_wf [OF assms(1,2)])
  have "a \<noteq> 0" using wf_worldD(1) [OF wf] assms(3) by auto
  note ok = wf_worldD(2) [OF wf assms(3), unfolded obj_ok_def]
  have "handler (sock ob) = Some a \<or> handler (sock ob) = None" using ok by auto
  with \<open>a \<noteq> 0\<close> wf_worldD(5) [OF wf] ok show ?thesis by (intro conjI) (elim conjE; assumption)+
qed

text \<open>C6 on a stream.\<close>

theorem objects_consistent_witness:
  "family (sock ((TCPAsynch_obj sample_env 4 1 sample_mem)
     \<lparr>vptr := K_TCPStream, stream_part := no_stream_handlers\<rparr>)) = SOCKET_STREAM"
  using objects_consistent [OF sample_env_ok one_stream_reachable one_stream_at] by simp

text \<open>
  C7. Sockets are isolated from each other: a member function called on one object changes no other object
  beyond the event fields (the class, struct and handlers stay), creates and destroys
  nothing, does not change the class of its own object, and does not touch the counter of TCP sockets or the
  periodic task.
\<close>

theorem calls_isolated:
  assumes "sal_ok env" and "exec_call env a c w = Some w'"
  shows "(\<forall>b. b \<noteq> a \<longrightarrow> map_option quiet (objs w' b) = map_option quiet (objs w b)) \<and>
    dom (objs w') = dom (objs w) \<and> map_option vptr (objs w' a) = map_option vptr (objs w a) \<and>
    TCPSockets w' = TCPSockets w \<and> tick_handle w' = tick_handle w \<and>
    periodic_pending (minar w') = periodic_pending (minar w)"
  using exec_call_frame [OF assms] by (simp add: dtor_frame_def)

text \<open>C7 on a stream whose error handler is set.\<close>

theorem calls_isolated_witness:
  "\<exists>w'. exec_call sample_env 4 (C_setOnError (Some 3)) (one_stream 1) = Some w' \<and>
     dom (objs w') = {4} \<and> tick_handle w' = Some 0"
proof -
  obtain w' where w': "exec_call sample_env 4 (C_setOnError (Some 3)) (one_stream 1) = Some w'"
    by (simp add: setOnError_def one_stream_obj)
  from calls_isolated [OF sample_sal_ok this] w' show ?thesis
    by (auto simp: one_stream_obj one_stream_tick simp del: One_nat_def)
qed

text \<open>
  C8. Callbacks are posted for live objects: every callback that a member function other than
  \<open>error_check\<close> posts, through events that the stack raises during the call, has a function pointer that is
  set and a \<open>this\<close> that is an existing object; and these callbacks are the only calls to the scheduler.
\<close>

theorem callbacks_live:
  assumes "sal_ok env" and "exec_call env a c w = Some w'" and "\<forall>err. c \<noteq> C_error_check err"
  shows "\<exists>cs. minar w' = minar w @ map PostCallback cs \<and>
    (\<forall>d \<in> set cs. cb_fp d \<noteq> None \<and> cb_this d \<in> dom (objs w'))"
proof -
  have fr: "op_frame a w w'" by (rule exec_call_op_frame [OF assms])
  then obtain cs where "minar w' = minar w @ map PostCallback cs"
      "list_all (\<lambda>d. cb_fp d \<noteq> None \<and> cb_this d \<in> dom (objs w)) cs"
    by (auto simp: op_frame_def live_posts_def)
  then show ?thesis unfolding op_frame_dom [OF fr] by (auto simp: list_all_iff)
qed

text \<open>C8 on a stream that connects.\<close>

theorem callbacks_live_witness:
  "\<exists>w' cs. exec_call sample_env 4 (C_tcp_connect \<lparr>addr_member = sample_addr\<rparr> 80 (Some 6)) (one_stream 1) = Some w' \<and>
     minar w' = minar (one_stream 1) @ map PostCallback cs"
proof -
  obtain w' where w': "exec_call sample_env 4 (C_tcp_connect \<lparr>addr_member = sample_addr\<rparr> 80 (Some 6)) (one_stream 1)
      = Some w'"
    using exec_call_safe [OF sample_sal_ok reachable_wf [OF sample_env_ok one_stream_reachable] one_stream_at,
        of 1 "C_tcp_connect \<lparr>addr_member = sample_addr\<rparr> 80 (Some 6)"] by auto
  from callbacks_live [OF sample_sal_ok this] w' show ?thesis by blast
qed

text \<open>
  C2. The library implements the registry specification: every step from a reachable state is a step of
  the abstract machine that only knows which sockets of which class exist and whether the periodic
  task is scheduled.
\<close>

theorem implements_registry:
  assumes "env_ok env" and "sys_reachable env w" and "sys_step env w act w'"
  shows "registry_step env (abs_world w) act (abs_world w')"
  by (rule registry_simulation [OF assms(1) reachable_wf [OF assms(1,2)] assms(3)])

text \<open>C2 on the deletion of a stream.\<close>

theorem implements_registry_witness:
  "\<exists>w'. sys_step sample_env (one_stream 1) (Delete 4) w' \<and>
     registry_step sample_env (abs_world (one_stream 1)) (Delete 4) (abs_world w')"
proof -
  obtain w' where "delete_obj sample_env 4 (one_stream 1) = Some w'"
    using delete_obj_law [OF sample_sal_ok reachable_wf [OF sample_env_ok one_stream_reachable] one_stream_at]
    by blast
  then have st: "sys_step sample_env (one_stream 1) (Delete 4) w'"
    by (intro sys_step_exec) (simp_all add: one_stream_obj)
  from implements_registry [OF sample_env_ok one_stream_reachable this] st show ?thesis by (intro exI conjI)
qed

end
